(* ===== verification/Prelude.thy ===== *)
theory Prelude
  imports Complex_Main
begin

text \<open>
  Shared ground of the development: the error values a service call can return, the
  state-and-error monad every operation of \<^verbatim>\<open>internal/services\<close> is written in, its
  symbolic-execution rules, and a few list lemmas about tables.

  A Go function \<^verbatim>\<open>func (s *OrderService) F(ctx, ...) (T, error)\<close> is modelled as a value of
  type \<^verbatim>\<open>('e, 's, 'a) tx\<close>: it reads the environment \<open>'e\<close> (clock, uuid source, configuration,
  external services), and takes the database state to a result (\<open>Inl\<close> an error, \<open>Inr\<close> a
  value) and the new state.  \<^verbatim>\<open>if err != nil { return nil, err }\<close> is \<open>bind\<close>.
\<close>

section \<open>Errors\<close>

text \<open>The variables of internal/services/errors.go.\<close>

datatype business_error =
    ErrCounterpartyArchived
  | ErrTransportDetailsRequired
  | ErrDeliveryReceiptRequired
  | ErrDeliveryReceiptConflict
  | ErrIncidentOpen
  | ErrIncidentStale
  | ErrIncidentResolutionInvalid
  | ErrWarehouseOperationRequired
  | ErrWarehouseOperationConflict
  | ErrWarehouseInactive
  | ErrWarehouseInUse
  | ErrForbidden
  | ErrInvalidOrderTransition
  | ErrAssignmentStale
  | ErrAssignmentExpired
  | ErrResourceAlreadyReserved
  | ErrDriverNotEligible
  | ErrDriverLicenseExpired
  | ErrDriverOutsideShift
  | ErrVehicleNotOperational
  | ErrVehicleCapacityExceeded
  | ErrInvalidTimeWindow
  | ErrInvalidOrderInput
  | ErrVehicleDocumentInvalid

fun business_code :: "business_error \<Rightarrow> string" where
  "business_code ErrCounterpartyArchived = ''COUNTERPARTY_ARCHIVED''"
| "business_code ErrTransportDetailsRequired = ''TRANSPORT_DETAILS_REQUIRED''"
| "business_code ErrDeliveryReceiptRequired = ''DELIVERY_RECEIPT_REQUIRED''"
| "business_code ErrDeliveryReceiptConflict = ''DELIVERY_RECEIPT_CONFLICT''"
| "business_code ErrIncidentOpen = ''INCIDENT_OPEN''"
| "business_code ErrIncidentStale = ''INCIDENT_STALE''"
| "business_code ErrIncidentResolutionInvalid = ''INCIDENT_RESOLUTION_INVALID''"
| "business_code ErrWarehouseOperationRequired = ''WAREHOUSE_OPERATION_REQUIRED''"
| "business_code ErrWarehouseOperationConflict = ''WAREHOUSE_OPERATION_CONFLICT''"
| "business_code ErrWarehouseInactive = ''WAREHOUSE_INACTIVE''"
| "business_code ErrWarehouseInUse = ''WAREHOUSE_IN_USE''"
| "business_code ErrForbidden = ''FORBIDDEN_ACTOR''"
| "business_code ErrInvalidOrderTransition = ''INVALID_ORDER_TRANSITION''"
| "business_code ErrAssignmentStale = ''ASSIGNMENT_STALE''"
| "business_code ErrAssignmentExpired = ''ASSIGNMENT_EXPIRED''"
| "business_code ErrResourceAlreadyReserved = ''RESOURCE_ALREADY_RESERVED''"
| "business_code ErrDriverNotEligible = ''DRIVER_NOT_ELIGIBLE''"
| "business_code ErrDriverLicenseExpired = ''DRIVER_LICENSE_EXPIRED''"
| "business_code ErrDriverOutsideShift = ''DRIVER_OUTSIDE_SHIFT''"
| "business_code ErrVehicleNotOperational = ''VEHICLE_NOT_OPERATIONAL''"
| "business_code ErrVehicleCapacityExceeded = ''VEHICLE_CAPACITY_EXCEEDED''"
| "business_code ErrInvalidTimeWindow = ''INVALID_TIME_WINDOW''"
| "business_code ErrInvalidOrderInput = ''INVALID_ORDER_INPUT''"
| "business_code ErrVehicleDocumentInvalid = ''VEHICLE_DOCUMENT_INVALID''"

text \<open>
  The SQLSTATE classes of PostgreSQL that the schema of \<^verbatim>\<open>migrations/\<close> can raise, and
  \<open>LockNotAvailable\<close> (55P03), which a \<^verbatim>\<open>FOR UPDATE NOWAIT\<close> raises on a busy row.
\<close>

datatype pg_code =
    CheckViolation | UniqueViolation | ExclusionViolation | ForeignKeyViolation
  | StringTooLong | NumericOutOfRange | LockNotAvailable

text \<open>
  Every error value the services return.  \<^verbatim>\<open>fmt.Errorf("...: %w", err)\<close> keeps the wrapped
  error visible to \<^verbatim>\<open>errors.Is/As\<close> and is modelled as the error itself.  \<open>NotFound\<close> is
  \<^verbatim>\<open>storage.ErrNotFound\<close>, \<open>NoRows\<close> is \<^verbatim>\<open>pgx.ErrNoRows\<close>, \<open>External\<close> is a failure of a
  service outside the repository, and \<open>GoPanic\<close> is a run-time panic (nil dereference).
\<close>

datatype err =
    Business business_error
  | NotFound
  | NoRows
  | Pg pg_code
  | InvalidEvent
  | JsonError
  | External string
  | GoPanic

fun business_error_code :: "err \<Rightarrow> string option" where
  "business_error_code (Business b) = Some (business_code b)"
| "business_error_code _ = None"

lemma business_code_inject: "business_code a = business_code b \<longleftrightarrow> a = b"
  by (cases a; cases b; simp)

section \<open>The state-and-error monad\<close>

type_synonym ('e, 's, 'a) tx = "'e \<Rightarrow> 's \<Rightarrow> (err + 'a) \<times> 's"

definition return :: "'a \<Rightarrow> ('e, 's, 'a) tx" where
  "return x = (\<lambda>e s. (Inr x, s))"

definition throw :: "err \<Rightarrow> ('e, 's, 'a) tx" where
  "throw er = (\<lambda>e s. (Inl er, s))"

definition bind :: "('e, 's, 'a) tx \<Rightarrow> ('a \<Rightarrow> ('e, 's, 'b) tx) \<Rightarrow> ('e, 's, 'b) tx" where
  "bind m k = (\<lambda>e s. case m e s of (Inl er, s') \<Rightarrow> (Inl er, s') | (Inr x, s') \<Rightarrow> k x e s')"

definition seq :: "('e, 's, unit) tx \<Rightarrow> ('e, 's, 'b) tx \<Rightarrow> ('e, 's, 'b) tx" where
  "seq m k = bind m (\<lambda>_. k)"

text \<open>\<^verbatim>\<open>if cond { return nil, err }\<close>.\<close>

definition fail_if :: "bool \<Rightarrow> err \<Rightarrow> ('e, 's, unit) tx" where
  "fail_if c er = (if c then throw er else return ())"

text \<open>\<^verbatim>\<open>if cond { statement }\<close>.\<close>

definition when_do :: "bool \<Rightarrow> ('e, 's, unit) tx \<Rightarrow> ('e, 's, unit) tx" where
  "when_do c m = (if c then m else return ())"

text \<open>\<^verbatim>\<open>for _, x := range xs { ... return on the first error ... }\<close>.\<close>

fun for_each :: "'x list \<Rightarrow> ('x \<Rightarrow> ('e, 's, unit) tx) \<Rightarrow> ('e, 's, unit) tx" where
  "for_each [] f = return ()"
| "for_each (x # xs) f = seq (f x) (for_each xs f)"

fun map_tx :: "('x \<Rightarrow> ('e, 's, 'y) tx) \<Rightarrow> 'x list \<Rightarrow> ('e, 's, 'y list) tx" where
  "map_tx f [] = return []"
| "map_tx f (x # xs) = bind (f x) (\<lambda>y. bind (map_tx f xs) (\<lambda>ys. return (y # ys)))"

text \<open>A nil pointer that the source dereferences without a check.\<close>

definition deref :: "'a option \<Rightarrow> ('e, 's, 'a) tx" where
  "deref x = (case x of None \<Rightarrow> throw GoPanic | Some v \<Rightarrow> return v)"

text \<open>A pure fallible computation.\<close>

definition lift_sum :: "err + 'a \<Rightarrow> ('e, 's, 'a) tx" where
  "lift_sum r = (\<lambda>e s. (r, s))"

text \<open>\<^verbatim>\<open>x, err := m; if err != nil \{ return other \}\<close>: any error of the call becomes \<open>er\<close>.\<close>

definition or_throw :: "('e, 's, 'a) tx \<Rightarrow> err \<Rightarrow> ('e, 's, 'a) tx" where
  "or_throw m er = (\<lambda>e s. case m e s of (Inl _, s') \<Rightarrow> (Inl er, s') | (Inr x, s') \<Rightarrow> (Inr x, s'))"

text \<open>\<^verbatim>\<open>errors.Is(err, ErrNotFound)\<close> handled as an absent value.\<close>

definition optional :: "('e, 's, 'a) tx \<Rightarrow> ('e, 's, 'a option) tx" where
  "optional m = (\<lambda>e s. case m e s of
     (Inl er, s') \<Rightarrow> (if er = NotFound \<or> er = NoRows then (Inr None, s') else (Inl er, s'))
   | (Inr x, s') \<Rightarrow> (Inr (Some x), s'))"

subsection \<open>Symbolic execution of a successful run\<close>

text \<open>
  A successful run of a composed operation is taken apart by these elimination rules into
  the runs of its parts; with the record simplification of the state this is the proof
  method of every operation's effect lemma.
\<close>

named_theorems runs "elimination rules for a successful run of an operation"

lemma bind_ok [runs]:
  assumes "bind m k e s = (Inr y, s')"
  obtains x s1 where "m e s = (Inr x, s1)" and "k x e s1 = (Inr y, s')"
  using assms by (auto simp: bind_def split: prod.splits sum.splits)

lemma seq_ok [runs]:
  assumes "seq m k e s = (Inr y, s')"
  obtains s1 where "m e s = (Inr (), s1)" and "k e s1 = (Inr y, s')"
  using assms by (auto simp: seq_def bind_def split: prod.splits sum.splits)

lemma return_ok [runs]:
  assumes "return x e s = (Inr y, s')"
  obtains "y = x" and "s' = s"
  using assms by (auto simp: return_def)

lemma throw_ok [runs]:
  assumes "throw er e s = (Inr y, s')"
  shows R
  using assms by (auto simp: throw_def)

lemma fail_if_ok [runs]:
  assumes "fail_if c er e s = (Inr y, s')"
  obtains "\<not> c" and "s' = s"
  using assms by (auto simp: fail_if_def throw_def return_def split: if_splits)

lemma when_do_ok [runs]:
  assumes "when_do c m e s = (Inr y, s')"
  obtains "c" and "m e s = (Inr y, s')" | "\<not> c" and "s' = s"
  using assms by (cases c) (auto simp: when_do_def return_def)

lemma deref_ok [runs]:
  assumes "deref x e s = (Inr y, s')"
  obtains "x = Some y" and "s' = s"
  using assms by (auto simp: deref_def throw_def return_def split: option.splits)

lemma lift_sum_ok [runs]:
  assumes "lift_sum r e s = (Inr y, s')"
  obtains "r = Inr y" and "s' = s"
  using assms by (auto simp: lift_sum_def)

lemma or_throw_ok [runs]:
  assumes "or_throw m er e s = (Inr y, s')"
  obtains "m e s = (Inr y, s')"
  using assms by (auto simp: or_throw_def split: prod.splits sum.splits)

lemma optional_ok [runs]:
  assumes "optional m e s = (Inr y, s')"
  obtains er where "y = None" and "m e s = (Inl er, s')" and "er = NotFound \<or> er = NoRows"
  | x where "y = Some x" and "m e s = (Inr x, s')"
  using assms by (auto simp: optional_def split: prod.splits sum.splits if_splits)

lemma if_ok [runs]:
  assumes "(if c then m else k) e s = (Inr y, s')"
  obtains "c" and "m e s = (Inr y, s')" | "\<not> c" and "k e s = (Inr y, s')"
  using assms by (cases c) auto

lemma case_option_ok [runs]:
  assumes "(case x of None \<Rightarrow> m | Some v \<Rightarrow> k v) e s = (Inr y, s')"
  obtains "x = None" and "m e s = (Inr y, s')" | v where "x = Some v" and "k v e s = (Inr y, s')"
  using assms by (cases x) auto

lemma case_prod_ok [runs]:
  assumes "(case p of (a, b) \<Rightarrow> k a b) e s = (Inr y, s')"
  obtains a b where "p = (a, b)" and "k a b e s = (Inr y, s')"
  using assms by (cases p) auto

subsection \<open>Properties that every part of an operation has\<close>

text \<open>
  \<open>framed R m\<close>: whatever the outcome of \<open>m\<close>, its first and last state are related by the
  preorder \<open>R\<close>.  Frame conditions (\<^emph>\<open>this call writes only these tables\<close>) and invariants
  are instances; the rules compose them along the structure of an operation.
\<close>

definition framed :: "('e \<Rightarrow> 's \<Rightarrow> 's \<Rightarrow> bool) \<Rightarrow> ('e, 's, 'a) tx \<Rightarrow> bool" where
  "framed R m \<longleftrightarrow> (\<forall>e s. R e s (snd (m e s)))"

lemma framedD: "framed R m \<Longrightarrow> m e s = (r, s') \<Longrightarrow> R e s s'"
  by (metis snd_conv framed_def)


locale preorder_frame =
  fixes R :: "'e \<Rightarrow> 's \<Rightarrow> 's \<Rightarrow> bool"
  assumes frame_refl: "R e s s"
    and frame_trans: "R e s t \<Longrightarrow> R e t u \<Longrightarrow> R e s u"
begin

lemma framed_return: "framed R (return x)"
  by (simp add: framed_def return_def frame_refl)

lemma framed_throw: "framed R (throw er)"
  by (simp add: framed_def throw_def frame_refl)

lemma framed_lift_sum: "framed R (lift_sum r)"
  by (simp add: framed_def lift_sum_def frame_refl)

lemma framed_bind:
  assumes "framed R m" and "\<And>x. framed R (k x)"
  shows "framed R (bind m k)"
  unfolding framed_def bind_def
proof (intro allI)
  fix e s
  obtain r s1 where m: "m e s = (r, s1)" by (cases "m e s")
  with assms(1) have "R e s s1" by (rule framedD)
  moreover have "R e s1 (snd (k x e s1))" for x
    using assms(2) by (simp add: framed_def)
  ultimately show "R e s (snd (case m e s of (Inl er, s') \<Rightarrow> (Inl er, s') | (Inr x, s') \<Rightarrow> k x e s'))"
    by (auto simp: m split: sum.splits intro: frame_trans)
qed

lemma framed_seq: "framed R m \<Longrightarrow> framed R k \<Longrightarrow> framed R (seq m k)"
  by (simp add: seq_def framed_bind)

lemma framed_if: "framed R m \<Longrightarrow> framed R k \<Longrightarrow> framed R (if c then m else k)"
  by simp

lemma framed_fail_if: "framed R (fail_if c er)"
  by (simp add: fail_if_def framed_return framed_throw)

lemma framed_when_do: "framed R m \<Longrightarrow> framed R (when_do c m)"
  by (simp add: when_do_def framed_return)

lemma framed_deref: "framed R (deref x)"
  by (simp add: deref_def framed_return framed_throw split: option.splits)

lemma framed_or_throw: "framed R m \<Longrightarrow> framed R (or_throw m er)"
  by (auto simp: framed_def or_throw_def split: prod.splits sum.splits)
     (metis snd_conv)+

lemma framed_optional: "framed R m \<Longrightarrow> framed R (optional m)"
  by (auto simp: framed_def optional_def split: prod.splits sum.splits)
     (metis snd_conv)+

lemma framed_for_each: "(\<And>x. framed R (f x)) \<Longrightarrow> framed R (for_each xs f)"
  by (induction xs) (simp_all add: framed_return framed_seq)

lemma framed_map_tx: "(\<And>x. framed R (f x)) \<Longrightarrow> framed R (map_tx f xs)"
  by (induction xs) (simp_all add: framed_return framed_bind)

lemma framed_case_option:
  "framed R m \<Longrightarrow> (\<And>x. framed R (k x)) \<Longrightarrow> framed R (case x of None \<Rightarrow> m | Some y \<Rightarrow> k y)"
  by (cases x) simp_all

lemmas framed_rules =
  framed_return framed_throw framed_lift_sum framed_bind framed_seq framed_if framed_fail_if
  framed_when_do framed_deref framed_or_throw framed_optional framed_for_each framed_map_tx
  framed_case_option

end

section \<open>Tables as lists of rows\<close>

lemma find_Some_mem: "find p xs = Some x \<Longrightarrow> x \<in> set xs \<and> p x"
  by (metis find_Some_iff nth_mem)

lemma find_None_all: "find p xs = None \<longleftrightarrow> (\<forall>x \<in> set xs. \<not> p x)"
  by (induction xs) auto

lemma find_append:
  "find p (xs @ ys) = (case find p xs of None \<Rightarrow> find p ys | Some x \<Rightarrow> Some x)"
  by (induction xs) auto

text \<open>\<^verbatim>\<open>UPDATE ... SET (all columns) WHERE p\<close>.\<close>

definition overwrite :: "('r \<Rightarrow> bool) \<Rightarrow> 'r \<Rightarrow> 'r list \<Rightarrow> 'r list" where
  "overwrite p r xs = map (\<lambda>x. if p x then r else x) xs"

lemma set_overwrite: "set (overwrite p r xs) = (if \<exists>x \<in> set xs. p x then {r} else {}) \<union> {x \<in> set xs. \<not> p x}"
  by (auto simp: overwrite_def)

lemma overwrite_keys:
  assumes "\<And>x. x \<in> set xs \<Longrightarrow> p x \<Longrightarrow> key x = key r"
  shows "map key (overwrite p r xs) = map key xs"
  using assms by (auto simp: overwrite_def)

lemma length_overwrite [simp]: "length (overwrite p r xs) = length xs"
  by (simp add: overwrite_def)

text \<open>Rows with distinct keys are determined by their key.\<close>

lemma distinct_key_unique:
  "distinct (map key xs) \<Longrightarrow> x \<in> set xs \<Longrightarrow> y \<in> set xs \<Longrightarrow> key x = key y \<Longrightarrow> x = y"
  by (meson distinct_map inj_onD)

end
