(* ===== verification/Float64.thy ===== *)
theory Float64
  imports Prelude "HOL-Library.Log_Nat"
begin

text \<open>
  Go's \<^verbatim>\<open>float64\<close>: IEEE 754 binary64 with round-to-nearest-even, as far as the program uses it
  (addition, multiplication, comparison).  A finite value is the rational it denotes; the two
  zeros are one value, which no operation of the program distinguishes.  Each operation is
  rounded on its own, as Go does on amd64 (the language lets an implementation fuse a product
  and a sum; fused evaluation is not modelled).  The lemmas show that rounding is monotone.
\<close>

datatype f64 = Fin rat | Inf bool | NaN

section \<open>Rounding\<close>

definition pow2 :: "int \<Rightarrow> rat" where
  "pow2 k = (if 0 \<le> k then 2 ^ nat k else inverse (2 ^ nat (- k)))"

text \<open>The exponent \<open>e\<close> with \<open>2^e \<le> a < 2^(e+1)\<close>, for \<open>0 < a\<close>.\<close>

definition binade :: "rat \<Rightarrow> int" where
  "binade a = (case quotient_of a of (n, d) \<Rightarrow>
     let e = bitlen n - bitlen d in if pow2 e \<le> a then e else e - 1)"

definition ulp_exp :: "rat \<Rightarrow> int" where
  "ulp_exp x = max (binade \<bar>x\<bar> - 52) (- 1074)"

text \<open>Nearest integer, ties to even.\<close>

definition rne :: "rat \<Rightarrow> int" where
  "rne y = (let f = \<lfloor>y\<rfloor>; r = y - of_int f in
     if r < 1 / 2 then f else if 1 / 2 < r then f + 1 else if even f then f else f + 1)"

definition rnd :: "rat \<Rightarrow> rat" where
  "rnd x = (if x = 0 then 0 else of_int (rne (x / pow2 (ulp_exp x))) * pow2 (ulp_exp x))"

definition f64_of :: "rat \<Rightarrow> f64" where
  "f64_of x = (let r = rnd x in
     if pow2 1024 \<le> r then Inf True else if r \<le> - pow2 1024 then Inf False else Fin r)"

section \<open>Arithmetic and comparison\<close>

fun f64_add :: "f64 \<Rightarrow> f64 \<Rightarrow> f64" where
  "f64_add NaN _ = NaN"
| "f64_add _ NaN = NaN"
| "f64_add (Inf a) (Inf b) = (if a = b then Inf a else NaN)"
| "f64_add (Inf a) _ = Inf a"
| "f64_add _ (Inf b) = Inf b"
| "f64_add (Fin x) (Fin y) = f64_of (x + y)"

fun f64_mul :: "f64 \<Rightarrow> f64 \<Rightarrow> f64" where
  "f64_mul NaN _ = NaN"
| "f64_mul _ NaN = NaN"
| "f64_mul (Inf a) (Inf b) = Inf (a = b)"
| "f64_mul (Inf a) (Fin y) = (if y = 0 then NaN else Inf (a = (0 < y)))"
| "f64_mul (Fin x) (Inf b) = (if x = 0 then NaN else Inf (b = (0 < x)))"
| "f64_mul (Fin x) (Fin y) = f64_of (x * y)"

fun f64_lt :: "f64 \<Rightarrow> f64 \<Rightarrow> bool" where
  "f64_lt NaN _ = False"
| "f64_lt _ NaN = False"
| "f64_lt (Inf a) (Inf b) = (\<not> a \<and> b)"
| "f64_lt (Inf a) (Fin _) = (\<not> a)"
| "f64_lt (Fin _) (Inf b) = b"
| "f64_lt (Fin x) (Fin y) = (x < y)"

fun f64_le :: "f64 \<Rightarrow> f64 \<Rightarrow> bool" where
  "f64_le NaN _ = False"
| "f64_le _ NaN = False"
| "f64_le (Inf a) (Inf b) = (a \<longrightarrow> b)"
| "f64_le (Inf a) (Fin _) = (\<not> a)"
| "f64_le (Fin _) (Inf b) = b"
| "f64_le (Fin x) (Fin y) = (x \<le> y)"

fun f64_finite :: "f64 \<Rightarrow> bool" where
  "f64_finite (Fin _) = True"
| "f64_finite _ = False"

section \<open>Rounding is monotone\<close>

lemma pow2_pos [simp]: "0 < pow2 k"
  by (simp add: pow2_def)

lemma pow2_nat: "pow2 (int n) = 2 ^ n"
  by (simp add: pow2_def)

lemma pow2_powi: "pow2 k = 2 powi k"
  by (simp add: pow2_def power_int_def power_one_over inverse_eq_divide)

lemma pow2_add: "pow2 (a + b) = pow2 a * pow2 b"
  by (simp add: pow2_powi power_int_add)

lemma pow2_mono: "a \<le> b \<Longrightarrow> pow2 a \<le> pow2 b"
  by (simp add: pow2_powi power_int_increasing)

lemma pow2_ratio: "b \<le> a \<Longrightarrow> pow2 a / pow2 b = of_int (2 ^ nat (a - b))"
proof -
  assume "b \<le> a"
  then have "pow2 (a - b) = of_int (2 ^ nat (a - b))" by (simp add: pow2_def)
  moreover have "pow2 a = pow2 (a - b) * pow2 b" by (simp flip: pow2_add)
  ultimately show ?thesis using pow2_pos [of b] by (simp del: pow2_pos)
qed

lemma bitlen_pow2: "0 < n \<Longrightarrow> pow2 (bitlen n - 1) \<le> of_int n \<and> of_int n < pow2 (bitlen n)"
proof -
  assume n: "0 < n"
  then have b: "2 ^ nat (bitlen n - 1) \<le> n" "n < 2 ^ nat (bitlen n)"
    using bitlen_bounds by auto
  with n have p: "0 < bitlen n" by (cases "0 < bitlen n") auto
  have "pow2 (bitlen n - 1) = of_int (2 ^ nat (bitlen n - 1))"
    and "pow2 (bitlen n) = of_int (2 ^ nat (bitlen n))"
    using p by (simp_all add: pow2_def)
  with b show ?thesis by (simp del: of_int_power)
qed

lemma binade_bounds:
  assumes "0 < a"
  shows "pow2 (binade a) \<le> a \<and> a < pow2 (binade a + 1)"
proof -
  obtain n d where q: "quotient_of a = (n, d)" by (cases "quotient_of a")
  then have d: "0 < d" and a: "a = of_int n / of_int d"
    by (auto simp: quotient_of_denom_pos quotient_of_div)
  with assms have n: "0 < n" by (simp add: zero_less_divide_iff)
  let ?e = "bitlen n - bitlen d"
  have N: "pow2 (bitlen n - 1) \<le> of_int n" "of_int n < pow2 (bitlen n)"
    and D: "pow2 (bitlen d - 1) \<le> of_int d" "of_int d < pow2 (bitlen d)"
    using bitlen_pow2 n d by auto
  have "pow2 (?e - 1) * of_int d \<le> pow2 (?e - 1) * pow2 (bitlen d)"
    using D by simp
  also have "\<dots> = pow2 (bitlen n - 1)" by (simp flip: pow2_add)
  finally have lo: "pow2 (?e - 1) \<le> a"
    using N d by (simp add: a pos_le_divide_eq)
  have "pow2 (bitlen n) = pow2 (?e + 1) * pow2 (bitlen d - 1)"
    by (simp flip: pow2_add)
  also have "\<dots> \<le> pow2 (?e + 1) * of_int d"
    using D by simp
  finally have hi: "a < pow2 (?e + 1)"
    using N d by (simp add: a pos_divide_less_eq)
  show ?thesis using lo hi by (simp add: binade_def q Let_def)
qed

lemma rne_of_int [simp]: "rne (of_int k) = k"
  by (simp add: rne_def)

lemma rne_mono:
  assumes "x \<le> y"
  shows "rne x \<le> rne y"
proof (cases "\<lfloor>x\<rfloor> = \<lfloor>y\<rfloor>")
  case True
  with assms show ?thesis by (auto simp: rne_def Let_def)
next
  case False
  then have "\<lfloor>x\<rfloor> + 1 \<le> \<lfloor>y\<rfloor>" using floor_mono [OF assms] by linarith
  then show ?thesis by (auto simp: rne_def Let_def)
qed

lemma rnd_nonneg: "0 \<le> x \<Longrightarrow> 0 \<le> rnd x"
proof -
  assume "0 \<le> x"
  then have "rne (of_int 0) \<le> rne (x / pow2 (ulp_exp x))"
    by (intro rne_mono) (simp add: zero_le_divide_iff less_imp_le)
  then show ?thesis by (simp add: rnd_def rne_of_int [of 0, simplified] less_imp_le)
qed

lemma rnd_mono:
  assumes "0 \<le> x" and "x \<le> y"
  shows "rnd x \<le> rnd y"
proof -
  consider "x = 0" | "0 < x" "ulp_exp x = ulp_exp y" | "0 < x" "ulp_exp x \<noteq> ulp_exp y"
    using assms(1) by force
  then show ?thesis
  proof cases
    case 1
    then show ?thesis using assms rnd_nonneg by (simp add: rnd_def)
  next
    case 2
    moreover have "rne (x / pow2 (ulp_exp y)) \<le> rne (y / pow2 (ulp_exp y))"
      using assms by (intro rne_mono divide_right_mono) (simp_all add: less_imp_le)
    ultimately show ?thesis using assms by (simp add: rnd_def)
  next
    case 3
    let ?qx = "ulp_exp x" and ?qy = "ulp_exp y" and ?b = "binade y"
    have y: "0 < y" using 3 assms by simp
    have "pow2 (binade x) \<le> x" "y < pow2 (?b + 1)" using 3(1) y binade_bounds by auto
    then have "pow2 (binade x) < pow2 (?b + 1)" using assms by linarith
    then have "binade x \<le> ?b" using pow2_mono [of "?b + 1" "binade x"] by linarith
    with 3 assms have b: "?qx \<le> ?b" "?qy = ?b - 52" "binade x < ?b"
      by (auto simp: ulp_exp_def max_def split: if_splits)
    have "x < pow2 (binade x + 1)" using 3(1) binade_bounds by simp
    also have "\<dots> \<le> pow2 ?b" using b by (intro pow2_mono) simp
    finally have "rne (x / pow2 ?qx) \<le> rne (pow2 ?b / pow2 ?qx)"
      by (intro rne_mono divide_right_mono) (simp_all add: less_imp_le)
    also have "\<dots> = 2 ^ nat (?b - ?qx)" using b by (simp only: pow2_ratio rne_of_int)
    finally have "of_int (rne (x / pow2 ?qx)) * pow2 ?qx \<le> of_int (2 ^ nat (?b - ?qx)) * pow2 ?qx"
      by (intro mult_right_mono) (simp_all only: of_int_le_iff less_imp_le pow2_pos)
    also have "\<dots> = pow2 ?b"
      using pow2_ratio [OF b(1)] pow2_pos [of ?qx] by (metis less_irrefl nonzero_eq_divide_eq)
    finally have X: "rnd x \<le> pow2 ?b" using 3(1) by (simp add: rnd_def)
    have q: "?qy \<le> ?b" using b by simp
    have "pow2 ?b \<le> y" using y binade_bounds by simp
    then have "rne (pow2 ?b / pow2 ?qy) \<le> rne (y / pow2 ?qy)"
      by (intro rne_mono divide_right_mono) (simp_all add: less_imp_le)
    then have "2 ^ nat (?b - ?qy) \<le> rne (y / pow2 ?qy)" by (simp only: pow2_ratio [OF q] rne_of_int)
    then have m: "of_int (2 ^ nat (?b - ?qy)) * pow2 ?qy \<le> of_int (rne (y / pow2 ?qy)) * pow2 ?qy"
      by (intro mult_right_mono) (simp_all only: of_int_le_iff less_imp_le pow2_pos)
    have e: "of_int (2 ^ nat (?b - ?qy)) * pow2 ?qy = pow2 ?b"
      using pow2_ratio [OF q] pow2_pos [of ?qy] by (metis less_irrefl nonzero_eq_divide_eq)
    from m have "pow2 ?b \<le> rnd y" using y unfolding e by (simp add: rnd_def)
    with X show ?thesis by linarith
  qed
qed

text \<open>
  On the non-negative values the operations are monotone and never produce \<open>NaN\<close>, whether or
  not they overflow to infinity.
\<close>

definition f64_nonneg :: "f64 \<Rightarrow> bool" where
  "f64_nonneg x \<longleftrightarrow> f64_le (Fin 0) x"

lemma f64_nonneg_simps [simp]:
  "f64_nonneg (Fin x) \<longleftrightarrow> 0 \<le> x" "f64_nonneg (Inf b) \<longleftrightarrow> b" "\<not> f64_nonneg NaN"
  by (simp_all add: f64_nonneg_def)

lemma f64_of_mono: "0 \<le> x \<Longrightarrow> x \<le> y \<Longrightarrow> f64_le (f64_of x) (f64_of y)"
proof -
  assume "0 \<le> x" "x \<le> y"
  then have "0 \<le> rnd x" "rnd x \<le> rnd y" by (simp_all add: rnd_nonneg rnd_mono)
  moreover from this have "\<not> rnd x \<le> - pow2 1024" "\<not> rnd y \<le> - pow2 1024"
    using pow2_pos [of 1024] by linarith+
  ultimately show ?thesis by (simp add: f64_of_def Let_def)
qed

text \<open>Integers below \<open>2^53\<close> are exact.\<close>

lemma rnd_of_int:
  assumes "\<bar>k\<bar> < 2 ^ 53"
  shows "rnd (of_int k) = of_int k"
proof (cases "k = 0")
  case True
  then show ?thesis by (simp add: rnd_def)
next
  case False
  define a :: rat where "a = \<bar>of_int k\<bar>"
  then have a: "0 < a" using False by simp
  have "a = of_int \<bar>k\<bar>" by (simp add: a_def)
  also have "\<dots> < of_int (2 ^ 53)" using assms by (simp only: of_int_less_iff)
  also have "\<dots> = pow2 53" by (simp add: pow2_def)
  finally have "pow2 (binade a) < pow2 53" using binade_bounds [OF a] by simp
  then have "binade a < 53" using pow2_mono [of 53 "binade a"] by linarith
  then have "ulp_exp (of_int k) \<le> 0" by (simp add: ulp_exp_def a_def [symmetric])
  then have "pow2 (ulp_exp (of_int k)) = inverse (2 ^ nat (- ulp_exp (of_int k)))"
    by (simp add: pow2_def)
  then have "of_int k / pow2 (ulp_exp (of_int k)) = of_int (k * 2 ^ nat (- ulp_exp (of_int k)))"
    by (simp add: divide_inverse)
  then have "rne (of_int k / pow2 (ulp_exp (of_int k))) = k * 2 ^ nat (- ulp_exp (of_int k))"
    using rne_of_int by metis
  then show ?thesis
    using False \<open>pow2 (ulp_exp (of_int k)) = _\<close> by (simp add: rnd_def)
qed

lemma f64_of_int:
  assumes "\<bar>k\<bar> < 2 ^ 53"
  shows "f64_of (of_int k) = Fin (of_int k)"
proof -
  have "\<bar>of_int k :: rat\<bar> < of_int (2 ^ 53)" using assms by (metis of_int_abs of_int_less_iff)
  also have "\<dots> \<le> pow2 1024" using pow2_mono [of 53 1024] by (simp add: pow2_def)
  finally show ?thesis by (simp add: f64_of_def rnd_of_int [OF assms] Let_def abs_less_iff)
qed

definition small_int :: "rat \<Rightarrow> bool" where
  "small_int x = (case quotient_of x of (n, d) \<Rightarrow> d = 1 \<and> \<bar>n\<bar> < 2 ^ 53)"

lemma f64_of_code [code]:
  "f64_of x = (if small_int x then Fin x else let r = rnd x in
     if pow2 1024 \<le> r then Inf True else if r \<le> - pow2 1024 then Inf False else Fin r)"
proof (cases "small_int x")
  case True
  then obtain n where "quotient_of x = (n, 1)" "\<bar>n\<bar> < 2 ^ 53"
    unfolding small_int_def by (auto split: prod.splits)
  moreover from this have "x = of_int n" using quotient_of_div by fastforce
  ultimately show ?thesis using True f64_of_int by simp
next
  case False
  then show ?thesis by (simp add: f64_of_def)
qed

lemma f64_of_nonneg: "0 \<le> x \<Longrightarrow> f64_nonneg (f64_of x)"
proof -
  assume "0 \<le> x"
  then have "0 \<le> rnd x" by (rule rnd_nonneg)
  moreover from this have "\<not> rnd x \<le> - pow2 1024"
    using pow2_pos [of 1024] by linarith
  ultimately show ?thesis by (simp add: f64_of_def Let_def)
qed

lemma f64_add_nonneg: "f64_nonneg x \<Longrightarrow> f64_nonneg y \<Longrightarrow> f64_nonneg (f64_add x y)"
  by (cases x; cases y) (auto simp: f64_of_nonneg)

lemma f64_mul_nonneg:
  "f64_nonneg x \<Longrightarrow> f64_nonneg y \<Longrightarrow> f64_finite x \<Longrightarrow> f64_finite y \<Longrightarrow> f64_nonneg (f64_mul x y)"
  by (cases x; cases y) (auto simp: f64_of_nonneg)

lemma f64_nonneg_le: "f64_nonneg x \<Longrightarrow> f64_le x y \<Longrightarrow> f64_nonneg y"
  by (cases x; cases y) auto

lemma f64_add_mono:
  assumes "f64_nonneg x" "f64_nonneg y" "f64_le x x'" "f64_le y y'"
  shows "f64_le (f64_add x y) (f64_add x' y')"
proof -
  have "f64_nonneg x'" "f64_nonneg y'"
    using assms f64_nonneg_le by blast+
  moreover have "f64_le z (Inf True)" if "f64_nonneg z" for z
    using that by (cases z) auto
  ultimately show ?thesis using assms
    by (cases x; cases x'; cases y; cases y') (auto simp: f64_of_mono f64_of_nonneg)
qed

lemma f64_mul_mono:
  assumes "f64_nonneg x" "f64_le x x'" "f64_nonneg k" "f64_finite x'" "f64_finite k"
  shows "f64_le (f64_mul x k) (f64_mul x' k)"
  using assms by (cases x; cases x'; cases k) (auto simp: f64_of_mono mult_right_mono)

lemma f64_le_refl_nonneg: "f64_nonneg x \<Longrightarrow> f64_le x x"
  by (cases x) auto

end
