(* ===== verification/Go_Text.thy ===== *)
theory Go_Text
  imports Prelude "HOL-Library.Sublist"
begin

text \<open>
  Go strings and what the services do with them.  A Go string is a sequence of bytes, here a
  \<open>string\<close> (a list of 8-bit characters) holding its UTF-8 encoding: \<^verbatim>\<open>len(s)\<close> is \<open>length\<close>,
  \<^verbatim>\<open>utf8.RuneCountInString\<close> is \<open>rune_count\<close> (decoding as Go does, an ill-formed byte counts
  as one rune) and \<^verbatim>\<open>strings.TrimSpace\<close> is \<open>trim_space\<close> (the UTF-8 encodings of all Unicode
  white space, which is self-synchronising, so trimming bytes trims runes).
\<close>

section \<open>Runes\<close>

definition byte :: "char \<Rightarrow> nat" where
  "byte c = of_char c"

definition in_range :: "nat \<Rightarrow> nat \<Rightarrow> char \<Rightarrow> bool" where
  "in_range lo hi c \<longleftrightarrow> lo \<le> byte c \<and> byte c \<le> hi"

abbreviation continuation :: "char \<Rightarrow> bool" where
  "continuation \<equiv> in_range 0x80 0xBF"

text \<open>The width of the first rune, as \<^verbatim>\<open>utf8.DecodeRuneInString\<close> returns it (1 for an ill-formed byte).\<close>

definition second_ok :: "nat \<Rightarrow> char \<Rightarrow> bool" where
  "second_ok b c = (
     if b = 0xE0 then in_range 0xA0 0xBF c
     else if b = 0xED then in_range 0x80 0x9F c
     else if b = 0xF0 then in_range 0x90 0xBF c
     else if b = 0xF4 then in_range 0x80 0x8F c
     else continuation c)"

fun rune_width :: "string \<Rightarrow> nat" where
  "rune_width [] = 0"
| "rune_width (c0 # cs) = (
     let b = byte c0 in
     if 0xC2 \<le> b \<and> b \<le> 0xDF then
       (case cs of c1 # _ \<Rightarrow> if continuation c1 then 2 else 1 | _ \<Rightarrow> 1)
     else if 0xE0 \<le> b \<and> b \<le> 0xEF then
       (case cs of c1 # c2 # _ \<Rightarrow> if second_ok b c1 \<and> continuation c2 then 3 else 1 | _ \<Rightarrow> 1)
     else if 0xF0 \<le> b \<and> b \<le> 0xF4 then
       (case cs of c1 # c2 # c3 # _ \<Rightarrow>
          if second_ok b c1 \<and> continuation c2 \<and> continuation c3 then 4 else 1 | _ \<Rightarrow> 1)
     else 1)"

lemma rune_width_pos: "s \<noteq> [] \<Longrightarrow> 0 < rune_width s"
  by (cases s) (auto simp: Let_def split: list.splits)

function rune_count :: "string \<Rightarrow> nat" where
  "rune_count s = (if s = [] then 0 else Suc (rune_count (drop (rune_width s) s)))"
  by pat_completeness auto
termination
  by (relation "measure length") (auto intro!: diff_less rune_width_pos)

declare rune_count.simps [simp del]

lemma rune_count_Nil [simp]: "rune_count [] = 0"
  by (simp add: rune_count.simps)

lemma rune_count_nonempty: "s \<noteq> [] \<Longrightarrow> 0 < rune_count s"
  by (subst rune_count.simps) simp

lemma rune_count_eq_0 [simp]: "rune_count s = 0 \<longleftrightarrow> s = []"
  using rune_count_nonempty by fastforce

lemma rune_count_le_length: "rune_count s \<le> length s"
proof (induction s rule: rune_count.induct)
  case (1 s)
  show ?case
  proof (cases "s = []")
    case False
    with 1 have "rune_count (drop (rune_width s) s) \<le> length s - rune_width s"
      by simp
    moreover have "0 < rune_width s" using False by (rule rune_width_pos)
    moreover obtain n where "length s = Suc n" using False by (cases s) auto
    ultimately have "Suc (rune_count (drop (rune_width s) s)) \<le> length s" by linarith
    with False show ?thesis by (subst rune_count.simps) simp
  qed simp
qed

section \<open>Trimming\<close>

text \<open>The UTF-8 encodings of the runes for which \<^verbatim>\<open>unicode.IsSpace\<close> holds.\<close>

definition go_spaces :: "string list" where
  "go_spaces =
    [[CHR 0x20], [CHR 0x09], [CHR 0x0A], [CHR 0x0B], [CHR 0x0C], [CHR 0x0D],
     [CHR 0xC2, CHR 0x85], [CHR 0xC2, CHR 0xA0], [CHR 0xE1, CHR 0x9A, CHR 0x80],
     [CHR 0xE2, CHR 0x80, CHR 0x80], [CHR 0xE2, CHR 0x80, CHR 0x81], [CHR 0xE2, CHR 0x80, CHR 0x82],
     [CHR 0xE2, CHR 0x80, CHR 0x83], [CHR 0xE2, CHR 0x80, CHR 0x84], [CHR 0xE2, CHR 0x80, CHR 0x85],
     [CHR 0xE2, CHR 0x80, CHR 0x86], [CHR 0xE2, CHR 0x80, CHR 0x87], [CHR 0xE2, CHR 0x80, CHR 0x88],
     [CHR 0xE2, CHR 0x80, CHR 0x89], [CHR 0xE2, CHR 0x80, CHR 0x8A], [CHR 0xE2, CHR 0x80, CHR 0xA8],
     [CHR 0xE2, CHR 0x80, CHR 0xA9], [CHR 0xE2, CHR 0x80, CHR 0xAF], [CHR 0xE2, CHR 0x81, CHR 0x9F],
     [CHR 0xE3, CHR 0x80, CHR 0x80]]"

function trim_prefix :: "string list \<Rightarrow> string \<Rightarrow> string" where
  "trim_prefix ws s = (case find (\<lambda>w. w \<noteq> [] \<and> prefix w s) ws of
     None \<Rightarrow> s | Some w \<Rightarrow> trim_prefix ws (drop (length w) s))"
  by pat_completeness auto
termination
  by (relation "measure (\<lambda>(ws, s). length s)") (auto dest!: find_Some_mem simp: prefix_def)

declare trim_prefix.simps [simp del]

definition trim_space :: "string \<Rightarrow> string" where
  "trim_space s = rev (trim_prefix (map rev go_spaces) (rev (trim_prefix go_spaces s)))"

definition starts_with_any :: "string list \<Rightarrow> string \<Rightarrow> bool" where
  "starts_with_any ws s \<longleftrightarrow> (\<exists>w \<in> set ws. w \<noteq> [] \<and> prefix w s)"

lemma trim_prefix_done: "\<not> starts_with_any ws s \<Longrightarrow> trim_prefix ws s = s"
  by (subst trim_prefix.simps)
     (auto simp: starts_with_any_def split: option.splits dest!: find_Some_mem)

lemma trim_prefix_clean: "\<not> starts_with_any ws (trim_prefix ws s)"
proof (induction ws s rule: trim_prefix.induct)
  case (1 ws s)
  show ?case
  proof (cases "find (\<lambda>w. w \<noteq> [] \<and> prefix w s) ws")
    case None
    then have "trim_prefix ws s = s" by (subst trim_prefix.simps) simp
    with None show ?thesis by (auto simp: starts_with_any_def find_None_all)
  next
    case (Some w)
    then have "trim_prefix ws s = trim_prefix ws (drop (length w) s)"
      by (subst trim_prefix.simps) simp
    with 1 Some show ?thesis by simp
  qed
qed

lemma trim_prefix_suffix: "\<exists>u. s = u @ trim_prefix ws s"
proof (induction ws s rule: trim_prefix.induct)
  case (1 ws s)
  show ?case
  proof (cases "find (\<lambda>w. w \<noteq> [] \<and> prefix w s) ws")
    case None
    then show ?thesis by (subst trim_prefix.simps) simp
  next
    case (Some w)
    then have eq: "trim_prefix ws s = trim_prefix ws (drop (length w) s)"
      by (subst trim_prefix.simps) simp
    from 1 Some obtain u where "drop (length w) s = u @ trim_prefix ws (drop (length w) s)"
      by blast
    then have "s = (take (length w) s @ u) @ trim_prefix ws s"
      by (metis append.assoc append_take_drop_id eq)
    then show ?thesis ..
  qed
qed

lemma starts_with_any_prefix: "starts_with_any ws s \<Longrightarrow> prefix s t \<Longrightarrow> starts_with_any ws t"
  by (meson prefix_order.trans starts_with_any_def)

text \<open>The trimmed text neither starts nor ends with white space, and is a factor of the input.\<close>

lemma trim_space_ends:
  "\<not> starts_with_any (map rev go_spaces) (rev (trim_space s))"
  by (simp add: trim_space_def trim_prefix_clean)

lemma trim_space_starts: "\<not> starts_with_any go_spaces (trim_space s)"
proof
  let ?t = "trim_prefix go_spaces s"
  assume "starts_with_any go_spaces (trim_space s)"
  moreover obtain u where "rev ?t = u @ trim_prefix (map rev go_spaces) (rev ?t)"
    using trim_prefix_suffix by blast
  then have "?t = trim_space s @ rev u"
    by (metis rev_append rev_rev_ident trim_space_def)
  then have "prefix (trim_space s) ?t" by (metis prefixI)
  ultimately have "starts_with_any go_spaces ?t" by (rule starts_with_any_prefix)
  then show False by (simp add: trim_prefix_clean)
qed

lemma trim_space_idem [simp]: "trim_space (trim_space s) = trim_space s"
proof -
  have "trim_prefix go_spaces (trim_space s) = trim_space s"
    by (simp add: trim_prefix_done trim_space_starts)
  then show ?thesis
    using trim_space_ends trim_prefix_done
    by (metis rev_rev_ident trim_space_def)
qed

section \<open>Optional and bounded text (internal/services/counterparties.go)\<close>

definition string_value :: "string option \<Rightarrow> string" where
  "string_value value = (case value of None \<Rightarrow> [] | Some v \<Rightarrow> trim_space v)"

definition bounded_text :: "string \<Rightarrow> nat \<Rightarrow> nat \<Rightarrow> bool" where
  "bounded_text value lo hi = (let n = rune_count value in lo \<le> n \<and> n \<le> hi)"

lemma bounded_text_nonempty: "bounded_text s (Suc n) m \<Longrightarrow> s \<noteq> []"
  by (auto simp: bounded_text_def Let_def)

text \<open>\<^verbatim>\<open>asciiDigits\<close>: a given number of bytes, all of them decimal digits.\<close>

definition ascii_digits :: "string \<Rightarrow> nat \<Rightarrow> bool" where
  "ascii_digits value n \<longleftrightarrow> length value = n \<and> list_all (in_range 0x30 0x39) value"

end
