(* ===== verification/Models.thy ===== *)
theory Models
  imports Float64 Go_Text
begin

text \<open>
  The rows and enumerations of \<^verbatim>\<open>internal/models\<close>, the events of \<^verbatim>\<open>internal/events/contracts.go\<close>
  and the state machine of an order.  A field keeps its Go name behind a prefix for its record
  (\<open>o_weight_kg\<close> is \<^verbatim>\<open>Order.WeightKg\<close>); a pointer is an option.  The two status columns whose
  values the code names as constants are datatypes (their CHECK constraints admit no other
  value); every other status or kind is the string the code compares.
\<close>

section \<open>Basic types\<close>

text \<open>
  A \<^verbatim>\<open>uuid.UUID\<close> is its 128-bit value (the numeric order is the order of \<^verbatim>\<open>String()\<close> and of
  PostgreSQL); \<^verbatim>\<open>uuid.Nil\<close> is \<open>0\<close>.  A \<^verbatim>\<open>time.Time\<close> is the number of nanoseconds since the Unix
  epoch; its zero value lies at year 1.
\<close>

type_synonym uuid = nat
type_synonym time = int

definition uuid_nil :: uuid where
  "uuid_nil = 0"

definition zero_time :: time where
  "zero_time = - 62135596800 * 10 ^ 9"

definition seconds :: "int \<Rightarrow> time" where
  "seconds n = n * 10 ^ 9"

definition minutes :: "int \<Rightarrow> time" where
  "minutes n = seconds (60 * n)"

definition hours :: "int \<Rightarrow> time" where
  "hours n = minutes (60 * n)"

text \<open>\<^verbatim>\<open>t.Truncate(24 * time.Hour)\<close>, \<^verbatim>\<open>t.Format(time.DateOnly)\<close> and the resolution of a DATE column.\<close>

definition date_only :: "time \<Rightarrow> time" where
  "date_only t = t - t mod hours 24"

lemma date_only_idem [simp]: "date_only (date_only t) = date_only t"
  by (simp add: date_only_def)

text \<open>\<^verbatim>\<open>t.Truncate(time.Microsecond)\<close>; also the resolution of a TIMESTAMPTZ column.\<close>

definition trunc_us :: "time \<Rightarrow> time" where
  "trunc_us t = t - t mod 1000"

lemma trunc_us_idem [simp]: "trunc_us (trunc_us t) = trunc_us t"
  by (simp add: trunc_us_def)

lemma trunc_us_le: "trunc_us t \<le> t"
  by (simp add: trunc_us_def)

lemma trunc_us_mono: "s \<le> t \<Longrightarrow> trunc_us s \<le> trunc_us t"
proof -
  assume "s \<le> t"
  then have "s div 1000 * 1000 \<le> t div 1000 * 1000" by (simp add: zdiv_mono1)
  then show ?thesis by (simp add: trunc_us_def minus_mod_eq_div_mult)
qed

section \<open>The order state machine\<close>

datatype order_status =
    OrderDraft | OrderReadyForDispatch | OrderAssigned | OrderInTransit
  | OrderArrived | OrderCompleted | OrderCancelled

fun can_transition_order :: "order_status \<Rightarrow> order_status \<Rightarrow> bool" where
  "can_transition_order OrderDraft to = (to = OrderReadyForDispatch \<or> to = OrderCancelled)"
| "can_transition_order OrderReadyForDispatch to = (to = OrderAssigned \<or> to = OrderCancelled)"
| "can_transition_order OrderAssigned to =
     (to = OrderReadyForDispatch \<or> to = OrderInTransit \<or> to = OrderCancelled)"
| "can_transition_order OrderInTransit to = (to = OrderArrived)"
| "can_transition_order OrderArrived to = (to = OrderCompleted)"
| "can_transition_order _ to = False"

datatype assignment_status =
    AssignmentPendingAcceptance | AssignmentAccepted | AssignmentActive | AssignmentRejected
  | AssignmentReleased | AssignmentExpired | AssignmentCompleted

section \<open>Directory rows\<close>

record user =
  u_id :: uuid
  u_email :: string
  u_slug :: string
  u_password_hash :: string
  u_full_name :: string
  u_avatar_url :: string
  u_role :: string
  u_created_at :: time
  u_updated_at :: time
  u_last_login_at :: "time option"

record driver =
  d_id :: uuid
  d_user_id :: uuid
  d_vehicle_id :: "uuid option"
  d_license_number :: string
  d_license_expiry :: time
  d_rating :: f64
  d_slug :: string
  d_status :: string

record driver_document =
  dd_id :: uuid
  dd_driver_id :: uuid
  dd_type :: string
  dd_number :: string
  dd_valid_until :: time
  dd_status :: string
  dd_created_at :: time

record driver_shift =
  ds_id :: uuid
  ds_driver_id :: uuid
  ds_starts_at :: time
  ds_ends_at :: time

record vehicle =
  v_id :: uuid
  v_plate_number :: string
  v_brand :: "string option"
  v_model :: "string option"
  v_year :: "int option"
  v_capacity_kg :: f64
  v_capacity_m3 :: f64
  v_status :: string
  v_slug :: string

record vehicle_document =
  vd_id :: uuid
  vd_vehicle_id :: uuid
  vd_type :: string
  vd_number :: string
  vd_valid_until :: time
  vd_status :: string
  vd_created_at :: time

record warehouse =
  w_id :: uuid
  w_slug :: string
  w_name :: string
  w_address :: string
  w_city :: string
  w_latitude :: "f64 option"
  w_longitude :: "f64 option"
  w_status :: string
  w_created_at :: time

record manager =
  m_id :: uuid
  m_user_id :: uuid
  m_warehouse_id :: "uuid option"
  m_slug :: string

section \<open>Counterparties, transport details and receipts (internal/models/transport.go)\<close>

record counterparty =
  cp_id :: uuid
  cp_owner_user_id :: uuid
  cp_kind :: string
  cp_name :: string
  cp_inn :: string
  cp_kpp :: string
  cp_address :: string
  cp_contact_name :: string
  cp_phone :: string
  cp_email :: string
  cp_shared :: bool
  cp_status :: string
  cp_created_at :: time
  cp_updated_at :: time

record transport_details =
  td_sender :: counterparty
  td_recipient :: counterparty
  td_carrier :: counterparty
  td_basis_type :: string
  td_basis_number :: string
  td_basis_date :: time
  td_package_count :: int
  td_terms :: string
  td_recorded_by :: uuid
  td_recorded_at :: time

text \<open>
  The JSONB column \<^verbatim>\<open>orders.transport_details\<close>: absent, a document that decodes, or one
  that does not.
\<close>

datatype details_json = NoDetails | Details transport_details | BadDetails

record delivery_receipt =
  r_id :: uuid
  r_order_id :: uuid
  r_assignment_id :: uuid
  r_recipient_name :: string
  r_recipient_role :: string
  r_authority_basis :: string
  r_package_count :: int
  r_cargo_condition :: string
  r_seal_number :: string
  r_comment :: string
  r_received_at :: time
  r_recorded_at :: time
  r_recorded_by :: uuid

section \<open>Orders, routes and assignments\<close>

record order =
  o_policy_version :: int
  o_details :: details_json
  o_dest_warehouse :: "uuid option"
  o_id :: uuid
  o_created_by :: "uuid option"
  o_driver_id :: "uuid option"
  o_manager_id :: "uuid option"
  o_origin_warehouse :: "uuid option"
  o_origin_address :: string
  o_dest_address :: string
  o_cargo :: string
  o_weight_kg :: f64
  o_volume_m3 :: f64
  o_status :: order_status
  o_total_price :: "f64 option"
  o_pickup_from :: "time option"
  o_pickup_to :: "time option"
  o_created_at :: time
  o_submitted_at :: "time option"
  o_assigned_at :: "time option"
  o_started_at :: "time option"
  o_arrived_at :: "time option"
  o_delivered_at :: "time option"
  o_cancelled_at :: "time option"

text \<open>
  The JSONB column \<^verbatim>\<open>routes.coordinates\<close> as its raw bytes are tested: \<open>NoJson\<close> is SQL NULL
  (zero bytes), every other document has at least one byte.
\<close>

datatype coords_json = NoJson | CoordsJson "(f64 \<times> f64) list" | BadJson

record route =
  ro_id :: uuid
  ro_order_id :: uuid
  ro_driver_id :: "uuid option"
  ro_coordinates :: coords_json
  ro_current_index :: int
  ro_started_at :: "time option"
  ro_finished_at :: "time option"
  ro_distance_km :: "f64 option"
  ro_duration_sec :: "int option"
  ro_status :: string

record assignment =
  a_id :: uuid
  a_order_id :: uuid
  a_driver_id :: uuid
  a_vehicle_id :: uuid
  a_status :: assignment_status
  a_planned_from :: time
  a_planned_to :: time
  a_created_by :: uuid
  a_source :: string
  a_recommendation_id :: "string option"
  a_recommendation_at :: "time option"
  a_assigned_at :: time
  a_offer_expires_at :: time
  a_accepted_at :: "time option"
  a_rejected_at :: "time option"
  a_released_at :: "time option"
  a_started_at :: "time option"
  a_completed_at :: "time option"
  a_recipient_name :: "string option"
  a_delivery_comment :: "string option"
  a_rejection_code :: "string option"
  a_rejection_comment :: "string option"
  a_release_code :: "string option"

text \<open>The statuses of the partial index \<^verbatim>\<open>assignments_one_open_per_order\<close>.\<close>

definition open_status :: "assignment_status \<Rightarrow> bool" where
  "open_status st \<longleftrightarrow>
     st = AssignmentPendingAcceptance \<or> st = AssignmentAccepted \<or> st = AssignmentActive"

record status_history =
  h_id :: uuid
  h_order_id :: uuid
  h_from :: "order_status option"
  h_to :: order_status
  h_actor :: "uuid option"
  h_reason :: "string option"
  h_created_at :: time

record trip_handover =
  t_id :: uuid
  t_order_id :: uuid
  t_previous_assignment :: uuid
  t_next_assignment :: "uuid option"
  t_driver_id :: uuid
  t_vehicle_id :: uuid
  t_created_by :: uuid
  t_reason :: string
  t_location :: string
  t_cargo_condition :: string
  t_planned_to :: time
  t_status :: string
  t_created_at :: time
  t_expires_at :: time
  t_outgoing_confirmed :: "time option"
  t_completed_at :: "time option"

record warehouse_operation =
  wo_id :: uuid
  wo_order_id :: uuid
  wo_warehouse_id :: uuid
  wo_assignment_id :: "uuid option"
  wo_type :: string
  wo_package_count :: int
  wo_cargo_condition :: string
  wo_comment :: string
  wo_recipient_name :: string
  wo_created_by :: uuid
  wo_occurred_at :: time

record incident =
  i_id :: uuid
  i_order_id :: uuid
  i_assignment_id :: "uuid option"
  i_warehouse_id :: "uuid option"
  i_source_operation :: "uuid option"
  i_kind :: string
  i_description :: string
  i_expected_packages :: "int option"
  i_actual_packages :: "int option"
  i_status :: string
  i_reported_by :: uuid
  i_reported_at :: time
  i_resolution :: string
  i_resolution_note :: string
  i_recipient_name :: string
  i_resolved_by :: "uuid option"
  i_resolved_at :: "time option"

section \<open>Notifications\<close>

text \<open>
  Title and body of a notification are fixed Russian templates filled with identifiers and
  texts; a \<open>notice\<close> is the template with its arguments in the order of the source.
\<close>

datatype notice =
    OrderSubmitted uuid
  | AssignmentCancelled uuid uuid
  | OrderCancelledNotice uuid
  | AssignmentReplaced uuid uuid
  | AssignmentOffered uuid uuid
  | OfferAccepted uuid uuid
  | DriverAssigned uuid
  | OfferRejected uuid uuid
  | OfferExpired uuid uuid
  | DeliveryStarted uuid
  | DriverArrived uuid
  | DeliveryFinished uuid
  | WarehouseNotice string uuid int string
  | IncidentOpened uuid uuid string string
  | IncidentResolved uuid uuid string string
  | HandoverRequested uuid uuid string string
  | HandoverCompleted uuid string string
  | ReceiptRecorded uuid string int
  | DocumentIsReady uuid

record notification =
  n_id :: uuid
  n_user_id :: uuid
  n_notice :: notice
  n_document_id :: "uuid option"
  n_is_read :: bool
  n_created_at :: time

section \<open>Events and the outbox (internal/events/contracts.go)\<close>

text \<open>
  A \<^verbatim>\<open>DocumentField\<close> is a label and a rendered value; \<open>doc_field\<close> is the label with the values
  that are rendered into it.
\<close>

datatype party_role = Sender | Recipient | Carrier

datatype doc_field =
    FOrder uuid | FOrderStatus order_status | FOriginAddress string | FDestAddress string
  | FCargo string | FWeight f64 | FVolume f64 | FPrice f64
  | FPlannedStart time | FPlannedEnd time | FStarted time | FDelivered time
  | FParty party_role counterparty | FBasis string string time | FDeclaredPackages int | FTerms string
  | FReceivedBy string string | FAuthority string | FReceivedPackages int
  | FReceiptCondition string | FSeal string | FReceiptComment string | FReceivedAt time
  | FReceiptRecord uuid uuid uuid time
  | FCustomer string uuid | FActor string uuid
  | FAssignment uuid | FDriver string uuid | FLicense string | FVehicle string uuid
  | FRecipientName string | FDeliveryComment string
  | FOriginWarehouse uuid | FDestWarehouse uuid
  | FOperation warehouse_operation | FIncident incident
  | FCancelReason "string option"
  | FHandoverReason string | FHandoverPlace string | FHandoverCondition string
  | FPreviousAssignment uuid | FPreviousDriver string uuid | FPreviousVehicle string uuid
  | FReleaseConfirmed time | FAcceptConfirmed time
  | FLeg nat uuid uuid uuid time "time option"

record dispatch_request =
  dr_event_id :: uuid
  dr_order_id :: uuid
  dr_submitted_at :: time
  dr_requested_at :: time

record dispatch_candidate =
  dc_id :: string
  dc_driver_id :: uuid
  dc_vehicle_id :: uuid
  dc_score :: f64
  dc_reason :: string

record dispatch_recommended =
  de_event_id :: uuid
  de_order_id :: uuid
  de_submitted_at :: time
  de_requested_at :: time
  de_created_at :: time
  de_candidates :: "dispatch_candidate list"

record delivery_completed =
  ec_event_id :: uuid
  ec_order_id :: uuid
  ec_user_id :: uuid
  ec_origin_address :: string
  ec_dest_address :: string
  ec_cargo :: string
  ec_weight_kg :: f64
  ec_volume_m3 :: f64
  ec_total_price :: "f64 option"
  ec_delivered_at :: time
  ec_recipient_name :: "string option"
  ec_driver_id :: uuid
  ec_vehicle_id :: uuid
  ec_fields :: "doc_field list"
  ec_recipients :: "uuid list"

record document_requested =
  eq_event_id :: uuid
  eq_order_id :: uuid
  eq_user_id :: uuid
  eq_reference_id :: uuid
  eq_type :: string
  eq_occurred_at :: time
  eq_fields :: "doc_field list"
  eq_recipients :: "uuid list"

record document_ready =
  ey_event_id :: uuid
  ey_document_id :: uuid
  ey_order_id :: uuid
  ey_user_id :: uuid
  ey_type :: string

datatype payload =
    DeliveryCompletedP delivery_completed
  | DocumentRequestedP document_requested
  | DispatchRequestedP dispatch_request

record outbox_row =
  x_id :: uuid
  x_subject :: string
  x_payload :: payload
  x_created_at :: time
  x_published_at :: "time option"

text \<open>The table \<^verbatim>\<open>dispatch_release_queue\<close> and the table \<^verbatim>\<open>dispatch_recommendations\<close>.\<close>

record release_row =
  q_assignment_id :: uuid
  q_order_id :: uuid
  q_planned_from :: time
  q_planned_to :: time
  q_last_order_id :: "uuid option"
  q_created_at :: time

record recommendation_row =
  rc_order_id :: uuid
  rc_event_id :: uuid
  rc_submitted_at :: time
  rc_requested_at :: time
  rc_created_at :: time
  rc_candidates :: "dispatch_candidate list"

section \<open>Facts about the state machine\<close>

text \<open>A rank that every transition raises, except the return of an assigned order to dispatch.\<close>

fun order_rank :: "order_status \<Rightarrow> nat" where
  "order_rank OrderDraft = 0"
| "order_rank OrderReadyForDispatch = 1"
| "order_rank OrderAssigned = 2"
| "order_rank OrderInTransit = 3"
| "order_rank OrderArrived = 4"
| "order_rank OrderCompleted = 5"
| "order_rank OrderCancelled = 5"

definition terminal :: "order_status \<Rightarrow> bool" where
  "terminal st \<longleftrightarrow> st = OrderCompleted \<or> st = OrderCancelled"

lemma terminal_no_transition: "terminal st \<longleftrightarrow> (\<forall>to. \<not> can_transition_order st to)"
  by (cases st) (auto simp: terminal_def)

lemma transition_rank:
  "can_transition_order a b \<Longrightarrow>
     order_rank a < order_rank b \<or> (a = OrderAssigned \<and> b = OrderReadyForDispatch)"
  by (cases a; cases b; simp)

text \<open>Replaying a list of recorded transitions from a start status.\<close>

fun replay :: "order_status \<Rightarrow> (order_status \<times> order_status) list \<Rightarrow> order_status option" where
  "replay st [] = Some st"
| "replay st ((from, to) # ts) =
     (if st = from \<and> can_transition_order from to then replay to ts else None)"

lemma replay_append:
  "replay st (ts @ us) = (case replay st ts of None \<Rightarrow> None | Some st' \<Rightarrow> replay st' us)"
  by (induction st ts rule: replay.induct) auto

lemma replay_snoc:
  "replay st ts = Some from \<Longrightarrow> can_transition_order from to \<Longrightarrow>
     replay st (ts @ [(from, to)]) = Some to"
  by (simp add: replay_append)

text \<open>Once on the road an order never returns to dispatch and is never cancelled.\<close>

lemma replay_on_road:
  "replay st ts = Some st' \<Longrightarrow> st = OrderInTransit \<or> st = OrderArrived \<or> st = OrderCompleted \<Longrightarrow>
     st' = OrderInTransit \<or> st' = OrderArrived \<or> st' = OrderCompleted"
  by (induction st ts rule: replay.induct) (auto split: if_splits)

end
