(* ===== verification/Database.thy ===== *)
theory Database
  imports Models
begin

text \<open>
  The PostgreSQL schema of \<^verbatim>\<open>migrations/\<close> as a state, and the generic statements of
  \<^verbatim>\<open>pkg/storage.go\<close> over it.  A table is the list of its rows; the list order stands for the
  unspecified order in which PostgreSQL returns rows without ORDER BY, and the theorems hold for
  every state.  A statement checks the table's constraints (CHECK, UNIQUE, EXCLUDE, foreign
  keys, column widths) and rounds each value to what its column stores (a TIMESTAMPTZ keeps
  microseconds, a NUMERIC column its scale).
\<close>

section \<open>Environment\<close>

text \<open>
  What an operation reads from outside the database: the \<open>k\<close>-th reading of the clock and of
  the uuid source, the pricing configuration, the route planner (Nominatim and OSRM, external
  services), \<^verbatim>\<open>net/mail\<close>'s address parser, the rounding of a NUMERIC(p, s) column, and the rows
  other transactions hold locked.  They are parameters: nothing is assumed about them unless a
  theorem says so.
\<close>

record pricing =
  base_fee :: f64
  per_km :: f64
  per_kg :: f64
  per_m3 :: f64

record coordinates =
  latitude :: f64
  longitude :: f64

record endpoint =
  ep_address :: string
  ep_coordinates :: "coordinates option"

record estimate =
  es_coordinates :: "(f64 \<times> f64) list"
  es_distance_km :: f64
  es_duration_sec :: int

datatype lock =
    LockOrder uuid | LockAssignment uuid | LockHandover uuid | LockIncident uuid
  | LockDriver uuid | LockVehicle uuid | LockWarehouse uuid | LockCounterparty uuid
  | LockOther uuid

record env =
  clock :: "nat \<Rightarrow> time"
  uuid_source :: "nat \<Rightarrow> uuid"
  pricing_conf :: pricing
  plan_route :: "endpoint \<Rightarrow> endpoint \<Rightarrow> err + estimate"
  parse_mail :: "string \<Rightarrow> string option"
  pg_numeric :: "nat \<Rightarrow> nat \<Rightarrow> f64 \<Rightarrow> f64"
  pg_fits :: "nat \<Rightarrow> nat \<Rightarrow> f64 \<Rightarrow> bool"
  busy :: "lock \<Rightarrow> bool"

section \<open>The database state\<close>

record db =
  tb_users :: "user list"
  tb_drivers :: "driver list"
  tb_driver_documents :: "driver_document list"
  tb_driver_shifts :: "driver_shift list"
  tb_vehicles :: "vehicle list"
  tb_vehicle_documents :: "vehicle_document list"
  tb_warehouses :: "warehouse list"
  tb_managers :: "manager list"
  tb_counterparties :: "counterparty list"
  tb_orders :: "order list"
  tb_routes :: "route list"
  tb_assignments :: "assignment list"
  tb_history :: "status_history list"
  tb_handovers :: "trip_handover list"
  tb_operations :: "warehouse_operation list"
  tb_incidents :: "incident list"
  tb_receipts :: "delivery_receipt list"
  tb_notifications :: "notification list"
  tb_outbox :: "outbox_row list"
  tb_inbox :: "uuid list"
  tb_recommendations :: "recommendation_row list"
  tb_release_queue :: "release_row list"
  ticks :: nat
  issued :: nat
  locks :: "lock list"

type_synonym 'a op = "(env, db, 'a) tx"

section \<open>Column values\<close>

definition ts :: "time option \<Rightarrow> time option" where
  "ts = map_option trunc_us"

definition pg_length :: "string \<Rightarrow> nat" where
  "pg_length = rune_count"

definition pg_btrim :: "string \<Rightarrow> string" where
  "pg_btrim s = rev (trim_prefix [[CHR 0x20]] (rev (trim_prefix [[CHR 0x20]] s)))"

definition text_between :: "nat \<Rightarrow> nat \<Rightarrow> string \<Rightarrow> bool" where
  "text_between lo hi s \<longleftrightarrow> lo \<le> pg_length (pg_btrim s) \<and> pg_length (pg_btrim s) \<le> hi"

definition too_wide :: "nat \<Rightarrow> string option \<Rightarrow> bool" where
  "too_wide n s = (case s of None \<Rightarrow> False | Some t \<Rightarrow> n < pg_length t)"

definition int4 :: "int \<Rightarrow> bool" where
  "int4 n \<longleftrightarrow> - (2 ^ 31) \<le> n \<and> n < 2 ^ 31"

definition opt_in :: "uuid option \<Rightarrow> uuid list \<Rightarrow> bool" where
  "opt_in x ids = (case x of None \<Rightarrow> True | Some i \<Rightarrow> i \<in> set ids)"

text \<open>The first constraint of a list that is violated.\<close>

fun first_violation :: "(bool \<times> pg_code) list \<Rightarrow> pg_code option" where
  "first_violation [] = None"
| "first_violation ((bad, c) # vs) = (if bad then Some c else first_violation vs)"

lemma first_violation_None:
  "first_violation vs = None \<longleftrightarrow> (\<forall>v \<in> set vs. \<not> fst v)"
  by (induction vs rule: first_violation.induct) auto

section \<open>Tables\<close>

record 'r table =
  rows :: "db \<Rightarrow> 'r list"
  set_rows :: "('r list \<Rightarrow> 'r list) \<Rightarrow> db \<Rightarrow> db"
  stored :: "env \<Rightarrow> 'r \<Rightarrow> 'r"
  violation :: "env \<Rightarrow> db \<Rightarrow> 'r list \<Rightarrow> 'r \<Rightarrow> pg_code option"
  lock_of :: "'r \<Rightarrow> lock"

subsection \<open>pkg/storage.go\<close>

text \<open>\<^verbatim>\<open>GetOne\<close>: the first row the query returns, \<^verbatim>\<open>ErrNotFound\<close> when there is none.\<close>

definition get_one :: "'r table \<Rightarrow> ('r \<Rightarrow> bool) \<Rightarrow> 'r op" where
  "get_one t p = (\<lambda>e s. case find p (rows t s) of None \<Rightarrow> (Inl NotFound, s) | Some r \<Rightarrow> (Inr r, s))"

text \<open>\<^verbatim>\<open>GetOne\<close> with \<^verbatim>\<open>ForUpdate()\<close>: the row is locked until the transaction ends.\<close>

definition get_one_locked :: "'r table \<Rightarrow> ('r \<Rightarrow> bool) \<Rightarrow> 'r op" where
  "get_one_locked t p = (\<lambda>e s. case find p (rows t s) of
     None \<Rightarrow> (Inl NotFound, s)
   | Some r \<Rightarrow> (Inr r, s\<lparr>locks := locks s @ [lock_of t r]\<rparr>))"

text \<open>\<^verbatim>\<open>GetAll\<close>: every row that satisfies the condition.\<close>

definition get_all :: "'r table \<Rightarrow> ('r \<Rightarrow> bool) \<Rightarrow> 'r list op" where
  "get_all t p = (\<lambda>e s. (Inr (filter p (rows t s)), s))"

text \<open>\<^verbatim>\<open>Create\<close>: INSERT of one row.\<close>

definition create :: "'r table \<Rightarrow> 'r \<Rightarrow> unit op" where
  "create t r = (\<lambda>e s. case violation t e s (rows t s) r of
     Some c \<Rightarrow> (Inl (Pg c), s)
   | None \<Rightarrow> (Inr (), set_rows t (\<lambda>rs. rs @ [stored t e r]) s))"

text \<open>\<^verbatim>\<open>Update\<close>: all columns of the rows that satisfy the condition are set to those of \<open>r\<close>.\<close>

definition update :: "'r table \<Rightarrow> ('r \<Rightarrow> bool) \<Rightarrow> 'r \<Rightarrow> unit op" where
  "update t p r = (\<lambda>e s.
     if \<not> list_ex p (rows t s) then (Inr (), s)
     else case violation t e s (filter (\<lambda>x. \<not> p x) (rows t s)) r of
       Some c \<Rightarrow> (Inl (Pg c), s)
     | None \<Rightarrow> (Inr (), set_rows t (overwrite p (stored t e r)) s))"

text \<open>\<^verbatim>\<open>SELECT EXISTS(...)\<close> and other reads that are not a whole row.\<close>

definition query :: "(db \<Rightarrow> 'a) \<Rightarrow> 'a op" where
  "query f = (\<lambda>e s. (Inr (f s), s))"

text \<open>A statement written out in SQL that changes one table.\<close>

definition exec :: "(db \<Rightarrow> db) \<Rightarrow> unit op" where
  "exec f = (\<lambda>e s. (Inr (), f s))"

definition time_now :: "time op" where
  "time_now = (\<lambda>e s. (Inr (clock e (ticks s)), s\<lparr>ticks := Suc (ticks s)\<rparr>))"

definition uuid_new :: "uuid op" where
  "uuid_new = (\<lambda>e s. (Inr (uuid_source e (issued s)), s\<lparr>issued := Suc (issued s)\<rparr>))"

definition ask :: "(env \<Rightarrow> 'a) \<Rightarrow> 'a op" where
  "ask f = (\<lambda>e s. (Inr (f e), s))"

text \<open>
  \<^verbatim>\<open>tx, err := s.db.Begin(ctx); defer tx.Rollback(ctx); ...; tx.Commit(ctx)\<close>: an error restores
  every table; the clock and the uuid source have still advanced.
\<close>

definition rollback :: "db \<Rightarrow> db \<Rightarrow> db" where
  "rollback s s' = s\<lparr>ticks := ticks s', issued := issued s', locks := locks s'\<rparr>"

definition in_tx :: "'a op \<Rightarrow> 'a op" where
  "in_tx m = (\<lambda>e s. case m e (s\<lparr>locks := []\<rparr>) of
     (Inl er, s') \<Rightarrow> (Inl er, rollback s s') | (Inr x, s') \<Rightarrow> (Inr x, s'))"

section \<open>The storage contract\<close>

text \<open>
  Every table is a field of the state that its statements, and only they, change.  The locale
  states it; it is interpreted for every table below.
\<close>

locale table_field =
  fixes t :: "'r table"
  assumes rows_set: "rows t (set_rows t f s) = f (rows t s)"
    and set_set: "set_rows t f (set_rows t g s) = set_rows t (f \<circ> g) s"
    and ticks_set: "ticks (set_rows t f s) = ticks s"
    and locks_set: "locks (set_rows t f s) = locks s"
    and rows_locks: "rows t (s\<lparr>locks := l\<rparr>) = rows t s"
begin

lemma get_one_ok:
  assumes "get_one t p e s = (Inr r, s')"
  obtains "find p (rows t s) = Some r" and "s' = s"
  using assms by (auto simp: get_one_def split: option.splits)

lemma create_then_get:
  assumes "create t r e s = (Inr u, s')" and "p (stored t e r)" and "\<forall>x \<in> set (rows t s). \<not> p x"
  shows "get_one t p e s' = (Inr (stored t e r), s')"
proof -
  have rows': "rows t s' = rows t s @ [stored t e r]"
    using assms(1) by (auto simp: create_def rows_set split: option.splits)
  have "find p (rows t s) = None" using assms(3) by (simp add: find_None_all)
  then show ?thesis using assms(2) by (simp add: get_one_def rows' find_append)
qed

lemma update_rows:
  assumes "update t p r e s = (Inr u, s')"
  shows "rows t s' = (if list_ex p (rows t s) then overwrite p (stored t e r) (rows t s) else rows t s)"
  using assms by (auto simp: update_def rows_set split: option.splits if_splits)

lemma get_one_locked_get:
  "fst (get_one_locked t p e s) = fst (get_one t p e s)"
  by (simp add: get_one_locked_def get_one_def split: option.splits)

end

end
