(* ===== verification/Schema.thy ===== *)
theory Schema
  imports Database
begin

text \<open>
  The tables: for each, what its columns keep of a row and which constraint of
  \<^verbatim>\<open>migrations/*.sql\<close> a row can violate.  A CHECK constraint is tested on the stored values,
  before the unique and exclusion constraints, and foreign keys last, as PostgreSQL does.
  Every table meets the storage contract \<open>table_field\<close>.
\<close>

section \<open>Directory tables\<close>

definition users_t :: "user table" where
  "users_t = \<lparr>rows = tb_users, set_rows = tb_users_update,
     stored = (\<lambda>e u. u\<lparr>u_created_at := trunc_us (u_created_at u), u_updated_at := trunc_us (u_updated_at u),
                    u_last_login_at := ts (u_last_login_at u)\<rparr>),
     violation = (\<lambda>e s others u. first_violation
       [(255 < pg_length (u_email u) \<or> 120 < pg_length (u_slug u) \<or> 255 < pg_length (u_password_hash u) \<or>
          150 < pg_length (u_full_name u) \<or> 512 < pg_length (u_avatar_url u) \<or> 512 < pg_length (u_role u), StringTooLong),
        (u_id u \<in> u_id ` set others, UniqueViolation),
        (u_email u \<in> u_email ` set others, UniqueViolation),
        (u_slug u \<in> u_slug ` set others, UniqueViolation)]),
     lock_of = (\<lambda>u. LockOther (u_id u))\<rparr>"

definition drivers_t :: "driver table" where
  "drivers_t = \<lparr>rows = tb_drivers, set_rows = tb_drivers_update,
     stored = (\<lambda>e d. d\<lparr>d_license_expiry := date_only (d_license_expiry d), d_rating := pg_numeric e 3 2 (d_rating d)\<rparr>),
     violation = (\<lambda>e s others d. first_violation
       [(50 < pg_length (d_license_number d) \<or> 120 < pg_length (d_slug d) \<or> 20 < pg_length (d_status d), StringTooLong),
        (\<not> pg_fits e 3 2 (d_rating d), NumericOutOfRange),
        (d_id d \<in> d_id ` set others, UniqueViolation),
        (d_slug d \<in> d_slug ` set others, UniqueViolation),
        (d_user_id d \<notin> u_id ` set (tb_users s), ForeignKeyViolation),
        (\<not> opt_in (d_vehicle_id d) (map v_id (tb_vehicles s)), ForeignKeyViolation)]),
     lock_of = (\<lambda>d. LockDriver (d_id d))\<rparr>"

definition vehicles_t :: "vehicle table" where
  "vehicles_t = \<lparr>rows = tb_vehicles, set_rows = tb_vehicles_update,
     stored = (\<lambda>e v. v\<lparr>v_capacity_kg := pg_numeric e 10 2 (v_capacity_kg v),
                    v_capacity_m3 := pg_numeric e 10 2 (v_capacity_m3 v)\<rparr>),
     violation = (\<lambda>e s others v. first_violation
       [(20 < pg_length (v_plate_number v) \<or> too_wide 50 (v_brand v) \<or> too_wide 50 (v_model v) \<or>
          20 < pg_length (v_status v) \<or> 120 < pg_length (v_slug v), StringTooLong),
        ((case v_year v of None \<Rightarrow> False | Some y \<Rightarrow> \<not> int4 y), NumericOutOfRange),
        (\<not> pg_fits e 10 2 (v_capacity_kg v) \<or> \<not> pg_fits e 10 2 (v_capacity_m3 v), NumericOutOfRange),
        (f64_lt (pg_numeric e 10 2 (v_capacity_kg v)) (Fin 0) \<or> f64_lt (pg_numeric e 10 2 (v_capacity_m3 v)) (Fin 0), CheckViolation),
        (v_id v \<in> v_id ` set others, UniqueViolation),
        (v_plate_number v \<in> v_plate_number ` set others, UniqueViolation),
        (v_slug v \<in> v_slug ` set others, UniqueViolation)]),
     lock_of = (\<lambda>v. LockVehicle (v_id v))\<rparr>"

definition warehouses_t :: "warehouse table" where
  "warehouses_t = \<lparr>rows = tb_warehouses, set_rows = tb_warehouses_update,
     stored = (\<lambda>e w. w\<lparr>w_latitude := map_option (pg_numeric e 9 6) (w_latitude w),
                    w_longitude := map_option (pg_numeric e 9 6) (w_longitude w),
                    w_created_at := trunc_us (w_created_at w)\<rparr>),
     violation = (\<lambda>e s others w. first_violation
       [(120 < pg_length (w_slug w) \<or> 150 < pg_length (w_name w) \<or> 255 < pg_length (w_address w) \<or>
          100 < pg_length (w_city w) \<or> 20 < pg_length (w_status w), StringTooLong),
        ((case w_latitude w of None \<Rightarrow> False | Some x \<Rightarrow> \<not> pg_fits e 9 6 x), NumericOutOfRange),
        ((case w_longitude w of None \<Rightarrow> False | Some x \<Rightarrow> \<not> pg_fits e 9 6 x), NumericOutOfRange),
        (w_id w \<in> w_id ` set others, UniqueViolation),
        (w_slug w \<in> w_slug ` set others, UniqueViolation)]),
     lock_of = (\<lambda>w. LockWarehouse (w_id w))\<rparr>"

definition managers_t :: "manager table" where
  "managers_t = \<lparr>rows = tb_managers, set_rows = tb_managers_update,
     stored = (\<lambda>e m. m),
     violation = (\<lambda>e s others m. first_violation
       [(120 < pg_length (m_slug m), StringTooLong),
        (m_id m \<in> m_id ` set others, UniqueViolation),
        (m_user_id m \<in> m_user_id ` set others, UniqueViolation),
        (m_slug m \<in> m_slug ` set others, UniqueViolation),
        (m_user_id m \<notin> u_id ` set (tb_users s), ForeignKeyViolation),
        (\<not> opt_in (m_warehouse_id m) (map w_id (tb_warehouses s)), ForeignKeyViolation)]),
     lock_of = (\<lambda>m. LockOther (m_id m))\<rparr>"

definition driver_documents_t :: "driver_document table" where
  "driver_documents_t = \<lparr>rows = tb_driver_documents, set_rows = tb_driver_documents_update,
     stored = (\<lambda>e x. x\<lparr>dd_valid_until := date_only (dd_valid_until x), dd_created_at := trunc_us (dd_created_at x)\<rparr>),
     violation = (\<lambda>e s others x. first_violation
       [(32 < pg_length (dd_type x) \<or> 128 < pg_length (dd_number x) \<or> 20 < pg_length (dd_status x), StringTooLong),
        (dd_status x \<notin> {''valid'', ''suspended'', ''expired''}, CheckViolation),
        (dd_id x \<in> dd_id ` set others, UniqueViolation),
        ((dd_driver_id x, dd_type x, dd_number x) \<in>
           (\<lambda>y. (dd_driver_id y, dd_type y, dd_number y)) ` set others, UniqueViolation),
        (dd_driver_id x \<notin> d_id ` set (tb_drivers s), ForeignKeyViolation)]),
     lock_of = (\<lambda>x. LockOther (dd_id x))\<rparr>"

definition driver_shifts_t :: "driver_shift table" where
  "driver_shifts_t = \<lparr>rows = tb_driver_shifts, set_rows = tb_driver_shifts_update,
     stored = (\<lambda>e x. x\<lparr>ds_starts_at := trunc_us (ds_starts_at x), ds_ends_at := trunc_us (ds_ends_at x)\<rparr>),
     violation = (\<lambda>e s others x. first_violation
       [(\<not> trunc_us (ds_starts_at x) < trunc_us (ds_ends_at x), CheckViolation),
        (ds_id x \<in> ds_id ` set others, UniqueViolation),
        (ds_driver_id x \<notin> d_id ` set (tb_drivers s), ForeignKeyViolation)]),
     lock_of = (\<lambda>x. LockOther (ds_id x))\<rparr>"

definition vehicle_documents_t :: "vehicle_document table" where
  "vehicle_documents_t = \<lparr>rows = tb_vehicle_documents, set_rows = tb_vehicle_documents_update,
     stored = (\<lambda>e x. x\<lparr>vd_valid_until := date_only (vd_valid_until x), vd_created_at := trunc_us (vd_created_at x)\<rparr>),
     violation = (\<lambda>e s others x. first_violation
       [(32 < pg_length (vd_type x) \<or> 128 < pg_length (vd_number x) \<or> 20 < pg_length (vd_status x), StringTooLong),
        (vd_status x \<notin> {''valid'', ''suspended'', ''expired''}, CheckViolation),
        (vd_id x \<in> vd_id ` set others, UniqueViolation),
        ((vd_vehicle_id x, vd_type x, vd_number x) \<in>
           (\<lambda>y. (vd_vehicle_id y, vd_type y, vd_number y)) ` set others, UniqueViolation),
        (vd_vehicle_id x \<notin> v_id ` set (tb_vehicles s), ForeignKeyViolation)]),
     lock_of = (\<lambda>x. LockOther (vd_id x))\<rparr>"

text \<open>The CHECK constraint on kind, INN and KPP.\<close>

definition tax_numbers_ok :: "string \<Rightarrow> string \<Rightarrow> string \<Rightarrow> bool" where
  "tax_numbers_ok kind inn kpp \<longleftrightarrow>
     kind = ''organization'' \<and> ascii_digits inn 10 \<and> (kpp = [] \<or> ascii_digits kpp 9) \<or>
     kind = ''entrepreneur'' \<and> ascii_digits inn 12 \<and> kpp = [] \<or>
     kind = ''individual'' \<and> (inn = [] \<or> ascii_digits inn 12) \<and> kpp = []"

definition counterparties_t :: "counterparty table" where
  "counterparties_t = \<lparr>rows = tb_counterparties, set_rows = tb_counterparties_update,
     stored = (\<lambda>e c. c\<lparr>cp_created_at := trunc_us (cp_created_at c), cp_updated_at := trunc_us (cp_updated_at c)\<rparr>),
     violation = (\<lambda>e s others c. first_violation
       [(cp_kind c \<notin> {''organization'', ''entrepreneur'', ''individual''}, CheckViolation),
        (cp_status c \<notin> {''active'', ''archived''}, CheckViolation),
        (\<not> text_between 1 300 (cp_name c), CheckViolation),
        (\<not> text_between 1 1000 (cp_address c), CheckViolation),
        (\<not> text_between 1 200 (cp_contact_name c), CheckViolation),
        (40 < pg_length (cp_phone c) \<or> 254 < pg_length (cp_email c), CheckViolation),
        (\<not> tax_numbers_ok (cp_kind c) (cp_inn c) (cp_kpp c), CheckViolation),
        (cp_id c \<in> cp_id ` set others, UniqueViolation),
        (cp_owner_user_id c \<notin> u_id ` set (tb_users s), ForeignKeyViolation)]),
     lock_of = (\<lambda>c. LockCounterparty (cp_id c))\<rparr>"

section \<open>Orders and routes\<close>

definition order_row :: "env \<Rightarrow> order \<Rightarrow> order" where
  "order_row e x = x\<lparr>
     o_weight_kg := pg_numeric e 10 2 (o_weight_kg x), o_volume_m3 := pg_numeric e 10 2 (o_volume_m3 x),
     o_total_price := map_option (pg_numeric e 12 2) (o_total_price x),
     o_pickup_from := ts (o_pickup_from x), o_pickup_to := ts (o_pickup_to x),
     o_created_at := trunc_us (o_created_at x), o_submitted_at := ts (o_submitted_at x),
     o_assigned_at := ts (o_assigned_at x), o_started_at := ts (o_started_at x),
     o_arrived_at := ts (o_arrived_at x), o_delivered_at := ts (o_delivered_at x),
     o_cancelled_at := ts (o_cancelled_at x)\<rparr>"

definition order_violation :: "env \<Rightarrow> db \<Rightarrow> order list \<Rightarrow> order \<Rightarrow> pg_code option" where
  "order_violation e s others x = (let r = order_row e x in first_violation
     [(255 < pg_length (o_origin_address x) \<or> 255 < pg_length (o_dest_address x), StringTooLong),
      (\<not> pg_fits e 10 2 (o_weight_kg x) \<or> \<not> pg_fits e 10 2 (o_volume_m3 x), NumericOutOfRange),
      ((case o_total_price x of None \<Rightarrow> False | Some p \<Rightarrow> \<not> pg_fits e 12 2 p), NumericOutOfRange),
      (o_policy_version x \<notin> {0, 1}, CheckViolation),
      (f64_lt (o_weight_kg r) (Fin 0) \<or> f64_lt (o_volume_m3 r) (Fin 0), CheckViolation),
      ((case (o_pickup_from r, o_pickup_to r) of (Some f, Some t) \<Rightarrow> \<not> f < t | _ \<Rightarrow> False), CheckViolation),
      (o_status x = OrderCompleted \<and> o_delivered_at x = None, CheckViolation),
      (o_status x = OrderCancelled \<and> o_cancelled_at x = None, CheckViolation),
      (o_id x \<in> o_id ` set others, UniqueViolation),
      (\<not> opt_in (o_created_by x) (map u_id (tb_users s)), ForeignKeyViolation),
      (\<not> opt_in (o_driver_id x) (map d_id (tb_drivers s)), ForeignKeyViolation),
      (\<not> opt_in (o_manager_id x) (map m_id (tb_managers s)), ForeignKeyViolation),
      (\<not> opt_in (o_origin_warehouse x) (map w_id (tb_warehouses s)), ForeignKeyViolation),
      (\<not> opt_in (o_dest_warehouse x) (map w_id (tb_warehouses s)), ForeignKeyViolation)])"

definition orders_t :: "order table" where
  "orders_t = \<lparr>rows = tb_orders, set_rows = tb_orders_update, stored = order_row,
     violation = order_violation, lock_of = (\<lambda>x. LockOrder (o_id x))\<rparr>"

definition routes_t :: "route table" where
  "routes_t = \<lparr>rows = tb_routes, set_rows = tb_routes_update,
     stored = (\<lambda>e x. x\<lparr>ro_started_at := ts (ro_started_at x), ro_finished_at := ts (ro_finished_at x),
                    ro_distance_km := map_option (pg_numeric e 10 2) (ro_distance_km x)\<rparr>),
     violation = (\<lambda>e s others x. first_violation
       [((case ro_distance_km x of None \<Rightarrow> False | Some d \<Rightarrow> \<not> pg_fits e 10 2 d), NumericOutOfRange),
        (\<not> int4 (ro_current_index x), NumericOutOfRange),
        ((case ro_duration_sec x of None \<Rightarrow> False | Some n \<Rightarrow> \<not> int4 n), NumericOutOfRange),
        (ro_id x \<in> ro_id ` set others, UniqueViolation),
        (ro_order_id x \<in> ro_order_id ` set others, UniqueViolation),
        (ro_order_id x \<notin> o_id ` set (tb_orders s), ForeignKeyViolation),
        (\<not> opt_in (ro_driver_id x) (map d_id (tb_drivers s)), ForeignKeyViolation)]),
     lock_of = (\<lambda>x. LockOther (ro_id x))\<rparr>"

section \<open>Assignments\<close>

text \<open>\<^verbatim>\<open>tstzrange(planned_from, planned_to, '[)') && ...\<close>.\<close>

definition windows_overlap :: "assignment \<Rightarrow> assignment \<Rightarrow> bool" where
  "windows_overlap x y \<longleftrightarrow>
     a_planned_from x < a_planned_to y \<and> a_planned_from y < a_planned_to x"

definition assignment_row :: "env \<Rightarrow> assignment \<Rightarrow> assignment" where
  "assignment_row e x = x\<lparr>
     a_planned_from := trunc_us (a_planned_from x), a_planned_to := trunc_us (a_planned_to x),
     a_recommendation_at := ts (a_recommendation_at x), a_assigned_at := trunc_us (a_assigned_at x),
     a_offer_expires_at := trunc_us (a_offer_expires_at x), a_accepted_at := ts (a_accepted_at x),
     a_rejected_at := ts (a_rejected_at x), a_released_at := ts (a_released_at x),
     a_started_at := ts (a_started_at x), a_completed_at := ts (a_completed_at x)\<rparr>"

definition assignment_violation :: "env \<Rightarrow> db \<Rightarrow> assignment list \<Rightarrow> assignment \<Rightarrow> pg_code option" where
  "assignment_violation e s others x = (let r = assignment_row e x in first_violation
     [(too_wide 255 (a_recommendation_id x) \<or> too_wide 255 (a_recipient_name x), StringTooLong),
      (too_wide 64 (a_rejection_code x) \<or> too_wide 64 (a_release_code x), StringTooLong),
      (a_source x \<notin> {''manual'', ''dispatch_recommendation''}, CheckViolation),
      (\<not> a_planned_from r < a_planned_to r, CheckViolation),
      (\<not> a_assigned_at r < a_offer_expires_at r, CheckViolation),
      (a_status x \<in> {AssignmentAccepted, AssignmentActive, AssignmentCompleted} \<and> a_accepted_at x = None,
         CheckViolation),
      (a_status x \<in> {AssignmentActive, AssignmentCompleted} \<and> a_started_at x = None, CheckViolation),
      (a_status x = AssignmentCompleted \<and> a_completed_at x = None, CheckViolation),
      (a_status x = AssignmentRejected \<and> a_rejected_at x = None, CheckViolation),
      (a_status x = AssignmentReleased \<and> a_released_at x = None, CheckViolation),
      (a_id x \<in> a_id ` set others, UniqueViolation),
      (open_status (a_status x) \<and> list_ex (\<lambda>y. open_status (a_status y) \<and> a_order_id y = a_order_id x) others,
         UniqueViolation),
      (open_status (a_status x) \<and> list_ex (\<lambda>y. open_status (a_status y) \<and> a_driver_id y = a_driver_id x \<and>
         windows_overlap r y) others, ExclusionViolation),
      (open_status (a_status x) \<and> list_ex (\<lambda>y. open_status (a_status y) \<and> a_vehicle_id y = a_vehicle_id x \<and>
         windows_overlap r y) others, ExclusionViolation),
      (a_order_id x \<notin> o_id ` set (tb_orders s), ForeignKeyViolation),
      (a_driver_id x \<notin> d_id ` set (tb_drivers s), ForeignKeyViolation),
      (a_vehicle_id x \<notin> v_id ` set (tb_vehicles s), ForeignKeyViolation),
      (a_created_by x \<notin> u_id ` set (tb_users s), ForeignKeyViolation)])"

definition assignments_t :: "assignment table" where
  "assignments_t = \<lparr>rows = tb_assignments, set_rows = tb_assignments_update, stored = assignment_row,
     violation = assignment_violation, lock_of = (\<lambda>x. LockAssignment (a_id x))\<rparr>"

definition history_t :: "status_history table" where
  "history_t = \<lparr>rows = tb_history, set_rows = tb_history_update,
     stored = (\<lambda>e x. x\<lparr>h_created_at := trunc_us (h_created_at x)\<rparr>),
     violation = (\<lambda>e s others x. first_violation
       [(too_wide 64 (h_reason x), StringTooLong),
        (h_id x \<in> h_id ` set others, UniqueViolation),
        (h_order_id x \<notin> o_id ` set (tb_orders s), ForeignKeyViolation),
        (\<not> opt_in (h_actor x) (map u_id (tb_users s)), ForeignKeyViolation)]),
     lock_of = (\<lambda>x. LockOther (h_id x))\<rparr>"

section \<open>Handovers, warehouse operations, incidents, receipts\<close>

definition handover_row :: "env \<Rightarrow> trip_handover \<Rightarrow> trip_handover" where
  "handover_row e x = x\<lparr>t_planned_to := trunc_us (t_planned_to x), t_created_at := trunc_us (t_created_at x),
     t_expires_at := trunc_us (t_expires_at x), t_outgoing_confirmed := ts (t_outgoing_confirmed x),
     t_completed_at := ts (t_completed_at x)\<rparr>"

definition handovers_t :: "trip_handover table" where
  "handovers_t = \<lparr>rows = tb_handovers, set_rows = tb_handovers_update, stored = handover_row,
     violation = (\<lambda>e s others x. first_violation
       [(\<not> text_between 1 1000 (t_reason x) \<or> \<not> text_between 1 1000 (t_location x), CheckViolation),
        (\<not> text_between 1 2000 (t_cargo_condition x), CheckViolation),
        (t_status x \<notin> {''pending'', ''completed'', ''cancelled'', ''expired''}, CheckViolation),
        (\<not> trunc_us (t_created_at x) < trunc_us (t_expires_at x), CheckViolation),
        (t_status x = ''completed'' \<and>
           (t_next_assignment x = None \<or> t_outgoing_confirmed x = None \<or> t_completed_at x = None), CheckViolation),
        (t_id x \<in> t_id ` set others, UniqueViolation),
        (t_status x = ''pending'' \<and> list_ex (\<lambda>y. t_status y = ''pending'' \<and> t_order_id y = t_order_id x) others,
           UniqueViolation),
        (t_order_id x \<notin> o_id ` set (tb_orders s), ForeignKeyViolation),
        (t_previous_assignment x \<notin> a_id ` set (tb_assignments s), ForeignKeyViolation),
        (\<not> opt_in (t_next_assignment x) (map a_id (tb_assignments s)), ForeignKeyViolation),
        (t_driver_id x \<notin> d_id ` set (tb_drivers s), ForeignKeyViolation),
        (t_vehicle_id x \<notin> v_id ` set (tb_vehicles s), ForeignKeyViolation),
        (t_created_by x \<notin> u_id ` set (tb_users s), ForeignKeyViolation)]),
     lock_of = (\<lambda>x. LockHandover (t_id x))\<rparr>"

definition operations_t :: "warehouse_operation table" where
  "operations_t = \<lparr>rows = tb_operations, set_rows = tb_operations_update,
     stored = (\<lambda>e x. x\<lparr>wo_occurred_at := trunc_us (wo_occurred_at x)\<rparr>),
     violation = (\<lambda>e s others x. first_violation
       [(\<not> int4 (wo_package_count x), NumericOutOfRange),
        (wo_type x \<notin> {''receive'', ''load'', ''unload'', ''undo_load'', ''return_to_sender''}, CheckViolation),
        (wo_package_count x < 0 \<or> (wo_type x \<in> {''receive'', ''load''} \<and> wo_package_count x = 0), CheckViolation),
        (\<not> text_between 1 2000 (wo_cargo_condition x), CheckViolation),
        (2000 < pg_length (wo_comment x) \<or> 200 < pg_length (wo_recipient_name x), CheckViolation),
        ((wo_type x \<in> {''receive'', ''return_to_sender''}) \<noteq> (wo_assignment_id x = None), CheckViolation),
        (wo_id x \<in> wo_id ` set others, UniqueViolation),
        ((wo_order_id x, wo_type x, wo_assignment_id x) \<in>
           (\<lambda>y. (wo_order_id y, wo_type y, wo_assignment_id y)) ` set others, UniqueViolation),
        (wo_order_id x \<notin> o_id ` set (tb_orders s), ForeignKeyViolation),
        (wo_warehouse_id x \<notin> w_id ` set (tb_warehouses s), ForeignKeyViolation),
        (\<not> opt_in (wo_assignment_id x) (map a_id (tb_assignments s)), ForeignKeyViolation),
        (wo_created_by x \<notin> u_id ` set (tb_users s), ForeignKeyViolation)]),
     lock_of = (\<lambda>x. LockOther (wo_id x))\<rparr>"

definition incidents_t :: "incident table" where
  "incidents_t = \<lparr>rows = tb_incidents, set_rows = tb_incidents_update,
     stored = (\<lambda>e x. x\<lparr>i_reported_at := trunc_us (i_reported_at x), i_resolved_at := ts (i_resolved_at x)\<rparr>),
     violation = (\<lambda>e s others x. first_violation
       [(\<not> (case i_expected_packages x of None \<Rightarrow> True | Some n \<Rightarrow> int4 n), NumericOutOfRange),
        (\<not> (case i_actual_packages x of None \<Rightarrow> True | Some n \<Rightarrow> int4 n), NumericOutOfRange),
        (i_kind x \<notin> {''vehicle_breakdown'', ''cargo_damage'', ''quantity_discrepancy'', ''recipient_refusal'', ''other''},
           CheckViolation),
        (\<not> text_between 1 2000 (i_description x), CheckViolation),
        ((case i_expected_packages x of None \<Rightarrow> False | Some n \<Rightarrow> n < 0), CheckViolation),
        ((case i_actual_packages x of None \<Rightarrow> False | Some n \<Rightarrow> n < 0), CheckViolation),
        (2000 < pg_length (i_resolution_note x) \<or> 200 < pg_length (i_recipient_name x), CheckViolation),
        (\<not> (i_status x = ''open'' \<and> i_resolved_at x = None \<and> i_resolved_by x = None \<and> i_resolution x = [] \<or>
            i_status x = ''resolved'' \<and> i_resolved_at x \<noteq> None \<and> i_resolved_by x \<noteq> None \<and>
            pg_btrim (i_resolution_note x) \<noteq> [] \<and> i_resolution x \<noteq> []), CheckViolation),
        (i_kind x = ''quantity_discrepancy'' \<and> (i_expected_packages x = None \<or> i_actual_packages x = None \<or>
           i_expected_packages x = i_actual_packages x), CheckViolation),
        (i_id x \<in> i_id ` set others, UniqueViolation),
        (i_source_operation x \<noteq> None \<and> (i_source_operation x, i_kind x) \<in>
           (\<lambda>y. (i_source_operation y, i_kind y)) ` set others, UniqueViolation),
        (i_order_id x \<notin> o_id ` set (tb_orders s), ForeignKeyViolation),
        (\<not> opt_in (i_assignment_id x) (map a_id (tb_assignments s)), ForeignKeyViolation),
        (\<not> opt_in (i_warehouse_id x) (map w_id (tb_warehouses s)), ForeignKeyViolation),
        (\<not> opt_in (i_source_operation x) (map wo_id (tb_operations s)), ForeignKeyViolation),
        (i_reported_by x \<notin> u_id ` set (tb_users s), ForeignKeyViolation),
        (\<not> opt_in (i_resolved_by x) (map u_id (tb_users s)), ForeignKeyViolation)]),
     lock_of = (\<lambda>x. LockIncident (i_id x))\<rparr>"

definition receipts_t :: "delivery_receipt table" where
  "receipts_t = \<lparr>rows = tb_receipts, set_rows = tb_receipts_update,
     stored = (\<lambda>e x. x\<lparr>r_received_at := trunc_us (r_received_at x), r_recorded_at := trunc_us (r_recorded_at x)\<rparr>),
     violation = (\<lambda>e s others x. first_violation
       [(\<not> int4 (r_package_count x), NumericOutOfRange),
        (\<not> text_between 1 200 (r_recipient_name x) \<or> \<not> text_between 1 200 (r_recipient_role x), CheckViolation),
        (\<not> text_between 1 1000 (r_authority_basis x) \<or> \<not> text_between 1 2000 (r_cargo_condition x), CheckViolation),
        (r_package_count x < 0, CheckViolation),
        (100 < pg_length (r_seal_number x) \<or> 2000 < pg_length (r_comment x), CheckViolation),
        (r_id x \<in> r_id ` set others, UniqueViolation),
        (r_order_id x \<in> r_order_id ` set others, UniqueViolation),
        (r_assignment_id x \<in> r_assignment_id ` set others, UniqueViolation),
        (r_order_id x \<notin> o_id ` set (tb_orders s), ForeignKeyViolation),
        (r_assignment_id x \<notin> a_id ` set (tb_assignments s), ForeignKeyViolation),
        (r_recorded_by x \<notin> u_id ` set (tb_users s), ForeignKeyViolation)]),
     lock_of = (\<lambda>x. LockOther (r_id x))\<rparr>"

section \<open>Notifications and the outbox\<close>

definition notifications_t :: "notification table" where
  "notifications_t = \<lparr>rows = tb_notifications, set_rows = tb_notifications_update,
     stored = (\<lambda>e x. x\<lparr>n_created_at := trunc_us (n_created_at x)\<rparr>),
     violation = (\<lambda>e s others x. first_violation
       [(n_id x \<in> n_id ` set others, UniqueViolation),
        (n_user_id x \<notin> u_id ` set (tb_users s), ForeignKeyViolation)]),
     lock_of = (\<lambda>x. LockOther (n_id x))\<rparr>"

definition outbox_t :: "outbox_row table" where
  "outbox_t = \<lparr>rows = tb_outbox, set_rows = tb_outbox_update,
     stored = (\<lambda>e x. x\<lparr>x_created_at := trunc_us (x_created_at x), x_published_at := ts (x_published_at x)\<rparr>),
     violation = (\<lambda>e s others x. first_violation [(x_id x \<in> x_id ` set others, UniqueViolation)]),
     lock_of = (\<lambda>x. LockOther (x_id x))\<rparr>"

section \<open>Every table meets the storage contract\<close>

lemmas table_defs =
  users_t_def drivers_t_def vehicles_t_def warehouses_t_def managers_t_def driver_documents_t_def
  driver_shifts_t_def vehicle_documents_t_def counterparties_t_def orders_t_def routes_t_def
  assignments_t_def history_t_def handovers_t_def operations_t_def incidents_t_def receipts_t_def
  notifications_t_def outbox_t_def

lemma table_rows [simp]:
  "rows users_t = tb_users" "rows drivers_t = tb_drivers" "rows vehicles_t = tb_vehicles"
  "rows warehouses_t = tb_warehouses" "rows managers_t = tb_managers"
  "rows driver_documents_t = tb_driver_documents" "rows driver_shifts_t = tb_driver_shifts"
  "rows vehicle_documents_t = tb_vehicle_documents" "rows counterparties_t = tb_counterparties"
  "rows orders_t = tb_orders" "rows routes_t = tb_routes" "rows assignments_t = tb_assignments"
  "rows history_t = tb_history" "rows handovers_t = tb_handovers" "rows operations_t = tb_operations"
  "rows incidents_t = tb_incidents" "rows receipts_t = tb_receipts"
  "rows notifications_t = tb_notifications" "rows outbox_t = tb_outbox"
  by (simp_all add: table_defs)

lemma table_set_rows [simp]:
  "set_rows users_t = tb_users_update" "set_rows drivers_t = tb_drivers_update"
  "set_rows vehicles_t = tb_vehicles_update" "set_rows warehouses_t = tb_warehouses_update"
  "set_rows managers_t = tb_managers_update"
  "set_rows driver_documents_t = tb_driver_documents_update"
  "set_rows driver_shifts_t = tb_driver_shifts_update"
  "set_rows vehicle_documents_t = tb_vehicle_documents_update"
  "set_rows counterparties_t = tb_counterparties_update" "set_rows orders_t = tb_orders_update"
  "set_rows routes_t = tb_routes_update" "set_rows assignments_t = tb_assignments_update"
  "set_rows history_t = tb_history_update" "set_rows handovers_t = tb_handovers_update"
  "set_rows operations_t = tb_operations_update" "set_rows incidents_t = tb_incidents_update"
  "set_rows receipts_t = tb_receipts_update" "set_rows notifications_t = tb_notifications_update"
  "set_rows outbox_t = tb_outbox_update"
  by (simp_all add: table_defs)

lemma table_stored [simp]:
  "stored orders_t = order_row" "stored assignments_t = assignment_row" "stored handovers_t = handover_row"
  "violation orders_t = order_violation" "violation assignments_t = assignment_violation"
  "stored outbox_t = (\<lambda>e x. x\<lparr>x_created_at := trunc_us (x_created_at x), x_published_at := ts (x_published_at x)\<rparr>)"
  "stored history_t = (\<lambda>e x. x\<lparr>h_created_at := trunc_us (h_created_at x)\<rparr>)"
  "stored notifications_t = (\<lambda>e x. x\<lparr>n_created_at := trunc_us (n_created_at x)\<rparr>)"
  "stored operations_t = (\<lambda>e x. x\<lparr>wo_occurred_at := trunc_us (wo_occurred_at x)\<rparr>)"
  "stored incidents_t = (\<lambda>e x. x\<lparr>i_reported_at := trunc_us (i_reported_at x), i_resolved_at := ts (i_resolved_at x)\<rparr>)"
  "stored receipts_t = (\<lambda>e x. x\<lparr>r_received_at := trunc_us (r_received_at x), r_recorded_at := trunc_us (r_recorded_at x)\<rparr>)"
  "stored counterparties_t = (\<lambda>e c. c\<lparr>cp_created_at := trunc_us (cp_created_at c), cp_updated_at := trunc_us (cp_updated_at c)\<rparr>)"
  "stored managers_t = (\<lambda>e m. m)"
  by (simp_all add: table_defs)

lemma table_locks [simp]:
  "lock_of orders_t x = LockOrder (o_id x)" "lock_of assignments_t a = LockAssignment (a_id a)"
  "lock_of drivers_t d = LockDriver (d_id d)" "lock_of vehicles_t v = LockVehicle (v_id v)"
  "lock_of handovers_t h = LockHandover (t_id h)" "lock_of incidents_t i = LockIncident (i_id i)"
  "lock_of counterparties_t c = LockCounterparty (cp_id c)"
  by (simp_all add: table_defs)

interpretation users_f: table_field users_t by unfold_locales simp_all
interpretation drivers_f: table_field drivers_t by unfold_locales simp_all
interpretation vehicles_f: table_field vehicles_t by unfold_locales simp_all
interpretation warehouses_f: table_field warehouses_t by unfold_locales simp_all
interpretation managers_f: table_field managers_t by unfold_locales simp_all
interpretation driver_documents_f: table_field driver_documents_t by unfold_locales simp_all
interpretation driver_shifts_f: table_field driver_shifts_t by unfold_locales simp_all
interpretation vehicle_documents_f: table_field vehicle_documents_t by unfold_locales simp_all
interpretation counterparties_f: table_field counterparties_t by unfold_locales simp_all
interpretation orders_f: table_field orders_t by unfold_locales simp_all
interpretation routes_f: table_field routes_t by unfold_locales simp_all
interpretation assignments_f: table_field assignments_t by unfold_locales simp_all
interpretation history_f: table_field history_t by unfold_locales simp_all
interpretation handovers_f: table_field handovers_t by unfold_locales simp_all
interpretation operations_f: table_field operations_t by unfold_locales simp_all
interpretation incidents_f: table_field incidents_t by unfold_locales simp_all
interpretation receipts_f: table_field receipts_t by unfold_locales simp_all
interpretation notifications_f: table_field notifications_t by unfold_locales simp_all
interpretation outbox_f: table_field outbox_t by unfold_locales simp_all

section \<open>Symbolic execution of the statements\<close>

lemma get_one_run [runs]:
  assumes "get_one t p e s = (Inr r, s')"
  obtains "find p (rows t s) = Some r" and "s' = s"
  using assms by (auto simp: get_one_def split: option.splits)

lemma get_one_locked_run [runs]:
  assumes "get_one_locked t p e s = (Inr r, s')"
  obtains "find p (rows t s) = Some r" and "s' = s\<lparr>locks := locks s @ [lock_of t r]\<rparr>"
  using assms by (auto simp: get_one_locked_def split: option.splits)

lemma get_one_missing [runs]:
  assumes "get_one t p e s = (Inl er, s')"
  obtains "find p (rows t s) = None" and "er = NotFound" and "s' = s"
  using assms by (auto simp: get_one_def split: option.splits)

lemma get_one_locked_missing [runs]:
  assumes "get_one_locked t p e s = (Inl er, s')"
  obtains "find p (rows t s) = None" and "er = NotFound" and "s' = s"
  using assms by (auto simp: get_one_locked_def split: option.splits)

lemma get_all_run [runs]:
  assumes "get_all t p e s = (Inr rs, s')"
  obtains "rs = filter p (rows t s)" and "s' = s"
proof (rule that)
  show "rs = filter p (rows t s)" and "s' = s" using assms unfolding get_all_def by auto
qed

lemma create_run [runs]:
  assumes "create t r e s = (Inr u, s')"
  obtains "violation t e s (rows t s) r = None"
    and "s' = set_rows t (\<lambda>rs. rs @ [stored t e r]) s"
  using assms by (auto simp: create_def split: option.splits)

lemma update_run [runs]:
  assumes "update t p r e s = (Inr u, s')"
  obtains "\<not> list_ex p (rows t s)" and "s' = s"
  | "list_ex p (rows t s)" and "s' = set_rows t (overwrite p (stored t e r)) s"
  using assms by (auto simp: update_def split: option.splits if_splits)

lemma update_constraints:
  assumes "update t p r e s = (Inr u, s')" and "list_ex p (rows t s)"
  shows "violation t e s (filter (\<lambda>x. \<not> p x) (rows t s)) r = None"
  using assms by (auto simp: update_def split: option.splits)

lemma query_run [runs]:
  assumes "query f e s = (Inr r, s')"
  obtains "r = f s" and "s' = s"
proof (rule that)
  show "r = f s" and "s' = s" using assms unfolding query_def by auto
qed

lemma exec_run [runs]:
  assumes "exec f e s = (Inr u, s')"
  obtains "s' = f s"
proof (rule that)
  show "s' = f s" using assms unfolding exec_def by simp
qed

lemma ask_run [runs]:
  assumes "ask f e s = (Inr r, s')"
  obtains "r = f e" and "s' = s"
proof (rule that)
  show "r = f e" and "s' = s" using assms unfolding ask_def by auto
qed

lemma time_now_run [runs]:
  assumes "time_now e s = (Inr now, s')"
  obtains "now = clock e (ticks s)" and "s' = s\<lparr>ticks := Suc (ticks s)\<rparr>"
  using assms by (auto simp: time_now_def)

lemma uuid_new_run [runs]:
  assumes "uuid_new e s = (Inr u, s')"
  obtains "u = uuid_source e (issued s)" and "s' = s\<lparr>issued := Suc (issued s)\<rparr>"
  using assms by (auto simp: uuid_new_def)

lemma in_tx_run [runs]:
  assumes "in_tx m e s = (Inr x, s')"
  obtains "m e (s\<lparr>locks := []\<rparr>) = (Inr x, s')"
  using assms by (auto simp: in_tx_def split: prod.splits sum.splits)

lemma in_tx_error:
  assumes "in_tx m e s = (Inl er, s')"
  obtains t where "s' = rollback s t"
  using assms by (auto simp: in_tx_def split: prod.splits sum.splits)

end
