(* ===== verification/Recording.thy ===== *)
theory Recording
  imports Schema "HOL-Library.Product_Lexorder"
begin

text \<open>
  What every command records beside its own rows: notifications, the order's status history,
  dispatch requests in the outbox, freed bookings in the release queue, and the snapshot of
  an order that a document is printed from (internal/services: assignment.go, dispatch.go,
  operational_documents.go, transport_document_fields.go).
\<close>

section \<open>Notifications and status history (assignment.go)\<close>

definition notify :: "uuid \<Rightarrow> notice \<Rightarrow> unit op" where
  "notify user text =
    bind uuid_new (\<lambda>i. bind time_now (\<lambda>now.
    create notifications_t
      \<lparr>n_id = i, n_user_id = user, n_notice = text, n_document_id = None, n_is_read = False,
       n_created_at = now\<rparr>))"

definition record_order_status ::
  "uuid \<Rightarrow> order_status \<Rightarrow> order_status \<Rightarrow> uuid \<Rightarrow> string option \<Rightarrow> unit op" where
  "record_order_status order from to actor reason =
    bind uuid_new (\<lambda>i. bind time_now (\<lambda>now.
    create history_t
      \<lparr>h_id = i, h_order_id = order, h_from = Some from, h_to = to, h_actor = Some actor,
       h_reason = reason, h_created_at = now\<rparr>))"

section \<open>Dispatch requests (dispatch.go)\<close>

definition build_dispatch_request :: "order \<Rightarrow> dispatch_request op" where
  "build_dispatch_request ord =
    bind uuid_new (\<lambda>i. bind (deref (o_submitted_at ord)) (\<lambda>submitted. bind time_now (\<lambda>now.
    return \<lparr>dr_event_id = i, dr_order_id = o_id ord, dr_submitted_at = trunc_us submitted,
            dr_requested_at = trunc_us now\<rparr>)))"

definition dispatch_subject :: string where
  "dispatch_subject = ''dispatch.requested.v1''"

text \<open>The partial unique index \<^verbatim>\<open>integration_outbox_dispatch_pending_order_idx\<close>.\<close>

definition pending_dispatch :: "uuid \<Rightarrow> outbox_row \<Rightarrow> bool" where
  "pending_dispatch order x \<longleftrightarrow> x_subject x = dispatch_subject \<and> x_published_at x = None \<and>
     (case x_payload x of DispatchRequestedP q \<Rightarrow> dr_order_id q = order | _ \<Rightarrow> False)"

text \<open>
  \<^verbatim>\<open>INSERT ... ON CONFLICT ((payload->>'order_id')) ... DO UPDATE SET id, payload, created_at
  WHERE integration_outbox.created_at <= EXCLUDED.created_at\<close>: an unsent request of the order
  is replaced by a request that is not older, an older one is dropped.
\<close>

definition upsert_dispatch :: "dispatch_request \<Rightarrow> unit op" where
  "upsert_dispatch q = (\<lambda>e s.
    let new = \<lparr>x_id = dr_event_id q, x_subject = dispatch_subject, x_payload = DispatchRequestedP q,
               x_created_at = trunc_us (dr_requested_at q), x_published_at = None\<rparr>;
        old = (\<lambda>x. pending_dispatch (dr_order_id q) x);
        ids = x_id ` set (filter (\<lambda>x. \<not> old x) (tb_outbox s))
    in if list_ex old (tb_outbox s) then
         if list_ex (\<lambda>x. old x \<and> x_created_at x \<le> x_created_at new) (tb_outbox s) then
           if x_id new \<in> ids then (Inl (Pg UniqueViolation), s)
           else (Inr (), s\<lparr>tb_outbox := overwrite (\<lambda>x. old x \<and> x_created_at x \<le> x_created_at new) new (tb_outbox s)\<rparr>)
         else (Inr (), s)
       else if x_id new \<in> ids then (Inl (Pg UniqueViolation), s)
       else (Inr (), s\<lparr>tb_outbox := tb_outbox s @ [new]\<rparr>))"

definition enqueue_dispatch_request :: "order \<Rightarrow> unit op" where
  "enqueue_dispatch_request ord = bind (build_dispatch_request ord) upsert_dispatch"

text \<open>
  \<^verbatim>\<open>INSERT INTO dispatch_release_queue ... ON CONFLICT (assignment_id) DO NOTHING\<close>; its
  \<^verbatim>\<open>created_at\<close> defaults to \<^verbatim>\<open>NOW()\<close>, one more reading of a clock.
\<close>

definition enqueue_dispatch_after_release :: "assignment \<Rightarrow> unit op" where
  "enqueue_dispatch_after_release rel =
    bind time_now (\<lambda>now.
    bind (query (\<lambda>s. list_ex (\<lambda>q. q_assignment_id q = a_id rel) (tb_release_queue s))) (\<lambda>queued.
    seq (fail_if (\<not> trunc_us (a_planned_from rel) < trunc_us (a_planned_to rel)) (Pg CheckViolation))
    (when_do (\<not> queued) (exec (\<lambda>s. s\<lparr>tb_release_queue := tb_release_queue s @
      [\<lparr>q_assignment_id = a_id rel, q_order_id = a_order_id rel,
        q_planned_from = trunc_us (a_planned_from rel), q_planned_to = trunc_us (a_planned_to rel),
        q_last_order_id = None, q_created_at = trunc_us now\<rparr>]\<rparr>)))))"

section \<open>Document snapshots\<close>

definition read_transport_details :: "order \<Rightarrow> err + transport_details option" where
  "read_transport_details ord = (case o_details ord of
     NoDetails \<Rightarrow> Inr None | Details d \<Rightarrow> Inr (Some d) | BadDetails \<Rightarrow> Inl JsonError)"

definition transport_document_fields ::
  "order \<Rightarrow> delivery_receipt option \<Rightarrow> err + doc_field list" where
  "transport_document_fields ord receipt = (case read_transport_details ord of
     Inl er \<Rightarrow> Inl er
   | Inr details \<Rightarrow> Inr (
       (case details of None \<Rightarrow> [] | Some d \<Rightarrow>
          [FParty Sender (td_sender d), FParty Recipient (td_recipient d), FParty Carrier (td_carrier d),
           FBasis (td_basis_type d) (td_basis_number d) (td_basis_date d),
           FDeclaredPackages (td_package_count d)] @
          (if td_terms d \<noteq> [] then [FTerms (td_terms d)] else [])) @
       (case receipt of None \<Rightarrow> [] | Some r \<Rightarrow>
          [FReceivedBy (r_recipient_name r) (r_recipient_role r), FAuthority (r_authority_basis r),
           FReceivedPackages (r_package_count r), FReceiptCondition (r_cargo_condition r),
           FSeal (r_seal_number r), FReceiptComment (r_comment r), FReceivedAt (r_received_at r),
           FReceiptRecord (r_id r) (r_assignment_id r) (r_recorded_by r) (r_recorded_at r)])))"

text \<open>The fields that exist only when a pointer of the order is set.\<close>

definition opt_field :: "('a \<Rightarrow> doc_field) \<Rightarrow> 'a option \<Rightarrow> doc_field list" where
  "opt_field f x = (case x of None \<Rightarrow> [] | Some v \<Rightarrow> [f v])"

definition order_fields :: "order \<Rightarrow> doc_field list \<Rightarrow> doc_field list" where
  "order_fields ord transport =
    [FOrder (o_id ord), FOrderStatus (o_status ord), FOriginAddress (o_origin_address ord),
     FDestAddress (o_dest_address ord), FCargo (o_cargo ord), FWeight (o_weight_kg ord),
     FVolume (o_volume_m3 ord)] @ transport @
    opt_field FPrice (o_total_price ord) @ opt_field FPlannedStart (o_pickup_from ord) @
    opt_field FPlannedEnd (o_pickup_to ord) @ opt_field FStarted (o_started_at ord) @
    opt_field FDelivered (o_delivered_at ord)"

definition find_user :: "uuid \<Rightarrow> user op" where
  "find_user i = get_one users_t (\<lambda>u. u_id u = i)"

text \<open>The driver, his account and the vehicle of an assignment; also the extra recipients.\<close>

definition assignment_fields :: "assignment \<Rightarrow> (doc_field list \<times> uuid list) op" where
  "assignment_fields a =
    bind (get_one drivers_t (\<lambda>d. d_id d = a_driver_id a)) (\<lambda>drv.
    bind (find_user (d_user_id drv)) (\<lambda>account.
    bind (get_one vehicles_t (\<lambda>v. v_id v = a_vehicle_id a)) (\<lambda>veh.
    return (
      [FAssignment (a_id a), FDriver (u_full_name account) (d_id drv), FLicense (d_license_number drv),
       FVehicle (v_plate_number veh) (v_id veh)] @
      opt_field FRecipientName (a_recipient_name a) @ opt_field FDeliveryComment (a_delivery_comment a),
      [d_user_id drv, a_created_by a]))))"

definition enqueue_operational_document ::
  "order \<Rightarrow> assignment option \<Rightarrow> string \<Rightarrow> uuid \<Rightarrow> uuid \<Rightarrow> doc_field list \<Rightarrow> uuid list \<Rightarrow> unit op" where
  "enqueue_operational_document ord asg kind reference actor extra extra_recipients =
    (case o_created_by ord of None \<Rightarrow> return () | Some owner \<Rightarrow>
     bind (optional (get_one receipts_t (\<lambda>r. r_order_id r = o_id ord))) (\<lambda>receipt.
     bind (lift_sum (transport_document_fields ord receipt)) (\<lambda>transport.
     bind (find_user owner) (\<lambda>customer.
     bind (find_user actor) (\<lambda>author.
     bind (case asg of None \<Rightarrow> return ([], []) | Some a \<Rightarrow> assignment_fields a) (\<lambda>(afields, arecipients).
     bind (get_all operations_t (\<lambda>w. wo_order_id w = o_id ord)) (\<lambda>operations.
     bind (get_all incidents_t (\<lambda>i. i_order_id i = o_id ord)) (\<lambda>incidents.
     bind uuid_new (\<lambda>event. bind time_now (\<lambda>now.
     create outbox_t
       \<lparr>x_id = event, x_subject = ''document.requested.v1'',
        x_payload = DocumentRequestedP
          \<lparr>eq_event_id = event, eq_order_id = o_id ord, eq_user_id = owner, eq_reference_id = reference,
           eq_type = kind, eq_occurred_at = now,
           eq_fields = order_fields ord transport @
             [FCustomer (u_full_name customer) owner, FActor (u_full_name author) actor] @ afields @
             opt_field FOriginWarehouse (o_origin_warehouse ord) @
             opt_field FDestWarehouse (o_dest_warehouse ord) @
             map FOperation (sort_key (\<lambda>w. (wo_occurred_at w, wo_id w)) operations) @
             map FIncident (sort_key (\<lambda>i. (i_reported_at i, i_id i)) incidents) @ extra,
           eq_recipients = [owner, actor] @ extra_recipients @ arecipients\<rparr>,
        x_created_at = now, x_published_at = None\<rparr>))))))))))"

section \<open>What a successful recording changes\<close>

lemma notify_run [runs]:
  assumes "notify user text e s = (Inr u, s')"
  obtains n where
    "s' = tb_notifications_update (\<lambda>rs. rs @ [n]) (s\<lparr>issued := Suc (issued s), ticks := Suc (ticks s)\<rparr>)"
    and "n_user_id n = user" and "n_notice n = text"
  using assms unfolding notify_def by (auto elim!: runs)

definition history_entry ::
  "uuid \<Rightarrow> order_status \<Rightarrow> order_status \<Rightarrow> uuid \<Rightarrow> string option \<Rightarrow> status_history \<Rightarrow> bool" where
  "history_entry order from to actor reason h \<longleftrightarrow>
     h_order_id h = order \<and> h_from h = Some from \<and> h_to h = to \<and> h_actor h = Some actor \<and> h_reason h = reason"

lemma record_order_status_run [runs]:
  assumes "record_order_status order from to actor reason e s = (Inr u, s')"
  obtains h where
    "s' = tb_history_update (\<lambda>rs. rs @ [h]) (s\<lparr>issued := Suc (issued s), ticks := Suc (ticks s)\<rparr>)"
    and "history_entry order from to actor reason h"
  using assms unfolding record_order_status_def
  by (auto elim!: runs simp: history_entry_def)

lemma build_dispatch_request_run [runs]:
  assumes "build_dispatch_request ord e s = (Inr q, s')"
  obtains submitted where "o_submitted_at ord = Some submitted"
    and "q = \<lparr>dr_event_id = uuid_source e (issued s), dr_order_id = o_id ord,
              dr_submitted_at = trunc_us submitted, dr_requested_at = trunc_us (clock e (ticks s))\<rparr>"
    and "s' = s\<lparr>issued := Suc (issued s), ticks := Suc (ticks s)\<rparr>"
  using assms unfolding build_dispatch_request_def by (auto elim!: runs)

lemma upsert_dispatch_run [runs]:
  assumes "upsert_dispatch q e s = (Inr u, s')"
  obtains f where "s' = tb_outbox_update f s"
proof -
  have "s' = tb_outbox_update (\<lambda>_. tb_outbox s') s"
    using assms by (auto simp: upsert_dispatch_def Let_def split: if_splits)
  then show ?thesis by (rule that)
qed

lemma enqueue_dispatch_request_run [runs]:
  assumes "enqueue_dispatch_request ord e s = (Inr u, s')"
  obtains f where "s' = tb_outbox_update f (s\<lparr>issued := Suc (issued s), ticks := Suc (ticks s)\<rparr>)"
    and "o_submitted_at ord \<noteq> None"
  using assms unfolding enqueue_dispatch_request_def by (auto elim!: runs)

lemma enqueue_dispatch_after_release_run [runs]:
  assumes "enqueue_dispatch_after_release rel e s = (Inr u, s')"
  obtains f where "s' = tb_release_queue_update f (s\<lparr>ticks := Suc (ticks s)\<rparr>)"
    and "\<exists>q \<in> set (tb_release_queue s'). q_assignment_id q = a_id rel"
    and "set (tb_release_queue s) \<subseteq> set (tb_release_queue s')"
proof -
  have "s' = tb_release_queue_update (\<lambda>_. tb_release_queue s') (s\<lparr>ticks := Suc (ticks s)\<rparr>)"
    and "\<exists>q \<in> set (tb_release_queue s'). q_assignment_id q = a_id rel"
    and "set (tb_release_queue s) \<subseteq> set (tb_release_queue s')"
    using assms unfolding enqueue_dispatch_after_release_def
    by (auto elim!: runs simp: list_ex_iff)
  then show ?thesis by (rule that)
qed

lemma assignment_fields_run [runs]:
  assumes "assignment_fields a e s = (Inr x, s')"
  obtains "s' = s"
  using assms unfolding assignment_fields_def find_user_def by (auto elim!: runs)

lemma enqueue_operational_document_run [runs]:
  assumes "enqueue_operational_document ord asg kind reference actor extra others e s = (Inr u, s')"
  obtains f i j where "s' = tb_outbox_update f (s\<lparr>issued := i, ticks := j\<rparr>)"
proof (cases "o_created_by ord")
  case None
  with assms have "s' = tb_outbox_update id (s\<lparr>issued := issued s, ticks := ticks s\<rparr>)"
    unfolding enqueue_operational_document_def by (auto elim!: runs)
  then show ?thesis by (rule that)
next
  case (Some owner)
  with assms show ?thesis
    unfolding enqueue_operational_document_def find_user_def
    by (auto elim!: runs split: option.splits prod.splits intro: that)
qed

end
