(* ===== verification/Requests.thy ===== *)
theory Requests
  imports Recording
begin

text \<open>
  The request bodies and query parameters of \<^verbatim>\<open>internal/api/gen.go\<close> that the services read, and
  the status names of \<^verbatim>\<open>internal/models\<close> a filter is compared with.  A \<^verbatim>\<open>float32\<close> field is the
  \<^verbatim>\<open>float64\<close> of the same value (the conversion is exact); an enumeration type of the API is a
  plain string, as in Go.
\<close>

section \<open>Status names\<close>

fun order_status_text :: "order_status \<Rightarrow> string" where
  "order_status_text OrderDraft = ''draft''"
| "order_status_text OrderReadyForDispatch = ''ready_for_dispatch''"
| "order_status_text OrderAssigned = ''assigned''"
| "order_status_text OrderInTransit = ''in_transit''"
| "order_status_text OrderArrived = ''arrived''"
| "order_status_text OrderCompleted = ''completed''"
| "order_status_text OrderCancelled = ''cancelled''"

fun assignment_status_text :: "assignment_status \<Rightarrow> string" where
  "assignment_status_text AssignmentPendingAcceptance = ''pending_acceptance''"
| "assignment_status_text AssignmentAccepted = ''accepted''"
| "assignment_status_text AssignmentActive = ''active''"
| "assignment_status_text AssignmentRejected = ''rejected''"
| "assignment_status_text AssignmentReleased = ''released''"
| "assignment_status_text AssignmentExpired = ''expired''"
| "assignment_status_text AssignmentCompleted = ''completed''"

lemma order_status_text_inject: "order_status_text a = order_status_text b \<longleftrightarrow> a = b"
  by (cases a; cases b) simp_all

section \<open>Request bodies\<close>

record assignment_create =
  rq_driver_id :: uuid
  rq_planned_from :: time
  rq_planned_to :: time
  rq_recommendation_at :: "time option"
  rq_recommendation_id :: "string option"
  rq_replaces :: "uuid option"
  rq_source :: "string option"
  rq_vehicle_id :: uuid

record assignment_reject =
  rj_comment :: "string option"
  rj_reason_code :: string

record counterparty_write =
  cw_address :: string
  cw_contact_name :: string
  cw_email :: "string option"
  cw_inn :: "string option"
  cw_kind :: string
  cw_kpp :: "string option"
  cw_name :: string
  cw_phone :: "string option"
  cw_shared :: "bool option"
  cw_status :: "string option"

record delivery_complete =
  dl_comment :: "string option"
  dl_recipient_name :: "string option"

record delivery_receipt_create =
  rr_assignment_id :: uuid
  rr_authority_basis :: string
  rr_cargo_condition :: string
  rr_comment :: "string option"
  rr_package_count :: int
  rr_received_at :: "time option"
  rr_recipient_name :: string
  rr_recipient_role :: string
  rr_seal_number :: "string option"

record order_cancel =
  oc_comment :: "string option"
  oc_reason_code :: "string option"

record order_create =
  ow_cargo :: "string option"
  ow_dest_address :: string
  ow_dest_warehouse :: "uuid option"
  ow_origin_address :: "string option"
  ow_origin_warehouse :: "uuid option"
  ow_pickup_from :: "time option"
  ow_pickup_to :: "time option"
  ow_volume_m3 :: "f64 option"
  ow_weight_kg :: "f64 option"

record order_draft_update =
  ou_cargo :: "string option"
  ou_pickup_from :: "time option"
  ou_pickup_to :: "time option"
  ou_volume_m3 :: "f64 option"
  ou_weight_kg :: "f64 option"

record order_incident_create =
  ic_actual_packages :: "int option"
  ic_description :: string
  ic_expected_packages :: "int option"
  ic_kind :: string

record order_incident_resolve =
  ir_note :: string
  ir_recipient_name :: "string option"
  ir_resolution :: string

record transport_details_write =
  tw_basis_date :: time
  tw_basis_number :: string
  tw_basis_type :: string
  tw_carrier_id :: uuid
  tw_package_count :: int
  tw_recipient_id :: uuid
  tw_sender_id :: uuid
  tw_terms :: "string option"

record trip_handover_create =
  hc_cargo_condition :: string
  hc_driver_id :: uuid
  hc_location :: string
  hc_planned_to :: time
  hc_reason :: string
  hc_vehicle_id :: uuid

record warehouse_operation_create =
  wc_assignment_id :: "uuid option"
  wc_cargo_condition :: string
  wc_comment :: "string option"
  wc_operation_type :: string
  wc_package_count :: int
  wc_recipient_name :: "string option"

section \<open>Query parameters\<close>

record list_assignments_params =
  la_status :: "string option"
  la_order_id :: "uuid option"

record list_counterparties_params =
  lc_limit :: "int option"
  lc_offset :: "int option"
  lc_include_archived :: "bool option"

record list_orders_params =
  lo_status :: "string option"
  lo_driver_id :: "uuid option"

record list_warehouse_queue_params =
  lq_include_closed :: "bool option"
  lq_limit :: "int option"
  lq_offset :: "int option"

record orders_report_params =
  rp_from :: "time option"
  rp_to :: "time option"
  rp_status :: "string option"
  rp_driver_id :: "uuid option"
  rp_warehouse_id :: "uuid option"

text \<open>A condition that the query builder adds only when a parameter is present.\<close>

definition if_given :: "'a option \<Rightarrow> ('a \<Rightarrow> bool) \<Rightarrow> bool" where
  "if_given x p = (case x of None \<Rightarrow> True | Some v \<Rightarrow> p v)"

lemma if_given_simps [simp]: "if_given None p" "if_given (Some v) p = p v"
  by (simp_all add: if_given_def)

text \<open>\<^verbatim>\<open>Limit(n).Offset(k)\<close> on an ordered result.\<close>

definition page :: "int \<Rightarrow> int \<Rightarrow> 'a list \<Rightarrow> 'a list" where
  "page limit offset xs = take (nat limit) (drop (nat offset) xs)"

lemma set_page: "set (page limit offset xs) \<subseteq> set xs"
  unfolding page_def by (meson in_set_dropD in_set_takeD subsetI)

end
