(* ===== verification/Access.thy ===== *)
theory Access
  imports Requests
begin

text \<open>
  Who may see what (internal/services/order.go and warehouse_flow.go): the warehouse of a
  manager, one order, the lists of orders and assignments, and the report.
\<close>

abbreviation forbidden :: err where
  "forbidden \<equiv> Business ErrForbidden"

section \<open>The warehouse of a manager\<close>

definition manager_warehouse_id :: "uuid \<Rightarrow> uuid op" where
  "manager_warehouse_id user =
    bind (optional (get_one managers_t (\<lambda>m. m_user_id m = user))) (\<lambda>found.
    case found of None \<Rightarrow> throw forbidden
    | Some m \<Rightarrow> (case m_warehouse_id m of None \<Rightarrow> throw forbidden | Some w \<Rightarrow> return w))"

definition order_touches_warehouse :: "order \<Rightarrow> uuid \<Rightarrow> bool" where
  "order_touches_warehouse ord w \<longleftrightarrow> o_origin_warehouse ord = Some w \<or> o_dest_warehouse ord = Some w"

text \<open>\<^verbatim>\<open>if role == "manager" \{ warehouseID, err := ...; if err != nil \{ return \}; check \}\<close>.\<close>

definition manager_check :: "string \<Rightarrow> uuid \<Rightarrow> (uuid \<Rightarrow> bool) \<Rightarrow> unit op" where
  "manager_check role user ok =
    (if role = ''manager'' then bind (manager_warehouse_id user) (\<lambda>w. fail_if (\<not> ok w) forbidden)
     else return ())"

definition driver_of_user :: "uuid \<Rightarrow> driver op" where
  "driver_of_user user = get_one drivers_t (\<lambda>d. d_user_id d = user)"

section \<open>One order (GetOrder)\<close>

text \<open>An assignment that lets its driver see the order: taken, finished, handed over on the
  road, or offered and not yet expired.\<close>

definition trip_visible :: "uuid \<Rightarrow> uuid \<Rightarrow> time \<Rightarrow> assignment \<Rightarrow> bool" where
  "trip_visible order driver now a \<longleftrightarrow>
     a_order_id a = order \<and> a_driver_id a = driver \<and>
     (a_status a \<in> {AssignmentAccepted, AssignmentActive, AssignmentCompleted} \<or>
      a_status a = AssignmentReleased \<and> a_started_at a \<noteq> None \<or>
      a_status a = AssignmentPendingAcceptance \<and> now < a_offer_expires_at a)"

text \<open>A pending invitation to take the cargo over on the road.\<close>

definition invited :: "db \<Rightarrow> uuid \<Rightarrow> uuid \<Rightarrow> time \<Rightarrow> bool" where
  "invited s order driver now \<longleftrightarrow>
     list_ex (\<lambda>h. t_order_id h = order \<and> t_driver_id h = driver \<and> t_status h = ''pending'' \<and>
                now < t_expires_at h \<and>
                list_ex (\<lambda>a. a_id a = t_previous_assignment h \<and> a_status a = AssignmentActive) (tb_assignments s))
       (tb_handovers s)"

definition driver_check :: "order \<Rightarrow> uuid \<Rightarrow> uuid \<Rightarrow> unit op" where
  "driver_check ord order user =
    bind (or_throw (driver_of_user user) forbidden) (\<lambda>drv.
    bind time_now (\<lambda>now.
    bind (optional (get_one assignments_t (trip_visible order (d_id drv) (trunc_us now)))) (\<lambda>trip.
    case trip of Some _ \<Rightarrow> return ()
    | None \<Rightarrow>
        bind time_now (\<lambda>sql_now.
        bind (query (\<lambda>s. invited s order (d_id drv) (trunc_us sql_now))) (\<lambda>inv.
        fail_if (\<not> inv \<or> o_status ord \<noteq> OrderInTransit) forbidden)))))"

definition get_order :: "uuid \<Rightarrow> uuid \<Rightarrow> string \<Rightarrow> order op" where
  "get_order i user role =
    seq (fail_if (role \<noteq> ''client'' \<and> role \<noteq> ''driver'' \<and> role \<noteq> ''manager'' \<and> role \<noteq> ''admin'') forbidden)
    (bind (get_one orders_t (\<lambda>x. o_id x = i)) (\<lambda>ord.
     seq (fail_if (role = ''client'' \<and> o_created_by ord \<noteq> Some user) forbidden)
    (seq (manager_check role user (order_touches_warehouse ord))
    (seq (when_do (role = ''driver'') (driver_check ord i user))
    (return ord)))))"

section \<open>Lists\<close>

definition driven_by :: "db \<Rightarrow> uuid \<Rightarrow> order \<Rightarrow> bool" where
  "driven_by s driver x \<longleftrightarrow> o_driver_id x = Some driver \<or>
     list_ex (\<lambda>a. a_order_id a = o_id x \<and> a_driver_id a = driver \<and> a_started_at a \<noteq> None) (tb_assignments s)"

definition list_orders :: "uuid \<Rightarrow> string \<Rightarrow> list_orders_params \<Rightarrow> order list op" where
  "list_orders user role params =
    seq (fail_if (role \<noteq> ''client'' \<and> role \<noteq> ''driver'' \<and> role \<noteq> ''manager'' \<and> role \<noteq> ''admin'') forbidden)
    (bind (if role = ''manager'' then manager_warehouse_id user else return uuid_nil) (\<lambda>w.
     bind (if role = ''driver'' then bind (driver_of_user user) (\<lambda>drv. return (d_id drv)) else return uuid_nil) (\<lambda>drv.
     query (\<lambda>s. filter (\<lambda>x.
       (role = ''client'' \<longrightarrow> o_created_by x = Some user) \<and>
       (role = ''driver'' \<longrightarrow> driven_by s drv x) \<and>
       (role = ''manager'' \<longrightarrow> order_touches_warehouse x w) \<and>
       if_given (lo_status params) (\<lambda>st. order_status_text (o_status x) = st) \<and>
       if_given (lo_driver_id params) (\<lambda>d. o_driver_id x = Some d)) (tb_orders s)))))"

definition list_assignments :: "uuid \<Rightarrow> string \<Rightarrow> list_assignments_params \<Rightarrow> assignment list op" where
  "list_assignments user role params =
    seq (fail_if (role \<noteq> ''driver'' \<and> role \<noteq> ''manager'' \<and> role \<noteq> ''admin'') forbidden)
    (bind (if role = ''manager'' then manager_warehouse_id user else return uuid_nil) (\<lambda>w.
     bind (if role = ''driver'' then bind (driver_of_user user) (\<lambda>drv. return (d_id drv)) else return uuid_nil) (\<lambda>drv.
     query (\<lambda>s. rev (sort_key (\<lambda>a. (a_assigned_at a, a_id a)) (filter (\<lambda>a.
       (role = ''driver'' \<longrightarrow> a_driver_id a = drv) \<and>
       (role = ''manager'' \<longrightarrow>
          list_ex (\<lambda>x. o_id x = a_order_id a \<and> order_touches_warehouse x w) (tb_orders s)) \<and>
       if_given (la_status params) (\<lambda>st. assignment_status_text (a_status a) = st) \<and>
       if_given (la_order_id params) (\<lambda>i. a_order_id a = i)) (tb_assignments s)))))))"

definition list_order_assignments :: "uuid \<Rightarrow> uuid \<Rightarrow> string \<Rightarrow> assignment list op" where
  "list_order_assignments order user role =
    seq (fail_if (role \<noteq> ''manager'' \<and> role \<noteq> ''admin'') forbidden)
    (bind (get_order order user role) (\<lambda>_.
     query (\<lambda>s. rev (sort_key (\<lambda>a. (a_assigned_at a, a_id a))
       (filter (\<lambda>a. a_order_id a = order) (tb_assignments s))))))"

definition get_orders_report :: "uuid \<Rightarrow> string \<Rightarrow> orders_report_params \<Rightarrow> order list op" where
  "get_orders_report user role params =
    seq (fail_if (role \<noteq> ''manager'' \<and> role \<noteq> ''admin'') forbidden)
    (bind (if role = ''manager'' then manager_warehouse_id user else return uuid_nil) (\<lambda>w.
     query (\<lambda>s. filter (\<lambda>x.
       (role = ''manager'' \<longrightarrow> order_touches_warehouse x w) \<and>
       if_given (rp_status params) (\<lambda>st. order_status_text (o_status x) = st) \<and>
       if_given (rp_driver_id params) (\<lambda>d. o_driver_id x = Some d) \<and>
       if_given (rp_warehouse_id params) (\<lambda>v. o_origin_warehouse x = Some v) \<and>
       if_given (rp_from params) (\<lambda>t. t \<le> o_created_at x) \<and>
       if_given (rp_to params) (\<lambda>t. o_created_at x \<le> t)) (tb_orders s))))"

section \<open>Reading changes nothing but the clock\<close>

definition untouched :: "env \<Rightarrow> db \<Rightarrow> db \<Rightarrow> bool" where
  "untouched e s s' \<longleftrightarrow> s' = s\<lparr>ticks := ticks s', issued := issued s', locks := locks s'\<rparr>"

interpretation unt: preorder_frame untouched
proof
  fix e s
  show "untouched e s s" by (simp add: untouched_def)
next
  fix e s t u
  assume "untouched e s t" and "untouched e t u"
  then have t: "t = s\<lparr>ticks := ticks t, issued := issued t, locks := locks t\<rparr>"
    and u: "u = t\<lparr>ticks := ticks u, issued := issued u, locks := locks u\<rparr>"
    by (simp_all add: untouched_def)
  have "u = (s\<lparr>ticks := ticks t, issued := issued t, locks := locks t\<rparr>)
              \<lparr>ticks := ticks u, issued := issued u, locks := locks u\<rparr>"
    using t u by metis
  then show "untouched e s u" by (simp add: untouched_def)
qed

lemma untouched_statements [simp]:
  "framed untouched (get_one t p)" "framed untouched (get_one_locked t p)" "framed untouched (get_all t p)"
  "framed untouched (query f)" "framed untouched (ask g)" "framed untouched time_now" "framed untouched uuid_new"
  by (simp_all add: framed_def untouched_def get_one_def get_one_locked_def get_all_def query_def ask_def
      time_now_def uuid_new_def split: option.splits)

lemma untouched_manager_warehouse_id [simp]: "framed untouched (manager_warehouse_id user)"
  unfolding manager_warehouse_id_def
  by (intro unt.framed_rules) simp_all

lemma untouched_manager_check [simp]: "framed untouched (manager_check role user ok)"
  unfolding manager_check_def by (intro unt.framed_rules) simp_all

lemma untouched_driver_of_user [simp]: "framed untouched (driver_of_user user)"
  by (simp add: driver_of_user_def)

lemma untouched_driver_check [simp]: "framed untouched (driver_check ord i user)"
  unfolding driver_check_def by (intro unt.framed_rules) simp_all

lemma untouched_get_order [simp]: "framed untouched (get_order i user role)"
  unfolding get_order_def by (intro unt.framed_rules) simp_all

lemma untouched_lists [simp]:
  "framed untouched (list_orders user role lparams)"
  "framed untouched (list_assignments user role aparams)"
  "framed untouched (list_order_assignments i user role)"
  "framed untouched (get_orders_report user role rparams)"
  unfolding list_orders_def list_assignments_def list_order_assignments_def get_orders_report_def
  by (intro unt.framed_rules; simp)+

section \<open>What a successful read shows\<close>

lemma manager_warehouse_id_run [runs]:
  assumes "manager_warehouse_id user e s = (Inr w, s')"
  obtains m where "s' = s" and "find (\<lambda>m. m_user_id m = user) (tb_managers s) = Some m" and "m_warehouse_id m = Some w"
  using assms unfolding manager_warehouse_id_def by (auto elim!: runs split: option.splits)

definition manages :: "db \<Rightarrow> uuid \<Rightarrow> uuid \<Rightarrow> bool" where
  "manages s user w \<longleftrightarrow> (\<exists>m. find (\<lambda>m. m_user_id m = user) (tb_managers s) = Some m \<and> m_warehouse_id m = Some w)"

lemma manager_check_run [runs]:
  assumes "manager_check role user ok e s = (Inr u, s')"
  obtains "role \<noteq> ''manager''" and "s' = s"
  | w where "role = ''manager''" and "manages s user w" and "ok w" and "s' = s"
  using assms unfolding manager_check_def manages_def by (auto elim!: runs)

lemma driver_of_user_run [runs]:
  assumes "driver_of_user user e s = (Inr drv, s')"
  obtains "find (\<lambda>d. d_user_id d = user) (tb_drivers s) = Some drv" and "s' = s"
  using assms unfolding driver_of_user_def by (auto elim!: runs)

lemma driver_check_run [runs]:
  assumes "driver_check ord i user e s = (Inr u, s')"
  obtains n where "s' = s\<lparr>ticks := n\<rparr>"
proof -
  from assms have "s' = s\<lparr>ticks := ticks s'\<rparr>"
    unfolding driver_check_def by (elim runs) simp_all
  then show ?thesis by (rule that)
qed

lemma get_order_run [runs]:
  assumes "get_order i user role e s = (Inr ord, s')"
  obtains n where "find (\<lambda>x. o_id x = i) (tb_orders s) = Some ord" and "s' = s\<lparr>ticks := n\<rparr>"
proof -
  from assms have "find (\<lambda>x. o_id x = i) (tb_orders s) = Some ord \<and> s' = s\<lparr>ticks := ticks s'\<rparr>"
    unfolding get_order_def by (elim runs) simp_all
  then show ?thesis by (elim conjE) (rule that)
qed

section \<open>The access rule of one order\<close>

text \<open>The definitions that evaluate a composed read.\<close>

lemmas eval_defs = seq_def bind_def return_def throw_def fail_if_def when_do_def or_throw_def optional_def
  get_one_def query_def time_now_def 

lemma manager_check_result:
  "manager_check role user ok e s =
     (if role = ''manager'' \<and> \<not> (\<exists>w. manages s user w \<and> ok w) then Inl forbidden else Inr (), s)"
  by (auto simp: manager_check_def manager_warehouse_id_def manages_def eval_defs split: option.splits)

definition trip_open :: "env \<Rightarrow> db \<Rightarrow> uuid \<Rightarrow> order \<Rightarrow> bool" where
  "trip_open e s driver ord \<longleftrightarrow>
     (\<exists>a \<in> set (tb_assignments s). trip_visible (o_id ord) driver (trunc_us (clock e (ticks s))) a) \<or>
     invited s (o_id ord) driver (trunc_us (clock e (Suc (ticks s)))) \<and> o_status ord = OrderInTransit"

lemma driver_check_result:
  "fst (driver_check ord (o_id ord) user e s) =
     (case find (\<lambda>d. d_user_id d = user) (tb_drivers s) of
        Some drv \<Rightarrow> if trip_open e s (d_id drv) ord then Inr () else Inl forbidden
      | None \<Rightarrow> Inl forbidden)"
proof -
  have clock: "invited (s\<lparr>ticks := n\<rparr>) i d now = invited s i d now" for n d now i
    by (simp add: invited_def)
  show ?thesis
    by (auto simp: driver_check_def driver_of_user_def trip_open_def eval_defs clock find_None_all
          dest: find_Some_mem split: option.splits)
qed

text \<open>The parties an order is shown to.\<close>

definition may_see :: "env \<Rightarrow> db \<Rightarrow> uuid \<Rightarrow> string \<Rightarrow> order \<Rightarrow> bool" where
  "may_see e s user role ord \<longleftrightarrow>
     role = ''admin'' \<or>
     role = ''client'' \<and> o_created_by ord = Some user \<or>
     role = ''manager'' \<and> (\<exists>w. manages s user w \<and> order_touches_warehouse ord w) \<or>
     role = ''driver'' \<and>
       (\<exists>drv. find (\<lambda>d. d_user_id d = user) (tb_drivers s) = Some drv \<and> trip_open e s (d_id drv) ord)"

lemma get_order_result:
  "fst (get_order i user role e s) =
     (if role \<notin> {''client'', ''driver'', ''manager'', ''admin''} then Inl forbidden
      else case find (\<lambda>x. o_id x = i) (tb_orders s) of
        None \<Rightarrow> Inl NotFound
      | Some ord \<Rightarrow> if may_see e s user role ord then Inr ord else Inl forbidden)"
proof (cases "find (\<lambda>x. o_id x = i) (tb_orders s)")
  case None
  then show ?thesis by (simp add: get_order_def eval_defs)
next
  case (Some ord)
  then have id: "o_id ord = i" by (auto dest: find_Some_mem)
  have drv: "fst (driver_check ord i user e s) =
     (if may_see e s user ''driver'' ord then Inr () else Inl forbidden)"
    using driver_check_result [of ord user e s]
    by (auto simp: id may_see_def split: option.splits)
  moreover obtain r t where "driver_check ord i user e s = (r, t)" by fastforce
  ultimately have "driver_check ord i user e s =
     (if may_see e s user ''driver'' ord then Inr () else Inl forbidden, t)"
    by simp
  with Some show ?thesis
    by (auto simp: get_order_def eval_defs manager_check_result may_see_def)
qed

end
