(* ===== verification/Eligibility.thy ===== *)
theory Eligibility
  imports Access
begin

text \<open>
  The checks the commands share: whether a driver and a vehicle can take an order over a time
  window (assignment.go), whether a warehouse has confirmed an operation (warehouse_flow.go) and
  whether the order has an open incident (incidents.go).
\<close>

section \<open>Driver and vehicle\<close>

definition unexpired :: "time \<Rightarrow> time \<Rightarrow> bool" where
  "unexpired to valid_until \<longleftrightarrow> \<not> valid_until + hours 24 < to"

definition licence_ok :: "driver \<Rightarrow> driver_document list \<Rightarrow> time \<Rightarrow> bool" where
  "licence_ok drv documents to =
    (if documents = [] then unexpired to (d_license_expiry drv)
     else list_ex (\<lambda>x. dd_status x = ''valid'' \<and> unexpired to (dd_valid_until x)) documents)"

definition registration_ok :: "vehicle_document list \<Rightarrow> time \<Rightarrow> bool" where
  "registration_ok documents to \<longleftrightarrow>
     list_ex (\<lambda>x. vd_status x = ''valid'' \<and> unexpired to (vd_valid_until x)) documents"

definition shift_ok :: "driver_shift list \<Rightarrow> time \<Rightarrow> time \<Rightarrow> bool" where
  "shift_ok shifts from to \<longleftrightarrow>
     shifts = [] \<or> list_ex (\<lambda>x. \<not> from < ds_starts_at x \<and> \<not> ds_ends_at x < to) shifts"

definition validate_assignment_resources :: "order \<Rightarrow> driver \<Rightarrow> vehicle \<Rightarrow> time \<Rightarrow> time \<Rightarrow> unit op" where
  "validate_assignment_resources ord drv veh from to =
    seq (fail_if (d_status drv \<noteq> ''available'') (Business ErrDriverNotEligible))
    (bind (get_all driver_documents_t (\<lambda>x. dd_driver_id x = d_id drv \<and> dd_type x = ''license'')) (\<lambda>documents.
     seq (fail_if (\<not> licence_ok drv documents to) (Business ErrDriverLicenseExpired))
    (seq (fail_if (v_status veh \<noteq> ''available'') (Business ErrVehicleNotOperational))
    (bind (get_all vehicle_documents_t (\<lambda>x. vd_vehicle_id x = v_id veh \<and> vd_type x = ''registration'')) (\<lambda>vdocuments.
     seq (fail_if (\<not> registration_ok vdocuments to) (Business ErrVehicleDocumentInvalid))
    (seq (fail_if (f64_lt (v_capacity_kg veh) (o_weight_kg ord) \<or> f64_lt (v_capacity_m3 veh) (o_volume_m3 ord))
            (Business ErrVehicleCapacityExceeded))
    (bind (get_all driver_shifts_t (\<lambda>x. ds_driver_id x = d_id drv)) (\<lambda>shifts.
     fail_if (\<not> shift_ok shifts from to) (Business ErrDriverOutsideShift)))))))))"

text \<open>What the check guarantees, read off the tables.\<close>

definition eligible :: "db \<Rightarrow> order \<Rightarrow> driver \<Rightarrow> vehicle \<Rightarrow> time \<Rightarrow> time \<Rightarrow> bool" where
  "eligible s ord drv veh from to \<longleftrightarrow>
     d_status drv = ''available'' \<and> v_status veh = ''available'' \<and>
     licence_ok drv (filter (\<lambda>x. dd_driver_id x = d_id drv \<and> dd_type x = ''license'') (tb_driver_documents s)) to \<and>
     (\<exists>x \<in> set (tb_vehicle_documents s). vd_vehicle_id x = v_id veh \<and> vd_type x = ''registration'' \<and>
        vd_status x = ''valid'' \<and> to \<le> vd_valid_until x + hours 24) \<and>
     \<not> f64_lt (v_capacity_kg veh) (o_weight_kg ord) \<and> \<not> f64_lt (v_capacity_m3 veh) (o_volume_m3 ord) \<and>
     ((\<forall>x \<in> set (tb_driver_shifts s). ds_driver_id x \<noteq> d_id drv) \<or>
      (\<exists>x \<in> set (tb_driver_shifts s). ds_driver_id x = d_id drv \<and> ds_starts_at x \<le> from \<and> to \<le> ds_ends_at x))"

lemma registration_ok_iff:
  "registration_ok (filter p docs) to \<longleftrightarrow>
     (\<exists>x \<in> set docs. p x \<and> vd_status x = ''valid'' \<and> to \<le> vd_valid_until x + hours 24)"
  by (auto simp: registration_ok_def unexpired_def list_ex_iff)

lemma shift_ok_iff:
  "shift_ok (filter p shifts) from to \<longleftrightarrow>
     (\<forall>x \<in> set shifts. \<not> p x) \<or> (\<exists>x \<in> set shifts. p x \<and> ds_starts_at x \<le> from \<and> to \<le> ds_ends_at x)"
  by (auto simp: shift_ok_def list_ex_iff filter_empty_conv not_less)

lemma validate_succeeds_iff:
  "validate_assignment_resources ord drv veh from to e s = (Inr (), s) \<longleftrightarrow>
     eligible s ord drv veh from to"
  unfolding validate_assignment_resources_def eligible_def seq_def bind_def fail_if_def get_all_def
    return_def throw_def
  by (simp add: registration_ok_iff shift_ok_iff conj_ac)

lemma validate_assignment_resources_run [runs]:
  assumes "validate_assignment_resources ord drv veh from to e s = (Inr u, s')"
  obtains "s' = s" and "eligible s ord drv veh from to"
proof -
  from assms have "s' = s" unfolding validate_assignment_resources_def by (elim runs) simp_all
  with assms show ?thesis using that validate_succeeds_iff by simp
qed

section \<open>Warehouse operations and incidents\<close>

definition warehouse_operation_exists :: "uuid \<Rightarrow> string \<Rightarrow> uuid option \<Rightarrow> bool op" where
  "warehouse_operation_exists order kind assignment =
    query (\<lambda>s. list_ex (\<lambda>w. wo_order_id w = order \<and> wo_type w = kind \<and> wo_assignment_id w = assignment)
      (tb_operations s))"

definition require_warehouse_operation :: "uuid \<Rightarrow> string \<Rightarrow> uuid option \<Rightarrow> unit op" where
  "require_warehouse_operation order kind assignment =
    bind (warehouse_operation_exists order kind assignment) (\<lambda>exists.
    fail_if (\<not> exists) (Business ErrWarehouseOperationRequired))"

definition require_no_open_incidents :: "uuid \<Rightarrow> unit op" where
  "require_no_open_incidents order =
    bind (query (\<lambda>s. list_ex (\<lambda>i. i_order_id i = order \<and> i_status i = ''open'') (tb_incidents s))) (\<lambda>exists.
    fail_if exists (Business ErrIncidentOpen))"

text \<open>A load remains a historical fact after \<^verbatim>\<open>undo_load\<close>; only its current effect ends.\<close>

definition loaded :: "warehouse_operation list \<Rightarrow> uuid \<Rightarrow> uuid \<Rightarrow> bool" where
  "loaded operations order assignment \<longleftrightarrow>
     list_ex (\<lambda>l. wo_order_id l = order \<and> wo_assignment_id l = Some assignment \<and> wo_type l = ''load'' \<and>
       \<not> list_ex (\<lambda>u. wo_order_id u = wo_order_id l \<and> wo_assignment_id u = wo_assignment_id l \<and>
                      wo_type u = ''undo_load'') operations) operations"

definition warehouse_load_exists :: "uuid \<Rightarrow> uuid \<Rightarrow> bool op" where
  "warehouse_load_exists order assignment = query (\<lambda>s. loaded (tb_operations s) order assignment)"

definition operation_recorded :: "db \<Rightarrow> uuid \<Rightarrow> string \<Rightarrow> uuid option \<Rightarrow> bool" where
  "operation_recorded s order kind assignment \<longleftrightarrow>
     (\<exists>w \<in> set (tb_operations s). wo_order_id w = order \<and> wo_type w = kind \<and> wo_assignment_id w = assignment)"

definition no_open_incident :: "db \<Rightarrow> uuid \<Rightarrow> bool" where
  "no_open_incident s order \<longleftrightarrow> (\<forall>i \<in> set (tb_incidents s). i_order_id i = order \<longrightarrow> i_status i \<noteq> ''open'')"

lemma require_warehouse_operation_run [runs]:
  assumes "require_warehouse_operation order kind assignment e s = (Inr u, s')"
  obtains "s' = s" and "operation_recorded s order kind assignment"
  using assms unfolding require_warehouse_operation_def warehouse_operation_exists_def operation_recorded_def
  by (elim runs) (auto simp: list_ex_iff)

lemma require_no_open_incidents_run [runs]:
  assumes "require_no_open_incidents order e s = (Inr u, s')"
  obtains "s' = s" and "no_open_incident s order"
  using assms unfolding require_no_open_incidents_def no_open_incident_def
  by (elim runs) (auto simp: list_ex_iff)

lemma warehouse_load_exists_run [runs]:
  assumes "warehouse_load_exists order assignment e s = (Inr b, s')"
  obtains "s' = s" and "b = loaded (tb_operations s) order assignment"
proof (rule that)
  show "s' = s" and "b = loaded (tb_operations s) order assignment"
    using assms unfolding warehouse_load_exists_def query_def by auto
qed

end
