(* ===== verification/Assignments.thy ===== *)
theory Assignments
  imports Eligibility
begin

text \<open>
  The commands of an assignment's life (internal/services/assignment.go, assignment_expiry.go):
  submit and cancel an order; offer, accept, reject, start, arrive at and complete an
  assignment; expire the offers that nobody answered.  Every command locks
  order, assignment, driver, vehicle in this order before it checks anything.
\<close>

section \<open>Locking\<close>

text \<open>\<^verbatim>\<open>FOR UPDATE NOWAIT\<close>: a row another transaction holds raises 55P03.\<close>

definition get_one_nowait :: "'r table \<Rightarrow> ('r \<Rightarrow> bool) \<Rightarrow> 'r op" where
  "get_one_nowait t p = (\<lambda>e s. case find p (rows t s) of
     None \<Rightarrow> (Inl NotFound, s)
   | Some r \<Rightarrow> if busy e (lock_of t r) then (Inl (Pg LockNotAvailable), s)
               else (Inr r, s\<lparr>locks := locks s @ [lock_of t r]\<rparr>))"

definition lock_row :: "bool \<Rightarrow> 'r table \<Rightarrow> ('r \<Rightarrow> bool) \<Rightarrow> 'r op" where
  "lock_row wait t p = (if wait then get_one_locked t p else get_one_nowait t p)"

definition assignment_lock_busy :: "err \<Rightarrow> bool" where
  "assignment_lock_busy er \<longleftrightarrow> er = Pg LockNotAvailable"

text \<open>A failed lock of a driver or vehicle: a busy row is reported as it is, a missing one as \<open>er\<close>.\<close>

definition busy_or :: "'a op \<Rightarrow> err \<Rightarrow> 'a op" where
  "busy_or m er = (\<lambda>e s. case m e s of
     (Inl x, s') \<Rightarrow> (Inl (if assignment_lock_busy x then x else er), s')
   | (Inr v, s') \<Rightarrow> (Inr v, s'))"

definition lock_assignment_context_with_wait ::
  "uuid \<Rightarrow> bool \<Rightarrow> (order \<times> assignment \<times> driver \<times> vehicle) op" where
  "lock_assignment_context_with_wait i wait =
    bind (get_one assignments_t (\<lambda>a. a_id a = i)) (\<lambda>seed.
    bind (lock_row wait orders_t (\<lambda>x. o_id x = a_order_id seed)) (\<lambda>ord.
    bind (lock_row wait assignments_t (\<lambda>a. a_id a = i)) (\<lambda>a.
    seq (fail_if (a_order_id a \<noteq> a_order_id seed \<or> a_driver_id a \<noteq> a_driver_id seed \<or>
                  a_vehicle_id a \<noteq> a_vehicle_id seed) (Business ErrAssignmentStale))
    (bind (busy_or (lock_row wait drivers_t (\<lambda>d. d_id d = a_driver_id a)) (Business ErrDriverNotEligible)) (\<lambda>drv.
     bind (busy_or (lock_row wait vehicles_t (\<lambda>v. v_id v = a_vehicle_id a)) (Business ErrVehicleNotOperational)) (\<lambda>veh.
     return (ord, a, drv, veh)))))))"

definition lock_assignment_context :: "uuid \<Rightarrow> (order \<times> assignment \<times> driver \<times> vehicle) op" where
  "lock_assignment_context i = lock_assignment_context_with_wait i True"

section \<open>Expiry (assignment_expiry.go)\<close>

definition expire_assignment :: "assignment \<Rightarrow> time \<Rightarrow> unit op" where
  "expire_assignment a now =
    (if a_status a \<noteq> AssignmentPendingAcceptance \<or> now < a_offer_expires_at a then return ()
     else
       seq (update assignments_t (\<lambda>x. a_id x = a_id a) (a\<lparr>a_status := AssignmentExpired\<rparr>))
      (seq (notify (a_created_by a) (OfferExpired (a_id a) (a_order_id a)))
       (enqueue_dispatch_after_release (a\<lparr>a_status := AssignmentExpired\<rparr>))))"

definition expire_assignment_by_id :: "assignment \<Rightarrow> bool \<Rightarrow> unit op" where
  "expire_assignment_by_id candidate wait =
    in_tx (bind (lock_assignment_context_with_wait (a_id candidate) wait) (\<lambda>(ord, a, drv, veh).
      bind time_now (\<lambda>now. expire_assignment a now)))"

definition expire_assignments :: "assignment list \<Rightarrow> unit op" where
  "expire_assignments candidates = for_each candidates (\<lambda>a. expire_assignment_by_id a True)"

definition expire_stale_assignments :: "uuid \<Rightarrow> uuid \<Rightarrow> uuid \<Rightarrow> unit op" where
  "expire_stale_assignments order driver vehicle =
    bind time_now (\<lambda>now.
    bind (get_all assignments_t (\<lambda>a. a_status a = AssignmentPendingAcceptance \<and>
            a_offer_expires_at a \<le> trunc_us now \<and>
            (a_order_id a = order \<or> a_driver_id a = driver \<or> a_vehicle_id a = vehicle))) (\<lambda>stale.
    expire_assignments (sort_key a_id stale)))"

definition assignment_expiry_batch_size :: nat where
  "assignment_expiry_batch_size = 100"

type_synonym expiry_cursor = "(time \<times> uuid) option"

definition expiry_key :: "assignment \<Rightarrow> time \<times> uuid" where
  "expiry_key a = (a_offer_expires_at a, a_id a)"

definition due_page :: "expiry_cursor \<Rightarrow> time \<Rightarrow> assignment list \<Rightarrow> assignment list" where
  "due_page cursor now as =
    take assignment_expiry_batch_size (sort_key expiry_key (filter (\<lambda>a.
      a_status a = AssignmentPendingAcceptance \<and> a_offer_expires_at a \<le> now \<and>
      (case cursor of None \<Rightarrow> True | Some (t, i) \<Rightarrow>
         t < a_offer_expires_at a \<or> a_offer_expires_at a = t \<and> i < a_id a)) as))"

text \<open>The outcome of a call as a value, its effects kept.\<close>

definition attempt :: "'a op \<Rightarrow> (err + 'a) op" where
  "attempt m = (\<lambda>e s. case m e s of (r, s') \<Rightarrow> (Inr r, s'))"

text \<open>The loop over one page: the failures that are reported, and the cursor after it.\<close>

fun expire_page :: "assignment list \<Rightarrow> expiry_cursor \<Rightarrow> (err list \<times> expiry_cursor) op" where
  "expire_page [] cursor = return ([], cursor)"
| "expire_page (candidate # stale) cursor =
    bind (attempt (expire_assignment_by_id candidate False)) (\<lambda>r.
    bind (expire_page stale (Some (expiry_key candidate))) (\<lambda>(failures, cursor').
    return ((case r of Inl er \<Rightarrow> if assignment_lock_busy er \<or> er = NotFound then failures else er # failures
             | Inr _ \<Rightarrow> failures), cursor')))"

definition expire_due_assignments_after :: "expiry_cursor \<Rightarrow> (err list \<times> expiry_cursor) op" where
  "expire_due_assignments_after cursor =
    bind time_now (\<lambda>now.
    bind (query (\<lambda>s. due_page cursor (trunc_us now) (tb_assignments s))) (\<lambda>stale.
    bind (expire_page stale cursor) (\<lambda>(failures, cursor').
    return (failures, if length stale < assignment_expiry_batch_size then None else cursor'))))"

definition expire_due_assignments :: "(err list \<times> expiry_cursor) op" where
  "expire_due_assignments = expire_due_assignments_after None"

section \<open>Submitting and cancelling an order\<close>

text \<open>\<^verbatim>\<open>if role == "manager"\<close>: his warehouse must be the origin of the order.\<close>

definition from_origin :: "order \<Rightarrow> uuid \<Rightarrow> bool" where
  "from_origin ord w \<longleftrightarrow> o_origin_warehouse ord = Some w"

definition submit_tx :: "uuid \<Rightarrow> uuid \<Rightarrow> string \<Rightarrow> order op" where
  "submit_tx i user role =
    bind (get_one_locked orders_t (\<lambda>x. o_id x = i)) (\<lambda>ord.
    seq (fail_if (role \<noteq> ''manager'' \<and> role \<noteq> ''admin'' \<and> (role \<noteq> ''client'' \<or> o_created_by ord \<noteq> Some user)) forbidden)
    (seq (manager_check role user (from_origin ord))
    (seq (fail_if (\<not> can_transition_order (o_status ord) OrderReadyForDispatch) (Business ErrInvalidOrderTransition))
    (seq (fail_if (o_dest_address ord = [] \<or> f64_lt (o_weight_kg ord) (Fin 0) \<or> f64_lt (o_volume_m3 ord) (Fin 0) \<or>
            (case (o_pickup_from ord, o_pickup_to ord) of (Some f, Some t) \<Rightarrow> \<not> f < t | _ \<Rightarrow> True))
          (Business ErrInvalidTimeWindow))
    (bind (get_one routes_t (\<lambda>r. ro_order_id r = i)) (\<lambda>route.
     seq (fail_if (o_total_price ord = None \<or> ro_distance_km route = None \<or> ro_duration_sec route = None \<or>
            ro_coordinates route = NoJson) (Business ErrInvalidOrderInput))
    (seq (fail_if (o_policy_version ord = 1 \<and> o_details ord = NoDetails) (Business ErrTransportDetailsRequired))
    (bind time_now (\<lambda>now.
     let ord' = ord\<lparr>o_status := OrderReadyForDispatch, o_submitted_at := Some now\<rparr> in
     seq (update orders_t (\<lambda>x. o_id x = i) ord')
    (seq (record_order_status (o_id ord) (o_status ord) (o_status ord') user None)
    (seq (case o_created_by ord of None \<Rightarrow> return ()
          | Some owner \<Rightarrow> when_do (owner \<noteq> user) (notify owner (OrderSubmitted i)))
    (seq (enqueue_dispatch_request ord')
    (seq (enqueue_operational_document ord' None ''transport_order'' (o_id ord) user [] [])
    (return ord'))))))))))))))"

definition submit_order :: "uuid \<Rightarrow> uuid \<Rightarrow> string \<Rightarrow> order op" where
  "submit_order i user role = in_tx (submit_tx i user role)"

text \<open>The assignment that is cancelled with its order: at most one offer or accepted trip.\<close>

definition cancellable :: "uuid \<Rightarrow> assignment \<Rightarrow> bool" where
  "cancellable order a \<longleftrightarrow> a_order_id a = order \<and>
     (a_status a = AssignmentPendingAcceptance \<or> a_status a = AssignmentAccepted)"

text \<open>\<^verbatim>\<open>GetAll ... OrderBy("id").ForUpdate()\<close>.\<close>

definition get_all_locked :: "'r table \<Rightarrow> ('r \<Rightarrow> bool) \<Rightarrow> ('r \<Rightarrow> uuid) \<Rightarrow> 'r list op" where
  "get_all_locked t p key = (\<lambda>e s. let rs = sort_key key (filter p (rows t s)) in
     (Inr rs, s\<lparr>locks := locks s @ map (lock_of t) rs\<rparr>))"

definition lock_fleet_of :: "assignment \<Rightarrow> unit op" where
  "lock_fleet_of a =
    bind (or_throw (get_one_locked drivers_t (\<lambda>d. d_id d = a_driver_id a)) (Business ErrDriverNotEligible)) (\<lambda>_.
    bind (or_throw (get_one_locked vehicles_t (\<lambda>v. v_id v = a_vehicle_id a)) (Business ErrVehicleNotOperational)) (\<lambda>_.
    return ()))"

definition release_cancelled :: "uuid \<Rightarrow> time \<Rightarrow> assignment \<Rightarrow> unit op" where
  "release_cancelled order now a =
    seq (update assignments_t (\<lambda>x. a_id x = a_id a)
          (a\<lparr>a_status := AssignmentReleased, a_released_at := Some now, a_release_code := Some ''order_cancelled''\<rparr>))
    (bind (get_one drivers_t (\<lambda>d. d_id d = a_driver_id a)) (\<lambda>drv.
     notify (d_user_id drv) (AssignmentCancelled order (a_id a))))"

text \<open>Lines 135-159: everything is checked again under the full lock set.\<close>

definition cancel_checks :: "order \<Rightarrow> assignment list \<Rightarrow> uuid \<Rightarrow> string \<Rightarrow> unit op" where
  "cancel_checks ord assignments user role =
    seq (manager_check role user (from_origin ord))
    (seq (fail_if (role = ''client'' \<and> (o_created_by ord \<noteq> Some user \<or>
            o_status ord \<noteq> OrderDraft \<and> o_status ord \<noteq> OrderReadyForDispatch)) forbidden)
    (seq (for_each assignments (\<lambda>a. bind (warehouse_load_exists (o_id ord) (a_id a)) (\<lambda>is_loaded.
            fail_if is_loaded (Business ErrWarehouseOperationConflict))))
     (fail_if (\<not> can_transition_order (o_status ord) OrderCancelled) (Business ErrInvalidOrderTransition))))"

text \<open>Lines 160-206: the writes.\<close>

definition cancel_writes :: "uuid \<Rightarrow> order \<Rightarrow> assignment list \<Rightarrow> uuid \<Rightarrow> order_cancel \<Rightarrow> order op" where
  "cancel_writes i ord assignments user req =
    bind time_now (\<lambda>now.
    let ord' = ord\<lparr>o_status := OrderCancelled, o_cancelled_at := Some now\<rparr> in
    seq (for_each assignments (release_cancelled i now))
    (seq (update orders_t (\<lambda>x. o_id x = i) ord')
    (seq (record_order_status i (o_status ord) (o_status ord') user (oc_reason_code req))
    (seq (case o_created_by ord of None \<Rightarrow> return ()
          | Some owner \<Rightarrow> when_do (owner \<noteq> user) (notify owner (OrderCancelledNotice i)))
    (seq (for_each assignments enqueue_dispatch_after_release)
    (seq (enqueue_operational_document ord' None ''cancellation_notice'' (o_id ord) user
            [FCancelReason (oc_reason_code req)] [])
    (return ord')))))))"

definition cancel_tx :: "uuid \<Rightarrow> uuid \<Rightarrow> string \<Rightarrow> order_cancel \<Rightarrow> order op" where
  "cancel_tx i user role req =
    bind (get_one_locked orders_t (\<lambda>x. o_id x = i)) (\<lambda>ord.
    bind (get_all_locked assignments_t (cancellable i) a_id) (\<lambda>assignments.
    seq (fail_if (1 < length assignments) (Business ErrAssignmentStale))
    (seq (for_each assignments lock_fleet_of)
    (seq (cancel_checks ord assignments user role)
    (cancel_writes i ord assignments user req)))))"

definition cancel_order :: "uuid \<Rightarrow> uuid \<Rightarrow> string \<Rightarrow> order_cancel \<Rightarrow> order op" where
  "cancel_order i user role req =
    seq (fail_if (role \<noteq> ''client'' \<and> role \<noteq> ''manager'' \<and> role \<noteq> ''admin'') forbidden) (in_tx (cancel_tx i user role req))"

section \<open>Offering an assignment (CreateAssignment)\<close>

text \<open>Lines 244-257: the assignment that is replaced, read twice around its lock.\<close>

definition replaced_assignment :: "uuid \<Rightarrow> uuid option \<Rightarrow> assignment option op" where
  "replaced_assignment order replaces = (case replaces of
     None \<Rightarrow> return None
   | Some p \<Rightarrow>
      bind (or_throw (get_one assignments_t (\<lambda>a. a_id a = p)) (Business ErrAssignmentStale)) (\<lambda>seed.
      seq (fail_if (a_order_id seed \<noteq> order) (Business ErrAssignmentStale))
      (bind (or_throw (get_one_locked assignments_t (\<lambda>a. a_id a = p)) (Business ErrAssignmentStale)) (\<lambda>a.
       seq (fail_if (a_order_id a \<noteq> a_order_id seed \<or> a_driver_id a \<noteq> a_driver_id seed \<or>
                     a_vehicle_id a \<noteq> a_vehicle_id seed) (Business ErrAssignmentStale))
       (return (Some a))))))"

text \<open>Lines 259-270: the requested resource and the one it replaces, in the order of their ids.\<close>

definition fleet_ids :: "uuid \<Rightarrow> uuid option \<Rightarrow> uuid list" where
  "fleet_ids requested previous =
     sort (requested # (case previous of None \<Rightarrow> [] | Some p \<Rightarrow> if p \<noteq> requested then [p] else []))"

definition lock_drivers :: "err option \<Rightarrow> uuid list \<Rightarrow> driver list op" where
  "lock_drivers er ids = map_tx (\<lambda>i.
     case er of None \<Rightarrow> get_one_locked drivers_t (\<lambda>d. d_id d = i)
     | Some x \<Rightarrow> or_throw (get_one_locked drivers_t (\<lambda>d. d_id d = i)) x) ids"

definition lock_vehicles :: "err option \<Rightarrow> uuid list \<Rightarrow> vehicle list op" where
  "lock_vehicles er ids = map_tx (\<lambda>i.
     case er of None \<Rightarrow> get_one_locked vehicles_t (\<lambda>v. v_id v = i)
     | Some x \<Rightarrow> or_throw (get_one_locked vehicles_t (\<lambda>v. v_id v = i)) x) ids"

text \<open>Lines 271-297: the locked rows, and which of them is the requested one.\<close>

definition lock_offer_fleet ::
  "assignment_create \<Rightarrow> assignment option \<Rightarrow> (driver \<times> driver option \<times> vehicle) op" where
  "lock_offer_fleet req previous =
    bind (lock_drivers (Some (Business ErrDriverNotEligible))
           (fleet_ids (rq_driver_id req) (map_option a_driver_id previous))) (\<lambda>drivers.
    bind (lock_vehicles (Some (Business ErrVehicleNotOperational))
           (fleet_ids (rq_vehicle_id req) (map_option a_vehicle_id previous))) (\<lambda>vehicles.
    bind (deref (find (\<lambda>d. d_id d = rq_driver_id req) drivers)) (\<lambda>drv.
    bind (deref (find (\<lambda>v. v_id v = rq_vehicle_id req) vehicles)) (\<lambda>veh.
    return (drv, (case previous of None \<Rightarrow> None | Some a \<Rightarrow> find (\<lambda>d. d_id d = a_driver_id a) drivers), veh)))))"

text \<open>Lines 309-327: which states admit an offer.\<close>

definition check_offer_state :: "order \<Rightarrow> assignment option \<Rightarrow> unit op" where
  "check_offer_state ord previous = (case previous of
     None \<Rightarrow> fail_if (o_status ord \<noteq> OrderReadyForDispatch) (Business ErrInvalidOrderTransition)
   | Some a \<Rightarrow>
      bind (warehouse_load_exists (o_id ord) (a_id a)) (\<lambda>is_loaded.
      seq (fail_if is_loaded (Business ErrWarehouseOperationConflict))
      (seq (fail_if (a_order_id a \<noteq> o_id ord \<or>
               a_status a \<noteq> AssignmentPendingAcceptance \<and> a_status a \<noteq> AssignmentAccepted)
             (Business ErrAssignmentStale))
       (fail_if (o_status ord \<noteq> OrderReadyForDispatch \<and> o_status ord \<noteq> OrderAssigned)
             (Business ErrInvalidOrderTransition)))))"

text \<open>Lines 331-365: an offer from a recommendation must be the current one for this submission.\<close>

definition check_offer_source :: "order \<Rightarrow> assignment_create \<Rightarrow> string op" where
  "check_offer_source ord req =
    (let source = (case rq_source req of None \<Rightarrow> ''manual'' | Some t \<Rightarrow> t) in
     seq (fail_if (source \<noteq> ''manual'' \<and> source \<noteq> ''dispatch_recommendation'') (Business ErrAssignmentStale))
     (if source \<noteq> ''dispatch_recommendation'' then return source
      else (case (rq_recommendation_id req, rq_recommendation_at req, o_submitted_at ord) of
        (Some rid, Some rat, Some submitted) \<Rightarrow>
          bind (query (\<lambda>s. find (\<lambda>r. rc_order_id r = o_id ord) (tb_recommendations s))) (\<lambda>found.
          case found of None \<Rightarrow> throw (Business ErrAssignmentStale)
          | Some r \<Rightarrow>
             seq (fail_if (rc_submitted_at r \<noteq> submitted \<or> rc_created_at r \<noteq> rat) (Business ErrAssignmentStale))
             (seq (fail_if (\<not> list_ex (\<lambda>c. dc_id c = rid \<and> dc_driver_id c = rq_driver_id req \<and>
                      dc_vehicle_id c = rq_vehicle_id req) (rc_candidates r)) (Business ErrAssignmentStale))
              (return source)))
      | _ \<Rightarrow> throw (Business ErrAssignmentStale))))"

text \<open>Lines 366-393: the replaced assignment is released; an assigned order goes back to dispatch.\<close>

definition release_previous ::
  "order \<Rightarrow> assignment \<Rightarrow> driver option \<Rightarrow> time \<Rightarrow> uuid \<Rightarrow> unit op" where
  "release_previous ord a previous_driver now user =
    seq (update assignments_t (\<lambda>x. a_id x = a_id a)
          (a\<lparr>a_status := AssignmentReleased, a_released_at := Some now, a_release_code := Some ''reassigned''\<rparr>))
    (bind (deref previous_driver) (\<lambda>pd.
     seq (notify (d_user_id pd) (AssignmentReplaced (a_id a) (o_id ord)))
     (when_do (o_status ord = OrderAssigned)
       (seq (update orders_t (\<lambda>x. o_id x = o_id ord)
               (ord\<lparr>o_status := OrderReadyForDispatch, o_driver_id := None, o_assigned_at := None\<rparr>))
        (record_order_status (o_id ord) (o_status ord) OrderReadyForDispatch user (Some ''reassigned''))))))"

text \<open>A unique or exclusion violation of the insert means that somebody else was faster.\<close>

definition reserving :: "'a op \<Rightarrow> 'a op" where
  "reserving m = (\<lambda>e s. case m e s of
     (Inl er, s') \<Rightarrow> (Inl (if er = Pg ExclusionViolation \<or> er = Pg UniqueViolation
                            then Business ErrResourceAlreadyReserved else er), s')
   | (Inr v, s') \<Rightarrow> (Inr v, s'))"

definition insert_offer :: "uuid \<Rightarrow> uuid \<Rightarrow> assignment_create \<Rightarrow> string \<Rightarrow> time \<Rightarrow> assignment op" where
  "insert_offer order user req source now =
    bind uuid_new (\<lambda>i.
    let a = \<lparr>a_id = i, a_order_id = order, a_driver_id = rq_driver_id req, a_vehicle_id = rq_vehicle_id req,
             a_status = AssignmentPendingAcceptance, a_planned_from = rq_planned_from req,
             a_planned_to = rq_planned_to req, a_created_by = user, a_source = source,
             a_recommendation_id = rq_recommendation_id req, a_recommendation_at = rq_recommendation_at req,
             a_assigned_at = now, a_offer_expires_at = now + minutes 15, a_accepted_at = None,
             a_rejected_at = None, a_released_at = None, a_started_at = None, a_completed_at = None,
             a_recipient_name = None, a_delivery_comment = None, a_rejection_code = None,
             a_rejection_comment = None, a_release_code = None\<rparr>
    in seq (reserving (create assignments_t a)) (return a))"

text \<open>The transaction of CreateAssignment.\<close>

definition offer_tx :: "uuid \<Rightarrow> uuid \<Rightarrow> string \<Rightarrow> assignment_create \<Rightarrow> assignment op" where
  "offer_tx order user role req =
    bind (get_one_locked orders_t (\<lambda>x. o_id x = order)) (\<lambda>ord.
    bind time_now (\<lambda>now.
    bind (replaced_assignment order (rq_replaces req)) (\<lambda>previous.
    bind (lock_offer_fleet req previous) (\<lambda>(drv, previous_driver, veh).
    seq (manager_check role user (from_origin ord))
    (seq (check_offer_state ord previous)
    (seq (validate_assignment_resources ord drv veh (rq_planned_from req) (rq_planned_to req))
    (bind (check_offer_source ord req) (\<lambda>source.
     seq (case previous of None \<Rightarrow> return () | Some a \<Rightarrow> release_previous ord a previous_driver now user)
    (bind (insert_offer order user req source now) (\<lambda>a.
     seq (notify (d_user_id drv) (AssignmentOffered (a_id a) order))
    (seq (case previous of None \<Rightarrow> return () | Some p \<Rightarrow> enqueue_dispatch_after_release p)
    (return a))))))))))))"

definition create_assignment :: "uuid \<Rightarrow> uuid \<Rightarrow> string \<Rightarrow> assignment_create \<Rightarrow> assignment op" where
  "create_assignment order user role req =
    seq (fail_if (role \<noteq> ''manager'' \<and> role \<noteq> ''admin'') forbidden)
    (seq (if role = ''manager'' then bind (get_order order user role) (\<lambda>_. return ()) else return ())
    (bind (if \<not> rq_planned_from req < rq_planned_to req then return True
           else bind time_now (\<lambda>now. return (rq_planned_from req < now))) (\<lambda>invalid.
     seq (fail_if invalid (Business ErrInvalidTimeWindow))
    (seq (expire_stale_assignments order (rq_driver_id req) (rq_vehicle_id req))
    (in_tx (offer_tx order user role req))))))"

section \<open>The driver's commands\<close>

definition accept_tx :: "uuid \<Rightarrow> uuid \<Rightarrow> (err + assignment) op" where
  "accept_tx i user =
    bind (lock_assignment_context i) (\<lambda>(ord, a, drv, veh).
    seq (fail_if (d_user_id drv \<noteq> user) forbidden)
    (seq (fail_if (a_status a \<noteq> AssignmentPendingAcceptance) (Business ErrAssignmentStale))
    (bind time_now (\<lambda>now.
     if \<not> now < a_offer_expires_at a
     then seq (expire_assignment a now) (return (Inl (Business ErrAssignmentExpired)))
     else
      seq (fail_if (o_status ord \<noteq> OrderReadyForDispatch) (Business ErrInvalidOrderTransition))
      (seq (validate_assignment_resources ord drv veh (a_planned_from a) (a_planned_to a))
      (let a' = a\<lparr>a_status := AssignmentAccepted, a_accepted_at := Some now\<rparr>;
           ord' = ord\<lparr>o_status := OrderAssigned, o_driver_id := Some (a_driver_id a), o_assigned_at := Some now\<rparr>
       in seq (update assignments_t (\<lambda>x. a_id x = i) a')
         (seq (update orders_t (\<lambda>x. o_id x = o_id ord) ord')
         (seq (record_order_status (o_id ord) (o_status ord) (o_status ord') user None)
         (seq (notify (a_created_by a) (OfferAccepted i (o_id ord)))
         (seq (case o_created_by ord of None \<Rightarrow> return () | Some owner \<Rightarrow> notify owner (DriverAssigned (o_id ord)))
         (return (Inr a'))))))))))))"

text \<open>An expired offer is closed and committed, and the call still fails.\<close>

definition accept_assignment :: "uuid \<Rightarrow> uuid \<Rightarrow> string \<Rightarrow> assignment op" where
  "accept_assignment i user role =
    seq (fail_if (role \<noteq> ''driver'') forbidden) (bind (in_tx (accept_tx i user)) lift_sum)"

definition reject_tx :: "uuid \<Rightarrow> uuid \<Rightarrow> assignment_reject \<Rightarrow> assignment op" where
  "reject_tx i user req =
    bind (lock_assignment_context i) (\<lambda>(ord, a, drv, veh).
    seq (fail_if (d_user_id drv \<noteq> user) forbidden)
    (seq (fail_if (a_status a \<noteq> AssignmentPendingAcceptance) (Business ErrAssignmentStale))
    (bind time_now (\<lambda>now.
     let a' = a\<lparr>a_status := AssignmentRejected, a_rejected_at := Some now,
                a_rejection_code := Some (rj_reason_code req), a_rejection_comment := rj_comment req\<rparr>
     in seq (update assignments_t (\<lambda>x. a_id x = i) a')
       (seq (notify (a_created_by a) (OfferRejected i (a_order_id a)))
       (seq (enqueue_dispatch_after_release a')
       (return a')))))))"

definition reject_assignment :: "uuid \<Rightarrow> uuid \<Rightarrow> string \<Rightarrow> assignment_reject \<Rightarrow> assignment op" where
  "reject_assignment i user role req =
    seq (fail_if (role \<noteq> ''driver'') forbidden) (in_tx (reject_tx i user req))"

definition start_tx :: "uuid \<Rightarrow> uuid \<Rightarrow> assignment op" where
  "start_tx i user =
    bind (lock_assignment_context i) (\<lambda>(ord, a, drv, veh).
    seq (fail_if (d_user_id drv \<noteq> user) forbidden)
    (seq (fail_if (a_status a \<noteq> AssignmentAccepted \<or> \<not> can_transition_order (o_status ord) OrderInTransit)
           (Business ErrInvalidOrderTransition))
    (seq (require_no_open_incidents (o_id ord))
    (seq (when_do (o_origin_warehouse ord \<noteq> None)
           (require_warehouse_operation (o_id ord) ''load'' (Some (a_id a))))
    (bind time_now (\<lambda>now.
     let a' = a\<lparr>a_status := AssignmentActive, a_started_at := Some now\<rparr>;
         ord' = ord\<lparr>o_status := OrderInTransit, o_started_at := Some now\<rparr>
     in seq (update assignments_t (\<lambda>x. a_id x = i) a')
       (seq (update orders_t (\<lambda>x. o_id x = o_id ord) ord')
       (seq (record_order_status (o_id ord) (o_status ord) (o_status ord') user None)
       (seq (case o_created_by ord of None \<Rightarrow> return () | Some owner \<Rightarrow> notify owner (DeliveryStarted (o_id ord)))
       (seq (enqueue_operational_document ord' (Some a') ''trip_assignment'' (a_id a) user [] [])
       (return a')))))))))))"

definition start_assignment :: "uuid \<Rightarrow> uuid \<Rightarrow> string \<Rightarrow> assignment op" where
  "start_assignment i user role =
    seq (fail_if (role \<noteq> ''driver'') forbidden) (in_tx (start_tx i user))"

definition arrive_tx :: "uuid \<Rightarrow> uuid \<Rightarrow> assignment op" where
  "arrive_tx i user =
    bind (lock_assignment_context i) (\<lambda>(ord, a, drv, veh).
    seq (fail_if (d_user_id drv \<noteq> user) forbidden)
    (seq (fail_if (a_status a \<noteq> AssignmentActive \<or> \<not> can_transition_order (o_status ord) OrderArrived)
           (Business ErrInvalidOrderTransition))
    (bind time_now (\<lambda>now.
     let ord' = ord\<lparr>o_status := OrderArrived, o_arrived_at := Some now\<rparr>
     in seq (update orders_t (\<lambda>x. o_id x = o_id ord) ord')
       (seq (record_order_status (o_id ord) (o_status ord) (o_status ord') user None)
       (seq (case o_created_by ord of None \<Rightarrow> return () | Some owner \<Rightarrow> notify owner (DriverArrived (o_id ord)))
       (return a)))))))"

definition arrive_assignment :: "uuid \<Rightarrow> uuid \<Rightarrow> string \<Rightarrow> assignment op" where
  "arrive_assignment i user role =
    seq (fail_if (role \<noteq> ''driver'') forbidden) (in_tx (arrive_tx i user))"

section \<open>Completing a delivery (CompleteAssignment)\<close>

text \<open>The warehouse whose manager answers for the end of the trip.\<close>

definition responsible_warehouse :: "order \<Rightarrow> uuid option" where
  "responsible_warehouse ord =
    (if o_dest_warehouse ord \<noteq> None then o_dest_warehouse ord else o_origin_warehouse ord)"

definition authorize_completion ::
  "order \<Rightarrow> assignment \<Rightarrow> driver \<Rightarrow> uuid \<Rightarrow> string \<Rightarrow> unit op" where
  "authorize_completion ord a drv user role =
    seq (fail_if (role = ''driver'' \<and> d_user_id drv \<noteq> user) forbidden)
    (seq (manager_check role user (\<lambda>w. responsible_warehouse ord = Some w))
    (seq (fail_if (a_status a \<noteq> AssignmentActive \<or> \<not> can_transition_order (o_status ord) OrderCompleted)
           (Business ErrInvalidOrderTransition))
    (seq (require_no_open_incidents (o_id ord))
    (when_do (o_dest_warehouse ord \<noteq> None)
      (seq (fail_if (role = ''driver'') forbidden)
       (require_warehouse_operation (o_id ord) ''unload'' (Some (a_id a))))))))"

text \<open>The receipt fixes the recipient; the request may repeat his name but not contradict it.\<close>

definition completion_receipt ::
  "order \<Rightarrow> assignment \<Rightarrow> delivery_complete \<Rightarrow> (delivery_receipt option \<times> delivery_complete) op" where
  "completion_receipt ord a req =
    bind (optional (get_one receipts_t (\<lambda>r. r_order_id r = o_id ord))) (\<lambda>receipt.
    seq (fail_if (receipt = None \<and> o_policy_version ord = 1) (Business ErrDeliveryReceiptRequired))
    (bind (case receipt of None \<Rightarrow> return req
           | Some r \<Rightarrow>
              seq (fail_if (r_assignment_id r \<noteq> a_id a) (Business ErrAssignmentStale))
              (seq (fail_if (dl_recipient_name req \<noteq> None \<and>
                             string_value (dl_recipient_name req) \<noteq> r_recipient_name r) (Business ErrInvalidOrderInput))
               (return (req\<lparr>dl_recipient_name := Some (r_recipient_name r),
                            dl_comment := (case dl_comment req of None \<Rightarrow> Some (r_comment r) | c \<Rightarrow> c)\<rparr>)))) (\<lambda>req'.
     seq (fail_if (\<not> bounded_text (string_value (dl_recipient_name req')) 0 200 \<or>
                   \<not> bounded_text (string_value (dl_comment req')) 0 2000) (Business ErrInvalidOrderInput))
     (return (receipt, req')))))"

text \<open>Lines 720-754: the customer's notification and the delivery event.\<close>

definition record_delivery ::
  "order \<Rightarrow> assignment \<Rightarrow> driver \<Rightarrow> vehicle \<Rightarrow> delivery_receipt option \<Rightarrow> time \<Rightarrow> unit op" where
  "record_delivery ord a drv veh receipt now = (case o_created_by ord of None \<Rightarrow> return ()
   | Some owner \<Rightarrow>
      seq (notify owner (DeliveryFinished (o_id ord)))
      (bind (if o_origin_address ord = [] \<and> o_origin_warehouse ord \<noteq> None
             then query (\<lambda>s. case find (\<lambda>w. Some (w_id w) = o_origin_warehouse ord) (tb_warehouses s) of
                               None \<Rightarrow> [] | Some w \<Rightarrow> w_address w)
             else return (o_origin_address ord)) (\<lambda>origin.
       bind uuid_new (\<lambda>event.
       bind (lift_sum (transport_document_fields ord receipt)) (\<lambda>fields.
       create outbox_t
         \<lparr>x_id = event, x_subject = ''delivery.completed.v1'',
          x_payload = DeliveryCompletedP
            \<lparr>ec_event_id = event, ec_order_id = o_id ord, ec_user_id = owner, ec_origin_address = origin,
             ec_dest_address = o_dest_address ord, ec_cargo = o_cargo ord, ec_weight_kg = o_weight_kg ord,
             ec_volume_m3 = o_volume_m3 ord, ec_total_price = o_total_price ord, ec_delivered_at = now,
             ec_recipient_name = a_recipient_name a, ec_driver_id = d_id drv, ec_vehicle_id = v_id veh,
             ec_fields = fields, ec_recipients = []\<rparr>,
          x_created_at = now, x_published_at = None\<rparr>)))))"

text \<open>Lines 758-774: the legs of the trip in the order they were started.\<close>

fun number_legs :: "nat \<Rightarrow> assignment list \<Rightarrow> doc_field list" where
  "number_legs n [] = []"
| "number_legs n (a # as) =
    FLeg n (a_id a) (a_driver_id a) (a_vehicle_id a) (case a_started_at a of None \<Rightarrow> zero_time | Some t \<Rightarrow> t)
      (case a_completed_at a of Some t \<Rightarrow> Some t | None \<Rightarrow> a_released_at a) # number_legs (Suc n) as"

definition trip_legs :: "uuid \<Rightarrow> doc_field list op" where
  "trip_legs order =
    bind (get_all assignments_t (\<lambda>a. a_order_id a = order \<and> a_started_at a \<noteq> None)) (\<lambda>legs.
    return (number_legs 1 (sort_key (\<lambda>a. (case a_started_at a of None \<Rightarrow> zero_time | Some t \<Rightarrow> t, a_id a)) legs)))"

definition complete_tx :: "uuid \<Rightarrow> uuid \<Rightarrow> string \<Rightarrow> delivery_complete \<Rightarrow> assignment op" where
  "complete_tx i user role req =
    bind (lock_assignment_context i) (\<lambda>(ord, a, drv, veh).
    seq (authorize_completion ord a drv user role)
    (bind (completion_receipt ord a req) (\<lambda>(receipt, req').
     bind time_now (\<lambda>now.
     let a' = a\<lparr>a_status := AssignmentCompleted, a_completed_at := Some now,
                a_recipient_name := dl_recipient_name req', a_delivery_comment := dl_comment req'\<rparr>;
         ord' = ord\<lparr>o_status := OrderCompleted, o_delivered_at := Some now\<rparr>
     in seq (update assignments_t (\<lambda>x. a_id x = i) a')
       (seq (update orders_t (\<lambda>x. o_id x = o_id ord) ord')
       (seq (record_order_status (o_id ord) (o_status ord) (o_status ord') user None)
       (seq (record_delivery ord' a' drv veh receipt now)
       (seq (enqueue_dispatch_after_release a')
       (bind (trip_legs (o_id ord)) (\<lambda>legs.
        seq (enqueue_operational_document ord' (Some a') ''service_report'' (o_id ord) user legs [])
        (return a')))))))))))"

definition complete_assignment :: "uuid \<Rightarrow> uuid \<Rightarrow> string \<Rightarrow> delivery_complete \<Rightarrow> assignment op" where
  "complete_assignment i user role req =
    seq (fail_if (role \<noteq> ''driver'' \<and> role \<noteq> ''manager'' \<and> role \<noteq> ''admin'') forbidden) (in_tx (complete_tx i user role req))"

end
