(* ===== verification/Lifecycle.thy ===== *)
theory Lifecycle
  imports Recording
begin

text \<open>
  The life of one order as an abstract machine, and what it means for a database state to be
  consistent with it.  A phase is the order's status with the status of its open assignment;
  \<open>lifecycle\<close> has one rule per business event.  The two rules \<open>resubmit\<close> and \<open>revoke\<close> are there
  because SubmitOrder accepts an assigned order too (see \<open>Offers\<close>): the accepted assignment then
  stays open under an order that is back in dispatch.  \<open>consistent\<close> ties the three tables orders,
  assignments and order_status_history together, and \<open>refines\<close> says that a change of the
  database keeps consistency and moves every order along the machine.  Every command of the
  services is shown to refine it in its own theory.
\<close>

section \<open>The abstract machine\<close>

type_synonym phase = "order_status \<times> assignment_status option"

definition start_phase :: phase where
  "start_phase = (OrderDraft, None)"

inductive lifecycle :: "phase \<Rightarrow> phase \<Rightarrow> bool" where
  submit: "lifecycle (OrderDraft, None) (OrderReadyForDispatch, None)"
| offer: "lifecycle (OrderReadyForDispatch, None) (OrderReadyForDispatch, Some AssignmentPendingAcceptance)"
| close: "lifecycle (OrderReadyForDispatch, Some AssignmentPendingAcceptance) (OrderReadyForDispatch, None)"
| accept: "lifecycle (OrderReadyForDispatch, Some AssignmentPendingAcceptance) (OrderAssigned, Some AssignmentAccepted)"
| withdraw: "lifecycle (OrderAssigned, Some AssignmentAccepted) (OrderReadyForDispatch, None)"
| resubmit: "lifecycle (OrderAssigned, Some AssignmentAccepted) (OrderReadyForDispatch, Some AssignmentAccepted)"
| revoke: "lifecycle (OrderReadyForDispatch, Some AssignmentAccepted) (OrderReadyForDispatch, None)"
| depart: "lifecycle (OrderAssigned, Some AssignmentAccepted) (OrderInTransit, Some AssignmentActive)"
| arrive: "lifecycle (OrderInTransit, Some AssignmentActive) (OrderArrived, Some AssignmentActive)"
| finish: "lifecycle (OrderArrived, Some AssignmentActive) (OrderCompleted, None)"
| cancel_draft: "lifecycle (OrderDraft, None) (OrderCancelled, None)"
| cancel_ready: "lifecycle (OrderReadyForDispatch, any) (OrderCancelled, None)"
| cancel_assigned: "lifecycle (OrderAssigned, Some AssignmentAccepted) (OrderCancelled, None)"

inductive_cases lifecycle_cases: "lifecycle p q"
inductive_simps lifecycle_from: "lifecycle (st, op) q"

code_pred (modes: i \<Rightarrow> o \<Rightarrow> bool as lifecycle_next, i \<Rightarrow> i \<Rightarrow> bool) lifecycle .

definition phases :: "phase list" where
  "phases = [(OrderDraft, None), (OrderReadyForDispatch, None),
     (OrderReadyForDispatch, Some AssignmentPendingAcceptance), (OrderAssigned, Some AssignmentAccepted),
     (OrderReadyForDispatch, Some AssignmentAccepted), (OrderInTransit, Some AssignmentActive), (OrderArrived, Some AssignmentActive),
     (OrderCompleted, None), (OrderCancelled, None)]"

lemma lifecycle_phases: "lifecycle p q \<Longrightarrow> p \<in> set phases \<Longrightarrow> q \<in> set phases"
  by (erule lifecycle_cases) (simp_all add: phases_def)

lemma reachable_phases: "lifecycle\<^sup>*\<^sup>* start_phase p \<Longrightarrow> p \<in> set phases"
proof (induction rule: rtranclp_induct)
  case base
  show ?case by (simp add: phases_def start_phase_def)
next
  case (step p q)
  then show ?case using lifecycle_phases by simp
qed

text \<open>Each event is a legal transition of the order or leaves its status alone.\<close>

lemma lifecycle_transition:
  "lifecycle p q \<Longrightarrow> fst p = fst q \<or> can_transition_order (fst p) (fst q)"
  by (erule lifecycle_cases) simp_all

text \<open>No event leaves a finished order, and a trip that has started can only go on.\<close>

lemma lifecycle_terminal: "lifecycle\<^sup>*\<^sup>* p q \<Longrightarrow> terminal (fst p) \<Longrightarrow> q = p"
  by (induction rule: rtranclp_induct) (auto elim!: lifecycle_cases simp: terminal_def)

definition on_road :: "order_status \<Rightarrow> bool" where
  "on_road st \<longleftrightarrow> st = OrderInTransit \<or> st = OrderArrived \<or> st = OrderCompleted"

lemma lifecycle_on_road: "lifecycle\<^sup>*\<^sup>* p q \<Longrightarrow> on_road (fst p) \<Longrightarrow> on_road (fst q)"
  by (induction rule: rtranclp_induct) (auto elim!: lifecycle_cases simp: on_road_def)

section \<open>The machine seen in the database\<close>

definition open_of :: "assignment list \<Rightarrow> uuid \<Rightarrow> assignment option" where
  "open_of as i = find (\<lambda>a. a_order_id a = i \<and> open_status (a_status a)) as"

definition order_of :: "order list \<Rightarrow> uuid \<Rightarrow> order option" where
  "order_of os i = find (\<lambda>x. o_id x = i) os"

definition phase_of :: "db \<Rightarrow> uuid \<Rightarrow> phase option" where
  "phase_of s i = map_option (\<lambda>x. (o_status x, map_option a_status (open_of (tb_assignments s) i)))
     (order_of (tb_orders s) i)"

definition transitions :: "status_history list \<Rightarrow> uuid \<Rightarrow> (order_status \<times> order_status) list" where
  "transitions hs i = map (\<lambda>h. (the (h_from h), h_to h)) (filter (\<lambda>h. h_order_id h = i) hs)"

text \<open>An order row fits its open assignment.\<close>

fun coherent :: "order \<Rightarrow> assignment option \<Rightarrow> bool" where
  "coherent x None \<longleftrightarrow>
     o_status x = OrderDraft \<or> o_status x = OrderReadyForDispatch \<and> o_submitted_at x \<noteq> None \<or>
     o_status x = OrderCompleted \<or> o_status x = OrderCancelled"
| "coherent x (Some a) \<longleftrightarrow> o_submitted_at x \<noteq> None \<and>
     (o_status x = OrderReadyForDispatch \<and>
        (a_status a = AssignmentPendingAcceptance \<or> a_status a = AssignmentAccepted) \<or>
      o_status x = OrderAssigned \<and> a_status a = AssignmentAccepted \<and> o_driver_id x = Some (a_driver_id a) \<or>
      (o_status x = OrderInTransit \<or> o_status x = OrderArrived) \<and> a_status a = AssignmentActive \<and>
        o_driver_id x = Some (a_driver_id a))"

definition bookings_ok :: "uuid set \<Rightarrow> assignment list \<Rightarrow> bool" where
  "bookings_ok orders as \<longleftrightarrow> distinct (map a_id as) \<and> (\<forall>a \<in> set as. a_order_id a \<in> orders) \<and>
     (\<forall>a \<in> set as. \<forall>b \<in> set as. open_status (a_status a) \<longrightarrow> open_status (a_status b) \<longrightarrow>
        a_order_id a = a_order_id b \<longrightarrow> a_id a = a_id b)"

definition consistent :: "db \<Rightarrow> bool" where
  "consistent s \<longleftrightarrow> distinct (map o_id (tb_orders s)) \<and>
     bookings_ok (o_id ` set (tb_orders s)) (tb_assignments s) \<and>
     (\<forall>h \<in> set (tb_history s). h_order_id h \<in> o_id ` set (tb_orders s)) \<and>
     (\<forall>x \<in> set (tb_orders s). coherent x (open_of (tb_assignments s) (o_id x)) \<and>
        replay OrderDraft (transitions (tb_history s) (o_id x)) = Some (o_status x))"

definition moves :: "phase option \<Rightarrow> phase option \<Rightarrow> bool" where
  "moves p q = (case q of
     None \<Rightarrow> p = None
   | Some q' \<Rightarrow> lifecycle\<^sup>*\<^sup>* (case p of None \<Rightarrow> start_phase | Some p' \<Rightarrow> p') q')"

lemma moves_refl [simp]: "moves p p"
  by (cases p) (simp_all add: moves_def)

lemma moves_trans: "moves p q \<Longrightarrow> moves q r \<Longrightarrow> moves p r"
  by (auto simp: moves_def split: option.splits intro: rtranclp_trans)

text \<open>Nothing that was recorded is lost: assignments keep their id and order, the history only grows.\<close>

definition persists :: "assignment list \<Rightarrow> assignment list \<Rightarrow> bool" where
  "persists as as' \<longleftrightarrow> (\<forall>a \<in> set as. \<exists>b \<in> set as'. a_id b = a_id a \<and> a_order_id b = a_order_id a)"

lemma persists_refl [simp]: "persists as as"
  by (auto simp: persists_def)

lemma persists_trans: "persists as bs \<Longrightarrow> persists bs cs \<Longrightarrow> persists as cs"
  unfolding persists_def by metis

lemma persists_append [simp]: "persists as (as @ bs)"
  by (auto simp: persists_def)

lemma persists_overwrite:
  assumes "distinct (map a_id as)" and "a \<in> set as" and "a_id b = a_id a" and "a_order_id b = a_order_id a"
  shows "persists as (overwrite (\<lambda>y. a_id y = a_id a) b as)"
  unfolding persists_def
proof
  fix c assume c: "c \<in> set as"
  show "\<exists>d \<in> set (overwrite (\<lambda>y. a_id y = a_id a) b as). a_id d = a_id c \<and> a_order_id d = a_order_id c"
  proof (cases "a_id c = a_id a")
    case True
    then have "c = a" using assms(1,2) c by (auto dest: distinct_key_unique)
    then show ?thesis using assms by (auto simp: set_overwrite)
  next
    case False
    then show ?thesis using c by (auto simp: set_overwrite)
  qed
qed

definition grows :: "db \<Rightarrow> db \<Rightarrow> bool" where
  "grows s s' \<longleftrightarrow> persists (tb_assignments s) (tb_assignments s') \<and> (\<exists>hs. tb_history s' = tb_history s @ hs)"

lemma grows_refl [simp]: "grows s s"
  by (simp add: grows_def)

lemma grows_trans: "grows s t \<Longrightarrow> grows t u \<Longrightarrow> grows s u"
  by (auto simp: grows_def intro: persists_trans)

definition refines :: "env \<Rightarrow> db \<Rightarrow> db \<Rightarrow> bool" where
  "refines e s s' \<longleftrightarrow>
     (consistent s \<longrightarrow> consistent s' \<and> grows s s' \<and> (\<forall>i. moves (phase_of s i) (phase_of s' i)))"

interpretation ref: preorder_frame refines
proof
  show "refines e s s" for e s by (simp add: refines_def)
  show "refines e s u" if "refines e s t" and "refines e t u" for e s t u
    using that unfolding refines_def by (meson moves_trans grows_trans)
qed

text \<open>A change that leaves the three tables alone refines.\<close>

definition same_core :: "db \<Rightarrow> db \<Rightarrow> bool" where
  "same_core s s' \<longleftrightarrow> tb_orders s' = tb_orders s \<and> tb_assignments s' = tb_assignments s \<and>
     tb_history s' = tb_history s"

lemma same_core_refines: "same_core s s' \<Longrightarrow> refines e s s'"
  by (simp add: same_core_def refines_def consistent_def phase_of_def grows_def)

lemma refines_same_core:
  "refines e s t \<Longrightarrow> same_core s s1 \<Longrightarrow> same_core t t1 \<Longrightarrow> refines e s1 t1"
  by (simp add: same_core_def refines_def consistent_def phase_of_def grows_def)

text \<open>A transaction refines when its successful runs do: an error restores the tables.\<close>

lemma framed_in_tx:
  assumes "\<And>e s x s'. m e s = (Inr x, s') \<Longrightarrow> refines e s s'"
  shows "framed refines (in_tx m)"
  unfolding framed_def
proof (intro allI)
  fix e s
  obtain r s' where m: "m e (s\<lparr>locks := []\<rparr>) = (r, s')" by fastforce
  show "refines e s (snd (in_tx m e s))"
  proof (cases r)
    case (Inl er)
    then show ?thesis by (simp add: in_tx_def m rollback_def same_core_refines same_core_def)
  next
    case (Inr x)
    then have "refines e (s\<lparr>locks := []\<rparr>) s'" using assms m by blast
    then have "refines e s s'" by (rule refines_same_core) (simp_all add: same_core_def)
    then show ?thesis by (simp add: in_tx_def m Inr)
  qed
qed

section \<open>Finding rows by their keys\<close>

lemma order_of_mem: "order_of os i = Some x \<Longrightarrow> x \<in> set os \<and> o_id x = i"
  unfolding order_of_def by (drule find_Some_mem) simp

lemma order_of_unique:
  "distinct (map o_id os) \<Longrightarrow> x \<in> set os \<Longrightarrow> order_of os (o_id x) = Some x"
  unfolding order_of_def by (induction os) auto

lemma open_of_mem:
  "open_of as i = Some a \<Longrightarrow> a \<in> set as \<and> a_order_id a = i \<and> open_status (a_status a)"
  unfolding open_of_def by (drule find_Some_mem) simp

lemma open_of_unique:
  assumes "bookings_ok orders as" and "a \<in> set as" and "open_status (a_status a)"
  shows "open_of as (a_order_id a) = Some a"
proof (cases "open_of as (a_order_id a)")
  case None
  with assms show ?thesis by (auto simp: open_of_def find_None_all)
next
  case (Some b)
  note b = open_of_mem [OF Some]
  with assms have "a_id b = a_id a" unfolding bookings_ok_def by metis
  with b assms have "b = a"
    unfolding bookings_ok_def by (meson distinct_key_unique)
  with Some show ?thesis by simp
qed

lemma open_of_eqI:
  assumes "bookings_ok orders as"
    and "\<And>a. r = Some a \<Longrightarrow> a \<in> set as \<and> a_order_id a = i \<and> open_status (a_status a)"
    and "r = None \<Longrightarrow> \<forall>a \<in> set as. \<not> (a_order_id a = i \<and> open_status (a_status a))"
  shows "open_of as i = r"
proof (cases r)
  case None
  with assms(3) show ?thesis by (auto simp: open_of_def find_None_all)
next
  case (Some a)
  with assms(2) have "a \<in> set as" "a_order_id a = i" "open_status (a_status a)" by auto
  with assms(1) Some show ?thesis by (auto dest: open_of_unique)
qed

section \<open>Changing one assignment\<close>

lemma overwrite_booking:
  assumes ok: "bookings_ok orders as" and a: "a \<in> set as"
    and same: "a_id b = a_id a" "a_order_id b = a_order_id a"
    and opens: "open_status (a_status b) \<longrightarrow> open_status (a_status a)"
  shows "bookings_ok orders (overwrite (\<lambda>y. a_id y = a_id a) b as)" (is "bookings_ok orders ?as")
    and "open_of (overwrite (\<lambda>y. a_id y = a_id a) b as) i =
      (if i = a_order_id a \<and> open_status (a_status a)
       then (if open_status (a_status b) then Some b else None) else open_of as i)"
proof -
  have set: "set ?as = insert b {x \<in> set as. a_id x \<noteq> a_id a}"
    using a by (auto simp: set_overwrite)
  have keys: "map a_id ?as = map a_id as"
    by (rule overwrite_keys) (simp add: same)
  have one: "open_status (a_status x) \<Longrightarrow> open_status (a_status y) \<Longrightarrow> a_order_id x = a_order_id y \<Longrightarrow> a_id x = a_id y"
    if "x \<in> set as" "y \<in> set as" for x y
    using ok that unfolding bookings_ok_def by blast
  show ok': "bookings_ok orders ?as"
    unfolding bookings_ok_def keys set
  proof (intro conjI ballI impI)
    show "distinct (map a_id as)" using ok by (simp add: bookings_ok_def)
    fix x assume "x \<in> insert b {x \<in> set as. a_id x \<noteq> a_id a}"
    then show "a_order_id x \<in> orders" using ok a same by (auto simp: bookings_ok_def)
  next
    fix x y
    assume "x \<in> insert b {x \<in> set as. a_id x \<noteq> a_id a}" "y \<in> insert b {x \<in> set as. a_id x \<noteq> a_id a}"
      and "open_status (a_status x)" "open_status (a_status y)" "a_order_id x = a_order_id y"
    moreover have "\<exists>z' \<in> set as. a_id z' = a_id z \<and> a_order_id z' = a_order_id z \<and> open_status (a_status z')"
      if "z \<in> insert b {x \<in> set as. a_id x \<noteq> a_id a}" and "open_status (a_status z)" for z
      using that a same opens by fastforce
    ultimately show "a_id x = a_id y" using one by metis
  qed
  show "open_of ?as i = (if i = a_order_id a \<and> open_status (a_status a)
       then (if open_status (a_status b) then Some b else None) else open_of as i)"
    (is "_ = ?r")
  proof (rule open_of_eqI [OF ok'])
    fix c assume c: "?r = Some c"
    then show "c \<in> set ?as \<and> a_order_id c = i \<and> open_status (a_status c)"
    proof (cases "i = a_order_id a \<and> open_status (a_status a)")
      case True
      then show ?thesis using c same by (auto simp: set split: if_splits)
    next
      case False
      then have open_c: "open_of as i = Some c" using c by (metis (no_types, lifting))
      note open_of_mem [OF open_c]
      moreover have "a_id c \<noteq> a_id a"
      proof
        assume "a_id c = a_id a"
        with ok a calculation have "c = a" unfolding bookings_ok_def by (meson distinct_key_unique)
        with False calculation show False by simp
      qed
      ultimately show ?thesis by (simp add: set)
    qed
  next
    assume none: "?r = None"
    show "\<forall>c \<in> set ?as. \<not> (a_order_id c = i \<and> open_status (a_status c))"
    proof (cases "i = a_order_id a \<and> open_status (a_status a)")
      case True
      then have "\<not> open_status (a_status b)" using none by (simp split: if_splits)
      moreover have "\<not> (a_order_id c = i \<and> open_status (a_status c))"
        if "c \<in> set as" "a_id c \<noteq> a_id a" for c
        using one [of c a] that a True by auto
      ultimately show ?thesis by (simp add: set)
    next
      case False
      then have "open_of as i = None" using none by (metis (no_types, lifting))
      then show ?thesis using False same opens by (auto simp: set open_of_def find_None_all)
    qed
  qed
qed

lemma append_booking:
  assumes ok: "bookings_ok orders as" and fresh: "a_id b \<notin> a_id ` set as" and order: "a_order_id b \<in> orders"
    and free: "open_status (a_status b) \<longrightarrow> open_of as (a_order_id b) = None"
  shows "bookings_ok orders (as @ [b])"
    and "open_of (as @ [b]) i = (if i = a_order_id b \<and> open_status (a_status b) then Some b else open_of as i)"
proof -
  show "bookings_ok orders (as @ [b])"
    using assms unfolding bookings_ok_def by (fastforce simp: open_of_def find_None_all)
  show "open_of (as @ [b]) i = (if i = a_order_id b \<and> open_status (a_status b) then Some b else open_of as i)"
    using free by (auto simp: open_of_def find_append split: option.splits)
qed

section \<open>Changing one order\<close>

lemma order_of_overwrite:
  "order_of (overwrite (\<lambda>y. o_id y = j) x os) i =
     (if o_id x = j then (if i = j then map_option (\<lambda>_. x) (order_of os i) else order_of os i)
      else order_of (overwrite (\<lambda>y. o_id y = j) x os) i)"
  unfolding order_of_def overwrite_def by (induction os) auto

lemma overwrite_self:
  "distinct (map key xs) \<Longrightarrow> x \<in> set xs \<Longrightarrow> overwrite (\<lambda>y. key y = key x) x xs = xs"
  unfolding overwrite_def by (rule map_idI) (auto dest: distinct_key_unique)

lemma transitions_append: "transitions (hs @ ks) i = transitions hs i @ transitions ks i"
  by (simp add: transitions_def)

theorem one_order_refines:
  assumes x: "x \<in> set (tb_orders s)" and id: "o_id x' = o_id x"
    and orders_eq: "consistent s \<Longrightarrow> tb_orders s' = overwrite (\<lambda>y. o_id y = o_id x) x' (tb_orders s)"
    and bookings: "consistent s \<Longrightarrow> bookings_ok (o_id ` set (tb_orders s)) (tb_assignments s')"
    and kept: "consistent s \<Longrightarrow> persists (tb_assignments s) (tb_assignments s')"
    and others: "consistent s \<Longrightarrow>
          \<forall>i. i \<noteq> o_id x \<longrightarrow> open_of (tb_assignments s') i = open_of (tb_assignments s) i"
    and fits: "consistent s \<Longrightarrow> coherent x' (open_of (tb_assignments s') (o_id x))"
    and history: "tb_history s' = tb_history s @ hs" "\<forall>h \<in> set hs. h_order_id h = o_id x"
    and replays: "consistent s \<Longrightarrow> replay (o_status x) (transitions hs (o_id x)) = Some (o_status x')"
    and step: "consistent s \<Longrightarrow>
          lifecycle\<^sup>*\<^sup>* (o_status x, map_option a_status (open_of (tb_assignments s) (o_id x)))
                       (o_status x', map_option a_status (open_of (tb_assignments s') (o_id x)))"
  shows "refines e s s'"
  unfolding refines_def
proof (intro impI conjI allI)
  assume c: "consistent s"
  note orders = orders_eq [OF c]
  have set': "set (tb_orders s') = insert x' {y \<in> set (tb_orders s). o_id y \<noteq> o_id x}"
    using x by (auto simp: orders set_overwrite)
  have keys: "map o_id (tb_orders s') = map o_id (tb_orders s)"
    unfolding orders by (rule overwrite_keys) (simp add: id)
  then have ids: "o_id ` set (tb_orders s') = o_id ` set (tb_orders s)"
    by (metis list.set_map)
  have only: "transitions hs i = []" if "i \<noteq> o_id x" for i
    using history(2) that by (auto simp: transitions_def filter_empty_conv)
  show "consistent s'"
    unfolding consistent_def keys ids
  proof (intro conjI)
    show "distinct (map o_id (tb_orders s))" using c by (simp add: consistent_def)
    show "bookings_ok (o_id ` set (tb_orders s)) (tb_assignments s')" using c by (rule bookings)
    show "\<forall>h \<in> set (tb_history s'). h_order_id h \<in> o_id ` set (tb_orders s)"
      using c x history by (auto simp: consistent_def)
    show "\<forall>y \<in> set (tb_orders s'). coherent y (open_of (tb_assignments s') (o_id y)) \<and>
        replay OrderDraft (transitions (tb_history s') (o_id y)) = Some (o_status y)"
      using c x fits others replays only
      by (auto simp: set' id history consistent_def transitions_append replay_append)
  qed
  show "grows s s'" using kept [OF c] history(1) by (simp add: grows_def)
  fix i
  show "moves (phase_of s i) (phase_of s' i)"
  proof (cases "i = o_id x")
    case True
    have "order_of (tb_orders s) i = Some x"
      using c x True by (simp add: consistent_def order_of_unique)
    then show ?thesis
      using step [OF c] True id
      by (simp add: phase_of_def orders order_of_overwrite [of "o_id x" x'] moves_def)
  next
    case False
    then show ?thesis
      using others [OF c] id by (simp add: phase_of_def orders order_of_overwrite [of "o_id x" x'])
  qed
qed

end
