(* ===== verification/Commands.thy ===== *)
theory Commands
  imports Assignments Lifecycle
begin

text \<open>
  What every successful command of \<open>Assignments\<close> read, checked and wrote, and that each of them
  refines the lifecycle machine.
\<close>

section \<open>Stored rows\<close>

lemma order_row_fields [simp]:
  "o_id (order_row e x) = o_id x" "o_status (order_row e x) = o_status x"
  "o_driver_id (order_row e x) = o_driver_id x" "o_submitted_at (order_row e x) = ts (o_submitted_at x)"
  "o_created_by (order_row e x) = o_created_by x" "o_origin_warehouse (order_row e x) = o_origin_warehouse x"
  "o_dest_warehouse (order_row e x) = o_dest_warehouse x" "o_policy_version (order_row e x) = o_policy_version x"
  "o_details (order_row e x) = o_details x"
  by (simp_all add: order_row_def)

lemma assignment_row_fields [simp]:
  "a_id (assignment_row e a) = a_id a" "a_order_id (assignment_row e a) = a_order_id a"
  "a_status (assignment_row e a) = a_status a" "a_driver_id (assignment_row e a) = a_driver_id a"
  "a_vehicle_id (assignment_row e a) = a_vehicle_id a"
  by (simp_all add: assignment_row_def)

lemma ts_None [simp]: "ts x = None \<longleftrightarrow> x = None"
  by (simp add: ts_def)

lemma open_statuses [simp]:
  "open_status AssignmentPendingAcceptance" "open_status AssignmentAccepted" "open_status AssignmentActive"
  "\<not> open_status AssignmentRejected" "\<not> open_status AssignmentReleased"
  "\<not> open_status AssignmentExpired" "\<not> open_status AssignmentCompleted"
  by (simp_all add: open_status_def)

lemma find_list_ex: "find p xs = Some x \<Longrightarrow> list_ex p xs"
  by (auto simp: list_ex_iff dest: find_Some_mem)

section \<open>The lock set\<close>

lemma lock_row_run [runs]:
  assumes "lock_row wait t p e s = (Inr r, s')"
  obtains "find p (rows t s) = Some r" and "s' = s\<lparr>locks := locks s @ [lock_of t r]\<rparr>"
  using assms unfolding lock_row_def get_one_locked_def get_one_nowait_def
  by (auto split: option.splits if_splits)

lemma busy_or_run [runs]:
  assumes "busy_or m er e s = (Inr v, s')"
  obtains "m e s = (Inr v, s')"
  using assms unfolding busy_or_def by (auto split: prod.splits sum.splits)

text \<open>The rows a command works on.\<close>

definition context_of :: "db \<Rightarrow> uuid \<Rightarrow> order \<Rightarrow> assignment \<Rightarrow> driver \<Rightarrow> vehicle \<Rightarrow> bool" where
  "context_of s i ord a drv veh \<longleftrightarrow>
     find (\<lambda>a. a_id a = i) (tb_assignments s) = Some a \<and>
     find (\<lambda>x. o_id x = a_order_id a) (tb_orders s) = Some ord \<and>
     find (\<lambda>d. d_id d = a_driver_id a) (tb_drivers s) = Some drv \<and>
     find (\<lambda>v. v_id v = a_vehicle_id a) (tb_vehicles s) = Some veh"

lemma lock_context_wait_run [runs]:
  assumes "lock_assignment_context_with_wait i wait e s = (Inr r, s')"
  obtains ord a drv veh where "r = (ord, a, drv, veh)" and "context_of s i ord a drv veh"
    and "s' = s\<lparr>locks := locks s @ [LockOrder (o_id ord), LockAssignment (a_id a), LockDriver (d_id drv),
            LockVehicle (v_id veh)]\<rparr>"
  using assms unfolding lock_assignment_context_with_wait_def
proof (elim runs, goal_cases)
  case (1 seed s1 ord s2 a s3 s4 drv s5 veh s6)
  have "Some a = Some seed" using 1(6,7,9,10) by (simp only: table_rows) simp
  then have "a = seed" by simp
  then show ?case
    using 1(1,2,3,5,7-15) by (intro that [of ord a drv veh]) (simp_all add: context_of_def)
qed

lemma context_ids:
  assumes "context_of s i ord a drv veh"
  shows "a \<in> set (tb_assignments s)" "a_id a = i" "ord \<in> set (tb_orders s)" "o_id ord = a_order_id a"
    "d_id drv = a_driver_id a" "v_id veh = a_vehicle_id a"
    "list_ex (\<lambda>a. a_id a = i) (tb_assignments s)" "list_ex (\<lambda>x. o_id x = a_order_id a) (tb_orders s)"
  using assms unfolding context_of_def by (auto dest: find_Some_mem find_list_ex)

lemma lock_context_run [runs]:
  assumes "lock_assignment_context i e s = (Inr r, s')"
  obtains ord a drv veh l where "r = (ord, a, drv, veh)" and "context_of s i ord a drv veh"
    and "s' = s\<lparr>locks := l\<rparr>" and "a \<in> set (tb_assignments s)" and "a_id a = i" and "o_id ord = a_order_id a"
    and "list_ex (\<lambda>a. a_id a = i) (tb_assignments s)" and "list_ex (\<lambda>x. o_id x = a_order_id a) (tb_orders s)"
proof -
  from assms have "lock_assignment_context_with_wait i True e s = (Inr r, s')"
    by (simp add: lock_assignment_context_def)
  then obtain ord a drv veh where r: "r = (ord, a, drv, veh)" and cx: "context_of s i ord a drv veh"
    and s': "s' = s\<lparr>locks := locks s @ [LockOrder (o_id ord), LockAssignment (a_id a), LockDriver (d_id drv),
            LockVehicle (v_id veh)]\<rparr>"
    by (rule lock_context_wait_run)
  show ?thesis by (rule that [OF r cx s']) (fact context_ids [OF cx])+
qed

text \<open>In a consistent state an open assignment is the one its order points to.\<close>

lemma booking_coherent:
  assumes mem: "a \<in> set (tb_assignments s)" "ord \<in> set (tb_orders s)" "o_id ord = a_order_id a" and "consistent s"
  shows "open_status (a_status a) \<Longrightarrow> open_of (tb_assignments s) (a_order_id a) = Some a"
    and "open_status (a_status a) \<Longrightarrow> coherent ord (Some a)"
    and "bookings_ok (o_id ` set (tb_orders s)) (tb_assignments s)"
proof -
  show bookings: "bookings_ok (o_id ` set (tb_orders s)) (tb_assignments s)"
    using assms(4) by (simp add: consistent_def)
  show opens: "open_status (a_status a) \<Longrightarrow> open_of (tb_assignments s) (a_order_id a) = Some a"
    using open_of_unique [OF bookings] mem by simp
  show "open_status (a_status a) \<Longrightarrow> coherent ord (Some a)"
    using opens assms(4) mem unfolding consistent_def by metis
qed

section \<open>Expiry\<close>

text \<open>The release record of an assignment that has just been closed.\<close>

definition release_queued :: "db \<Rightarrow> uuid \<Rightarrow> bool" where
  "release_queued s i \<longleftrightarrow> (\<exists>q \<in> set (tb_release_queue s). q_assignment_id q = i)"

lemma expire_assignment_run:
  assumes "expire_assignment a now e s = (Inr u, s')" and "a \<in> set (tb_assignments s)"
  obtains (kept) "a_status a \<noteq> AssignmentPendingAcceptance \<or> now < a_offer_expires_at a" and "s' = s"
  | (expired) "a_status a = AssignmentPendingAcceptance" and "a_offer_expires_at a \<le> now"
    and "tb_orders s' = tb_orders s" and "tb_history s' = tb_history s"
    and "tb_assignments s' = overwrite (\<lambda>x. a_id x = a_id a)
           (assignment_row e (a\<lparr>a_status := AssignmentExpired\<rparr>)) (tb_assignments s)"
    and "release_queued s' (a_id a)"
proof -
  have ex: "list_ex (\<lambda>x. a_id x = a_id a) (tb_assignments s)" using assms(2) by (auto simp: list_ex_iff)
  from assms(1) show ?thesis
    unfolding expire_assignment_def
  proof (elim runs, goal_cases)
    case 1
    then show ?case by (intro kept) simp_all
  next
    case 2
    then show ?case using ex by simp
  next
    case 3
    then show ?case by (intro expired) (simp_all add: release_queued_def)
  qed
qed

section \<open>Refinement of a command on one assignment\<close>

theorem booking_refines:
  assumes mem: "a \<in> set (tb_assignments s)" "ord \<in> set (tb_orders s)" "o_id ord = a_order_id a" and opn: "open_status (a_status a)"
    and ids: "o_id ord' = o_id ord" "a_id b = a_id a" "a_order_id b = a_order_id a"
    and orders: "tb_orders s' = overwrite (\<lambda>x. o_id x = o_id ord) ord' (tb_orders s)"
    and bookings: "tb_assignments s' = overwrite (\<lambda>x. a_id x = a_id a) b (tb_assignments s)"
    and history: "tb_history s' = tb_history s @ hs" "\<forall>h \<in> set hs. h_order_id h = o_id ord"
    and replays: "replay (o_status ord) (transitions hs (o_id ord)) = Some (o_status ord')"
    and fits: "coherent ord (Some a) \<Longrightarrow>
       coherent ord' (if open_status (a_status b) then Some b else None) \<and>
       lifecycle\<^sup>*\<^sup>* (o_status ord, Some (a_status a))
         (o_status ord', if open_status (a_status b) then Some (a_status b) else None)"
  shows "refines e s s'"
proof -
  have after: "open_of (tb_assignments s') j =
      (if j = o_id ord then (if open_status (a_status b) then Some b else None) else open_of (tb_assignments s) j)"
    and ok: "bookings_ok (o_id ` set (tb_orders s)) (tb_assignments s')"
    and before: "open_of (tb_assignments s) (o_id ord) = Some a" and coh: "coherent ord (Some a)"
    if c: "consistent s" for j
  proof -
    note cc = booking_coherent [OF mem c]
    note ow = overwrite_booking [OF cc(3) mem(1) ids(2,3)]
    show "open_of (tb_assignments s') j =
      (if j = o_id ord then (if open_status (a_status b) then Some b else None) else open_of (tb_assignments s) j)"
      unfolding bookings using ow(2) opn mem by simp
    show "bookings_ok (o_id ` set (tb_orders s)) (tb_assignments s')"
      unfolding bookings using ow(1) opn by simp
    show "open_of (tb_assignments s) (o_id ord) = Some a" using cc(1) opn mem by simp
    show "coherent ord (Some a)" using cc(2) opn .
  qed
  show ?thesis
  proof (rule one_order_refines [where x = ord and x' = ord' and hs = hs])
    show "ord \<in> set (tb_orders s)" "o_id ord' = o_id ord" by (fact mem(2) ids(1))+
    show "tb_orders s' = overwrite (\<lambda>y. o_id y = o_id ord) ord' (tb_orders s)" by (fact orders)
    show "tb_history s' = tb_history s @ hs" "\<forall>h \<in> set hs. h_order_id h = o_id ord" by (fact history)+
    show "replay (o_status ord) (transitions hs (o_id ord)) = Some (o_status ord')" by (fact replays)
    assume c: "consistent s"
    then have "distinct (map a_id (tb_assignments s))" by (simp add: consistent_def bookings_ok_def)
    then show "persists (tb_assignments s) (tb_assignments s')" unfolding bookings by (rule persists_overwrite [OF _ mem(1) ids(2,3)])
    show "bookings_ok (o_id ` set (tb_orders s)) (tb_assignments s')" by (rule ok [OF c])
    show "\<forall>j. j \<noteq> o_id ord \<longrightarrow> open_of (tb_assignments s') j = open_of (tb_assignments s) j"
      using after [OF c] by simp
    show "coherent ord' (open_of (tb_assignments s') (o_id ord))"
      using after [OF c] fits [OF coh [OF c]] by simp
    show "lifecycle\<^sup>*\<^sup>* (o_status ord, map_option a_status (open_of (tb_assignments s) (o_id ord)))
            (o_status ord', map_option a_status (open_of (tb_assignments s') (o_id ord)))"
      using after [OF c] before [OF c] fits [OF coh [OF c]] by (auto split: if_splits)
  qed
qed

lemmas context_refines = booking_refines [OF context_ids(1,3,4)]

text \<open>Closing an offer that nobody accepted leaves its order where it was.\<close>

corollary closing_refines:
  assumes cx: "context_of s i ord a drv veh" and pend: "a_status a = AssignmentPendingAcceptance"
    and ids: "a_id b = a_id a" "a_order_id b = a_order_id a" "\<not> open_status (a_status b)"
    and tables: "tb_orders s' = tb_orders s" "tb_history s' = tb_history s"
      "tb_assignments s' = overwrite (\<lambda>x. a_id x = a_id a) b (tb_assignments s)"
  shows "refines e s s'"
proof (cases "consistent s")
  case True
  then have "overwrite (\<lambda>x. o_id x = o_id ord) ord (tb_orders s) = tb_orders s"
    using context_ids(3) [OF cx] by (simp add: consistent_def overwrite_self)
  then show ?thesis
    using pend ids tables
    by (intro context_refines [OF cx cx cx, where ord' = ord and b = b and hs = "[]"])
       (auto simp: transitions_def intro: lifecycle.close)
qed (simp add: refines_def)

lemma expire_assignment_refines:
  assumes "expire_assignment a now e s = (Inr u, s')" and "context_of s i ord a drv veh"
  shows "refines e s s'"
  using assms(1) context_ids(1) [OF assms(2)]
proof (cases rule: expire_assignment_run)
  case kept
  then show ?thesis by (simp add: ref.frame_refl)
next
  case expired
  then show ?thesis by (intro closing_refines [OF assms(2)]) simp_all
qed

lemma context_of_core:
  "context_of (s\<lparr>locks := l\<rparr>) i ord a drv veh = context_of s i ord a drv veh"
  "context_of (s\<lparr>ticks := n\<rparr>) i ord a drv veh = context_of s i ord a drv veh"
  by (simp_all add: context_of_def)

lemma same_core_simps [simp]:
  "same_core s (s\<lparr>locks := l\<rparr>)" "same_core s (s\<lparr>ticks := n\<rparr>)" "same_core s (s\<lparr>issued := n\<rparr>)"
  by (simp_all add: same_core_def)

lemma expire_assignment_by_id_refines [simp]: "framed refines (expire_assignment_by_id candidate wait)"
  unfolding expire_assignment_by_id_def
proof (rule framed_in_tx)
  fix e s x s'
  assume "bind (lock_assignment_context_with_wait (a_id candidate) wait)
     (\<lambda>(ord, a, drv, veh). bind time_now (expire_assignment a)) e s = (Inr x, s')"
  then obtain ord a drv veh l n now where cx: "context_of s (a_id candidate) ord a drv veh"
    and run: "expire_assignment a now e (s\<lparr>locks := l, ticks := n\<rparr>) = (Inr x, s')"
    by (elim runs) simp
  have "refines e (s\<lparr>locks := l, ticks := n\<rparr>) s'"
    using run cx by (intro expire_assignment_refines) (simp_all add: context_of_core)
  then show "refines e s s'"
    by (rule refines_same_core) (simp_all add: same_core_def)
qed

lemma eligible_core [simp]:
  "eligible (s\<lparr>locks := l\<rparr>) ord drv veh from to = eligible s ord drv veh from to"
  "eligible (s\<lparr>ticks := n\<rparr>) ord drv veh from to = eligible s ord drv veh from to"
  "eligible (s\<lparr>issued := n\<rparr>) ord drv veh from to = eligible s ord drv veh from to"
  by (simp_all add: eligible_def)

section \<open>Accepting\<close>

text \<open>The tables after a command has rewritten one order and one of its assignments.\<close>

definition rewrote :: "env \<Rightarrow> db \<Rightarrow> db \<Rightarrow> order \<Rightarrow> order \<Rightarrow> assignment \<Rightarrow> assignment \<Rightarrow> status_history list \<Rightarrow> bool" where
  "rewrote e s s' ord ord' a a' hs \<longleftrightarrow>
     tb_orders s' = overwrite (\<lambda>x. o_id x = o_id ord) (order_row e ord') (tb_orders s) \<and>
     tb_assignments s' = overwrite (\<lambda>x. a_id x = a_id a) (assignment_row e a') (tb_assignments s) \<and>
     tb_history s' = tb_history s @ hs"

definition closed :: "env \<Rightarrow> db \<Rightarrow> db \<Rightarrow> assignment \<Rightarrow> assignment \<Rightarrow> bool" where
  "closed e s s' a a' \<longleftrightarrow> tb_orders s' = tb_orders s \<and> tb_history s' = tb_history s \<and>
     tb_assignments s' = overwrite (\<lambda>x. a_id x = a_id a) (assignment_row e a') (tb_assignments s) \<and>
     release_queued s' (a_id a)"

lemma accept_tx_run:
  assumes "accept_tx i user e s = (Inr r, s')"
  obtains (expired) ord a drv veh where "context_of s i ord a drv veh" and "d_user_id drv = user"
    and "a_status a = AssignmentPendingAcceptance" and "r = Inl (Business ErrAssignmentExpired)"
    and "a_offer_expires_at a \<le> clock e (ticks s)"
    and "closed e s s' a (a\<lparr>a_status := AssignmentExpired\<rparr>)"
  | (accepted) ord a drv veh now h where "context_of s i ord a drv veh" and "d_user_id drv = user"
    and "a_status a = AssignmentPendingAcceptance" and "now = clock e (ticks s)" and "now < a_offer_expires_at a"
    and "o_status ord = OrderReadyForDispatch" and "eligible s ord drv veh (a_planned_from a) (a_planned_to a)"
    and "r = Inr (a\<lparr>a_status := AssignmentAccepted, a_accepted_at := Some now\<rparr>)"
    and "rewrote e s s' ord
           (ord\<lparr>o_status := OrderAssigned, o_driver_id := Some (a_driver_id a), o_assigned_at := Some now\<rparr>)
           a (a\<lparr>a_status := AssignmentAccepted, a_accepted_at := Some now\<rparr>) [h]"
    and "history_entry (o_id ord) OrderReadyForDispatch OrderAssigned user None h"
proof -
  from assms show ?thesis
    unfolding accept_tx_def expire_assignment_def Let_def
    apply (elim runs)
    apply simp_all
    subgoal by (rule expired, assumption,
        (assumption | rule refl | (simp (no_asm_simp) add: closed_def release_queued_def; fail))+)
    subgoal by (rule accepted, assumption, (assumption | rule refl | (simp (no_asm_simp) add: rewrote_def; fail))+)
    subgoal by (rule accepted, assumption, (assumption | rule refl | (simp (no_asm_simp) add: rewrote_def; fail))+)
    done
qed

lemma transitions_entry:
  "history_entry i from to actor reason h \<Longrightarrow> transitions [h] i = [(from, to)]"
  by (simp add: transitions_def history_entry_def)

lemma rewrote_refines:
  assumes cx: "context_of s i ord a drv veh" and opn: "open_status (a_status a)"
    and w: "rewrote e s s' ord ord' a a' [h]" and entry: "history_entry (o_id ord) (o_status ord) (o_status ord') user reason h"
    and ids: "o_id ord' = o_id ord" "a_id a' = a_id a" "a_order_id a' = a_order_id a"
    and legal: "can_transition_order (o_status ord) (o_status ord')"
    and fits: "coherent ord (Some a) \<Longrightarrow>
       coherent (order_row e ord') (if open_status (a_status a') then Some (assignment_row e a') else None) \<and>
       lifecycle (o_status ord, Some (a_status a))
         (o_status ord', if open_status (a_status a') then Some (a_status a') else None)"
  shows "refines e s s'"
  using w ids entry legal fits transitions_entry [OF entry]
  by (intro context_refines [OF cx cx cx opn, where ord' = "order_row e ord'" and b = "assignment_row e a'" and hs = "[h]"])
     (auto simp: rewrote_def history_entry_def)

lemma closed_refines:
  assumes "context_of s i ord a drv veh" and "a_status a = AssignmentPendingAcceptance"
    and "closed e s s' a a'" and "a_id a' = a_id a" "a_order_id a' = a_order_id a" "\<not> open_status (a_status a')"
  shows "refines e s s'"
  using assms by (intro closing_refines [OF assms(1,2), where b = "assignment_row e a'"]) (simp_all add: closed_def)

lemma accept_tx_refines:
  assumes "accept_tx i user e s = (Inr r, s')"
  shows "refines e s s'"
  using assms
proof (cases rule: accept_tx_run)
  case (expired ord a drv veh)
  then show ?thesis by (intro closed_refines [OF expired(1,3,6)]) simp_all
next
  case (accepted ord a drv veh now h)
  then show ?thesis
    by (intro rewrote_refines [OF accepted(1) _ accepted(9)]) (auto intro: lifecycle.accept)
qed

section \<open>Rejecting\<close>


lemma reject_tx_run:
  assumes "reject_tx i user req e s = (Inr r, s')"
  obtains ord a drv veh now where "context_of s i ord a drv veh" and "d_user_id drv = user"
    and "a_status a = AssignmentPendingAcceptance" and "now = clock e (ticks s)"
    and "r = a\<lparr>a_status := AssignmentRejected, a_rejected_at := Some now,
                a_rejection_code := Some (rj_reason_code req), a_rejection_comment := rj_comment req\<rparr>"
    and "closed e s s' a r"
proof -
  from assms show ?thesis
    unfolding reject_tx_def Let_def
    apply (elim runs)
    apply simp_all
    by (rule that, assumption, (assumption | rule refl | (simp (no_asm_simp) add: closed_def release_queued_def; fail))+)
qed

lemma reject_tx_refines:
  assumes "reject_tx i user req e s = (Inr r, s')"
  shows "refines e s s'"
  using assms
proof (cases rule: reject_tx_run)
  case (1 ord a drv veh now)
  then show ?thesis by (intro closed_refines [OF 1(1,3,6)]) simp_all
qed

section \<open>Starting\<close>

lemma no_open_incident_core [simp]:
  "no_open_incident (s\<lparr>locks := l\<rparr>) = no_open_incident s"
  "operation_recorded (s\<lparr>locks := l\<rparr>) = operation_recorded s"
  by (auto simp: no_open_incident_def operation_recorded_def fun_eq_iff)

lemma start_tx_run:
  assumes "start_tx i user e s = (Inr r, s')"
  obtains ord a drv veh now h where "context_of s i ord a drv veh" and "d_user_id drv = user"
    and "a_status a = AssignmentAccepted" and "o_status ord = OrderAssigned" and "now = clock e (ticks s)"
    and "no_open_incident s (o_id ord)"
    and "o_origin_warehouse ord \<noteq> None \<Longrightarrow> operation_recorded s (o_id ord) ''load'' (Some i)"
    and "r = a\<lparr>a_status := AssignmentActive, a_started_at := Some now\<rparr>"
    and "rewrote e s s' ord (ord\<lparr>o_status := OrderInTransit, o_started_at := Some now\<rparr>) a r [h]"
    and "history_entry (o_id ord) OrderAssigned OrderInTransit user None h"
proof -
  have assigned: "o_status x = OrderAssigned" if "can_transition_order (o_status x) OrderInTransit" for x
    using that by (cases "o_status x") simp_all
  from assms show ?thesis
    unfolding start_tx_def Let_def
    apply (elim runs)
    apply (simp_all add: assigned)
    by (rule that, assumption, (assumption | rule refl | (simp (no_asm_simp) add: rewrote_def assigned; fail) | (simp; fail))+)+
qed

lemma rewrote_transition: "can_transition_order a b \<Longrightarrow> history_entry i a b user reason h \<Longrightarrow>
    replay a (transitions [h] i) = Some b"
  by (simp add: transitions_entry)

lemma start_tx_refines:
  assumes "start_tx i user e s = (Inr r, s')"
  shows "refines e s s'"
  using assms
proof (cases rule: start_tx_run)
  case (1 ord a drv veh now h)
  then show ?thesis
    by (intro rewrote_refines [OF 1(1) _ 1(9)]) (auto intro: lifecycle.depart)
qed

section \<open>Arriving\<close>

lemma arrive_tx_run:
  assumes "arrive_tx i user e s = (Inr r, s')"
  obtains ord a drv veh now h where "context_of s i ord a drv veh" and "d_user_id drv = user" and "r = a"
    and "a_status a = AssignmentActive" and "o_status ord = OrderInTransit" and "now = clock e (ticks s)"
    and "tb_orders s' = overwrite (\<lambda>x. o_id x = o_id ord)
           (order_row e (ord\<lparr>o_status := OrderArrived, o_arrived_at := Some now\<rparr>)) (tb_orders s)"
    and "tb_assignments s' = tb_assignments s" and "tb_history s' = tb_history s @ [h]"
    and "history_entry (o_id ord) OrderInTransit OrderArrived user None h"
proof -
  have in_transit: "o_status x = OrderInTransit" if "can_transition_order (o_status x) OrderArrived" for x
    using that by (cases "o_status x") simp_all
  from assms show ?thesis
    unfolding arrive_tx_def Let_def
    apply (elim runs)
    apply (simp_all add: in_transit)
    by (rule that, assumption, (assumption | rule refl | (simp (no_asm_simp) add: in_transit; fail) | (simp; fail))+)+
qed

lemma order_rewrite_refines:
  assumes cx: "context_of s i ord a drv veh" and opn: "open_status (a_status a)"
    and orders: "tb_orders s' = overwrite (\<lambda>x. o_id x = o_id ord) (order_row e ord') (tb_orders s)"
    and same: "tb_assignments s' = tb_assignments s" "tb_history s' = tb_history s @ [h]"
    and entry: "history_entry (o_id ord) (o_status ord) (o_status ord') user reason h" and id: "o_id ord' = o_id ord"
    and legal: "can_transition_order (o_status ord) (o_status ord')"
    and fits: "coherent ord (Some a) \<Longrightarrow> coherent (order_row e ord') (Some a) \<and>
       lifecycle (o_status ord, Some (a_status a)) (o_status ord', Some (a_status a))"
  shows "refines e s s'"
proof (cases "consistent s")
  case True
  then have "bookings_ok (o_id ` set (tb_orders s)) (tb_assignments s)" by (simp add: consistent_def)
  then have "distinct (map a_id (tb_assignments s))" by (simp add: bookings_ok_def)
  then have "overwrite (\<lambda>x. a_id x = a_id a) a (tb_assignments s) = tb_assignments s"
    using context_ids(1) [OF cx] by (simp add: overwrite_self)
  then show ?thesis
    using assms transitions_entry [OF entry]
    by (intro context_refines [OF cx cx cx opn, where ord' = "order_row e ord'" and b = a and hs = "[h]"])
       (auto simp: history_entry_def)
qed (simp add: refines_def)

lemma arrive_tx_refines:
  assumes "arrive_tx i user e s = (Inr r, s')"
  shows "refines e s s'"
  using assms
proof (cases rule: arrive_tx_run)
  case (1 ord a drv veh now h)
  then show ?thesis
    by (intro order_rewrite_refines [OF 1(1) _ 1(7-9)]) (auto intro: lifecycle.arrive)
qed

section \<open>Completing\<close>

lemma authorize_completion_run [runs]:
  assumes "authorize_completion ord a drv user role e s = (Inr u, s')"
  obtains "s' = s" and "role = ''driver'' \<longrightarrow> d_user_id drv = user"
    and "role = ''manager'' \<longrightarrow> (\<exists>w. manages s user w \<and> responsible_warehouse ord = Some w)"
    and "a_status a = AssignmentActive" and "o_status ord = OrderArrived" and "no_open_incident s (o_id ord)"
    and "o_dest_warehouse ord \<noteq> None \<longrightarrow>
           role \<noteq> ''driver'' \<and> operation_recorded s (o_id ord) ''unload'' (Some (a_id a))"
proof -
  have arrived: "o_status x = OrderArrived" if "can_transition_order (o_status x) OrderCompleted" for x
    using that by (cases "o_status x") simp_all
  from assms show ?thesis
    unfolding authorize_completion_def
    apply (elim runs)
    apply (simp_all add: arrived)
    by (rule that; (simp add: arrived; fail)?; blast?)+
qed

lemma completion_receipt_run [runs]:
  assumes "completion_receipt ord a req e s = (Inr r, s')"
  obtains receipt req' where "s' = s" and "r = (receipt, req')"
    and "receipt = find (\<lambda>x. r_order_id x = o_id ord) (tb_receipts s)"
    and "o_policy_version ord = 1 \<longrightarrow> receipt \<noteq> None"
    and "\<forall>x. receipt = Some x \<longrightarrow> r_assignment_id x = a_id a \<and> dl_recipient_name req' = Some (r_recipient_name x)"
    and "bounded_text (string_value (dl_recipient_name req')) 0 200"
    and "bounded_text (string_value (dl_comment req')) 0 2000"
proof -
  from assms show ?thesis
    unfolding completion_receipt_def
    apply (elim runs)
    apply (simp_all)
    by (rule that, assumption, assumption, (simp; fail)+)+
qed

lemma record_delivery_run [runs]:
  assumes "record_delivery ord a drv veh receipt now e s = (Inr u, s')"
  obtains "tb_orders s' = tb_orders s" and "tb_assignments s' = tb_assignments s" and "tb_history s' = tb_history s"
proof -
  from assms have "tb_orders s' = tb_orders s \<and> tb_assignments s' = tb_assignments s \<and> tb_history s' = tb_history s"
    unfolding record_delivery_def by (elim runs) simp_all
  then show ?thesis using that by blast
qed

lemma trip_legs_run [runs]:
  assumes "trip_legs order e s = (Inr legs, s')"
  obtains "s' = s"
  using assms unfolding trip_legs_def by (elim runs) (simp add: that)


lemma complete_tx_run:
  assumes "complete_tx i user role req e s = (Inr r, s')"
  obtains ord a drv veh receipt and req' :: delivery_complete and now h where "context_of s i ord a drv veh"
    and "\<forall>x. receipt = Some x \<longrightarrow> r_assignment_id x = i \<and> dl_recipient_name req' = Some (r_recipient_name x)"
    and "role = ''driver'' \<longrightarrow> d_user_id drv = user"
    and "role = ''manager'' \<longrightarrow> (\<exists>w. manages s user w \<and> responsible_warehouse ord = Some w)"
    and "a_status a = AssignmentActive" and "o_status ord = OrderArrived" and "no_open_incident s (o_id ord)"
    and "o_dest_warehouse ord \<noteq> None \<longrightarrow>
           role \<noteq> ''driver'' \<and> operation_recorded s (o_id ord) ''unload'' (Some i)"
    and "receipt = find (\<lambda>x. r_order_id x = o_id ord) (tb_receipts s)"
    and "o_policy_version ord = 1 \<longrightarrow> receipt \<noteq> None"
    and "now = clock e (ticks s)"
    and "r = a\<lparr>a_status := AssignmentCompleted, a_completed_at := Some now,
                a_recipient_name := dl_recipient_name req', a_delivery_comment := dl_comment req'\<rparr>"
    and "rewrote e s s' ord (ord\<lparr>o_status := OrderCompleted, o_delivered_at := Some now\<rparr>) a r [h]"
    and "history_entry (o_id ord) OrderArrived OrderCompleted user None h" and "release_queued s' i"
proof -
  have core: "manages (s\<lparr>locks := l\<rparr>) = manages s" for l
    by (simp add: manages_def fun_eq_iff)
  from assms show ?thesis
    unfolding complete_tx_def Let_def
    apply (elim runs)
    apply (simp_all add: core)
    by (rule that, assumption, assumption, (assumption | rule refl |
        (simp (no_asm_simp) add: rewrote_def release_queued_def; fail) | (simp; fail))+)
qed

lemma complete_tx_refines:
  assumes "complete_tx i user role req e s = (Inr r, s')"
  shows "refines e s s'"
  using assms
proof (cases rule: complete_tx_run)
  case (1 ord a drv veh receipt req' now h)
  then show ?thesis
    by (intro rewrote_refines [OF 1(1) _ 1(13)]) (auto intro: lifecycle.finish)
qed


end
