(* ===== verification/Offers.thy ===== *)
theory Offers
  imports Commands
begin

text \<open>
  Submitting, cancelling and offering: what the successful runs read and wrote, and that they
  refine the lifecycle machine.  Offering may release a previous assignment of the order in
  the same transaction.
\<close>

section \<open>Changing an order without touching its assignments\<close>

lemma order_change_refines:
  assumes x: "x \<in> set (tb_orders s)" and id: "o_id x' = o_id x"
    and orders: "tb_orders s' = overwrite (\<lambda>y. o_id y = o_id x) x' (tb_orders s)"
    and same: "tb_assignments s' = tb_assignments s"
    and history: "tb_history s' = tb_history s @ hs" "\<forall>h \<in> set hs. h_order_id h = o_id x"
    and replays: "replay (o_status x) (transitions hs (o_id x)) = Some (o_status x')"
    and fits: "\<And>oa. coherent x oa \<Longrightarrow> coherent x' oa \<and>
       lifecycle\<^sup>*\<^sup>* (o_status x, map_option a_status oa) (o_status x', map_option a_status oa)"
  shows "refines e s s'"
proof (rule one_order_refines [where x = x and x' = x' and hs = hs])
  show "tb_history s' = tb_history s @ hs" "\<forall>h \<in> set hs. h_order_id h = o_id x" by (fact history)+
  assume c: "consistent s"
  then have coh: "coherent x (open_of (tb_assignments s) (o_id x))" using x by (simp add: consistent_def)
  show "bookings_ok (o_id ` set (tb_orders s)) (tb_assignments s')" using c by (simp add: same consistent_def)
  show "coherent x' (open_of (tb_assignments s') (o_id x))" using fits [OF coh] by (simp add: same)
  show "lifecycle\<^sup>*\<^sup>* (o_status x, map_option a_status (open_of (tb_assignments s) (o_id x)))
     (o_status x', map_option a_status (open_of (tb_assignments s') (o_id x)))"
    using fits [OF coh] by (simp add: same)
qed (simp_all add: assms)

lemma coherent_draft: "coherent x oa \<Longrightarrow> o_status x = OrderDraft \<Longrightarrow> oa = None"
  by (cases oa) auto

section \<open>Submitting\<close>

lemma submit_tx_run:
  assumes "submit_tx i user role e s = (Inr r, s')"
  obtains ord now h where "find (\<lambda>x. o_id x = i) (tb_orders s) = Some ord"
    and "o_status ord = OrderDraft \<or> o_status ord = OrderAssigned"
    and "role = ''manager'' \<or> role = ''admin'' \<or> role = ''client'' \<and> o_created_by ord = Some user"
    and "role = ''manager'' \<longrightarrow> (\<exists>w. manages s user w \<and> o_origin_warehouse ord = Some w)"
    and "o_policy_version ord = 1 \<longrightarrow> o_details ord \<noteq> NoDetails"
    and "r = ord\<lparr>o_status := OrderReadyForDispatch, o_submitted_at := Some now\<rparr>"
    and "tb_orders s' = overwrite (\<lambda>x. o_id x = i) (order_row e r) (tb_orders s)"
    and "tb_assignments s' = tb_assignments s" and "tb_history s' = tb_history s @ [h]"
    and "history_entry (o_id ord) (o_status ord) OrderReadyForDispatch user None h"
proof -
  have from_status: "o_status x = OrderDraft \<or> o_status x = OrderAssigned"
    if "can_transition_order (o_status x) OrderReadyForDispatch" for x
    using that by (cases "o_status x") simp_all
  have core: "manages (s\<lparr>locks := l\<rparr>) = manages s" for l
    by (simp add: manages_def fun_eq_iff)
  from assms show ?thesis
    unfolding submit_tx_def Let_def
    apply (elim runs)
    apply (simp_all add: core find_list_ex)
    by (rule that, assumption, rule from_status, assumption, (assumption | rule refl |
         (simp (no_asm_simp) add: from_origin_def; fail) | (simp; fail) | (fastforce simp: from_origin_def; fail))+)+
qed

lemma submit_tx_refines:
  assumes "submit_tx i user role e s = (Inr r, s')"
  shows "refines e s s'"
  using assms
proof (cases rule: submit_tx_run)
  case (1 ord now h)
  from find_Some_mem [OF 1(1)] have x: "ord \<in> set (tb_orders s)" and id: "o_id ord = i" by simp_all
  show ?thesis
  proof (rule order_change_refines [where x = ord and x' = "order_row e r" and hs = "[h]"])
    show "tb_orders s' = overwrite (\<lambda>y. o_id y = o_id ord) (order_row e r) (tb_orders s)" using 1 id by simp
    show "\<forall>h \<in> set [h]. h_order_id h = o_id ord" using 1 by (simp add: history_entry_def)
    show "replay (o_status ord) (transitions [h] (o_id ord)) = Some (o_status (order_row e r))"
      using 1(2) transitions_entry [OF 1(10)] 1(6) by auto
    show "coherent (order_row e r) oa \<and>
       lifecycle\<^sup>*\<^sup>* (o_status ord, map_option a_status oa) (o_status (order_row e r), map_option a_status oa)"
      if "coherent ord oa" for oa
      using that 1(2,6) by (cases oa) (auto intro!: r_into_rtranclp intro: lifecycle.submit lifecycle.resubmit)
  qed (simp_all add: x 1)
qed

section \<open>Cancelling\<close>

lemma get_all_locked_run [runs]:
  assumes "get_all_locked t p key e s = (Inr rs, s')"
  obtains l where "rs = sort_key key (filter p (rows t s))" and "s' = s\<lparr>locks := l\<rparr>"
proof -
  from assms have "rs = sort_key key (filter p (rows t s)) \<and> s' = s\<lparr>locks := locks s'\<rparr>"
    by (auto simp: get_all_locked_def Let_def)
  then show ?thesis by (elim conjE) (rule that)
qed

lemma lock_fleet_of_run [runs]:
  assumes "lock_fleet_of a e s = (Inr u, s')"
  obtains l where "s' = s\<lparr>locks := l\<rparr>"
  using assms unfolding lock_fleet_of_def by (elim runs) (simp add: that)

lemma release_cancelled_run [runs]:
  assumes "release_cancelled order now a e s = (Inr u, s')"
  obtains n where "s' = tb_notifications_update (\<lambda>rs. rs @ [n])
     ((if list_ex (\<lambda>x. a_id x = a_id a) (tb_assignments s) then tb_assignments_update (overwrite (\<lambda>x. a_id x = a_id a)
        (assignment_row e (a\<lparr>a_status := AssignmentReleased, a_released_at := Some now,
           a_release_code := Some ''order_cancelled''\<rparr>))) s else s)
      \<lparr>issued := Suc (issued s), ticks := Suc (ticks s)\<rparr>)"
proof -
  from assms show ?thesis
    unfolding release_cancelled_def
    apply (elim runs)
    by (rule that, simp)+
qed

definition cancelled_row :: "env \<Rightarrow> time \<Rightarrow> assignment \<Rightarrow> assignment" where
  "cancelled_row e now a = assignment_row e (a\<lparr>a_status := AssignmentReleased, a_released_at := Some now,
     a_release_code := Some ''order_cancelled''\<rparr>)"

lemma loads_clear_run [runs]:
  assumes "for_each as (\<lambda>a. bind (warehouse_load_exists order (a_id a)) (\<lambda>is_loaded.
             fail_if is_loaded (Business ErrWarehouseOperationConflict))) e s = (Inr u, s')"
  obtains "s' = s" and "\<forall>a \<in> set as. \<not> loaded (tb_operations s) order (a_id a)"
proof -
  from assms have "s' = s \<and> (\<forall>a \<in> set as. \<not> loaded (tb_operations s) order (a_id a))"
  proof (induction as arbitrary: u)
    case Nil
    then show ?case by (simp add: return_def)
  next
    case (Cons a as)
    from Cons.prems have "for_each as (\<lambda>a. bind (warehouse_load_exists order (a_id a)) (\<lambda>is_loaded.
          fail_if is_loaded (Business ErrWarehouseOperationConflict))) e s = (Inr u, s')"
      and "\<not> loaded (tb_operations s) order (a_id a)"
      by (simp_all, (elim runs, simp)+)
    with Cons.IH show ?case by simp
  qed
  then show ?thesis using that by blast
qed

lemma cancel_checks_run [runs]:
  assumes "cancel_checks ord as user role e s = (Inr u, s')"
  obtains "s' = s"
    and "role = ''manager'' \<longrightarrow> (\<exists>w. manages s user w \<and> o_origin_warehouse ord = Some w)"
    and "role = ''client'' \<longrightarrow> o_created_by ord = Some user \<and> o_status ord \<noteq> OrderAssigned"
    and "\<forall>a \<in> set as. \<not> loaded (tb_operations s) (o_id ord) (a_id a)"
    and "o_status ord = OrderDraft \<or> o_status ord = OrderReadyForDispatch \<or> o_status ord = OrderAssigned"
proof -
  have from_status: "o_status x = OrderDraft \<or> o_status x = OrderReadyForDispatch \<or> o_status x = OrderAssigned"
    if "can_transition_order (o_status x) OrderCancelled" for x
    using that by (cases "o_status x") simp_all
  from assms show ?thesis
    unfolding cancel_checks_def
    apply (elim runs)
    apply (simp_all add: from_origin_def)
    by (rule that; auto dest: from_status)+
qed

text \<open>The tables after the writes, for at most one assignment.\<close>

definition cancelled_bookings :: "env \<Rightarrow> time \<Rightarrow> assignment list \<Rightarrow> assignment list \<Rightarrow> assignment list" where
  "cancelled_bookings e now as bs = (case as of [] \<Rightarrow> bs
     | a # _ \<Rightarrow> overwrite (\<lambda>x. a_id x = a_id a) (cancelled_row e now a) bs)"

lemma cancel_writes_run:
  assumes "cancel_writes i ord as user req e s = (Inr r, s')" and "length as \<le> 1"
    and "set as \<subseteq> set (tb_assignments s)" and "list_ex (\<lambda>x. o_id x = i) (tb_orders s)"
  obtains now h where "r = ord\<lparr>o_status := OrderCancelled, o_cancelled_at := Some now\<rparr>"
    and "tb_orders s' = overwrite (\<lambda>x. o_id x = i) (order_row e r) (tb_orders s)"
    and "tb_assignments s' = cancelled_bookings e now as (tb_assignments s)"
    and "tb_history s' = tb_history s @ [h]"
    and "history_entry i (o_status ord) OrderCancelled user (oc_reason_code req) h"
    and "\<forall>a \<in> set as. release_queued s' (a_id a)"
proof -
  consider "as = []" | a where "as = [a]" using assms(2) by (cases as; cases "tl as") auto
  then show ?thesis
  proof cases
    case 1
    from assms(1) show ?thesis
      unfolding cancel_writes_def Let_def 1 for_each.simps
      apply (elim runs)
      apply (simp_all add: assms(4))
      by (rule that, (assumption | rule refl | (simp (no_asm_simp) add: cancelled_bookings_def 1; fail) | (simp; fail))+)+
  next
    case 2
    then have ex: "list_ex (\<lambda>x. a_id x = a_id a) (tb_assignments s)"
      using assms(3) by (auto simp: list_ex_iff)
    from assms(1) show ?thesis
      unfolding cancel_writes_def Let_def 2 for_each.simps
      apply (elim runs)
      apply (simp_all add: assms(4) ex)
      by (rule that, (assumption | rule refl | (simp (no_asm_simp) add: cancelled_bookings_def cancelled_row_def release_queued_def 2; fail) | (simp; fail))+)+
  qed
qed

lemma lock_fleets_run [runs]:
  assumes "for_each as lock_fleet_of e s = (Inr u, s')"
  obtains l where "s' = s\<lparr>locks := l\<rparr>"
proof -
  from assms have "s' = s\<lparr>locks := locks s'\<rparr>"
  proof (induction as arbitrary: s)
    case Nil
    then show ?case by (simp add: return_def)
  next
    case (Cons a as)
    from Cons.prems obtain v where "lock_fleet_of a e s = (Inr (), v)" and rest: "for_each as lock_fleet_of e v = (Inr u, s')"
      by (auto elim: seq_ok)
    then obtain l where v: "v = s\<lparr>locks := l\<rparr>" by (elim lock_fleet_of_run)
    from Cons.IH [OF rest] show ?case unfolding v by simp
  qed
  then show ?thesis by (rule that)
qed

lemma cancel_tx_parts:
  assumes "cancel_tx i user role req e s = (Inr r, s')"
  obtains ord l as s3 u where "find (\<lambda>x. o_id x = i) (tb_orders s) = Some ord"
    and "as = sort_key a_id (filter (cancellable i) (tb_assignments s))" and "length as \<le> 1"
    and "cancel_checks ord as user role e (s\<lparr>locks := l\<rparr>) = (Inr u, s\<lparr>locks := l\<rparr>)"
    and "cancel_writes i ord as user req e (s\<lparr>locks := l\<rparr>) = (Inr r, s')"
proof -
  have keep: "t' = t" if "cancel_checks ord as user role e t = (Inr u, t')" for ord as t t' u
    using that by (rule cancel_checks_run)
  from assms show ?thesis
    unfolding cancel_tx_def
    apply (elim bind_ok seq_ok get_one_locked_run get_all_locked_run fail_if_ok lock_fleets_run)
    apply (frule keep)
    apply simp
    by (rule that, assumption, rule refl, (simp; fail)+)
qed

lemma cancel_tx_run:
  assumes "cancel_tx i user role req e s = (Inr r, s')"
  obtains ord now h as where "find (\<lambda>x. o_id x = i) (tb_orders s) = Some ord"
    and "as = sort_key a_id (filter (cancellable i) (tb_assignments s))" and "length as \<le> 1"
    and "o_status ord = OrderDraft \<or> o_status ord = OrderReadyForDispatch \<or> o_status ord = OrderAssigned"
    and "role = ''client'' \<longrightarrow> o_created_by ord = Some user \<and> o_status ord \<noteq> OrderAssigned"
    and "role = ''manager'' \<longrightarrow> (\<exists>w. manages s user w \<and> o_origin_warehouse ord = Some w)"
    and "\<forall>a \<in> set as. \<not> loaded (tb_operations s) i (a_id a)"
    and "r = ord\<lparr>o_status := OrderCancelled, o_cancelled_at := Some now\<rparr>"
    and "tb_orders s' = overwrite (\<lambda>x. o_id x = i) (order_row e r) (tb_orders s)"
    and "tb_assignments s' = cancelled_bookings e now as (tb_assignments s)"
    and "tb_history s' = tb_history s @ [h]"
    and "history_entry i (o_status ord) OrderCancelled user (oc_reason_code req) h"
    and "\<forall>a \<in> set as. release_queued s' (a_id a)"
proof -
  have core: "manages (s\<lparr>locks := l\<rparr>) = manages s" for l
    by (simp add: manages_def fun_eq_iff)
  define as where "as = sort_key a_id (filter (cancellable i) (tb_assignments s))"
  have sub: "set as \<subseteq> set (tb_assignments s)" by (auto simp: as_def)
  from assms obtain ord l u where ord: "find (\<lambda>x. o_id x = i) (tb_orders s) = Some ord" and len: "length as \<le> 1"
    and checks: "cancel_checks ord as user role e (s\<lparr>locks := l\<rparr>) = (Inr u, s\<lparr>locks := l\<rparr>)"
    and writes: "cancel_writes i ord as user req e (s\<lparr>locks := l\<rparr>) = (Inr r, s')"
    unfolding as_def by (rule cancel_tx_parts, hypsubst, blast)
  have id: "o_id ord = i" using find_Some_mem [OF ord] by simp
  from writes len show ?thesis
  proof (rule cancel_writes_run)
    show "set as \<subseteq> set (tb_assignments (s\<lparr>locks := l\<rparr>))" using sub by simp
    show "list_ex (\<lambda>x. o_id x = i) (tb_orders (s\<lparr>locks := l\<rparr>))" using find_list_ex [OF ord] by simp
    fix now h
    assume w: "r = ord\<lparr>o_status := OrderCancelled, o_cancelled_at := Some now\<rparr>"
      "tb_orders s' = overwrite (\<lambda>x. o_id x = i) (order_row e r) (tb_orders (s\<lparr>locks := l\<rparr>))"
      "tb_assignments s' = cancelled_bookings e now as (tb_assignments (s\<lparr>locks := l\<rparr>))"
      "tb_history s' = tb_history (s\<lparr>locks := l\<rparr>) @ [h]"
      "history_entry i (o_status ord) OrderCancelled user (oc_reason_code req) h"
      "\<forall>a \<in> set as. release_queued s' (a_id a)"
    from checks show ?thesis
    proof (rule cancel_checks_run)
      assume c: "role = ''manager'' \<longrightarrow> (\<exists>w. manages (s\<lparr>locks := l\<rparr>) user w \<and> o_origin_warehouse ord = Some w)"
        "role = ''client'' \<longrightarrow> o_created_by ord = Some user \<and> o_status ord \<noteq> OrderAssigned"
        "\<forall>a \<in> set as. \<not> loaded (tb_operations (s\<lparr>locks := l\<rparr>)) (o_id ord) (a_id a)"
        "o_status ord = OrderDraft \<or> o_status ord = OrderReadyForDispatch \<or> o_status ord = OrderAssigned"
      show ?thesis
        using w c by (intro that [OF ord as_def len c(4,2)]) (simp_all add: core id)
    qed
  qed
qed

lemma cancellable_open: "cancellable i a \<Longrightarrow> a_order_id a = i \<and> open_status (a_status a)"
  by (auto simp: cancellable_def)

lemma cancel_tx_refines:
  assumes "cancel_tx i user role req e s = (Inr r, s')"
  shows "refines e s s'"
  using assms
proof (cases rule: cancel_tx_run)
  case (1 ord now h as)
  from find_Some_mem [OF 1(1)] have x: "ord \<in> set (tb_orders s)" and id: "o_id ord = i" by simp_all
  have bookings: "bookings_ok (o_id ` set (tb_orders s)) (tb_assignments s') \<and>
      (\<forall>j. open_of (tb_assignments s') j = (if j = i then None else open_of (tb_assignments s) j)) \<and>
      coherent ord (open_of (tb_assignments s) i) \<and> persists (tb_assignments s) (tb_assignments s')" if c: "consistent s"
  proof -
    have ok: "bookings_ok (o_id ` set (tb_orders s)) (tb_assignments s)" using c by (simp add: consistent_def)
    have coh: "coherent ord (open_of (tb_assignments s) i)" using c x id by (auto simp: consistent_def)
    show ?thesis
    proof (cases as)
      case Nil
      then have "filter (cancellable i) (tb_assignments s) = []"
        using 1(2) by (metis length_0_conv length_sort)
      then have none: "open_of (tb_assignments s) i = None"
        using coh 1(4) open_of_mem [of "tb_assignments s" i]
        by (cases "open_of (tb_assignments s) i") (auto simp: filter_empty_conv cancellable_def)
      show ?thesis using ok coh none 1(10) Nil by (simp add: cancelled_bookings_def)
    next
      case (Cons a bs)
      have a: "a \<in> set (tb_assignments s)" "cancellable i a"
      proof -
        have "a \<in> set as" using Cons by simp
        then show "a \<in> set (tb_assignments s)" "cancellable i a" by (simp_all add: 1(2))
      qed
      note ca = cancellable_open [OF a(2)]
      note ow = overwrite_booking [OF ok a(1), of "cancelled_row e now a"]
      have row: "a_id (cancelled_row e now a) = a_id a" "a_order_id (cancelled_row e now a) = a_order_id a"
        "\<not> open_status (a_status (cancelled_row e now a))"
        by (simp_all add: cancelled_row_def)
      have "distinct (map a_id (tb_assignments s))" using ok by (simp add: bookings_ok_def)
      note pers = persists_overwrite [OF this a(1) row(1,2)]
      show ?thesis using ow row ca coh pers 1(10) Cons by (simp add: cancelled_bookings_def)
    qed
  qed
  show ?thesis
  proof (rule one_order_refines [where x = ord and x' = "order_row e r" and hs = "[h]"])
    show "tb_orders s' = overwrite (\<lambda>y. o_id y = o_id ord) (order_row e r) (tb_orders s)" using 1(9) id by simp
    show "tb_history s' = tb_history s @ [h]" by (fact 1(11))
    show "\<forall>h \<in> set [h]. h_order_id h = o_id ord" using 1(12) id by (simp add: history_entry_def)
    show "ord \<in> set (tb_orders s)" by (fact x)
    show "o_id (order_row e r) = o_id ord" by (simp add: 1(8))
    show "replay (o_status ord) (transitions [h] (o_id ord)) = Some (o_status (order_row e r))"
      using 1(4) transitions_entry [OF 1(12)] 1(8) id by auto
    assume c: "consistent s"
    note b = bookings [OF c]
    show "persists (tb_assignments s) (tb_assignments s')" using b by blast
    show "bookings_ok (o_id ` set (tb_orders s)) (tb_assignments s')" using b by blast
    show "\<forall>j. j \<noteq> o_id ord \<longrightarrow> open_of (tb_assignments s') j = open_of (tb_assignments s) j"
      using b id by simp
    show "coherent (order_row e r) (open_of (tb_assignments s') (o_id ord))" using b id 1(8) by simp
    have "lifecycle (o_status ord, map_option a_status (open_of (tb_assignments s) i)) (OrderCancelled, None)"
      using b 1(4) by (cases "open_of (tb_assignments s) i")
        (auto intro: lifecycle.cancel_draft lifecycle.cancel_ready lifecycle.cancel_assigned)
    then show "lifecycle\<^sup>*\<^sup>* (o_status ord, map_option a_status (open_of (tb_assignments s) (o_id ord)))
       (o_status (order_row e r), map_option a_status (open_of (tb_assignments s') (o_id ord)))"
      using b id 1(8) by simp
  qed
qed

end
