(* ===== verification/Frames.thy ===== *)
theory Frames
  imports Assignments Lifecycle
begin

text \<open>
  Operations that leave orders, assignments and status history alone.  \<open>keeps_core\<close> is the frame
  condition; its rules compose along an operation (the collection \<open>core_frames\<close>), and what keeps
  the core refines the lifecycle machine.
\<close>

named_theorems core_frames "rules that show that an operation keeps the core tables"

definition keeps_core :: "env \<Rightarrow> db \<Rightarrow> db \<Rightarrow> bool" where
  "keeps_core e s s' \<longleftrightarrow> same_core s s'"

interpretation cor: preorder_frame keeps_core
  by unfold_locales (simp_all add: keeps_core_def same_core_def)

lemmas [core_frames] = cor.framed_rules

text \<open>A table outside the core.\<close>

definition quiet :: "'r table \<Rightarrow> bool" where
  "quiet t \<longleftrightarrow> (\<forall>f s. same_core s (set_rows t f s))"

lemma quiet_tables [simp]:
  "quiet users_t" "quiet drivers_t" "quiet vehicles_t" "quiet warehouses_t" "quiet managers_t"
  "quiet driver_documents_t" "quiet driver_shifts_t" "quiet vehicle_documents_t" "quiet counterparties_t"
  "quiet routes_t" "quiet handovers_t" "quiet operations_t" "quiet incidents_t" "quiet receipts_t"
  "quiet notifications_t" "quiet outbox_t"
  by (simp_all add: quiet_def same_core_def)

lemma core_statements [core_frames]:
  "quiet t \<Longrightarrow> framed keeps_core (create t r)" "quiet t \<Longrightarrow> framed keeps_core (update t p r)"
  by (auto simp: framed_def keeps_core_def quiet_def create_def update_def same_core_def split: option.splits)

text \<open>Reads.\<close>

lemma untouched_same_core:
  assumes "untouched e s s'"
  shows "same_core s s'"
proof -
  from assms have eq: "s' = s\<lparr>ticks := ticks s', issued := issued s', locks := locks s'\<rparr>"
    by (simp only: untouched_def)
  have "tb_orders s' = tb_orders s" "tb_assignments s' = tb_assignments s" "tb_history s' = tb_history s"
    by (subst eq, simp)+
  then show ?thesis by (simp add: same_core_def)
qed

lemma untouched_core [simp]: "framed untouched m \<Longrightarrow> framed keeps_core m"
  unfolding framed_def keeps_core_def using untouched_same_core by blast

lemma untouched_refines: "framed untouched m \<Longrightarrow> framed refines m"
  unfolding framed_def using untouched_same_core same_core_refines by blast


lemma core_refines: "framed keeps_core m \<Longrightarrow> framed refines m"
  unfolding framed_def keeps_core_def using same_core_refines by blast

text \<open>A transaction keeps the core when its body does; an error restores every table.\<close>

lemma core_run: "framed keeps_core m \<Longrightarrow> m e s = (r, s') \<Longrightarrow> same_core s s'"
  by (drule framedD) (simp_all add: keeps_core_def)

lemma same_core_trans: "same_core s t \<Longrightarrow> same_core t u \<Longrightarrow> same_core s u"
  by (simp add: same_core_def)

lemma core_in_tx [core_frames]:
  assumes "framed keeps_core m"
  shows "framed keeps_core (in_tx m)"
  unfolding framed_def
proof (intro allI)
  fix e s
  obtain r s' where m: "m e (s\<lparr>locks := []\<rparr>) = (r, s')" by fastforce
  with assms have "same_core (s\<lparr>locks := []\<rparr>) s'" by (metis framedD keeps_core_def)
  then show "keeps_core e s (snd (in_tx m e s))"
    by (cases r) (simp_all add: in_tx_def m rollback_def keeps_core_def same_core_def)
qed

lemma core_exec [core_frames]: "(\<And>s. same_core s (f s)) \<Longrightarrow> framed keeps_core (exec f)"
  by (simp add: framed_def exec_def keeps_core_def)

lemma core_case_prod [core_frames]: "(\<And>a b. framed keeps_core (k a b)) \<Longrightarrow> framed keeps_core (case p of (a, b) \<Rightarrow> k a b)"
  by (cases p) simp

section \<open>The recording operations\<close>

lemma notify_core [core_frames]: "framed keeps_core (notify user text)"
  unfolding notify_def by (intro core_frames) simp_all

lemma upsert_dispatch_core [core_frames]: "framed keeps_core (upsert_dispatch q)"
  by (simp add: framed_def keeps_core_def same_core_def upsert_dispatch_def Let_def)

lemma enqueue_dispatch_request_core [core_frames]: "framed keeps_core (enqueue_dispatch_request ord)"
  unfolding enqueue_dispatch_request_def build_dispatch_request_def
  by (intro core_frames) simp_all

lemma enqueue_after_release_core [core_frames]: "framed keeps_core (enqueue_dispatch_after_release rel)"
  unfolding enqueue_dispatch_after_release_def
  by (intro core_frames; simp add: same_core_def)

lemma assignment_fields_core [core_frames]: "framed keeps_core (assignment_fields a)"
  unfolding assignment_fields_def find_user_def by (intro core_frames) simp_all

lemma enqueue_operational_document_core [core_frames]:
  "framed keeps_core (enqueue_operational_document ord asg kind reference actor extra others)"
  unfolding enqueue_operational_document_def find_user_def
  by (intro core_frames; simp)

section \<open>The checks\<close>

lemma checks_core [core_frames]:
  "framed keeps_core (require_warehouse_operation order kind a)"
  "framed keeps_core (require_no_open_incidents order)"
  "framed keeps_core (warehouse_load_exists order i)"
  "framed keeps_core (validate_assignment_resources ord drv veh from to)"
  "framed keeps_core (lock_drivers er ids)" "framed keeps_core (lock_vehicles er ids)"
  unfolding require_warehouse_operation_def require_no_open_incidents_def warehouse_operation_exists_def
    warehouse_load_exists_def validate_assignment_resources_def lock_drivers_def lock_vehicles_def
  by (simp | (rule untouched_core, intro unt.framed_rules; simp))+

section \<open>Operations that keep one part of the state\<close>

text \<open>\<open>keeps f\<close>: the part \<open>f\<close> of the state, a table or several, is the same afterwards.\<close>

named_theorems keep_frames "rules that show that an operation keeps a part of the state"

definition keeps :: "(db \<Rightarrow> 'x) \<Rightarrow> env \<Rightarrow> db \<Rightarrow> db \<Rightarrow> bool" where
  "keeps f e s s' \<longleftrightarrow> f s' = f s"

interpretation kp: preorder_frame "keeps f" for f
  by unfold_locales (simp_all add: keeps_def)

lemmas [keep_frames] = kp.framed_rules

lemma keeps_run: "framed (keeps f) m \<Longrightarrow> m e s = (r, s') \<Longrightarrow> f s' = f s"
  by (drule framedD) (simp_all add: keeps_def)

lemma keeps_reads [keep_frames]:
  "framed (keeps f) (get_one t p)" "framed (keeps f) (get_all t p)" "framed (keeps f) (query g)" "framed (keeps f) (ask h)"
  by (simp_all add: framed_def keeps_def get_one_def get_all_def query_def ask_def split: option.splits)

lemma keeps_statements [keep_frames]:
  "(\<And>g s. f (set_rows t g s) = f s) \<Longrightarrow> framed (keeps f) (create t r)"
  "(\<And>g s. f (set_rows t g s) = f s) \<Longrightarrow> framed (keeps f) (update t p r)"
  "(\<And>s. f (g s) = f s) \<Longrightarrow> framed (keeps f) (exec g)"
  "(\<And>l s. f (s\<lparr>locks := l\<rparr>) = f s) \<Longrightarrow> framed (keeps f) (get_one_locked t p)"
  "(\<And>n s. f (s\<lparr>ticks := n\<rparr>) = f s) \<Longrightarrow> framed (keeps f) time_now"
  "(\<And>n s. f (s\<lparr>issued := n\<rparr>) = f s) \<Longrightarrow> framed (keeps f) uuid_new"
  by (auto simp: framed_def keeps_def create_def update_def exec_def get_one_locked_def time_now_def uuid_new_def
      split: option.splits)

lemma keeps_case_prod [keep_frames]: "(\<And>a b. framed (keeps f) (k a b)) \<Longrightarrow> framed (keeps f) (case p of (a, b) \<Rightarrow> k a b)"
  by (cases p) simp

lemma keeps_notify [keep_frames]:
  assumes "\<And>g s. f (tb_notifications_update g s) = f s" "\<And>n s. f (s\<lparr>ticks := n\<rparr>) = f s" "\<And>n s. f (s\<lparr>issued := n\<rparr>) = f s"
  shows "framed (keeps f) (notify user text)"
  unfolding notify_def by (intro keep_frames) (simp_all add: assms)

end
