(* ===== verification/Orders.thy ===== *)
theory Orders
  imports Offers Frames
begin

text \<open>
  Creating an order with its route and price, and editing a draft (internal/services/order.go).
\<close>

section \<open>Price\<close>

definition order_price :: "pricing \<Rightarrow> f64 \<Rightarrow> f64 \<Rightarrow> f64 \<Rightarrow> f64" where
  "order_price conf distance_km weight_kg volume_m3 =
     f64_add (f64_add (f64_add (base_fee conf) (f64_mul distance_km (per_km conf)))
       (f64_mul weight_kg (per_kg conf))) (f64_mul volume_m3 (per_m3 conf))"

section \<open>CreateOrder\<close>

definition window_reversed :: "time option \<Rightarrow> time option \<Rightarrow> bool" where
  "window_reversed from to = (case (from, to) of (Some f, Some t) \<Rightarrow> \<not> f < t | _ \<Rightarrow> False)"

definition negative :: "f64 option \<Rightarrow> bool" where
  "negative x = (case x of None \<Rightarrow> False | Some v \<Rightarrow> f64_lt v (Fin 0))"

definition order_input_invalid :: "order_create \<Rightarrow> bool" where
  "order_input_invalid req \<longleftrightarrow>
     ow_origin_warehouse req = None \<and> (ow_origin_address req = None \<or> ow_origin_address req = Some []) \<or>
     ow_dest_warehouse req = None \<and> ow_dest_address req = [] \<or>
     negative (ow_weight_kg req) \<or> negative (ow_volume_m3 req) \<or>
     window_reversed (ow_pickup_from req) (ow_pickup_to req)"

text \<open>Lines 110-125 and 127-142: the address and coordinates of an active warehouse.\<close>

definition warehouse_endpoint :: "uuid option \<Rightarrow> string \<Rightarrow> endpoint op" where
  "warehouse_endpoint warehouse address = (case warehouse of
     None \<Rightarrow> return \<lparr>ep_address = address, ep_coordinates = None\<rparr>
   | Some i \<Rightarrow>
      bind (get_one warehouses_t (\<lambda>w. w_id w = i)) (\<lambda>w.
      seq (fail_if (w_status w \<noteq> ''active'') (Business ErrWarehouseInactive))
      (case (w_latitude w, w_longitude w) of
         (Some la, Some lo) \<Rightarrow>
           return \<lparr>ep_address = w_address w, ep_coordinates = Some \<lparr>latitude = la, longitude = lo\<rparr>\<rparr>
       | _ \<Rightarrow> throw (Business ErrInvalidOrderInput))))"

definition or_zero :: "f64 option \<Rightarrow> f64" where
  "or_zero x = (case x of None \<Rightarrow> Fin 0 | Some v \<Rightarrow> v)"

definition create_order :: "order_create \<Rightarrow> uuid \<Rightarrow> string \<Rightarrow> (order \<times> route) op" where
  "create_order req user role =
    seq (fail_if (role \<noteq> ''client'' \<and> role \<noteq> ''manager'' \<and> role \<noteq> ''admin'') forbidden)
    (seq (manager_check role user (\<lambda>w. ow_origin_warehouse req = Some w))
    (seq (fail_if (order_input_invalid req) (Business ErrInvalidOrderInput))
    (bind (warehouse_endpoint (ow_origin_warehouse req)
             (case ow_origin_address req of None \<Rightarrow> [] | Some t \<Rightarrow> t)) (\<lambda>origin.
     bind (warehouse_endpoint (ow_dest_warehouse req) (ow_dest_address req)) (\<lambda>destination.
     bind (ask (\<lambda>e. plan_route e origin destination)) (\<lambda>planned.
     bind (lift_sum planned) (\<lambda>est.
     bind (ask pricing_conf) (\<lambda>conf.
     bind uuid_new (\<lambda>i. bind time_now (\<lambda>now.
     bind uuid_new (\<lambda>rid.
     let ord = \<lparr>o_policy_version = 1, o_details = NoDetails, o_dest_warehouse = ow_dest_warehouse req, o_id = i,
           o_created_by = Some user, o_driver_id = None, o_manager_id = None,
           o_origin_warehouse = ow_origin_warehouse req, o_origin_address = ep_address origin,
           o_dest_address = ep_address destination,
           o_cargo = (case ow_cargo req of None \<Rightarrow> [] | Some t \<Rightarrow> t),
           o_weight_kg = or_zero (ow_weight_kg req), o_volume_m3 = or_zero (ow_volume_m3 req),
           o_status = OrderDraft,
           o_total_price = Some (order_price conf (es_distance_km est) (or_zero (ow_weight_kg req))
             (or_zero (ow_volume_m3 req))),
           o_pickup_from = ow_pickup_from req, o_pickup_to = ow_pickup_to req, o_created_at = now,
           o_submitted_at = None, o_assigned_at = None, o_started_at = None, o_arrived_at = None,
           o_delivered_at = None, o_cancelled_at = None\<rparr>;
         rt = \<lparr>ro_id = rid, ro_order_id = i, ro_driver_id = None, ro_coordinates = CoordsJson (es_coordinates est),
           ro_current_index = 0, ro_started_at = None, ro_finished_at = None,
           ro_distance_km = Some (es_distance_km est), ro_duration_sec = Some (es_duration_sec est),
           ro_status = ''pending''\<rparr>
     in in_tx (seq (create orders_t ord) (seq (create routes_t rt) (return (ord, rt)))))))))))))))"

section \<open>UpdateDraftOrder\<close>

definition merged :: "'a option \<Rightarrow> 'a \<Rightarrow> 'a" where
  "merged x old = (case x of None \<Rightarrow> old | Some v \<Rightarrow> v)"

definition merged_opt :: "'a option \<Rightarrow> 'a option \<Rightarrow> 'a option" where
  "merged_opt x old = (case x of None \<Rightarrow> old | Some v \<Rightarrow> Some v)"

definition apply_draft_update :: "order_draft_update \<Rightarrow> order \<Rightarrow> order" where
  "apply_draft_update req ord = ord\<lparr>o_cargo := merged (ou_cargo req) (o_cargo ord),
     o_weight_kg := merged (ou_weight_kg req) (o_weight_kg ord),
     o_volume_m3 := merged (ou_volume_m3 req) (o_volume_m3 ord),
     o_pickup_from := merged_opt (ou_pickup_from req) (o_pickup_from ord),
     o_pickup_to := merged_opt (ou_pickup_to req) (o_pickup_to ord)\<rparr>"

definition update_draft_tx :: "uuid \<Rightarrow> uuid \<Rightarrow> string \<Rightarrow> order_draft_update \<Rightarrow> order op" where
  "update_draft_tx i user role req =
    bind (get_one_locked orders_t (\<lambda>x. o_id x = i)) (\<lambda>old.
    seq (fail_if (role = ''client'' \<and> o_created_by old \<noteq> Some user) forbidden)
    (seq (manager_check role user (from_origin old))
    (seq (fail_if (o_status old \<noteq> OrderDraft) (Business ErrInvalidOrderTransition))
    (let ord = apply_draft_update req old in
     seq (fail_if (f64_lt (o_weight_kg ord) (Fin 0) \<or> f64_lt (o_volume_m3 ord) (Fin 0) \<or>
                   window_reversed (o_pickup_from ord) (o_pickup_to ord)) (Business ErrInvalidOrderInput))
     (bind (get_one routes_t (\<lambda>r. ro_order_id r = i)) (\<lambda>rt.
      seq (fail_if (ro_distance_km rt = None \<or> ro_duration_sec rt = None \<or> ro_coordinates rt = NoJson)
             (Business ErrInvalidOrderInput))
      (bind (ask pricing_conf) (\<lambda>conf.
      (bind (deref (ro_distance_km rt)) (\<lambda>distance.
       let ord' = ord\<lparr>o_total_price := Some (order_price conf distance (o_weight_kg ord) (o_volume_m3 ord))\<rparr>
       in seq (update orders_t (\<lambda>x. o_id x = i) ord') (return ord')))))))))))"

definition update_draft_order :: "uuid \<Rightarrow> uuid \<Rightarrow> string \<Rightarrow> order_draft_update \<Rightarrow> order op" where
  "update_draft_order i user role req =
    seq (fail_if (role \<noteq> ''client'' \<and> role \<noteq> ''manager'' \<and> role \<noteq> ''admin'') forbidden)
    (seq (fail_if (ou_cargo req = None \<and> ou_weight_kg req = None \<and> ou_volume_m3 req = None \<and>
            ou_pickup_from req = None \<and> ou_pickup_to req = None) (Business ErrInvalidOrderInput))
    (in_tx (update_draft_tx i user role req)))"

section \<open>The price\<close>

definition charge_ok :: "f64 \<Rightarrow> bool" where
  "charge_ok x \<longleftrightarrow> f64_nonneg x \<and> f64_finite x"

definition pricing_ok :: "pricing \<Rightarrow> bool" where
  "pricing_ok conf \<longleftrightarrow> charge_ok (base_fee conf) \<and> charge_ok (per_km conf) \<and> charge_ok (per_kg conf) \<and>
     charge_ok (per_m3 conf)"

lemma order_price_nonneg:
  "pricing_ok conf \<Longrightarrow> charge_ok d \<Longrightarrow> charge_ok w \<Longrightarrow> charge_ok v \<Longrightarrow> f64_nonneg (order_price conf d w v)"
  by (simp add: order_price_def pricing_ok_def charge_ok_def f64_add_nonneg f64_mul_nonneg)

lemma order_price_mono:
  assumes conf: "pricing_ok conf" and low: "f64_nonneg d" "f64_nonneg w" "f64_nonneg v"
    and le: "f64_le d d'" "f64_le w w'" "f64_le v v'"
    and fin: "f64_finite d" "f64_finite w" "f64_finite v" "f64_finite d'" "f64_finite w'" "f64_finite v'"
  shows "f64_le (order_price conf d w v) (order_price conf d' w' v')"
proof -
  have k: "f64_nonneg (per_km conf)" "f64_nonneg (per_kg conf)" "f64_nonneg (per_m3 conf)" "f64_nonneg (base_fee conf)"
    "f64_finite (per_km conf)" "f64_finite (per_kg conf)" "f64_finite (per_m3 conf)"
    using conf by (simp_all add: pricing_ok_def charge_ok_def)
  show ?thesis
    unfolding order_price_def
    by (intro f64_add_mono f64_mul_mono f64_add_nonneg f64_mul_nonneg)
       (simp_all add: k low le fin f64_le_refl_nonneg)
qed

section \<open>Effects\<close>

lemma order_violation_fresh:
  "order_violation e s others x = None \<Longrightarrow> o_id x \<notin> o_id ` set others"
  unfolding order_violation_def Let_def first_violation_None by simp

lemma consistentD:
  assumes "consistent s"
  shows "distinct (map o_id (tb_orders s))"
    and "bookings_ok (o_id ` set (tb_orders s)) (tb_assignments s)"
    and "\<And>h. h \<in> set (tb_history s) \<Longrightarrow> h_order_id h \<in> o_id ` set (tb_orders s)"
    and "\<And>x. x \<in> set (tb_orders s) \<Longrightarrow> coherent x (open_of (tb_assignments s) (o_id x))"
    and "\<And>x. x \<in> set (tb_orders s) \<Longrightarrow>
           replay OrderDraft (transitions (tb_history s) (o_id x)) = Some (o_status x)"
  using assms unfolding consistent_def by blast+

lemma bookings_ok_mono: "bookings_ok A as \<Longrightarrow> A \<subseteq> B \<Longrightarrow> bookings_ok B as"
  unfolding bookings_ok_def by blast

lemma append_order_refines:
  assumes fresh: "o_id x \<notin> o_id ` set (tb_orders s)" and draft: "o_status x = OrderDraft"
    and orders: "tb_orders s' = tb_orders s @ [x]"
    and same: "tb_assignments s' = tb_assignments s" "tb_history s' = tb_history s"
  shows "refines e s s'"
  unfolding refines_def
proof (intro impI conjI allI)
  assume c: "consistent s"
  note cs = consistentD [OF c]
  have booked: "\<forall>a \<in> set (tb_assignments s). a_order_id a \<noteq> o_id x"
    using cs(2) fresh unfolding bookings_ok_def by metis
  then have none: "open_of (tb_assignments s) (o_id x) = None"
    unfolding open_of_def find_None_all by blast
  have quiet: "transitions (tb_history s) (o_id x) = []"
    unfolding transitions_def map_is_Nil_conv filter_empty_conv using cs(3) fresh by metis
  show "consistent s'"
    unfolding consistent_def orders same
  proof (intro conjI)
    show "distinct (map o_id (tb_orders s @ [x]))" using cs(1) fresh by simp
    show "bookings_ok (o_id ` set (tb_orders s @ [x])) (tb_assignments s)"
      by (rule bookings_ok_mono [OF cs(2)]) auto
    show "\<forall>h \<in> set (tb_history s). h_order_id h \<in> o_id ` set (tb_orders s @ [x])"
      using cs(3) by simp
    show "\<forall>y \<in> set (tb_orders s @ [x]). coherent y (open_of (tb_assignments s) (o_id y)) \<and>
        replay OrderDraft (transitions (tb_history s) (o_id y)) = Some (o_status y)"
      using cs(4,5) draft none quiet by simp
  qed
  show "grows s s'" by (simp add: grows_def same)
  fix i
  have "order_of (tb_orders s) (o_id x) = None"
    unfolding order_of_def find_None_all using fresh by (metis imageI)
  then show "moves (phase_of s i) (phase_of s' i)"
    using draft none
    by (cases "order_of (tb_orders s) i")
       (auto simp: phase_of_def orders same order_of_def find_append moves_def start_phase_def)
qed

lemma warehouse_endpoint_run [runs]:
  assumes "warehouse_endpoint w address e s = (Inr ep, s')"
  obtains "s' = s" and "w = None \<longrightarrow> ep = \<lparr>ep_address = address, ep_coordinates = None\<rparr>"
  using assms unfolding warehouse_endpoint_def
  by (auto elim!: runs split: option.splits)

lemma create_order_run:
  assumes "create_order req user role e s = (Inr (ord, rt), s')"
  obtains "role = ''client'' \<or> role = ''manager'' \<or> role = ''admin''"
    and "role = ''manager'' \<longrightarrow> (\<exists>w. manages s user w \<and> ow_origin_warehouse req = Some w)"
    and "\<not> order_input_invalid req"
    and "o_id ord \<notin> o_id ` set (tb_orders s)" and "o_status ord = OrderDraft" and "o_created_by ord = Some user"
    and "tb_orders s' = tb_orders s @ [order_row e ord]"
    and "tb_assignments s' = tb_assignments s" and "tb_history s' = tb_history s"
    and "ro_order_id rt = o_id ord" and "tb_routes s' = tb_routes s @ [stored routes_t e rt]"
    and "o_total_price ord = Some (order_price (pricing_conf e) (the (ro_distance_km rt)) (o_weight_kg ord) (o_volume_m3 ord))"
proof -
  from assms show ?thesis
    unfolding create_order_def Let_def
    apply (elim runs)
    apply simp_all
    by (rule that, (assumption | rule refl | (simp (no_asm_simp); fail) | (drule order_violation_fresh, simp; fail) | (simp; fail) | blast)+)+
qed

section \<open>Refinement\<close>

lemma insert_order_refines:
  assumes "o_status ord = OrderDraft"
  shows "framed refines (in_tx (seq (create orders_t ord) (seq (create routes_t rt) (return (ord, rt)))))"
proof (rule framed_in_tx)
  fix e s x s'
  assume run: "seq (create orders_t ord) (seq (create routes_t rt) (return (ord, rt))) e s = (Inr x, s')"
  from run have "o_id ord \<notin> o_id ` set (tb_orders s)" and "tb_orders s' = tb_orders s @ [order_row e ord]"
    and "tb_assignments s' = tb_assignments s" and "tb_history s' = tb_history s"
    by (elim runs; simp add: order_violation_fresh)+
  with assms show "refines e s s'" by (intro append_order_refines [where x = "order_row e ord"]) simp_all
qed

lemma untouched_warehouse_endpoint [simp]: "framed untouched (warehouse_endpoint w address)"
  unfolding warehouse_endpoint_def
  by (auto intro!: unt.framed_rules split: option.splits)

lemma create_order_refines [simp]: "framed refines (create_order req user role)"
  unfolding create_order_def Let_def
  by (intro ref.framed_rules insert_order_refines; (rule untouched_refines)?; simp)

lemma update_draft_tx_run:
  assumes "update_draft_tx i user role req e s = (Inr r, s')"
  obtains old rt where "find (\<lambda>x. o_id x = i) (tb_orders s) = Some old"
    and "find (\<lambda>r. ro_order_id r = i) (tb_routes s) = Some rt"
    and "role = ''client'' \<longrightarrow> o_created_by old = Some user"
    and "role = ''manager'' \<longrightarrow> (\<exists>w. manages s user w \<and> o_origin_warehouse old = Some w)"
    and "o_status old = OrderDraft"
    and "\<not> window_reversed (o_pickup_from r) (o_pickup_to r)"
    and "r = (apply_draft_update req old)\<lparr>o_total_price := Some (order_price (pricing_conf e)
           (the (ro_distance_km rt)) (o_weight_kg r) (o_volume_m3 r))\<rparr>"
    and "tb_orders s' = overwrite (\<lambda>x. o_id x = i) (order_row e r) (tb_orders s)"
    and "tb_assignments s' = tb_assignments s" and "tb_history s' = tb_history s"
proof -
  have core: "manages (s\<lparr>locks := l\<rparr>) = manages s" for l
    by (simp add: manages_def fun_eq_iff)
  from assms show ?thesis
    unfolding update_draft_tx_def Let_def
    apply (elim runs)
    apply (simp_all add: core find_list_ex)
    by (rule that, assumption, assumption, (assumption | rule refl |
         (simp (no_asm_simp) add: from_origin_def; fail) | (simp; fail) | (fastforce simp: from_origin_def; fail))+)+
qed

end
