(* ===== verification/Offering.thy ===== *)
theory Offering
  imports Orders
begin

text \<open>
  Offering an assignment, possibly in place of a previous one (CreateAssignment): what a
  successful offer locked, checked and wrote, and that it refines the lifecycle machine in two
  steps, the release of the previous assignment and the new offer.
\<close>

section \<open>The lock set\<close>

lemma replaced_assignment_run [runs]:
  assumes "replaced_assignment order replaces e s = (Inr previous, s')"
  obtains l where "s' = s\<lparr>locks := l\<rparr>"
    and "case previous of None \<Rightarrow> replaces = None
         | Some a \<Rightarrow> replaces = Some (a_id a) \<and> a \<in> set (tb_assignments s) \<and> a_order_id a = order"
  using assms unfolding replaced_assignment_def
proof (elim runs, goal_cases)
  case 1
  show ?case using 1(2-4) by (intro 1(1) [of "locks s"]) simp_all
next
  case (2 p seed s1 s2 a s3 s4)
  have "rows assignments_t s2 = tb_assignments s" using 2(6,10) by simp
  with 2(11) have "find (\<lambda>a. a_id a = p) (tb_assignments s) = Some a" by (simp only:)
  then have a: "a \<in> set (tb_assignments s) \<and> a_id a = p" by (rule find_Some_mem)
  show ?case
  proof (rule 2(1) [of "locks s @ [LockAssignment (a_id a)]"])
    show "s' = s\<lparr>locks := locks s @ [LockAssignment (a_id a)]\<rparr>" using 2(4,6,8,10,12) by simp
    show "case previous of None \<Rightarrow> replaces = None
         | Some a \<Rightarrow> replaces = Some (a_id a) \<and> a \<in> set (tb_assignments s) \<and> a_order_id a = order"
      using 2(2,3,5,7) a by simp
  qed
qed

lemma lock_drivers_run [runs]:
  assumes "lock_drivers er ids e s = (Inr ds, s')"
  obtains l where "s' = s\<lparr>locks := l\<rparr>"
    and "\<forall>d \<in> set ds. find (\<lambda>x. d_id x = d_id d) (tb_drivers s) = Some d" and "map d_id ds = ids"
proof -
  have "s' = s\<lparr>locks := locks s'\<rparr> \<and> (\<forall>d \<in> set ds. find (\<lambda>x. d_id x = d_id d) (tb_drivers s) = Some d) \<and>
      map d_id ds = ids"
    using assms
  proof (induction ids arbitrary: s ds)
    case Nil
    then show ?case by (simp add: lock_drivers_def return_def)
  next
    case (Cons i ids)
    from Cons.prems obtain d s1 ds' where
      d: "(case er of None \<Rightarrow> get_one_locked drivers_t (\<lambda>d. d_id d = i)
           | Some x \<Rightarrow> or_throw (get_one_locked drivers_t (\<lambda>d. d_id d = i)) x) e s = (Inr d, s1)"
      and rest: "lock_drivers er ids e s1 = (Inr ds', s')" and ds: "ds = d # ds'"
      unfolding lock_drivers_def map_tx.simps by (auto elim!: bind_ok return_ok)
    from d have find: "find (\<lambda>d. d_id d = i) (tb_drivers s) = Some d" and s1: "s1 = s\<lparr>locks := locks s @ [LockDriver (d_id d)]\<rparr>"
      by (elim runs; simp)+
    then have "d_id d = i" by (auto dest: find_Some_mem)
    with Cons.IH [OF rest] find show ?case by (simp add: s1 ds)
  qed
  then show ?thesis using that by blast
qed

lemma lock_vehicles_run [runs]:
  assumes "lock_vehicles er ids e s = (Inr vs, s')"
  obtains l where "s' = s\<lparr>locks := l\<rparr>"
    and "\<forall>v \<in> set vs. find (\<lambda>x. v_id x = v_id v) (tb_vehicles s) = Some v" and "map v_id vs = ids"
proof -
  have "s' = s\<lparr>locks := locks s'\<rparr> \<and> (\<forall>v \<in> set vs. find (\<lambda>x. v_id x = v_id v) (tb_vehicles s) = Some v) \<and>
      map v_id vs = ids"
    using assms
  proof (induction ids arbitrary: s vs)
    case Nil
    then show ?case by (simp add: lock_vehicles_def return_def)
  next
    case (Cons i ids)
    from Cons.prems obtain v s1 vs' where
      v: "(case er of None \<Rightarrow> get_one_locked vehicles_t (\<lambda>v. v_id v = i)
           | Some x \<Rightarrow> or_throw (get_one_locked vehicles_t (\<lambda>v. v_id v = i)) x) e s = (Inr v, s1)"
      and rest: "lock_vehicles er ids e s1 = (Inr vs', s')" and vs: "vs = v # vs'"
      unfolding lock_vehicles_def map_tx.simps by (auto elim!: bind_ok return_ok)
    from v have find: "find (\<lambda>v. v_id v = i) (tb_vehicles s) = Some v" and s1: "s1 = s\<lparr>locks := locks s @ [LockVehicle (v_id v)]\<rparr>"
      by (elim runs; simp)+
    then have "v_id v = i" by (auto dest: find_Some_mem)
    with Cons.IH [OF rest] find show ?case by (simp add: s1 vs)
  qed
  then show ?thesis using that by blast
qed

lemma lock_offer_fleet_run [runs]:
  assumes "lock_offer_fleet req previous e s = (Inr r, s')"
  obtains drv pd veh l where "r = (drv, pd, veh)" and "s' = s\<lparr>locks := l\<rparr>"
    and "find (\<lambda>d. d_id d = rq_driver_id req) (tb_drivers s) = Some drv"
    and "find (\<lambda>v. v_id v = rq_vehicle_id req) (tb_vehicles s) = Some veh"
proof -
  have pick: "find (\<lambda>x. key x = i) xs = Some y" if "find (\<lambda>x. key x = i) ys = Some y"
    and "\<forall>y \<in> set ys. find (\<lambda>x. key x = key y) xs = Some y" for key :: "'x \<Rightarrow> uuid" and i xs ys y
  proof -
    from that(1) have y: "y \<in> set ys \<and> key y = i" by (rule find_Some_mem)
    with that(2) have "find (\<lambda>x. key x = key y) xs = Some y" by blast
    with y show ?thesis by simp
  qed
  from assms obtain ds s1 vs s2 drv veh where
    ds: "lock_drivers (Some (Business ErrDriverNotEligible))
           (fleet_ids (rq_driver_id req) (map_option a_driver_id previous)) e s = (Inr ds, s1)"
    and vs: "lock_vehicles (Some (Business ErrVehicleNotOperational))
           (fleet_ids (rq_vehicle_id req) (map_option a_vehicle_id previous)) e s1 = (Inr vs, s2)"
    and drv: "find (\<lambda>d. d_id d = rq_driver_id req) ds = Some drv"
    and veh: "find (\<lambda>v. v_id v = rq_vehicle_id req) vs = Some veh"
    and r: "r = (drv, case previous of None \<Rightarrow> None | Some a \<Rightarrow> find (\<lambda>d. d_id d = a_driver_id a) ds, veh)"
    and s': "s' = s2"
    unfolding lock_offer_fleet_def
    apply (elim bind_ok deref_ok return_ok)
    by (rule that; simp)
  from ds obtain l where s1: "s1 = s\<lparr>locks := l\<rparr>"
    and drivers: "\<forall>d \<in> set ds. find (\<lambda>x. d_id x = d_id d) (tb_drivers s) = Some d"
    by (rule lock_drivers_run)
  from vs obtain l' where s2: "s2 = s1\<lparr>locks := l'\<rparr>"
    and vehicles: "\<forall>v \<in> set vs. find (\<lambda>x. v_id x = v_id v) (tb_vehicles s1) = Some v"
    by (rule lock_vehicles_run)
  from pick [OF veh vehicles] have "find (\<lambda>v. v_id v = rq_vehicle_id req) (tb_vehicles s) = Some veh" by (simp add: s1)
  with r pick [OF drv drivers] show ?thesis by (intro that [of drv _ veh l']) (simp_all add: s' s2 s1)
qed

section \<open>The checks\<close>

lemma check_offer_state_run [runs]:
  assumes "check_offer_state ord previous e s = (Inr u, s')"
  obtains "s' = s" and "previous = None" and "o_status ord = OrderReadyForDispatch"
  | a where "s' = s" and "previous = Some a" and "a_order_id a = o_id ord"
    and "a_status a = AssignmentPendingAcceptance \<or> a_status a = AssignmentAccepted"
    and "o_status ord = OrderReadyForDispatch \<or> o_status ord = OrderAssigned"
    and "\<not> loaded (tb_operations s) (o_id ord) (a_id a)"
proof (cases previous)
  case None
  with assms show ?thesis by (auto simp: check_offer_state_def elim!: runs intro: that(1))
next
  case (Some a)
  from assms show ?thesis
    unfolding check_offer_state_def Some option.case
    by (elim runs) (rule that(2), auto simp: Some)
qed

lemma check_offer_source_run [runs]:
  assumes "check_offer_source ord req e s = (Inr source, s')"
  obtains "s' = s" and "source = ''manual'' \<or> source = ''dispatch_recommendation''"
    and "source = ''dispatch_recommendation'' \<longrightarrow> (\<exists>r c. find (\<lambda>r. rc_order_id r = o_id ord) (tb_recommendations s) = Some r \<and>
           Some (rc_submitted_at r) = o_submitted_at ord \<and> Some (rc_created_at r) = rq_recommendation_at req \<and>
           c \<in> set (rc_candidates r) \<and> Some (dc_id c) = rq_recommendation_id req \<and>
           dc_driver_id c = rq_driver_id req \<and> dc_vehicle_id c = rq_vehicle_id req)"
  using assms unfolding check_offer_source_def Let_def
  by (auto elim!: runs split: option.splits simp: list_ex_iff) blast

section \<open>The writes\<close>

definition replaced_row :: "env \<Rightarrow> time \<Rightarrow> assignment \<Rightarrow> assignment" where
  "replaced_row e now a = assignment_row e (a\<lparr>a_status := AssignmentReleased, a_released_at := Some now,
     a_release_code := Some ''reassigned''\<rparr>)"

lemma release_previous_run:
  assumes "release_previous ord a pd now user e s = (Inr u, s')" and "a \<in> set (tb_assignments s)"
    and "ord \<in> set (tb_orders s)"
  obtains (kept) "o_status ord \<noteq> OrderAssigned" and "tb_orders s' = tb_orders s" and "tb_history s' = tb_history s"
    and "tb_assignments s' = overwrite (\<lambda>x. a_id x = a_id a) (replaced_row e now a) (tb_assignments s)"
  | (withdrawn) h where "o_status ord = OrderAssigned"
    and "tb_orders s' = overwrite (\<lambda>x. o_id x = o_id ord)
           (order_row e (ord\<lparr>o_status := OrderReadyForDispatch, o_driver_id := None, o_assigned_at := None\<rparr>)) (tb_orders s)"
    and "tb_history s' = tb_history s @ [h]"
    and "history_entry (o_id ord) OrderAssigned OrderReadyForDispatch user (Some ''reassigned'') h"
    and "tb_assignments s' = overwrite (\<lambda>x. a_id x = a_id a) (replaced_row e now a) (tb_assignments s)"
proof -
  have ex: "list_ex (\<lambda>x. a_id x = a_id a) (tb_assignments s)" "list_ex (\<lambda>x. o_id x = o_id ord) (tb_orders s)"
    using assms(2,3) by (auto simp: list_ex_iff)
  from assms(1) show ?thesis
    unfolding release_previous_def
    apply (elim runs)
    apply (simp_all add: ex)
    subgoal by (rule withdrawn, (assumption | rule refl | (simp (no_asm_simp) add: replaced_row_def; fail))+)
    subgoal by (rule kept, (assumption | rule refl | (simp (no_asm_simp) add: replaced_row_def; fail))+)
    done
qed

lemma assignment_violationD:
  assumes "assignment_violation e s others x = None"
  shows "a_id x \<notin> a_id ` set others" and "a_order_id x \<in> o_id ` set (tb_orders s)"
    and "open_status (a_status x) \<Longrightarrow> \<forall>y \<in> set others. \<not> (open_status (a_status y) \<and> a_order_id y = a_order_id x)"
    and "open_status (a_status x) \<Longrightarrow> \<forall>y \<in> set others. open_status (a_status y) \<longrightarrow>
           a_driver_id y = a_driver_id x \<or> a_vehicle_id y = a_vehicle_id x \<longrightarrow> \<not> windows_overlap (assignment_row e x) y"
    and "trunc_us (a_planned_from x) < trunc_us (a_planned_to x)"
  using assms unfolding assignment_violation_def Let_def first_violation_None
  by (auto simp: list_ex_iff assignment_row_def)

lemma reserving_run [runs]:
  assumes "reserving m e s = (Inr v, s')"
  obtains "m e s = (Inr v, s')"
  using assms unfolding reserving_def by (auto split: prod.splits sum.splits)

lemma insert_offer_run [runs]:
  assumes "insert_offer order user req source now e s = (Inr a, s')"
  obtains "a_order_id a = order" and "a_status a = AssignmentPendingAcceptance" and "a_driver_id a = rq_driver_id req"
    and "a_vehicle_id a = rq_vehicle_id req" and "a_created_by a = user" and "a_source a = source"
    and "a_planned_from a = rq_planned_from req" and "a_planned_to a = rq_planned_to req"
    and "a_assigned_at a = now" and "a_offer_expires_at a = now + minutes 15"
    and "assignment_violation e (s\<lparr>issued := Suc (issued s)\<rparr>) (tb_assignments s) a = None"
    and "s' = tb_assignments_update (\<lambda>rs. rs @ [assignment_row e a]) (s\<lparr>issued := Suc (issued s)\<rparr>)"
proof -
  from assms show ?thesis
    unfolding insert_offer_def Let_def
    apply (elim runs)
    apply simp_all
    by (rule that; simp)
qed

section \<open>The transaction\<close>

lemma queue_previous_run:
  assumes "(case previous of None \<Rightarrow> return () | Some p \<Rightarrow> enqueue_dispatch_after_release p) e s = (Inr u, s')"
  shows "tb_orders s' = tb_orders s" and "tb_assignments s' = tb_assignments s" and "tb_history s' = tb_history s"
    and "\<And>p. previous = Some p \<Longrightarrow> release_queued s' (a_id p)"
  using assms by (auto elim!: runs simp: release_queued_def split: option.splits)

lemma offer_tx_parts:
  assumes "offer_tx order user role req e s = (Inr r, s')"
  obtains ord l n previous pd drv veh source s1 s2 where "find (\<lambda>x. o_id x = order) (tb_orders s) = Some ord"
    and "case previous of None \<Rightarrow> rq_replaces req = None
         | Some a \<Rightarrow> rq_replaces req = Some (a_id a) \<and> a \<in> set (tb_assignments s) \<and> a_order_id a = order"
    and "find (\<lambda>d. d_id d = rq_driver_id req) (tb_drivers s) = Some drv"
    and "find (\<lambda>v. v_id v = rq_vehicle_id req) (tb_vehicles s) = Some veh"
    and "role = ''manager'' \<longrightarrow> (\<exists>w. manages s user w \<and> o_origin_warehouse ord = Some w)"
    and "check_offer_state ord previous e (s\<lparr>locks := l, ticks := n\<rparr>) = (Inr (), s\<lparr>locks := l, ticks := n\<rparr>)"
    and "eligible s ord drv veh (rq_planned_from req) (rq_planned_to req)"
    and "(case previous of None \<Rightarrow> return () | Some a \<Rightarrow> release_previous ord a pd (clock e (ticks s)) user)
           e (s\<lparr>locks := l, ticks := n\<rparr>) = (Inr (), s1)"
    and "insert_offer order user req source (clock e (ticks s)) e s1 = (Inr r, s2)"
    and "tb_orders s' = tb_orders s2" and "tb_assignments s' = tb_assignments s2" and "tb_history s' = tb_history s2"
    and "\<And>p. previous = Some p \<Longrightarrow> release_queued s' (a_id p)"
proof -
  have core: "manages (s\<lparr>locks := l, ticks := n\<rparr>) = manages s" "manages (s\<lparr>ticks := n, locks := l\<rparr>) = manages s" for l n
    by (simp_all add: manages_def fun_eq_iff)
  have state: "s2 = s1" if "check_offer_state ord previous e s1 = (Inr (), s2)" for ord previous s1 s2
    using that by (rule check_offer_state_run)
  from assms obtain ord s1 now s2 previous s3 drv pd veh s4 s5 s6 s7 source s8 s9 s10 s11 where
    ord: "get_one_locked orders_t (\<lambda>x. o_id x = order) e s = (Inr ord, s1)"
    and now: "time_now e s1 = (Inr now, s2)"
    and previous: "replaced_assignment order (rq_replaces req) e s2 = (Inr previous, s3)"
    and fleet: "lock_offer_fleet req previous e s3 = (Inr (drv, pd, veh), s4)"
    and manager: "manager_check role user (from_origin ord) e s4 = (Inr (), s5)"
    and checked: "check_offer_state ord previous e s5 = (Inr (), s6)"
    and valid: "validate_assignment_resources ord drv veh (rq_planned_from req) (rq_planned_to req) e s6 = (Inr (), s7)"
    and source: "check_offer_source ord req e s7 = (Inr source, s8)"
    and released: "(case previous of None \<Rightarrow> return () | Some a \<Rightarrow> release_previous ord a pd now user) e s8 = (Inr (), s9)"
    and offer: "insert_offer order user req source now e s9 = (Inr r, s10)"
    and told: "notify (d_user_id drv) (AssignmentOffered (a_id r) order) e s10 = (Inr (), s11)"
    and queued: "(case previous of None \<Rightarrow> return () | Some p \<Rightarrow> enqueue_dispatch_after_release p) e s11 = (Inr (), s')"
    unfolding offer_tx_def
    apply (elim bind_ok seq_ok case_prod_ok return_ok)
    apply hypsubst
    by (rule that; assumption)
  from ord obtain l1 where o: "find (\<lambda>x. o_id x = order) (tb_orders s) = Some ord" and s1: "s1 = s\<lparr>locks := l1\<rparr>"
    by (elim get_one_locked_run) (rule that, simp only: table_rows, assumption)
  from now have n: "now = clock e (ticks s)" and s2: "s2 = s\<lparr>locks := l1, ticks := Suc (ticks s)\<rparr>"
    by (elim runs; simp add: s1)+
  have as2: "tb_assignments s2 = tb_assignments s" by (simp add: s2)
  from previous obtain l2 where s3: "s3 = s2\<lparr>locks := l2\<rparr>" and p2: "case previous of None \<Rightarrow> rq_replaces req = None
         | Some a \<Rightarrow> rq_replaces req = Some (a_id a) \<and> a \<in> set (tb_assignments s2) \<and> a_order_id a = order"
    by (rule replaced_assignment_run)
  note p = p2 [unfolded as2]
  have fleet3: "tb_drivers s3 = tb_drivers s" "tb_vehicles s3 = tb_vehicles s" by (simp_all add: s3 s2)
  from fleet obtain drv' pd' veh' l where eq: "(drv, pd, veh) = (drv', pd', veh')" and l: "s4 = s3\<lparr>locks := l\<rparr>"
    and d3: "find (\<lambda>d. d_id d = rq_driver_id req) (tb_drivers s3) = Some drv'"
    and v3: "find (\<lambda>v. v_id v = rq_vehicle_id req) (tb_vehicles s3) = Some veh'"
    by (rule lock_offer_fleet_run)
  from eq have same: "drv' = drv" "veh' = veh" by simp_all
  note d = d3 [unfolded fleet3 same] and v = v3 [unfolded fleet3 same]
  have s4: "s4 = s\<lparr>locks := l, ticks := Suc (ticks s)\<rparr>" by (simp add: l s3 s2)
  from manager have s5: "s5 = s4" and m: "role = ''manager'' \<longrightarrow> (\<exists>w. manages s user w \<and> o_origin_warehouse ord = Some w)"
    by (elim runs; simp add: s4 core from_origin_def; blast)+
  have s6: "s6 = s4" using state [OF checked] s5 by simp
  from valid have s7: "s7 = s4" and el: "eligible s ord drv veh (rq_planned_from req) (rq_planned_to req)"
    by (elim runs; simp add: s6 s4)+
  from source have s8: "s8 = s4" by (elim check_offer_source_run) (simp add: s7)
  from told have t: "tb_orders s11 = tb_orders s10" "tb_assignments s11 = tb_assignments s10" "tb_history s11 = tb_history s10"
    by (elim runs; simp)+
  note q = queue_previous_run [OF queued]
  show ?thesis
    using checked released [unfolded n] offer q t
    by (intro that [OF o p d v m _ el, where pd = pd]) (simp_all add: s8 s6 s5 s4 n)
qed

lemma release_previous_refines:
  assumes run: "release_previous ord a pd now user e s = (Inr u, s')" and mem: "a \<in> set (tb_assignments s)"
    "ord \<in> set (tb_orders s)" "o_id ord = a_order_id a"
    and st: "a_status a = AssignmentPendingAcceptance \<or> a_status a = AssignmentAccepted"
      "o_status ord = OrderReadyForDispatch \<or> o_status ord = OrderAssigned"
  shows "refines e s s' \<and> (\<exists>ord'. ord' \<in> set (tb_orders s') \<and> o_id ord' = o_id ord \<and> o_status ord' = OrderReadyForDispatch)"
proof -
  have opn: "open_status (a_status a)" using st(1) by auto
  have row: "a_id (replaced_row e now a) = a_id a" "a_order_id (replaced_row e now a) = a_order_id a"
    "\<not> open_status (a_status (replaced_row e now a))"
    by (simp_all add: replaced_row_def)
  from run mem(1,2) show ?thesis
  proof (cases rule: release_previous_run)
    case kept
    have "refines e s s'"
    proof (cases "consistent s")
      case True
      then have "overwrite (\<lambda>x. o_id x = o_id ord) ord (tb_orders s) = tb_orders s"
        by (rule overwrite_self [OF consistentD(1) mem(2)])
      with kept row st show ?thesis
        by (intro booking_refines [OF mem opn, where ord' = ord and b = "replaced_row e now a" and hs = "[]"])
           (auto simp: transitions_def intro!: r_into_rtranclp intro: lifecycle.close lifecycle.revoke)
    qed (simp add: refines_def)
    with kept mem st show ?thesis by auto
  next
    case (withdrawn h)
    have "refines e s s'"
      using withdrawn(1-3,5) row st transitions_entry [OF withdrawn(4)] withdrawn(4)
      by (intro booking_refines [OF mem opn, where b = "replaced_row e now a" and hs = "[h]"])
         (auto simp: history_entry_def ts_def intro!: r_into_rtranclp intro: lifecycle.withdraw)
    moreover define ord' where
      "ord' = order_row e (ord\<lparr>o_status := OrderReadyForDispatch, o_driver_id := None, o_assigned_at := None\<rparr>)"
    then have "ord' \<in> set (tb_orders s')" "o_id ord' = o_id ord" "o_status ord' = OrderReadyForDispatch"
      unfolding withdrawn(2) set_overwrite using mem(2) by auto
    ultimately show ?thesis by blast
  qed
qed

lemma new_offer_refines:
  assumes run: "insert_offer order user req source now e s = (Inr a, s')"
    and ord: "ord \<in> set (tb_orders s)" "o_id ord = order" "o_status ord = OrderReadyForDispatch"
  shows "refines e s s'"
  using run
proof (rule insert_offer_run)
  assume a: "a_order_id a = order" "a_status a = AssignmentPendingAcceptance"
    and v: "assignment_violation e (s\<lparr>issued := Suc (issued s)\<rparr>) (tb_assignments s) a = None"
    and s': "s' = tb_assignments_update (\<lambda>rs. rs @ [assignment_row e a]) (s\<lparr>issued := Suc (issued s)\<rparr>)"
  note fresh = assignment_violationD [OF v]
  have free: "open_of (tb_assignments s) order = None"
    unfolding open_of_def find_None_all using fresh(3) a by auto
  have appended: "bookings_ok (o_id ` set (tb_orders s)) (tb_assignments s') \<and>
      open_of (tb_assignments s') i = (if i = order then Some (assignment_row e a) else open_of (tb_assignments s) i)"
    if "consistent s" for i
    using append_booking [OF consistentD(2) [OF that], of "assignment_row e a"] fresh free a by (simp add: s')
  show ?thesis
  proof (rule one_order_refines [where x = ord and x' = ord and hs = "[]"])
    show "ord \<in> set (tb_orders s)" "o_id ord = o_id ord" by (simp_all add: ord)
    show "tb_history s' = tb_history s @ []" "\<forall>h \<in> set []. h_order_id h = o_id ord" by (simp_all add: s')
    show "persists (tb_assignments s) (tb_assignments s')" by (simp add: s')
    assume c: "consistent s"
    show "tb_orders s' = overwrite (\<lambda>y. o_id y = o_id ord) ord (tb_orders s)"
      using overwrite_self [OF consistentD(1) [OF c] ord(1)] by (simp add: s')
    show "bookings_ok (o_id ` set (tb_orders s)) (tb_assignments s')" using appended [OF c] by blast
    show "\<forall>i. i \<noteq> o_id ord \<longrightarrow> open_of (tb_assignments s') i = open_of (tb_assignments s) i"
      using appended [OF c] ord(2) by simp
    have "coherent ord (open_of (tb_assignments s) order)" using consistentD(4) [OF c ord(1)] ord(2) by simp
    then show "coherent ord (open_of (tb_assignments s') (o_id ord))" using appended [OF c] ord free a by simp
    show "replay (o_status ord) (transitions [] (o_id ord)) = Some (o_status ord)" by (simp add: transitions_def)
    show "lifecycle\<^sup>*\<^sup>* (o_status ord, map_option a_status (open_of (tb_assignments s) (o_id ord)))
        (o_status ord, map_option a_status (open_of (tb_assignments s') (o_id ord)))"
      using appended [OF c] ord free a by (auto intro: lifecycle.offer)
  qed
qed

lemma offer_tx_refines:
  assumes "offer_tx order user role req e s = (Inr r, s')"
  shows "refines e s s'"
  using assms
proof (rule offer_tx_parts)
  fix ord l n previous pd drv veh source s1 s2
  let ?s = "s\<lparr>locks := l, ticks := n\<rparr>"
  assume ord: "find (\<lambda>x. o_id x = order) (tb_orders s) = Some ord"
    and previous: "case previous of None \<Rightarrow> rq_replaces req = None
         | Some a \<Rightarrow> rq_replaces req = Some (a_id a) \<and> a \<in> set (tb_assignments s) \<and> a_order_id a = order"
    and checked: "check_offer_state ord previous e ?s = (Inr (), ?s)"
    and released: "(case previous of None \<Rightarrow> return () | Some a \<Rightarrow> release_previous ord a pd (clock e (ticks s)) user)
           e ?s = (Inr (), s1)"
    and offer: "insert_offer order user req source (clock e (ticks s)) e s1 = (Inr r, s2)"
    and core: "tb_orders s' = tb_orders s2" "tb_assignments s' = tb_assignments s2" "tb_history s' = tb_history s2"
  from find_Some_mem [OF ord] have mem: "ord \<in> set (tb_orders s)" "o_id ord = order" by simp_all
  from checked have "refines e ?s s1 \<and> (\<exists>x. x \<in> set (tb_orders s1) \<and> o_id x = order \<and> o_status x = OrderReadyForDispatch)"
  proof (rule check_offer_state_run)
    assume none: "previous = None" and ready: "o_status ord = OrderReadyForDispatch"
    from released have "s1 = ?s" unfolding none option.case by (rule return_ok)
    with mem ready show ?thesis by (auto simp: ref.frame_refl)
  next
    fix a
    assume a: "previous = Some a" "a_order_id a = o_id ord"
      "a_status a = AssignmentPendingAcceptance \<or> a_status a = AssignmentAccepted"
      "o_status ord = OrderReadyForDispatch \<or> o_status ord = OrderAssigned"
    from released [unfolded a(1) option.case] show ?thesis
      using release_previous_refines [of ord a pd "clock e (ticks s)" user e ?s "()" s1] previous mem a by auto
  qed
  then obtain x where first: "refines e ?s s1" and x: "x \<in> set (tb_orders s1)" "o_id x = order" "o_status x = OrderReadyForDispatch"
    by blast
  have "refines e ?s s2" using first new_offer_refines [OF offer x] by (rule ref.frame_trans)
  then show ?thesis by (rule refines_same_core) (simp_all add: same_core_def core)
qed

end
