(* ===== verification/Counterparties.thy ===== *)
theory Counterparties
  imports Access
begin

text \<open>
  The catalogue of counterparties (internal/services/counterparties.go): the check of a request
  with the INN checksum, and the operations on the records a user may see.
\<close>

section \<open>The INN checksum\<close>

definition digit :: "char \<Rightarrow> nat" where
  "digit c = byte c - 48"

text \<open>The closure \<^verbatim>\<open>check(weights, index)\<close>.\<close>

definition inn_check :: "string \<Rightarrow> nat list \<Rightarrow> nat \<Rightarrow> bool" where
  "inn_check value weights index \<longleftrightarrow>
     sum_list (map2 (\<lambda>c w. digit c * w) value weights) mod 11 mod 10 = digit (value ! index)"

definition valid_inn :: "string \<Rightarrow> bool" where
  "valid_inn value \<longleftrightarrow>
     (ascii_digits value 10 \<or> ascii_digits value 12) \<and> \<not> list_all (\<lambda>c. c = CHR ''0'') value \<and>
     (if length value = 10 then inn_check value [2, 4, 10, 3, 5, 9, 4, 6, 8] 9
      else inn_check value [7, 2, 4, 10, 3, 5, 9, 4, 6, 8] 10 \<and>
           inn_check value [3, 7, 2, 4, 10, 3, 5, 9, 4, 6, 8] 11)"

section \<open>Checking a request\<close>

definition counterparty_of :: "counterparty_write \<Rightarrow> counterparty" where
  "counterparty_of req = \<lparr>cp_id = uuid_nil, cp_owner_user_id = uuid_nil, cp_kind = cw_kind req,
     cp_name = trim_space (cw_name req), cp_inn = string_value (cw_inn req), cp_kpp = string_value (cw_kpp req),
     cp_address = trim_space (cw_address req), cp_contact_name = trim_space (cw_contact_name req),
     cp_phone = string_value (cw_phone req), cp_email = string_value (cw_email req),
     cp_shared = (case cw_shared req of None \<Rightarrow> False | Some b \<Rightarrow> b),
     cp_status = (case cw_status req of None \<Rightarrow> ''active'' | Some t \<Rightarrow> t),
     cp_created_at = zero_time, cp_updated_at = zero_time\<rparr>"

definition requisites_ok :: "counterparty \<Rightarrow> bool" where
  "requisites_ok item =
    (if cp_kind item = ''organization'' then
       length (cp_inn item) = 10 \<and> valid_inn (cp_inn item) \<and> (cp_kpp item = [] \<or> ascii_digits (cp_kpp item) 9)
     else if cp_kind item = ''entrepreneur'' then
       length (cp_inn item) = 12 \<and> valid_inn (cp_inn item) \<and> cp_kpp item = []
     else if cp_kind item = ''individual'' then
       (cp_inn item = [] \<or> length (cp_inn item) = 12 \<and> valid_inn (cp_inn item)) \<and> cp_kpp item = []
     else False)"

text \<open>The first argument is \<^verbatim>\<open>mail.ParseAddress\<close>, reduced to the address it finds.\<close>

definition normalize_counterparty :: "(string \<Rightarrow> string option) \<Rightarrow> counterparty_write \<Rightarrow> err + counterparty" where
  "normalize_counterparty parse req = (let item = counterparty_of req in
     if \<not> bounded_text (cp_name item) 1 300 \<or> \<not> bounded_text (cp_address item) 1 1000 \<or>
        \<not> bounded_text (cp_contact_name item) 1 200 \<or> \<not> bounded_text (cp_phone item) 0 40 \<or>
        \<not> bounded_text (cp_email item) 0 254 \<or> (cp_phone item = [] \<and> cp_email item = []) \<or>
        (cp_status item \<noteq> ''active'' \<and> cp_status item \<noteq> ''archived'') then Inl (Business ErrInvalidOrderInput)
     else if cp_email item \<noteq> [] \<and> parse (cp_email item) \<noteq> Some (cp_email item) then Inl (Business ErrInvalidOrderInput)
     else if \<not> requisites_ok item then Inl (Business ErrInvalidOrderInput)
     else Inr item)"

section \<open>Operations\<close>

definition can_manage_counterparties :: "string \<Rightarrow> bool" where
  "can_manage_counterparties role \<longleftrightarrow> role = ''client'' \<or> role = ''manager'' \<or> role = ''admin''"

definition create_counterparty :: "uuid \<Rightarrow> string \<Rightarrow> counterparty_write \<Rightarrow> counterparty op" where
  "create_counterparty user role req =
    seq (fail_if (\<not> can_manage_counterparties role) forbidden)
    (bind (ask parse_mail) (\<lambda>parse.
     bind (lift_sum (normalize_counterparty parse req)) (\<lambda>item.
     seq (fail_if (cp_shared item \<and> role \<noteq> ''admin'') forbidden)
     (bind uuid_new (\<lambda>i. bind time_now (\<lambda>now.
      let item' = item\<lparr>cp_id := i, cp_owner_user_id := user, cp_created_at := now, cp_updated_at := now\<rparr>
      in seq (create counterparties_t item') (return item')))))))"

definition counterparty_visible :: "uuid \<Rightarrow> string \<Rightarrow> counterparty \<Rightarrow> bool" where
  "counterparty_visible user role c \<longleftrightarrow> role = ''admin'' \<or> cp_owner_user_id c = user \<or> cp_shared c"

definition get_counterparty :: "uuid \<Rightarrow> uuid \<Rightarrow> string \<Rightarrow> counterparty op" where
  "get_counterparty i user role =
    seq (fail_if (\<not> can_manage_counterparties role) forbidden)
    (get_one counterparties_t (\<lambda>c. cp_id c = i \<and> counterparty_visible user role c))"

definition list_counterparties :: "uuid \<Rightarrow> string \<Rightarrow> list_counterparties_params \<Rightarrow> counterparty list op" where
  "list_counterparties user role params =
    seq (fail_if (\<not> can_manage_counterparties role) forbidden)
    (let limit = (case lc_limit params of None \<Rightarrow> 50 | Some n \<Rightarrow> n);
         offset = (case lc_offset params of None \<Rightarrow> 0 | Some n \<Rightarrow> n)
     in seq (fail_if (limit < 1 \<or> 100 < limit \<or> offset < 0 \<or> 10000 < offset) (Business ErrInvalidOrderInput))
       (query (\<lambda>s. page limit offset (sort_key (\<lambda>c. (cp_created_at c, cp_id c)) (filter (\<lambda>c.
          counterparty_visible user role c \<and>
          (lc_include_archived params = Some True \<or> cp_status c = ''active'')) (tb_counterparties s))))))"

definition update_counterparty_tx :: "uuid \<Rightarrow> uuid \<Rightarrow> string \<Rightarrow> counterparty \<Rightarrow> counterparty op" where
  "update_counterparty_tx i user role item =
    bind (get_one_locked counterparties_t (\<lambda>c. cp_id c = i \<and> (role = ''admin'' \<or> cp_owner_user_id c = user))) (\<lambda>old.
    bind time_now (\<lambda>now.
    let item' = item\<lparr>cp_id := cp_id old, cp_owner_user_id := cp_owner_user_id old,
                   cp_created_at := cp_created_at old, cp_updated_at := now\<rparr>
    in seq (update counterparties_t (\<lambda>c. cp_id c = i) item') (return item')))"

definition update_counterparty :: "uuid \<Rightarrow> uuid \<Rightarrow> string \<Rightarrow> counterparty_write \<Rightarrow> counterparty op" where
  "update_counterparty i user role req =
    seq (fail_if (\<not> can_manage_counterparties role) forbidden)
    (bind (ask parse_mail) (\<lambda>parse.
     bind (lift_sum (normalize_counterparty parse req)) (\<lambda>item.
     seq (fail_if (cp_shared item \<and> role \<noteq> ''admin'') forbidden)
     (in_tx (update_counterparty_tx i user role item)))))"

section \<open>Trimmed text and the database checks\<close>

lemma pg_btrim_trimmed: "trim_space s = s \<Longrightarrow> pg_btrim s = s"
proof -
  assume s: "trim_space s = s"
  have "\<not> starts_with_any [[CHR 0x20]] s"
    using trim_space_starts [of s] unfolding s starts_with_any_def go_spaces_def by auto
  moreover have "\<not> starts_with_any [[CHR 0x20]] (rev s)"
    using trim_space_ends [of s] unfolding s starts_with_any_def go_spaces_def by auto
  ultimately show ?thesis by (simp add: pg_btrim_def trim_prefix_done)
qed

lemma text_between_trimmed: "trim_space s = s \<Longrightarrow> bounded_text s lo hi \<Longrightarrow> text_between lo hi s"
  by (simp add: text_between_def bounded_text_def Let_def pg_length_def pg_btrim_trimmed)

lemma trim_space_Nil [simp]: "trim_space [] = []"
proof -
  have "\<not> starts_with_any ws []" for ws by (auto simp: starts_with_any_def)
  then show ?thesis by (simp add: trim_space_def trim_prefix_done)
qed

lemma string_value_trimmed [simp]: "trim_space (string_value x) = string_value x"
  by (simp add: string_value_def split: option.splits)

section \<open>What an accepted request satisfies\<close>

lemma normalize_ok:
  assumes "normalize_counterparty parse req = Inr item"
  shows "item = counterparty_of req"
    and "bounded_text (cp_name item) 1 300" "bounded_text (cp_address item) 1 1000"
      "bounded_text (cp_contact_name item) 1 200" "bounded_text (cp_phone item) 0 40" "bounded_text (cp_email item) 0 254"
    and "cp_phone item \<noteq> [] \<or> cp_email item \<noteq> []"
    and "cp_status item = ''active'' \<or> cp_status item = ''archived''"
    and "cp_email item = [] \<or> parse (cp_email item) = Some (cp_email item)"
    and "requisites_ok item"
  using assms by (auto simp: normalize_counterparty_def Let_def split: if_splits)

lemma counterparty_of_trimmed [simp]:
  "trim_space (cp_name (counterparty_of req)) = cp_name (counterparty_of req)"
  "trim_space (cp_address (counterparty_of req)) = cp_address (counterparty_of req)"
  "trim_space (cp_contact_name (counterparty_of req)) = cp_contact_name (counterparty_of req)"
  "trim_space (cp_inn (counterparty_of req)) = cp_inn (counterparty_of req)"
  "trim_space (cp_kpp (counterparty_of req)) = cp_kpp (counterparty_of req)"
  "trim_space (cp_phone (counterparty_of req)) = cp_phone (counterparty_of req)"
  "trim_space (cp_email (counterparty_of req)) = cp_email (counterparty_of req)"
  by (simp_all add: counterparty_of_def)

text \<open>The request that repeats a stored record.\<close>

definition request_of :: "counterparty \<Rightarrow> counterparty_write" where
  "request_of c = \<lparr>cw_address = cp_address c, cw_contact_name = cp_contact_name c, cw_email = Some (cp_email c),
     cw_inn = Some (cp_inn c), cw_kind = cp_kind c, cw_kpp = Some (cp_kpp c), cw_name = cp_name c,
     cw_phone = Some (cp_phone c), cw_shared = Some (cp_shared c), cw_status = Some (cp_status c)\<rparr>"

lemma counterparty_of_request_of: "counterparty_of (request_of (counterparty_of req)) = counterparty_of req"
  by (rule counterparty.equality) (simp_all add: counterparty_of_def request_of_def string_value_def split: option.splits)

lemma requisites_tax_numbers: "requisites_ok item \<Longrightarrow> tax_numbers_ok (cp_kind item) (cp_inn item) (cp_kpp item)"
  by (auto simp: requisites_ok_def tax_numbers_ok_def valid_inn_def ascii_digits_def split: if_splits)

lemma normalized_never_check:
  assumes "normalize_counterparty parse req = Inr item" and "cp_kind x = cp_kind item" "cp_status x = cp_status item"
    "cp_name x = cp_name item" "cp_address x = cp_address item" "cp_contact_name x = cp_contact_name item"
    "cp_phone x = cp_phone item" "cp_email x = cp_email item" "cp_inn x = cp_inn item" "cp_kpp x = cp_kpp item"
  shows "violation counterparties_t e s others x \<noteq> Some CheckViolation"
proof -
  note ok = normalize_ok [OF assms(1)]
  have "cp_kind item \<in> {''organization'', ''entrepreneur'', ''individual''}"
    using ok(10) by (auto simp: requisites_ok_def split: if_splits)
  moreover have "text_between 1 300 (cp_name item)" "text_between 1 1000 (cp_address item)"
    "text_between 1 200 (cp_contact_name item)"
    using ok(2-4) by (auto intro!: text_between_trimmed simp: ok(1))
  moreover have "pg_length (cp_phone item) \<le> 40" "pg_length (cp_email item) \<le> 254"
    using ok(5,6) by (simp_all add: bounded_text_def Let_def pg_length_def)
  ultimately show ?thesis
    using ok(8) requisites_tax_numbers [OF ok(10)] assms(2-)
    by (auto simp: counterparties_t_def not_less)
qed

section \<open>Control digits\<close>

lemma digit_inj: "in_range 0x30 0x39 c \<Longrightarrow> in_range 0x30 0x39 d \<Longrightarrow> digit c = digit d \<Longrightarrow> c = d"
proof -
  assume "in_range 0x30 0x39 c" "in_range 0x30 0x39 d" "digit c = digit d"
  then have "byte c = byte d" unfolding in_range_def digit_def by linarith
  then show ?thesis by (simp add: byte_def)
qed

lemma map2_short: "length ws = length p \<Longrightarrow> map2 f (p @ x) ws = map2 f p ws"
  by (simp add: zip_append1)

lemma inn_check_short:
  "length ws = length p \<Longrightarrow> inn_check (p @ x) ws (length p) \<longleftrightarrow>
     sum_list (map2 (\<lambda>c w. digit c * w) p ws) mod 11 mod 10 = digit (x ! 0)"
  by (simp add: inn_check_def map2_short nth_append)

lemma ascii_digits_append:
  "ascii_digits (p @ x) n \<longleftrightarrow> length p + length x = n \<and> list_all (in_range 0x30 0x39) p \<and> list_all (in_range 0x30 0x39) x"
  by (auto simp: ascii_digits_def)

lemma inn10_digit:
  assumes "valid_inn (p @ [a])" "valid_inn (p @ [b])" "length p = 9"
  shows "a = b"
proof (rule digit_inj)
  have "digit ([a] ! 0) = digit ([b] ! 0)"
    using assms inn_check_short [of "[2, 4, 10, 3, 5, 9, 4, 6, 8]" p] by (simp add: valid_inn_def)
  then show "digit a = digit b" by simp
qed (use assms in \<open>auto simp: valid_inn_def ascii_digits_append\<close>)

lemma inn12_digits:
  assumes "valid_inn (p @ [a, b])" "valid_inn (p @ [c, d])" "length p = 10"
  shows "a = c \<and> b = d"
proof -
  have range: "in_range 0x30 0x39 z" if "z \<in> {a, b, c, d}" for z
    using assms that by (auto simp: valid_inn_def ascii_digits_append)
  have "digit ([a, b] ! 0) = digit ([c, d] ! 0)"
    using assms inn_check_short [of "[7, 2, 4, 10, 3, 5, 9, 4, 6, 8]" p] by (simp add: valid_inn_def)
  then have first: "a = c" using range digit_inj [of a c] by simp
  have "digit ([b] ! 0) = digit ([d] ! 0)"
    using assms inn_check_short [of "[3, 7, 2, 4, 10, 3, 5, 9, 4, 6, 8]" "p @ [a]"]
    by (simp add: valid_inn_def first)
  then have "b = d" using range digit_inj [of b d] by simp
  with first show ?thesis by simp
qed

section \<open>Runs\<close>

lemma create_counterparty_run:
  assumes "create_counterparty user role req e s = (Inr c, s')"
  obtains item where "can_manage_counterparties role" and "normalize_counterparty (parse_mail e) req = Inr item"
    and "cp_shared item \<longrightarrow> role = ''admin''" and "cp_owner_user_id c = user" and "cp_shared c = cp_shared item"
    and "s' = tb_counterparties_update (\<lambda>rs. rs @ [stored counterparties_t e c])
           (s\<lparr>issued := Suc (issued s), ticks := Suc (ticks s)\<rparr>)"
proof -
  from assms show ?thesis
    unfolding create_counterparty_def Let_def
    apply (elim runs)
    apply simp_all
    by (rule that; simp)
qed

lemma update_counterparty_run:
  assumes "update_counterparty i user role req e s = (Inr c, s')"
  obtains old item l n where "normalize_counterparty (parse_mail e) req = Inr item"
    and "find (\<lambda>c. cp_id c = i \<and> (role = ''admin'' \<or> cp_owner_user_id c = user)) (tb_counterparties s) = Some old"
    and "cp_shared item \<longrightarrow> role = ''admin''" and "cp_id c = i" and "cp_owner_user_id c = cp_owner_user_id old"
    and "cp_shared c = cp_shared item"
    and "s' = tb_counterparties_update (overwrite (\<lambda>c. cp_id c = i) (stored counterparties_t e c)) (s\<lparr>locks := l, ticks := n\<rparr>)"
proof -
  have id: "cp_id old = i" if "find (\<lambda>c. cp_id c = i \<and> (role = ''admin'' \<or> cp_owner_user_id c = user)) cs = Some old" for old cs
    using find_Some_mem [OF that] by simp
  have ex: "list_ex (\<lambda>c. cp_id c = i) cs" if "find (\<lambda>c. cp_id c = i \<and> (role = ''admin'' \<or> cp_owner_user_id c = user)) cs = Some old" for old cs
    using find_Some_mem [OF that] by (auto simp: list_ex_iff)
  from assms show ?thesis
    unfolding update_counterparty_def update_counterparty_tx_def Let_def
    apply (elim runs)
    apply (simp_all add: ex)
    by (rule that, assumption, assumption, (assumption | rule refl | (simp add: id; fail))+)
qed

end
