(* ===== verification/Transport.thy ===== *)
theory Transport
  imports Counterparties Orders
begin

text \<open>
  The transport details of a draft order (internal/services/transport_details.go): the parties are
  read from the catalogue and copied into the order.
\<close>

section \<open>SetTransportDetails\<close>

definition transport_input_invalid :: "transport_details_write \<Rightarrow> bool" where
  "transport_input_invalid req \<longleftrightarrow>
     tw_sender_id req = uuid_nil \<or> tw_recipient_id req = uuid_nil \<or> tw_carrier_id req = uuid_nil \<or>
     (tw_basis_type req \<noteq> ''contract'' \<and> tw_basis_type req \<noteq> ''transport_request'') \<or>
     \<not> bounded_text (trim_space (tw_basis_number req)) 1 100 \<or> \<not> bounded_text (string_value (tw_terms req)) 0 2000 \<or>
     tw_package_count req < 1 \<or> tw_basis_date req = zero_time"

text \<open>Whose record may be used for the order: a responsible manager can also use the customer's.\<close>

definition party_allowed :: "order \<Rightarrow> uuid \<Rightarrow> string \<Rightarrow> counterparty \<Rightarrow> bool" where
  "party_allowed ord user role p \<longleftrightarrow> role = ''admin'' \<or> cp_shared p \<or> cp_owner_user_id p = user \<or>
     role = ''manager'' \<and> o_created_by ord = Some (cp_owner_user_id p)"

text \<open>The loop over the sorted ids; \<open>parties\<close> is the map of the records read so far.\<close>

fun load_parties :: "(counterparty \<Rightarrow> bool) \<Rightarrow> uuid list \<Rightarrow> (uuid \<times> counterparty) list \<Rightarrow> (uuid \<times> counterparty) list op" where
  "load_parties allowed [] parties = return parties"
| "load_parties allowed (i # ids) parties =
    (if map_of parties i \<noteq> None then load_parties allowed ids parties
     else bind (get_one_locked counterparties_t (\<lambda>c. cp_id c = i)) (\<lambda>party.
       seq (fail_if (\<not> allowed party) forbidden)
       (seq (fail_if (cp_status party \<noteq> ''active'') (Business ErrCounterpartyArchived))
       (load_parties allowed ids ((i, party) # parties)))))"

definition set_transport_tx :: "uuid \<Rightarrow> uuid \<Rightarrow> string \<Rightarrow> transport_details_write \<Rightarrow> order op" where
  "set_transport_tx i user role req =
    bind (get_one_locked orders_t (\<lambda>x. o_id x = i)) (\<lambda>ord.
    seq (fail_if (role = ''client'' \<and> o_created_by ord \<noteq> Some user) forbidden)
    (seq (manager_check role user (from_origin ord))
    (seq (fail_if (o_status ord \<noteq> OrderDraft) (Business ErrInvalidOrderTransition))
    (bind (load_parties (party_allowed ord user role)
             (sort [tw_sender_id req, tw_recipient_id req, tw_carrier_id req]) []) (\<lambda>parties.
     bind (deref (map_of parties (tw_sender_id req))) (\<lambda>sender.
     bind (deref (map_of parties (tw_recipient_id req))) (\<lambda>recipient.
     bind (deref (map_of parties (tw_carrier_id req))) (\<lambda>carrier.
     bind time_now (\<lambda>now.
     let details = \<lparr>td_sender = sender, td_recipient = recipient, td_carrier = carrier,
           td_basis_type = tw_basis_type req, td_basis_number = trim_space (tw_basis_number req),
           td_basis_date = date_only (tw_basis_date req), td_package_count = tw_package_count req,
           td_terms = string_value (tw_terms req), td_recorded_by = user, td_recorded_at = now\<rparr>;
         ord' = ord\<lparr>o_details := Details details, o_policy_version := 1\<rparr>
     in seq (fail_if (cp_kind carrier = ''individual'') (Business ErrInvalidOrderInput))
       (seq (update orders_t (\<lambda>x. o_id x = i) ord') (return ord')))))))))))"

definition set_transport_details :: "uuid \<Rightarrow> uuid \<Rightarrow> string \<Rightarrow> transport_details_write \<Rightarrow> order op" where
  "set_transport_details i user role req =
    seq (fail_if (\<not> can_manage_counterparties role) forbidden)
    (seq (fail_if (transport_input_invalid req) (Business ErrInvalidOrderInput))
    (in_tx (set_transport_tx i user role req)))"

section \<open>The parties that are read\<close>

lemma load_parties_run:
  assumes "load_parties allowed ids parties e s = (Inr r, s')"
    and "\<forall>(i, p) \<in> set parties. find (\<lambda>c. cp_id c = i) (tb_counterparties s) = Some p \<and> allowed p \<and> cp_status p = ''active''"
  shows "s' = s\<lparr>locks := locks s'\<rparr> \<and> set ids \<union> fst ` set parties \<subseteq> fst ` set r \<and>
    (\<forall>(i, p) \<in> set r. find (\<lambda>c. cp_id c = i) (tb_counterparties s) = Some p \<and> allowed p \<and> cp_status p = ''active'')"
  using assms
proof (induction allowed ids parties arbitrary: s rule: load_parties.induct)
  case (1 allowed parties)
  then show ?case by (simp add: return_def)
next
  case (2 allowed i ids parties)
  show ?case
  proof (cases "map_of parties i")
    case (Some p)
    then have "i \<in> fst ` set parties" by (force dest: map_of_SomeD)
    moreover from Some "2.prems"(1) have run: "load_parties allowed ids parties e s = (Inr r, s')" by simp
    ultimately show ?thesis using "2.IH"(1) [OF _ run "2.prems"(2)] Some by auto
  next
    case None
    with "2.prems"(1) obtain p where p: "find (\<lambda>c. cp_id c = i) (tb_counterparties s) = Some p"
      and ok: "allowed p" "cp_status p = ''active''"
      and run: "load_parties allowed ids ((i, p) # parties) e (s\<lparr>locks := locks s @ [LockCounterparty (cp_id p)]\<rparr>) = (Inr r, s')"
      by (auto elim!: bind_ok seq_ok get_one_locked_run fail_if_ok)
    have "s' = (s\<lparr>locks := locks s @ [LockCounterparty (cp_id p)]\<rparr>)\<lparr>locks := locks s'\<rparr> \<and>
      set ids \<union> fst ` set ((i, p) # parties) \<subseteq> fst ` set r \<and>
      (\<forall>(i, p) \<in> set r. find (\<lambda>c. cp_id c = i)
         (tb_counterparties (s\<lparr>locks := locks s @ [LockCounterparty (cp_id p)]\<rparr>)) = Some p \<and> allowed p \<and> cp_status p = ''active'')"
      using "2.IH"(2) [OF _ run] None p ok "2.prems"(2) by simp
    then show ?thesis by simp
  qed
qed

lemma parties_run [runs]:
  assumes "load_parties allowed ids [] e s = (Inr r, s')"
  obtains l where "s' = s\<lparr>locks := l\<rparr>" and "set ids \<subseteq> fst ` set r"
    and "\<And>i p. map_of r i = Some p \<Longrightarrow> find (\<lambda>c. cp_id c = i) (tb_counterparties s) = Some p \<and> allowed p \<and> cp_status p = ''active''"
proof -
  from load_parties_run [OF assms] have "s' = s\<lparr>locks := locks s'\<rparr>" and "set ids \<subseteq> fst ` set r"
    and all: "\<forall>(i, p) \<in> set r. find (\<lambda>c. cp_id c = i) (tb_counterparties s) = Some p \<and> allowed p \<and> cp_status p = ''active''"
    by simp_all
  moreover have "find (\<lambda>c. cp_id c = i) (tb_counterparties s) = Some p \<and> allowed p \<and> cp_status p = ''active''"
    if "map_of r i = Some p" for i p
    using all map_of_SomeD [OF that] by blast
  ultimately show ?thesis using that by blast
qed

section \<open>What a successful call writes\<close>

text \<open>The record \<open>p\<close> of the catalogue is the one of the id \<open>i\<close>, usable and active.\<close>

definition usable_party :: "db \<Rightarrow> order \<Rightarrow> uuid \<Rightarrow> string \<Rightarrow> uuid \<Rightarrow> counterparty \<Rightarrow> bool" where
  "usable_party s ord user role i p \<longleftrightarrow>
     find (\<lambda>c. cp_id c = i) (tb_counterparties s) = Some p \<and> party_allowed ord user role p \<and> cp_status p = ''active''"

lemma set_transport_tx_run:
  assumes "set_transport_tx i user role req e s = (Inr r, s')"
  obtains ord d where "find (\<lambda>x. o_id x = i) (tb_orders s) = Some ord" and "o_status ord = OrderDraft"
    and "role = ''client'' \<longrightarrow> o_created_by ord = Some user"
    and "role = ''manager'' \<longrightarrow> (\<exists>w. manages s user w \<and> o_origin_warehouse ord = Some w)"
    and "usable_party s ord user role (tw_sender_id req) (td_sender d)"
    and "usable_party s ord user role (tw_recipient_id req) (td_recipient d)"
    and "usable_party s ord user role (tw_carrier_id req) (td_carrier d)"
    and "cp_kind (td_carrier d) \<noteq> ''individual''"
    and "td_package_count d = tw_package_count req" and "td_recorded_by d = user"
    and "r = ord\<lparr>o_details := Details d, o_policy_version := 1\<rparr>"
    and "tb_orders s' = overwrite (\<lambda>x. o_id x = i) (order_row e r) (tb_orders s)"
    and "tb_assignments s' = tb_assignments s" and "tb_history s' = tb_history s"
    and "tb_counterparties s' = tb_counterparties s"
proof -
  have core: "manages (s\<lparr>locks := l\<rparr>) = manages s" for l
    by (simp add: manages_def fun_eq_iff)
  from assms obtain ord s1 s2 parties s3 sender recipient carrier now s4 d where
    ord: "get_one_locked orders_t (\<lambda>x. o_id x = i) e s = (Inr ord, s1)"
    and client: "\<not> (role = ''client'' \<and> o_created_by ord \<noteq> Some user)"
    and manager: "manager_check role user (from_origin ord) e s1 = (Inr (), s2)"
    and draft: "\<not> o_status ord \<noteq> OrderDraft"
    and parties: "load_parties (party_allowed ord user role)
             (sort [tw_sender_id req, tw_recipient_id req, tw_carrier_id req]) [] e s2 = (Inr parties, s3)"
    and found: "map_of parties (tw_sender_id req) = Some sender" "map_of parties (tw_recipient_id req) = Some recipient"
      "map_of parties (tw_carrier_id req) = Some carrier"
    and now: "time_now e s3 = (Inr now, s4)"
    and d: "d = \<lparr>td_sender = sender, td_recipient = recipient, td_carrier = carrier,
           td_basis_type = tw_basis_type req, td_basis_number = trim_space (tw_basis_number req),
           td_basis_date = date_only (tw_basis_date req), td_package_count = tw_package_count req,
           td_terms = string_value (tw_terms req), td_recorded_by = user, td_recorded_at = now\<rparr>"
    and carrier: "\<not> cp_kind carrier = ''individual''"
    and written: "update orders_t (\<lambda>x. o_id x = i) (ord\<lparr>o_details := Details d, o_policy_version := 1\<rparr>) e s4 = (Inr (), s')"
    and r: "r = ord\<lparr>o_details := Details d, o_policy_version := 1\<rparr>"
    unfolding set_transport_tx_def Let_def
    apply (elim bind_ok seq_ok deref_ok fail_if_ok return_ok)
    apply hypsubst
    by (rule that; (assumption | rule refl))
  from ord obtain l1 where o: "find (\<lambda>x. o_id x = i) (tb_orders s) = Some ord" and s1: "s1 = s\<lparr>locks := l1\<rparr>"
    by (elim get_one_locked_run) (rule that, simp only: table_rows, assumption)
  from manager have s2: "s2 = s1" and m: "role = ''manager'' \<longrightarrow> (\<exists>w. manages s user w \<and> o_origin_warehouse ord = Some w)"
    by (elim runs; simp add: s1 core from_origin_def; blast)+
  from parties obtain l2 where s3: "s3 = s2\<lparr>locks := l2\<rparr>"
    and all: "\<And>i p. map_of parties i = Some p \<Longrightarrow>
       find (\<lambda>c. cp_id c = i) (tb_counterparties s2) = Some p \<and> party_allowed ord user role p \<and> cp_status p = ''active''"
    by (elim parties_run) (rule that, assumption, blast)
  have usable: "usable_party s ord user role i p" if "map_of parties i = Some p" for i p
    using all [OF that] by (simp add: usable_party_def s2 s1)
  have s4: "s4 = s\<lparr>locks := l2, ticks := Suc (ticks s)\<rparr>" using now by (elim runs) (simp add: s3 s2 s1)
  have ex: "list_ex (\<lambda>x. o_id x = i) (tb_orders s4)" using find_list_ex [OF o] by (simp add: s4)
  from written ex have s': "s' = tb_orders_update (overwrite (\<lambda>x. o_id x = i) (order_row e r)) s4"
    by (elim runs) (simp_all add: r)
  show ?thesis
    using client draft carrier m usable found s' s4
    by (intro that [OF o, of d]) (simp_all add: d r)
qed

lemma set_transport_tx_refines:
  assumes "set_transport_tx i user role req e s = (Inr r, s')"
  shows "refines e s s'"
  using assms
proof (rule set_transport_tx_run)
  fix ord d
  assume ord: "find (\<lambda>x. o_id x = i) (tb_orders s) = Some ord" and draft: "o_status ord = OrderDraft"
    and r: "r = ord\<lparr>o_details := Details d, o_policy_version := 1\<rparr>"
    and s': "tb_orders s' = overwrite (\<lambda>x. o_id x = i) (order_row e r) (tb_orders s)"
      "tb_assignments s' = tb_assignments s" "tb_history s' = tb_history s"
  from find_Some_mem [OF ord] have x: "ord \<in> set (tb_orders s)" and id: "o_id ord = i" by simp_all
  show ?thesis
  proof (rule order_change_refines [where x = ord and x' = "order_row e r" and hs = "[]"])
    fix oa assume "coherent ord oa"
    then have "oa = None" using draft by (rule coherent_draft)
    then show "coherent (order_row e r) oa \<and>
       lifecycle\<^sup>*\<^sup>* (o_status ord, map_option a_status oa) (o_status (order_row e r), map_option a_status oa)"
      using draft by (simp add: r)
  qed (simp_all add: x id r draft s' transitions_def)
qed

lemma set_transport_details_refines [simp]: "framed refines (set_transport_details i user role treq)"
  unfolding set_transport_details_def
  by (intro ref.framed_rules framed_in_tx) (erule set_transport_tx_refines)

end
