(* ===== verification/Incidents.thy ===== *)
theory Incidents
  imports Frames Orders
begin

text \<open>
  Incidents of a transport (internal/services/incidents.go): reporting, listing and resolving one,
  and the discrepancy the warehouse operations and the receipt record by themselves.
\<close>

section \<open>Texts\<close>

text \<open>\<^verbatim>\<open>%d\<close> of an int and \<^verbatim>\<open>String()\<close> of a uuid.\<close>

definition digit_char :: "nat \<Rightarrow> char" where
  "digit_char n = char_of (if n < 10 then 48 + n else 87 + n)"

fun decimal_nat :: "nat \<Rightarrow> string" where
  "decimal_nat n = (if n < 10 then [digit_char n] else decimal_nat (n div 10) @ [digit_char (n mod 10)])"

declare decimal_nat.simps [simp del]

definition decimal :: "int \<Rightarrow> string" where
  "decimal n = (if n < 0 then CHR ''-'' # decimal_nat (nat (- n)) else decimal_nat (nat n))"

primrec hex_digits :: "nat \<Rightarrow> uuid \<Rightarrow> string" where
  "hex_digits 0 i = []"
| "hex_digits (Suc k) i = hex_digits k (i div 16) @ [digit_char (i mod 16)]"

definition uuid_text :: "uuid \<Rightarrow> string" where
  "uuid_text i = (let h = hex_digits 32 i in
     take 8 h @ ''-'' @ take 4 (drop 8 h) @ ''-'' @ take 4 (drop 12 h) @ ''-'' @ take 4 (drop 16 h) @ ''-'' @ drop 20 h)"

text \<open>The Russian words of the two generated descriptions, in UTF-8.\<close>

definition word_operation :: string where
  "word_operation = [CHR 0xD0, CHR 0x9E, CHR 0xD0, CHR 0xBF, CHR 0xD0, CHR 0xB5, CHR 0xD1, CHR 0x80, CHR 0xD0, CHR 0xB0, CHR
     0xD1, CHR 0x86, CHR 0xD0, CHR 0xB8, CHR 0xD1, CHR 0x8F, CHR 0x20]"

definition word_receipt :: string where
  "word_receipt = [CHR 0xD0, CHR 0x9F, CHR 0xD1, CHR 0x80, CHR 0xD0, CHR 0xB8, CHR 0xD1, CHR 0x91, CHR 0xD0, CHR 0xBC, CHR
     0xD0, CHR 0xBA, CHR 0xD0, CHR 0xB0, CHR 0x20]"

definition word_expected :: string where
  "word_expected = [CHR 0x3A, CHR 0x20, CHR 0xD0, CHR 0xBE, CHR 0xD0, CHR 0xB6, CHR 0xD0, CHR 0xB8, CHR 0xD0, CHR 0xB4, CHR
     0xD0, CHR 0xB0, CHR 0xD0, CHR 0xBB, CHR 0xD0, CHR 0xBE, CHR 0xD1, CHR 0x81, CHR 0xD1, CHR 0x8C, CHR
     0x20]"

definition word_recorded :: string where
  "word_recorded = [CHR 0x20, CHR 0xD0, CHR 0xBC, CHR 0xD0, CHR 0xB5, CHR 0xD1, CHR 0x81, CHR 0xD1, CHR 0x82, CHR 0x2C, CHR
     0x20, CHR 0xD0, CHR 0xB7, CHR 0xD0, CHR 0xB0, CHR 0xD1, CHR 0x84, CHR 0xD0, CHR 0xB8, CHR 0xD0, CHR
     0xBA, CHR 0xD1, CHR 0x81, CHR 0xD0, CHR 0xB8, CHR 0xD1, CHR 0x80, CHR 0xD0, CHR 0xBE, CHR 0xD0, CHR
     0xB2, CHR 0xD0, CHR 0xB0, CHR 0xD0, CHR 0xBD, CHR 0xD0, CHR 0xBE, CHR 0x20]"

definition word_accepted :: string where
  "word_accepted = [CHR 0x20, CHR 0xD0, CHR 0xBC, CHR 0xD0, CHR 0xB5, CHR 0xD1, CHR 0x81, CHR 0xD1, CHR 0x82, CHR 0x2C, CHR
     0x20, CHR 0xD0, CHR 0xBF, CHR 0xD1, CHR 0x80, CHR 0xD0, CHR 0xB8, CHR 0xD0, CHR 0xBD, CHR 0xD1, CHR
     0x8F, CHR 0xD1, CHR 0x82, CHR 0xD0, CHR 0xBE, CHR 0x20]"

definition operation_text :: "string \<Rightarrow> int \<Rightarrow> int \<Rightarrow> string" where
  "operation_text kind expected actual =
     word_operation @ kind @ word_expected @ decimal expected @ word_recorded @ decimal actual"

definition receipt_text :: "uuid \<Rightarrow> int \<Rightarrow> int \<Rightarrow> string" where
  "receipt_text receipt expected actual =
     word_receipt @ uuid_text receipt @ word_expected @ decimal expected @ word_accepted @ decimal actual"

section \<open>Saving an incident\<close>

text \<open>
  The users that are told: the customer, the managers of the warehouse, the driver and the creator of
  the assignment, each once.  Go ranges over a map in no fixed order; here the order is that of the
  first insertion.
\<close>

definition warehouse_managers :: "uuid option \<Rightarrow> uuid list op" where
  "warehouse_managers warehouse = (case warehouse of None \<Rightarrow> return []
   | Some w \<Rightarrow> bind (get_all managers_t (\<lambda>m. m_warehouse_id m = Some w)) (\<lambda>ms. return (map m_user_id ms)))"

definition assignment_users :: "uuid option \<Rightarrow> uuid list op" where
  "assignment_users assignment = (case assignment of None \<Rightarrow> return []
   | Some i \<Rightarrow>
      bind (query (\<lambda>s. case find (\<lambda>a. a_id a = i) (tb_assignments s) of None \<Rightarrow> None
              | Some a \<Rightarrow> map_option (\<lambda>d. [d_user_id d, a_created_by a]) (find (\<lambda>d. d_id d = a_driver_id a) (tb_drivers s)))) (\<lambda>found.
      case found of None \<Rightarrow> throw NoRows | Some users \<Rightarrow> return users))"

definition opt_list :: "'a option \<Rightarrow> 'a list" where
  "opt_list x = (case x of None \<Rightarrow> [] | Some v \<Rightarrow> [v])"

definition save_incident :: "order \<Rightarrow> incident \<Rightarrow> incident op" where
  "save_incident ord inc =
    seq (create incidents_t inc)
    (bind (warehouse_managers (i_warehouse_id inc)) (\<lambda>managers.
     bind (assignment_users (i_assignment_id inc)) (\<lambda>users.
     seq (for_each (remdups (opt_list (o_created_by ord) @ managers @ users))
            (\<lambda>u. notify u (IncidentOpened (o_id ord) (i_id inc) (i_kind inc) (i_description inc))))
     (return inc))))"

section \<open>CreateOrderIncident\<close>

definition incident_input_invalid :: "order_incident_create \<Rightarrow> bool" where
  "incident_input_invalid req \<longleftrightarrow>
     trim_space (ic_description req) = [] \<or> 2000 < rune_count (trim_space (ic_description req)) \<or>
     ic_kind req \<notin> {''vehicle_breakdown'', ''cargo_damage'', ''quantity_discrepancy'', ''recipient_refusal'', ''other''} \<or>
     (case ic_expected_packages req of None \<Rightarrow> False | Some n \<Rightarrow> n < 0) \<or>
     (case ic_actual_packages req of None \<Rightarrow> False | Some n \<Rightarrow> n < 0) \<or>
     (ic_kind req = ''quantity_discrepancy'' \<and> (ic_expected_packages req = None \<or> ic_actual_packages req = None \<or>
        ic_expected_packages req = ic_actual_packages req))"

text \<open>\<^verbatim>\<open>SELECT user_id=$1 FROM drivers WHERE id=$2\<close>.\<close>

definition driver_belongs :: "uuid \<Rightarrow> uuid \<Rightarrow> bool op" where
  "driver_belongs user driver =
    bind (query (\<lambda>s. find (\<lambda>d. d_id d = driver) (tb_drivers s))) (\<lambda>found.
    case found of None \<Rightarrow> throw NoRows | Some d \<Rightarrow> return (d_user_id d = user))"

definition incident_warehouse :: "order \<Rightarrow> string \<Rightarrow> uuid option" where
  "incident_warehouse ord kind =
    (if o_status ord = OrderArrived \<and> kind \<noteq> ''vehicle_breakdown'' \<and> o_dest_warehouse ord \<noteq> None
     then o_dest_warehouse ord else o_origin_warehouse ord)"

definition create_incident_tx :: "uuid \<Rightarrow> uuid \<Rightarrow> string \<Rightarrow> order_incident_create \<Rightarrow> incident op" where
  "create_incident_tx order user role req =
    bind (get_one_locked orders_t (\<lambda>x. o_id x = order)) (\<lambda>ord.
    seq (fail_if (role = ''client'' \<and> o_created_by ord \<noteq> Some user) forbidden)
    (seq (manager_check role user (order_touches_warehouse ord))
    (bind (optional (get_one_locked assignments_t (\<lambda>a. a_order_id a = order \<and>
             (a_status a = AssignmentAccepted \<or> a_status a = AssignmentActive)))) (\<lambda>asg.
     seq (when_do (role = ''driver'') (case asg of None \<Rightarrow> throw forbidden
           | Some a \<Rightarrow> bind (driver_belongs user (a_driver_id a)) (\<lambda>belongs. fail_if (\<not> belongs) forbidden)))
    (seq (fail_if (o_status ord \<notin> {OrderReadyForDispatch, OrderAssigned, OrderInTransit, OrderArrived})
           (Business ErrInvalidOrderTransition))
    (seq (fail_if (ic_kind req = ''vehicle_breakdown'' \<and> asg = None \<or>
             ic_kind req = ''recipient_refusal'' \<and> o_status ord \<noteq> OrderArrived) (Business ErrInvalidOrderTransition))
    (bind uuid_new (\<lambda>i. bind time_now (\<lambda>now.
     save_incident ord \<lparr>i_id = i, i_order_id = order, i_assignment_id = map_option a_id asg,
       i_warehouse_id = incident_warehouse ord (ic_kind req), i_source_operation = None, i_kind = ic_kind req,
       i_description = trim_space (ic_description req), i_expected_packages = ic_expected_packages req,
       i_actual_packages = ic_actual_packages req, i_status = ''open'', i_reported_by = user, i_reported_at = now,
       i_resolution = [], i_resolution_note = [], i_recipient_name = [], i_resolved_by = None,
       i_resolved_at = None\<rparr>)))))))))"

definition create_order_incident :: "uuid \<Rightarrow> uuid \<Rightarrow> string \<Rightarrow> order_incident_create \<Rightarrow> incident op" where
  "create_order_incident order user role req =
    seq (fail_if (role \<noteq> ''client'' \<and> role \<noteq> ''manager'' \<and> role \<noteq> ''driver'' \<and> role \<noteq> ''admin'') forbidden)
    (seq (fail_if (incident_input_invalid req) (Business ErrInvalidOrderInput))
    (in_tx (create_incident_tx order user role req)))"

definition list_order_incidents :: "uuid \<Rightarrow> uuid \<Rightarrow> string \<Rightarrow> incident list op" where
  "list_order_incidents order user role =
    bind (get_order order user role) (\<lambda>_.
    query (\<lambda>s. sort_key (\<lambda>i. (i_reported_at i, i_id i)) (filter (\<lambda>i. i_order_id i = order) (tb_incidents s))))"

section \<open>ResolveOrderIncident\<close>

text \<open>The two subqueries: another vehicle took over; an active assignment was unloaded.\<close>

definition vehicle_replaced :: "assignment list \<Rightarrow> uuid \<Rightarrow> bool" where
  "vehicle_replaced as assignment \<longleftrightarrow>
     list_ex (\<lambda>old. a_id old = assignment \<and> a_status old = AssignmentReleased \<and>
       list_ex (\<lambda>cur. a_order_id cur = a_order_id old \<and>
         (a_status cur = AssignmentAccepted \<or> a_status cur = AssignmentActive) \<and> a_vehicle_id old \<noteq> a_vehicle_id cur) as) as"

definition unloaded_by_active :: "db \<Rightarrow> uuid \<Rightarrow> bool" where
  "unloaded_by_active s order \<longleftrightarrow>
     list_ex (\<lambda>w. wo_order_id w = order \<and> wo_type w = ''unload'' \<and>
       list_ex (\<lambda>a. Some (a_id a) = wo_assignment_id w \<and> a_status a = AssignmentActive) (tb_assignments s)) (tb_operations s)"

definition resolution_valid :: "db \<Rightarrow> order \<Rightarrow> incident \<Rightarrow> string \<Rightarrow> string \<Rightarrow> bool" where
  "resolution_valid s ord item resolution recipient =
    (if i_kind item = ''quantity_discrepancy'' then resolution = ''accept_discrepancy''
     else if i_kind item = ''cargo_damage'' then resolution = ''accept_with_remarks'' \<or> resolution = ''remediated''
     else if i_kind item = ''other'' then resolution = ''remediated''
     else if i_kind item = ''vehicle_breakdown'' then
       (case i_assignment_id item of
          Some a \<Rightarrow> if resolution = ''resources_replaced'' then vehicle_replaced (tb_assignments s) a else resolution = ''repaired''
        | None \<Rightarrow> resolution = ''repaired'')
     else if i_kind item = ''recipient_refusal'' then
       resolution = ''recipient_accepted'' \<and> recipient \<noteq> [] \<and> o_status ord = OrderArrived \<and>
       (o_dest_warehouse ord \<noteq> None \<longrightarrow> unloaded_by_active s (o_id ord))
     else False)"

definition resolve_incident_tx ::
  "uuid \<Rightarrow> uuid \<Rightarrow> string \<Rightarrow> string \<Rightarrow> string \<Rightarrow> string \<Rightarrow> incident op" where
  "resolve_incident_tx i user role resolution note recipient =
    bind (get_one incidents_t (\<lambda>x. i_id x = i)) (\<lambda>seed.
    bind (get_one_locked orders_t (\<lambda>x. o_id x = i_order_id seed)) (\<lambda>ord.
    bind (get_one_locked incidents_t (\<lambda>x. i_id x = i)) (\<lambda>item.
    seq (manager_check role user (\<lambda>w. i_warehouse_id item = Some w))
    (seq (fail_if (i_status item \<noteq> ''open'') (Business ErrIncidentStale))
    (bind (query (\<lambda>s. resolution_valid s ord item resolution recipient)) (\<lambda>valid.
     seq (fail_if (\<not> valid) (Business ErrIncidentResolutionInvalid))
    (bind time_now (\<lambda>now.
     let item' = item\<lparr>i_status := ''resolved'', i_resolution := resolution, i_resolution_note := note,
                    i_recipient_name := recipient, i_resolved_by := Some user, i_resolved_at := Some now\<rparr>
     in seq (update incidents_t (\<lambda>x. i_id x = i) item')
       (seq (for_each (remdups (i_reported_by item # opt_list (o_created_by ord)))
               (\<lambda>u. notify u (IncidentResolved (o_id ord) i resolution note)))
       (return item'))))))))))"

definition resolve_order_incident :: "uuid \<Rightarrow> uuid \<Rightarrow> string \<Rightarrow> order_incident_resolve \<Rightarrow> incident op" where
  "resolve_order_incident i user role req =
    seq (fail_if (role \<noteq> ''manager'' \<and> role \<noteq> ''admin'') forbidden)
    (let note = trim_space (ir_note req); recipient = string_value (ir_recipient_name req)
     in seq (fail_if (note = [] \<or> 2000 < rune_count note \<or> 200 < rune_count recipient) (Business ErrInvalidOrderInput))
       (in_tx (resolve_incident_tx i user role (ir_resolution req) note recipient)))"

section \<open>Discrepancies of warehouse operations\<close>

text \<open>\<^verbatim>\<open>SELECT package_count\<close> of one operation of the order.\<close>

definition recorded_packages :: "db \<Rightarrow> (warehouse_operation \<Rightarrow> bool) \<Rightarrow> int option" where
  "recorded_packages s p = map_option wo_package_count (find p (tb_operations s))"

text \<open>The latest load that was not undone (\<^verbatim>\<open>ORDER BY occurred_at DESC, id DESC LIMIT 1\<close>).\<close>

definition latest_load :: "db \<Rightarrow> uuid \<Rightarrow> int option" where
  "latest_load s order = (case rev (sort_key (\<lambda>l. (wo_occurred_at l, wo_id l)) (filter (\<lambda>l.
       wo_order_id l = order \<and> wo_type l = ''load'' \<and>
       \<not> list_ex (\<lambda>u. wo_assignment_id u \<noteq> None \<and> wo_assignment_id u = wo_assignment_id l \<and> wo_type u = ''undo_load'') (tb_operations s))
       (tb_operations s))) of [] \<Rightarrow> None | l # _ \<Rightarrow> Some (wo_package_count l))"

definition expected_packages :: "order \<Rightarrow> warehouse_operation \<Rightarrow> int option op" where
  "expected_packages ord w =
    (if wo_type w = ''receive'' then
       bind (lift_sum (read_transport_details ord)) (\<lambda>details. return (map_option td_package_count details))
     else if wo_type w = ''undo_load'' then
       bind (deref (wo_assignment_id w)) (\<lambda>a. query (\<lambda>s. recorded_packages s (\<lambda>x.
         wo_order_id x = o_id ord \<and> wo_assignment_id x = Some a \<and> wo_type x = ''load'')))
     else if wo_type w = ''load'' \<or> wo_type w = ''return_to_sender'' then
       query (\<lambda>s. recorded_packages s (\<lambda>x. wo_order_id x = o_id ord \<and> wo_type x = ''receive''))
     else query (\<lambda>s. latest_load s (o_id ord)))"

definition record_warehouse_discrepancy :: "order \<Rightarrow> warehouse_operation \<Rightarrow> unit op" where
  "record_warehouse_discrepancy ord w =
    bind (expected_packages ord w) (\<lambda>expected. case expected of None \<Rightarrow> return ()
    | Some n \<Rightarrow> when_do (n \<noteq> wo_package_count w)
        (bind uuid_new (\<lambda>i.
         bind (save_incident ord \<lparr>i_id = i, i_order_id = o_id ord, i_assignment_id = wo_assignment_id w,
           i_warehouse_id = Some (wo_warehouse_id w), i_source_operation = Some (wo_id w),
           i_kind = ''quantity_discrepancy'', i_description = operation_text (wo_type w) n (wo_package_count w),
           i_expected_packages = Some n, i_actual_packages = Some (wo_package_count w), i_status = ''open'',
           i_reported_by = wo_created_by w, i_reported_at = wo_occurred_at w,
           i_resolution = [], i_resolution_note = [], i_recipient_name = [], i_resolved_by = None,
           i_resolved_at = None\<rparr>) (\<lambda>_. return ()))))"

section \<open>Frames\<close>

lemma warehouse_managers_core [core_frames]: "framed keeps_core (warehouse_managers w)"
  unfolding warehouse_managers_def by (intro core_frames; simp)

lemma assignment_users_core [core_frames]: "framed keeps_core (assignment_users a)"
  unfolding assignment_users_def by (intro core_frames; simp)

lemma save_incident_core [core_frames]: "framed keeps_core (save_incident ord inc)"
  unfolding save_incident_def by (intro core_frames) simp

lemma driver_belongs_core [core_frames]: "framed keeps_core (driver_belongs user driver)"
  unfolding driver_belongs_def by (intro core_frames; simp)

lemma create_order_incident_core [core_frames]: "framed keeps_core (create_order_incident order user role req)"
  unfolding create_order_incident_def create_incident_tx_def
  by (intro core_frames; simp)

lemma resolve_order_incident_core [core_frames]: "framed keeps_core (resolve_order_incident i user role req)"
  unfolding resolve_order_incident_def resolve_incident_tx_def Let_def
  by (intro core_frames; simp)

lemma record_warehouse_discrepancy_core [core_frames]: "framed keeps_core (record_warehouse_discrepancy ord w)"
  unfolding record_warehouse_discrepancy_def expected_packages_def
  by (intro core_frames; simp)

end
