(* ===== verification/Warehouse_Flow.thy ===== *)
theory Warehouse_Flow
  imports Incidents Offering
begin

text \<open>
  Operations in a warehouse (internal/services/warehouse_flow.go): receiving, loading, unloading,
  undoing a load and returning cargo to its sender, and the queue of a warehouse with the stage
  each order is in.
\<close>

section \<open>CreateWarehouseOperation\<close>

text \<open>Lines 45-64: the input of the request, trimmed, and when it is refused.\<close>

definition operation_input_invalid :: "string \<Rightarrow> int \<Rightarrow> string \<Rightarrow> string \<Rightarrow> string \<Rightarrow> bool" where
  "operation_input_invalid kind count condition comment recipient \<longleftrightarrow>
     kind \<notin> {''receive'', ''load'', ''unload'', ''undo_load'', ''return_to_sender''} \<or>
     count < 0 \<or> (kind \<in> {''receive'', ''load''} \<and> count = 0) \<or> condition = [] \<or>
     2000 < rune_count condition \<or> 2000 < rune_count comment \<or> 200 < rune_count recipient \<or>
     (kind \<in> {''undo_load'', ''return_to_sender''} \<and> comment = []) \<or> (kind = ''return_to_sender'' \<and> recipient = [])"

definition operation_warehouse :: "order \<Rightarrow> string \<Rightarrow> uuid option" where
  "operation_warehouse ord kind = (if kind = ''unload'' then o_dest_warehouse ord else o_origin_warehouse ord)"

text \<open>Lines 90-141: which states admit the operation; the assignment it belongs to.\<close>

definition receive_or_return_checks :: "order \<Rightarrow> string \<Rightarrow> uuid option \<Rightarrow> unit op" where
  "receive_or_return_checks ord kind assignment =
    seq (fail_if (assignment \<noteq> None) (Business ErrInvalidOrderInput))
    (if kind = ''receive''
     then fail_if (o_status ord \<noteq> OrderReadyForDispatch \<and> o_status ord \<noteq> OrderAssigned) (Business ErrInvalidOrderTransition)
     else seq (fail_if (o_status ord \<noteq> OrderCancelled) (Business ErrInvalidOrderTransition))
            (require_warehouse_operation (o_id ord) ''receive'' None))"

definition vehicle_operation_checks :: "order \<Rightarrow> string \<Rightarrow> assignment \<Rightarrow> unit op" where
  "vehicle_operation_checks ord kind a =
    seq (fail_if (a_order_id a \<noteq> o_id ord) (Business ErrWarehouseOperationConflict))
    (if kind = ''load'' \<or> kind = ''undo_load'' then
       seq (fail_if (o_status ord \<noteq> OrderAssigned \<or> a_status a \<noteq> AssignmentAccepted) (Business ErrInvalidOrderTransition))
       (seq (require_warehouse_operation (o_id ord) ''receive'' None)
       (if kind = ''load'' then require_no_open_incidents (o_id ord)
        else bind (warehouse_load_exists (o_id ord) (a_id a)) (\<lambda>is_loaded.
             fail_if (\<not> is_loaded) (Business ErrWarehouseOperationRequired))))
     else fail_if (o_status ord \<noteq> OrderArrived \<or> a_status a \<noteq> AssignmentActive) (Business ErrInvalidOrderTransition))"

definition operation_assignment :: "order \<Rightarrow> string \<Rightarrow> uuid option \<Rightarrow> assignment option op" where
  "operation_assignment ord kind assignment =
    (if kind = ''receive'' \<or> kind = ''return_to_sender''
     then seq (receive_or_return_checks ord kind assignment) (return None)
     else (case assignment of None \<Rightarrow> throw (Business ErrInvalidOrderInput)
       | Some i \<Rightarrow>
          seq (fail_if (i = uuid_nil) (Business ErrInvalidOrderInput))
          (bind (get_one_locked assignments_t (\<lambda>a. a_id a = i)) (\<lambda>a.
           seq (vehicle_operation_checks ord kind a) (return (Some a))))))"

text \<open>Lines 142-150: before an undo the fleet is locked in the standard order.\<close>

definition lock_undo_fleet :: "string \<Rightarrow> assignment option \<Rightarrow> unit op" where
  "lock_undo_fleet kind asg =
    when_do (kind = ''undo_load'') (bind (deref asg) (\<lambda>a.
      bind (get_one_locked drivers_t (\<lambda>d. d_id d = a_driver_id a)) (\<lambda>_.
      bind (get_one_locked vehicles_t (\<lambda>v. v_id v = a_vehicle_id a)) (\<lambda>_. return ()))))"

definition undone_row :: "time \<Rightarrow> assignment \<Rightarrow> assignment" where
  "undone_row now a = a\<lparr>a_status := AssignmentReleased, a_released_at := Some now,
     a_release_code := Some ''loading_undone''\<rparr>"

definition undo_warehouse_loading :: "order \<Rightarrow> assignment \<Rightarrow> uuid \<Rightarrow> time \<Rightarrow> unit op" where
  "undo_warehouse_loading ord a actor now =
    seq (update assignments_t (\<lambda>x. a_id x = a_id a) (undone_row now a))
    (seq (update orders_t (\<lambda>x. o_id x = o_id ord)
           (ord\<lparr>o_status := OrderReadyForDispatch, o_driver_id := None, o_assigned_at := None\<rparr>))
    (seq (record_order_status (o_id ord) (o_status ord) OrderReadyForDispatch actor (Some ''loading_undone''))
     (enqueue_dispatch_after_release (undone_row now a))))"

text \<open>A unique violation means that the operation was recorded before.\<close>

definition conflicting :: "err \<Rightarrow> 'a op \<Rightarrow> 'a op" where
  "conflicting er m = (\<lambda>e s. case m e s of
     (Inl x, s') \<Rightarrow> (Inl (if x = Pg UniqueViolation then er else x), s')
   | (Inr v, s') \<Rightarrow> (Inr v, s'))"

text \<open>Lines 174-184: who is told.\<close>

definition operation_recipients :: "order \<Rightarrow> assignment option \<Rightarrow> uuid list op" where
  "operation_recipients ord asg = (case asg of None \<Rightarrow> return (opt_list (o_created_by ord))
   | Some a \<Rightarrow> bind (get_one drivers_t (\<lambda>d. d_id d = a_driver_id a)) (\<lambda>drv.
       return (opt_list (o_created_by ord) @ [d_user_id drv])))"

definition warehouse_operation_tx ::
  "uuid \<Rightarrow> uuid \<Rightarrow> string \<Rightarrow> string \<Rightarrow> int \<Rightarrow> uuid option \<Rightarrow> string \<Rightarrow> string \<Rightarrow> string \<Rightarrow> warehouse_operation op" where
  "warehouse_operation_tx order user role kind count assignment condition comment recipient =
    bind (get_one_locked orders_t (\<lambda>x. o_id x = order)) (\<lambda>ord.
    case operation_warehouse ord kind of None \<Rightarrow> throw (Business ErrInvalidOrderInput)
    | Some w \<Rightarrow>
      seq (manager_check role user (\<lambda>own. own = w))
      (bind (operation_assignment ord kind assignment) (\<lambda>asg.
       seq (lock_undo_fleet kind asg)
       (bind (query (\<lambda>s. map_option w_status (find (\<lambda>x. w_id x = w) (tb_warehouses s)))) (\<lambda>found.
        case found of None \<Rightarrow> throw NoRows
        | Some status \<Rightarrow>
          seq (fail_if (kind \<in> {''receive'', ''load''} \<and> status \<noteq> ''active'') (Business ErrWarehouseInactive))
          (bind uuid_new (\<lambda>i. bind time_now (\<lambda>now.
           let operation = \<lparr>wo_id = i, wo_order_id = order, wo_warehouse_id = w, wo_assignment_id = assignment,
                 wo_type = kind, wo_package_count = count, wo_cargo_condition = condition, wo_comment = comment,
                 wo_recipient_name = recipient, wo_created_by = user, wo_occurred_at = now\<rparr>
           in seq (conflicting (Business ErrWarehouseOperationConflict) (create operations_t operation))
             (seq (record_warehouse_discrepancy ord operation)
             (seq (when_do (kind = ''undo_load'') (bind (deref asg) (\<lambda>a. undo_warehouse_loading ord a user now)))
             (bind (operation_recipients ord asg) (\<lambda>recipients.
              seq (for_each recipients (\<lambda>u. notify u (WarehouseNotice kind order count condition)))
              (return operation)))))))))))))"

definition create_warehouse_operation ::
  "uuid \<Rightarrow> uuid \<Rightarrow> string \<Rightarrow> warehouse_operation_create \<Rightarrow> warehouse_operation op" where
  "create_warehouse_operation order user role req =
    seq (fail_if (role \<noteq> ''manager'' \<and> role \<noteq> ''admin'') forbidden)
    (let condition = trim_space (wc_cargo_condition req); comment = string_value (wc_comment req);
         recipient = string_value (wc_recipient_name req)
     in seq (fail_if (operation_input_invalid (wc_operation_type req) (wc_package_count req) condition comment recipient)
              (Business ErrInvalidOrderInput))
       (in_tx (warehouse_operation_tx order user role (wc_operation_type req) (wc_package_count req)
          (wc_assignment_id req) condition comment recipient)))"

definition list_order_warehouse_operations :: "uuid \<Rightarrow> uuid \<Rightarrow> string \<Rightarrow> warehouse_operation list op" where
  "list_order_warehouse_operations order user role =
    bind (get_order order user role) (\<lambda>_.
    query (\<lambda>s. sort_key (\<lambda>w. (wo_occurred_at w, wo_id w)) (filter (\<lambda>w. wo_order_id w = order) (tb_operations s))))"

section \<open>ListWarehouseQueue\<close>

record queue_item =
  qi_order :: order
  qi_stage :: string
  qi_open_incidents :: nat

text \<open>Orders that are over stay in the queue while cargo waits for its return or an incident is open.\<close>

definition still_queued :: "db \<Rightarrow> uuid \<Rightarrow> order \<Rightarrow> bool" where
  "still_queued s w x \<longleftrightarrow> \<not> terminal (o_status x) \<or>
     o_status x = OrderCancelled \<and> o_origin_warehouse x = Some w \<and>
       list_ex (\<lambda>y. wo_order_id y = o_id x \<and> wo_type y = ''receive'') (tb_operations s) \<and>
       \<not> list_ex (\<lambda>y. wo_order_id y = o_id x \<and> wo_type y = ''return_to_sender'') (tb_operations s) \<or>
     list_ex (\<lambda>i. i_order_id i = o_id x \<and> i_status i = ''open'') (tb_incidents s)"

text \<open>The first loop: what was seen of each order, which assignments were loaded and which loads undone.\<close>

record tally =
  ty_seen :: "(uuid \<times> string) set"
  ty_loads :: "(uuid \<times> uuid) set"
  ty_undone :: "uuid set"

definition tally_operation :: "warehouse_operation \<Rightarrow> tally \<Rightarrow> tally" where
  "tally_operation op t =
    (let t1 = t\<lparr>ty_seen := insert (wo_order_id op, wo_type op) (ty_seen t)\<rparr>;
         t2 = (case wo_assignment_id op of
                 Some a \<Rightarrow> if wo_type op = ''load'' then t1\<lparr>ty_loads := insert (wo_order_id op, a) (ty_loads t1)\<rparr> else t1
               | None \<Rightarrow> t1)
     in case wo_assignment_id op of
          Some a \<Rightarrow> if wo_type op = ''undo_load'' then t2\<lparr>ty_undone := insert a (ty_undone t2)\<rparr> else t2
        | None \<Rightarrow> t2)"

definition tally_operations :: "warehouse_operation list \<Rightarrow> tally" where
  "tally_operations ops = fold tally_operation ops \<lparr>ty_seen = {}, ty_loads = {}, ty_undone = {}\<rparr>"

text \<open>The second loop, one order: each \<^verbatim>\<open>if\<close> may overwrite the stage found so far.\<close>

definition set_if :: "bool \<Rightarrow> string \<Rightarrow> string \<Rightarrow> string" where
  "set_if c new stage = (if c then new else stage)"

definition warehouse_stage :: "uuid \<Rightarrow> tally \<Rightarrow> nat \<Rightarrow> order \<Rightarrow> string" where
  "warehouse_stage w t incidents x =
    (let ops = (\<lambda>kind. (o_id x, kind) \<in> ty_seen t);
         here = (o_origin_warehouse x = Some w);
         is_loaded = (\<exists>l \<in> ty_loads t. fst l = o_id x \<and> snd l \<notin> ty_undone t);
         stage = ''expected'';
         stage = (if here then
             set_if (o_started_at x \<noteq> None) ''departed''
            (set_if is_loaded ''ready_to_depart''
            (set_if (o_status x = OrderAssigned \<and> ops ''receive'') ''awaiting_loading''
            (set_if (ops ''receive'') ''awaiting_assignment'' ''awaiting_receipt'')))
           else set_if (o_status x = OrderArrived) ''awaiting_unloading'' stage);
         stage = set_if (ops ''unload'') ''received'' stage;
         stage = set_if (o_status x = OrderCompleted \<or> o_status x = OrderCancelled) (order_status_text (o_status x)) stage;
         stage = (if o_status x = OrderCancelled \<and> here \<and> ops ''receive''
                  then set_if (ops ''return_to_sender'') ''returned_to_sender'' ''awaiting_return'' else stage)
     in set_if (0 < incidents) ''incident_open'' stage)"

definition list_warehouse_queue ::
  "uuid \<Rightarrow> uuid \<Rightarrow> string \<Rightarrow> list_warehouse_queue_params \<Rightarrow> queue_item list op" where
  "list_warehouse_queue w user role params =
    seq (fail_if (role \<noteq> ''manager'' \<and> role \<noteq> ''admin'') forbidden)
    (seq (manager_check role user (\<lambda>own. own = w))
    (bind (get_one warehouses_t (\<lambda>x. w_id x = w)) (\<lambda>_.
     let limit = (case lq_limit params of None \<Rightarrow> 50 | Some n \<Rightarrow> n);
         offset = (case lq_offset params of None \<Rightarrow> 0 | Some n \<Rightarrow> n)
     in seq (fail_if (limit < 1 \<or> 100 < limit \<or> offset < 0 \<or> 10000 < offset) (Business ErrInvalidOrderInput))
       (bind (query (\<lambda>s. page limit offset (sort_key (\<lambda>x. (o_created_at x, o_id x)) (filter (\<lambda>x.
          order_touches_warehouse x w \<and> (lq_include_closed params = Some True \<or> still_queued s w x)) (tb_orders s))))) (\<lambda>orders.
        query (\<lambda>s.
          let ops = filter (\<lambda>y. wo_warehouse_id y = w \<and> wo_order_id y \<in> o_id ` set orders) (tb_operations s);
              open_count = (\<lambda>x. length (filter (\<lambda>i. i_order_id i = o_id x \<and> i_status i = ''open'') (tb_incidents s)))
          in map (\<lambda>x. \<lparr>qi_order = x, qi_stage = warehouse_stage w (tally_operations ops) (open_count x) x,
                      qi_open_incidents = open_count x\<rparr>) orders))))))"

section \<open>What the parts of an operation check and keep\<close>

lemma conflicting_core [core_frames]: "framed keeps_core m \<Longrightarrow> framed keeps_core (conflicting er m)"
  by (auto simp: framed_def conflicting_def split: prod.splits sum.splits) (metis snd_conv)+

lemma operation_parts_core [core_frames]:
  "framed keeps_core (operation_assignment ord kind assignment)"
  "framed keeps_core (lock_undo_fleet kind asg)"
  "framed keeps_core (operation_recipients ord asg)"
  unfolding operation_assignment_def receive_or_return_checks_def vehicle_operation_checks_def lock_undo_fleet_def
    operation_recipients_def
  by (intro core_frames; simp)+

lemma receive_or_return_checks_run [runs]:
  assumes "receive_or_return_checks ord kind assignment e s = (Inr u, s')"
  obtains "s' = s" and "assignment = None"
    and "kind = ''receive'' \<longrightarrow> o_status ord = OrderReadyForDispatch \<or> o_status ord = OrderAssigned"
    and "kind \<noteq> ''receive'' \<longrightarrow> o_status ord = OrderCancelled \<and> operation_recorded s (o_id ord) ''receive'' None"
proof -
  from assms show ?thesis
    unfolding receive_or_return_checks_def
    by (elim runs) (rule that; auto)+
qed

lemma vehicle_operation_checks_run [runs]:
  assumes "vehicle_operation_checks ord kind a e s = (Inr u, s')"
  obtains "s' = s" and "a_order_id a = o_id ord"
    and "kind = ''load'' \<or> kind = ''undo_load'' \<longrightarrow> o_status ord = OrderAssigned \<and> a_status a = AssignmentAccepted \<and>
           operation_recorded s (o_id ord) ''receive'' None"
    and "kind = ''load'' \<longrightarrow> no_open_incident s (o_id ord)"
    and "kind = ''undo_load'' \<longrightarrow> loaded (tb_operations s) (o_id ord) (a_id a)"
    and "kind \<noteq> ''load'' \<and> kind \<noteq> ''undo_load'' \<longrightarrow> o_status ord = OrderArrived \<and> a_status a = AssignmentActive"
proof -
  from assms show ?thesis
    unfolding vehicle_operation_checks_def
    by (elim runs) (rule that; auto)+
qed

text \<open>The state an operation of a kind needs.\<close>

definition operation_admitted :: "db \<Rightarrow> order \<Rightarrow> string \<Rightarrow> assignment option \<Rightarrow> bool" where
  "operation_admitted s ord kind asg \<longleftrightarrow>
     (kind = ''receive'' \<longrightarrow> asg = None \<and> (o_status ord = OrderReadyForDispatch \<or> o_status ord = OrderAssigned)) \<and>
     (kind = ''return_to_sender'' \<longrightarrow> asg = None \<and> o_status ord = OrderCancelled \<and>
        operation_recorded s (o_id ord) ''receive'' None) \<and>
     (kind \<noteq> ''receive'' \<and> kind \<noteq> ''return_to_sender'' \<longrightarrow> (\<exists>a. asg = Some a \<and> a \<in> set (tb_assignments s) \<and>
        a_order_id a = o_id ord \<and>
        (if kind = ''load'' \<or> kind = ''undo_load''
         then o_status ord = OrderAssigned \<and> a_status a = AssignmentAccepted \<and> operation_recorded s (o_id ord) ''receive'' None \<and>
           (kind = ''load'' \<longrightarrow> no_open_incident s (o_id ord)) \<and>
           (kind = ''undo_load'' \<longrightarrow> loaded (tb_operations s) (o_id ord) (a_id a))
         else o_status ord = OrderArrived \<and> a_status a = AssignmentActive)))"

lemma get_one_lockedD:
  assumes "get_one_locked t p e s = (Inr r, s')"
  shows "r \<in> set (rows t s)" and "p r" and "s' = s\<lparr>locks := locks s @ [lock_of t r]\<rparr>"
proof -
  from assms have found: "find p (rows t s) = Some r \<and> s' = s\<lparr>locks := locks s @ [lock_of t r]\<rparr>"
    by (rule get_one_locked_run) (rule conjI)
  then show "s' = s\<lparr>locks := locks s @ [lock_of t r]\<rparr>" by (rule conjunct2)
  show "r \<in> set (rows t s)" "p r" using find_Some_mem [OF conjunct1 [OF found]] by simp_all
qed

lemma operation_assignment_run [runs]:
  assumes "operation_assignment ord kind assignment e s = (Inr asg, s')"
  obtains l where "s' = s\<lparr>locks := l\<rparr>" and "operation_admitted s ord kind asg" and "assignment = map_option a_id asg"
proof (cases "kind = ''receive'' \<or> kind = ''return_to_sender''")
  case True
  with assms have "s' = s" and "operation_admitted s ord kind asg" and "assignment = map_option a_id asg"
    unfolding operation_assignment_def by (auto elim!: runs simp: operation_admitted_def)
  then show ?thesis by (intro that [of "locks s"]) simp_all
next
  case False
  with assms obtain i a s1 where i: "assignment = Some i"
    and a: "get_one_locked assignments_t (\<lambda>a. a_id a = i) e s = (Inr a, s1)"
    and checked: "vehicle_operation_checks ord kind a e s1 = (Inr (), s')" and asg: "asg = Some a"
    unfolding operation_assignment_def if_not_P [OF False]
    by (elim case_option_ok bind_ok seq_ok fail_if_ok return_ok throw_ok) (hypsubst, rule that; (assumption | rule refl))
  note row = get_one_lockedD [OF a, unfolded table_rows]
  note mem = row(1,2) and s1 = row(3)
  from checked have "s' = s1" by (rule vehicle_operation_checks_run)
  moreover from checked have "operation_admitted s ord kind asg"
  proof (rule vehicle_operation_checks_run, goal_cases)
    case 1
    then show ?case
      using False mem(1) unfolding operation_admitted_def asg s1 by (simp add: operation_recorded_def no_open_incident_def)
  qed
  ultimately show ?thesis using mem(2) by (intro that) (simp_all add: s1 i asg)
qed

lemma undo_loading_run [runs]:
  assumes "undo_warehouse_loading ord a actor now e s = (Inr u, s')"
    and "a \<in> set (tb_assignments s)" "ord \<in> set (tb_orders s)"
  obtains h where "rewrote e s s' ord (ord\<lparr>o_status := OrderReadyForDispatch, o_driver_id := None, o_assigned_at := None\<rparr>)
      a (undone_row now a) [h]"
    and "history_entry (o_id ord) (o_status ord) OrderReadyForDispatch actor (Some ''loading_undone'') h"
    and "release_queued s' (a_id a)"
proof -
  have ex: "list_ex (\<lambda>x. a_id x = a_id a) (tb_assignments s)" "list_ex (\<lambda>x. o_id x = o_id ord) (tb_orders s)"
    using assms(2,3) by (auto simp: list_ex_iff)
  have id: "a_id (undone_row now a) = a_id a" by (simp add: undone_row_def)
  from assms(1) show ?thesis
    unfolding undo_warehouse_loading_def
    apply (elim runs)
    apply (simp_all add: ex)
    by (rule that, (assumption | (simp (no_asm_simp) add: rewrote_def; fail) | (simp (no_asm_simp) add: release_queued_def id; fail) | (simp add: id release_queued_def; fail))+)
qed

section \<open>The effect on the lifecycle\<close>

lemma admitted_same_core:
  assumes "operation_admitted s ord kind (Some a)" and "kind = ''undo_load''"
  shows "a \<in> set (tb_assignments s) \<and> a_order_id a = o_id ord \<and> o_status ord = OrderAssigned \<and> a_status a = AssignmentAccepted"
  using assms by (simp add: operation_admitted_def)

lemma undo_loading_refines:
  assumes "undo_warehouse_loading ord a actor now e s = (Inr u, s')"
    and "a \<in> set (tb_assignments s)" and ord: "ord \<in> set (tb_orders s)" "a_order_id a = o_id ord"
    and st: "o_status ord = OrderAssigned" "a_status a = AssignmentAccepted"
  shows "refines e s s'"
  using assms(1,2,3)
proof (rule undo_loading_run)
  fix h
  assume w: "rewrote e s s' ord (ord\<lparr>o_status := OrderReadyForDispatch, o_driver_id := None, o_assigned_at := None\<rparr>)
      a (undone_row now a) [h]"
    and h: "history_entry (o_id ord) (o_status ord) OrderReadyForDispatch actor (Some ''loading_undone'') h"
  show ?thesis
    using w h st ord transitions_entry [OF h]
    by (intro booking_refines [OF assms(2,3), where b = "assignment_row e (undone_row now a)" and hs = "[h]"])
       (auto simp: rewrote_def history_entry_def undone_row_def ts_def intro!: r_into_rtranclp intro: lifecycle.withdraw)
qed

lemma lock_undo_fleet_run [runs]:
  assumes "lock_undo_fleet kind asg e s = (Inr u, s')"
  obtains l where "s' = s\<lparr>locks := l\<rparr>"
proof -
  from assms show ?thesis
    unfolding lock_undo_fleet_def by (elim runs; hypsubst) (rule that [of "locks s'"]; simp)+
qed

text \<open>Everything up to the undo, and everything after it, leaves the core alone.\<close>

lemma warehouse_operation_parts:
  assumes "warehouse_operation_tx order user role kind count assignment condition comment recipient e s = (Inr r, s')"
  obtains ord w asg status u v now where "ord \<in> set (tb_orders s)" and "o_id ord = order"
    and "operation_warehouse ord kind = Some w"
    and "role = ''manager'' \<longrightarrow> manages s user w" and "operation_admitted s ord kind asg"
    and "assignment = map_option a_id asg"
    and "map_option w_status (find (\<lambda>x. w_id x = w) (tb_warehouses s)) = Some status"
    and "kind \<in> {''receive'', ''load''} \<longrightarrow> status = ''active''"
    and "same_core s u" and "when_do (kind = ''undo_load'') (bind (deref asg) (\<lambda>a. undo_warehouse_loading ord a user now)) e u = (Inr (), v)"
    and "same_core v s'"
proof -
  from assms obtain ord s1 w s2 asg s3 s4 s5 status s6 i s7 now s8 operation s9 s10 v recipients s11 where
    ord: "get_one_locked orders_t (\<lambda>x. o_id x = order) e s = (Inr ord, s1)"
    and w: "operation_warehouse ord kind = Some w"
    and mgr: "manager_check role user (\<lambda>own. own = w) e s1 = (Inr (), s2)"
    and asg: "operation_assignment ord kind assignment e s2 = (Inr asg, s3)"
    and fleet: "lock_undo_fleet kind asg e s3 = (Inr (), s4)"
    and found: "query (\<lambda>s. map_option w_status (find (\<lambda>x. w_id x = w) (tb_warehouses s))) e s4 = (Inr (Some status), s5)"
    and active: "fail_if (kind \<in> {''receive'', ''load''} \<and> status \<noteq> ''active'') (Business ErrWarehouseInactive) e s5 = (Inr (), s6)"
    and i: "uuid_new e s6 = (Inr i, s7)" and now: "time_now e s7 = (Inr now, s8)"
    and made: "conflicting (Business ErrWarehouseOperationConflict) (create operations_t operation) e s8 = (Inr (), s9)"
    and disc: "record_warehouse_discrepancy ord operation e s9 = (Inr (), s10)"
    and undo: "when_do (kind = ''undo_load'') (bind (deref asg) (\<lambda>a. undo_warehouse_loading ord a user now)) e s10 = (Inr (), v)"
    and who: "operation_recipients ord asg e v = (Inr recipients, s11)"
    and told: "for_each recipients (\<lambda>u. notify u (WarehouseNotice kind order count condition)) e s11 = (Inr (), s')"
    unfolding warehouse_operation_tx_def Let_def
    apply (elim bind_ok seq_ok case_option_ok return_ok throw_ok)
    apply hypsubst
    by (rule that; assumption)
  note row = get_one_lockedD [OF ord, unfolded table_rows]
  from mgr have s2: "s2 = s1" and m: "role = ''manager'' \<longrightarrow> manages s1 user w" by (elim manager_check_run; simp)+
  obtain l where s3: "s3 = s2\<lparr>locks := l\<rparr>" and adm: "operation_admitted s2 ord kind asg" and aid: "assignment = map_option a_id asg"
    using asg by (rule operation_assignment_run)
  obtain l' where s4: "s4 = s3\<lparr>locks := l'\<rparr>"
    using fleet by (rule lock_undo_fleet_run)
  from found have s5: "s5 = s4" by (rule query_run)
  from found have st: "map_option w_status (find (\<lambda>x. w_id x = w) (tb_warehouses s4)) = Some status"
    by (rule query_run) (erule sym)
  from active have s6: "s6 = s5" by (rule fail_if_ok)
  from active have act: "kind \<in> {''receive'', ''load''} \<longrightarrow> status = ''active''" by (rule fail_if_ok) blast
  from i now have s8: "s8 = s6\<lparr>issued := Suc (issued s6), ticks := Suc (ticks s6)\<rparr>" by (elim runs; simp)
  have "same_core s8 s9" using made by (rule core_run [rotated]) (intro core_frames; simp)
  moreover have "same_core s9 s10" using disc by (rule core_run [rotated]) (rule core_frames)
  ultimately have before: "same_core s s10"
    unfolding s8 s6 s5 s4 s3 s2 row(3) by (simp add: same_core_def)
  have "same_core v s11" using who by (rule core_run [rotated]) (rule core_frames)
  moreover have "same_core s11 s'" using told by (rule core_run [rotated]) (intro core_frames)
  ultimately have after: "same_core v s'" by (rule same_core_trans)
  have sm: "manages s1 = manages s" "operation_admitted s2 = operation_admitted s" "tb_warehouses s4 = tb_warehouses s"
    by (simp_all add: s2 s3 s4 row(3) fun_eq_iff manages_def operation_admitted_def operation_recorded_def no_open_incident_def)
  show ?thesis
    by (rule that [OF row(1,2) w m [unfolded sm] adm [unfolded sm] aid st [unfolded sm] act before undo after])
qed

lemma warehouse_operation_tx_refines:
  assumes "warehouse_operation_tx order user role kind count assignment condition comment recipient e s = (Inr r, s')"
  shows "refines e s s'"
  using assms
proof (rule warehouse_operation_parts, goal_cases)
  case (1 ord w asg status u v now)
  note ord = 1(1) and adm = 1(5) and before = 1(9) and undo = 1(10) and after = 1(11)
  from undo have "refines e u v"
  proof (rule when_do_ok)
    assume kind: "kind = ''undo_load''" and "bind (deref asg) (\<lambda>a. undo_warehouse_loading ord a user now) e u = (Inr (), v)"
    then obtain a where asg: "asg = Some a" and run: "undo_warehouse_loading ord a user now e u = (Inr (), v)"
      by (elim bind_ok deref_ok) simp
    have eq: "tb_orders u = tb_orders s" "tb_assignments u = tb_assignments s" using before by (simp_all add: same_core_def)
    from admitted_same_core [OF adm [unfolded asg] kind] ord show "refines e u v"
      by (intro undo_loading_refines [OF run]) (simp_all add: eq)
  qed (simp add: ref.frame_refl)
  then show ?case
    using ref.frame_trans [OF same_core_refines [OF before]] ref.frame_trans [OF _ same_core_refines [OF after]] by blast
qed

lemma create_warehouse_operation_refines [simp]: "framed refines (create_warehouse_operation order user role req)"
  unfolding create_warehouse_operation_def Let_def
  by (intro ref.framed_rules framed_in_tx) (erule warehouse_operation_tx_refines)

end
