(* ===== verification/Receipts.thy ===== *)
theory Receipts
  imports Warehouse_Flow
begin

text \<open>
  The receipt of a delivery (internal/services/delivery_receipts.go): who may record it and when,
  the count it is compared with, and the incident a different count opens.
\<close>

section \<open>GetDeliveryReceipt\<close>

definition get_delivery_receipt :: "uuid \<Rightarrow> uuid \<Rightarrow> string \<Rightarrow> delivery_receipt op" where
  "get_delivery_receipt order user role =
    bind (get_order order user role) (\<lambda>_. get_one receipts_t (\<lambda>r. r_order_id r = order))"

section \<open>CreateDeliveryReceipt\<close>

text \<open>Lines 29-33: the receipt of a request, trimmed, recorded at \<open>now\<close>.\<close>

definition receipt_of :: "uuid \<Rightarrow> uuid \<Rightarrow> time \<Rightarrow> uuid \<Rightarrow> delivery_receipt_create \<Rightarrow> delivery_receipt" where
  "receipt_of order user now i req =
    \<lparr>r_id = i, r_order_id = order, r_assignment_id = rr_assignment_id req,
     r_recipient_name = trim_space (rr_recipient_name req), r_recipient_role = trim_space (rr_recipient_role req),
     r_authority_basis = trim_space (rr_authority_basis req), r_package_count = rr_package_count req,
     r_cargo_condition = trim_space (rr_cargo_condition req), r_seal_number = string_value (rr_seal_number req),
     r_comment = string_value (rr_comment req),
     r_received_at = (case rr_received_at req of None \<Rightarrow> now | Some t \<Rightarrow> t), r_recorded_at = now, r_recorded_by = user\<rparr>"

definition receipt_invalid :: "delivery_receipt \<Rightarrow> bool" where
  "receipt_invalid r \<longleftrightarrow>
     r_assignment_id r = uuid_nil \<or> \<not> bounded_text (r_recipient_name r) 1 200 \<or>
     \<not> bounded_text (r_recipient_role r) 1 200 \<or> \<not> bounded_text (r_authority_basis r) 1 1000 \<or>
     \<not> bounded_text (r_cargo_condition r) 1 2000 \<or> \<not> bounded_text (r_seal_number r) 0 100 \<or>
     \<not> bounded_text (r_comment r) 0 2000 \<or> r_package_count r < 0 \<or>
     r_recorded_at r + minutes 5 < r_received_at r"

text \<open>Lines 53-74: the driver of the assignment delivers to an address only; a manager acts for the
  responsible warehouse.\<close>

definition receipt_actor :: "order \<Rightarrow> assignment \<Rightarrow> uuid \<Rightarrow> string \<Rightarrow> unit op" where
  "receipt_actor ord a user role =
    seq (when_do (role = ''driver'') (bind (driver_belongs user (a_driver_id a)) (\<lambda>belongs.
           fail_if (\<not> belongs \<or> o_dest_warehouse ord \<noteq> None) forbidden)))
    (manager_check role user (\<lambda>w. responsible_warehouse ord = Some w))"

text \<open>Lines 75-87: when a receipt can be recorded.\<close>

definition receipt_state :: "order \<Rightarrow> assignment \<Rightarrow> delivery_receipt \<Rightarrow> unit op" where
  "receipt_state ord a item =
    seq (fail_if (o_status ord \<noteq> OrderArrived \<or> a_status a \<noteq> AssignmentActive \<or> o_arrived_at ord = None)
           (Business ErrInvalidOrderTransition))
    (bind (deref (o_arrived_at ord)) (\<lambda>arrived.
     seq (fail_if (r_received_at item < arrived) (Business ErrInvalidOrderInput))
    (bind (query (\<lambda>s. list_ex (\<lambda>r. r_order_id r = o_id ord) (tb_receipts s))) (\<lambda>exists.
     fail_if exists (Business ErrDeliveryReceiptConflict)))))"

text \<open>Lines 88-118: the unloading must have counted the same; otherwise the count of the load, or the
  declared one, is what is expected.\<close>

definition receipt_expected :: "order \<Rightarrow> assignment \<Rightarrow> int \<Rightarrow> int option op" where
  "receipt_expected ord a count =
    (if o_dest_warehouse ord \<noteq> None then
       bind (optional (get_one operations_t (\<lambda>w. wo_order_id w = o_id ord \<and> wo_assignment_id w = Some (a_id a) \<and>
               wo_type w = ''unload''))) (\<lambda>unload.
       case unload of None \<Rightarrow> throw (Business ErrWarehouseOperationRequired)
       | Some w \<Rightarrow> seq (fail_if (wo_package_count w \<noteq> count) (Business ErrInvalidOrderInput)) (return None))
     else bind (query (\<lambda>s. latest_load s (o_id ord))) (\<lambda>load.
       case load of Some n \<Rightarrow> return (Some n)
       | None \<Rightarrow> bind (lift_sum (read_transport_details ord)) (\<lambda>details.
           return (map_option td_package_count details))))"

text \<open>Lines 122-127.\<close>

definition receipt_discrepancy :: "order \<Rightarrow> assignment \<Rightarrow> delivery_receipt \<Rightarrow> int option \<Rightarrow> unit op" where
  "receipt_discrepancy ord a item expected = (case expected of None \<Rightarrow> return ()
   | Some n \<Rightarrow> when_do (n \<noteq> r_package_count item)
      (bind uuid_new (\<lambda>i.
       bind (save_incident ord \<lparr>i_id = i, i_order_id = o_id ord, i_assignment_id = Some (a_id a),
         i_warehouse_id = o_origin_warehouse ord, i_source_operation = None, i_kind = ''quantity_discrepancy'',
         i_description = receipt_text (r_id item) n (r_package_count item), i_expected_packages = Some n,
         i_actual_packages = Some (r_package_count item), i_status = ''open'', i_reported_by = r_recorded_by item,
         i_reported_at = r_recorded_at item, i_resolution = [], i_resolution_note = [], i_recipient_name = [],
         i_resolved_by = None, i_resolved_at = None\<rparr>) (\<lambda>_. return ()))))"

definition delivery_receipt_tx :: "uuid \<Rightarrow> uuid \<Rightarrow> string \<Rightarrow> delivery_receipt \<Rightarrow> delivery_receipt op" where
  "delivery_receipt_tx order user role item =
    bind (get_one_locked orders_t (\<lambda>x. o_id x = order)) (\<lambda>ord.
    bind (get_one_locked assignments_t (\<lambda>x. a_id x = r_assignment_id item)) (\<lambda>a.
    seq (fail_if (a_order_id a \<noteq> order) (Business ErrAssignmentStale))
    (seq (receipt_actor ord a user role)
    (seq (receipt_state ord a item)
    (bind (receipt_expected ord a (r_package_count item)) (\<lambda>expected.
     seq (create receipts_t item)
    (seq (receipt_discrepancy ord a item expected)
    (seq (case o_created_by ord of None \<Rightarrow> return ()
          | Some owner \<Rightarrow> notify owner (ReceiptRecorded order (r_recipient_name item) (r_package_count item)))
    (return item)))))))))"

definition create_delivery_receipt :: "uuid \<Rightarrow> uuid \<Rightarrow> string \<Rightarrow> delivery_receipt_create \<Rightarrow> delivery_receipt op" where
  "create_delivery_receipt order user role req =
    seq (fail_if (role \<noteq> ''driver'' \<and> role \<noteq> ''manager'' \<and> role \<noteq> ''admin'') forbidden)
    (bind time_now (\<lambda>now. bind uuid_new (\<lambda>i.
     let item = receipt_of order user now i req
     in seq (fail_if (receipt_invalid item) (Business ErrInvalidOrderInput))
       (in_tx (delivery_receipt_tx order user role item)))))"

section \<open>What a recorded receipt shows\<close>

lemma receipt_parts_core [core_frames]:
  "framed keeps_core (receipt_actor ord a user role)" "framed keeps_core (receipt_state ord a item)"
  "framed keeps_core (receipt_expected ord a count)" "framed keeps_core (receipt_discrepancy ord a item expected)"
  unfolding receipt_actor_def receipt_state_def receipt_expected_def receipt_discrepancy_def
  by (intro core_frames; simp)+

lemma create_delivery_receipt_core [core_frames]: "framed keeps_core (create_delivery_receipt order user role req)"
  unfolding create_delivery_receipt_def delivery_receipt_tx_def Let_def by (intro core_frames; simp)

lemma driver_belongs_run [runs]:
  assumes "driver_belongs user driver e s = (Inr b, s')"
  obtains d where "s' = s" and "d \<in> set (tb_drivers s)" and "d_id d = driver" and "b \<longleftrightarrow> d_user_id d = user"
proof -
  from assms obtain d where "find (\<lambda>d. d_id d = driver) (tb_drivers s) = Some d" and "s' = s" and "b \<longleftrightarrow> d_user_id d = user"
    unfolding driver_belongs_def
    by (elim bind_ok query_run case_option_ok throw_ok return_ok) (rule that, simp_all only:)
  note found = this
  show ?thesis by (rule that) (use find_Some_mem [OF found(1)] found(2,3) in simp_all)
qed

text \<open>The person who records a receipt.\<close>

definition may_record_receipt :: "db \<Rightarrow> order \<Rightarrow> assignment \<Rightarrow> uuid \<Rightarrow> string \<Rightarrow> bool" where
  "may_record_receipt s ord a user role \<longleftrightarrow>
     (role = ''driver'' \<longrightarrow> o_dest_warehouse ord = None \<and>
        (\<exists>d \<in> set (tb_drivers s). d_id d = a_driver_id a \<and> d_user_id d = user)) \<and>
     (role = ''manager'' \<longrightarrow> (\<exists>w. manages s user w \<and> responsible_warehouse ord = Some w))"

lemma receipt_actor_run [runs]:
  assumes "receipt_actor ord a user role e s = (Inr u, s')"
  obtains "s' = s" and "may_record_receipt s ord a user role"
proof -
  from assms show ?thesis
    unfolding receipt_actor_def by (elim runs; intro that) (auto simp: may_record_receipt_def)
qed

lemma receipt_state_run [runs]:
  assumes "receipt_state ord a item e s = (Inr u, s')"
  obtains arrived where "s' = s" and "o_status ord = OrderArrived" and "a_status a = AssignmentActive"
    and "o_arrived_at ord = Some arrived" and "arrived \<le> r_received_at item"
    and "\<forall>r \<in> set (tb_receipts s). r_order_id r \<noteq> o_id ord"
proof -
  from assms show ?thesis
    unfolding receipt_state_def
    apply (elim bind_ok seq_ok fail_if_ok deref_ok query_run)
    apply hypsubst
    by (rule that; (assumption | simp add: list_ex_iff not_less))
qed

text \<open>The number of packages a receipt is compared with, read from the database.\<close>

definition expected_at_receipt :: "db \<Rightarrow> order \<Rightarrow> int option" where
  "expected_at_receipt s ord =
    (if o_dest_warehouse ord \<noteq> None then None
     else case latest_load s (o_id ord) of Some n \<Rightarrow> Some n
       | None \<Rightarrow> (case o_details ord of Details d \<Rightarrow> Some (td_package_count d) | _ \<Rightarrow> None))"

lemma receipt_expected_run [runs]:
  assumes "receipt_expected ord a count e s = (Inr expected, s')"
  obtains "s' = s" and "expected = expected_at_receipt s ord"
    and "o_dest_warehouse ord \<noteq> None \<Longrightarrow> \<exists>w \<in> set (tb_operations s). wo_order_id w = o_id ord \<and>
           wo_assignment_id w = Some (a_id a) \<and> wo_type w = ''unload'' \<and> wo_package_count w = count"
proof (cases "o_dest_warehouse ord = None")
  case True
  with assms have "s' = s \<and> expected = expected_at_receipt s ord"
    unfolding receipt_expected_def expected_at_receipt_def read_transport_details_def
    by (cases "latest_load s (o_id ord)"; cases "o_details ord")
       (simp_all add: bind_def query_def return_def lift_sum_def, (fastforce dest: sym)+)
  then show ?thesis using True that by simp
next
  case False
  with assms obtain w where
    found: "optional (get_one operations_t (\<lambda>w. wo_order_id w = o_id ord \<and> wo_assignment_id w = Some (a_id a) \<and>
               wo_type w = ''unload'')) e s = (Inr (Some w), s')"
    and count: "wo_package_count w = count" and none: "expected = None"
    unfolding receipt_expected_def if_P [OF False]
    by (elim bind_ok seq_ok case_option_ok throw_ok return_ok fail_if_ok) (hypsubst, rule that; simp)
  from found have s': "s' = s" and w: "find (\<lambda>w. wo_order_id w = o_id ord \<and> wo_assignment_id w = Some (a_id a) \<and>
               wo_type w = ''unload'') (tb_operations s) = Some w"
    by (elim optional_ok get_one_run; simp)+
  from find_Some_mem [OF w] count have "\<exists>w \<in> set (tb_operations s). wo_order_id w = o_id ord \<and>
           wo_assignment_id w = Some (a_id a) \<and> wo_type w = ''unload'' \<and> wo_package_count w = count" by blast
  then show ?thesis using s' False none by (intro that) (simp_all add: expected_at_receipt_def)
qed

lemma save_incident_run [runs]:
  assumes "save_incident ord inc e s = (Inr r, s')"
  obtains "tb_incidents s' = tb_incidents s @ [stored incidents_t e inc]"
proof -
  from assms obtain s1 managers s2 users s3 where
    made: "create incidents_t inc e s = (Inr (), s1)"
    and managers: "warehouse_managers (i_warehouse_id inc) e s1 = (Inr managers, s2)"
    and users: "assignment_users (i_assignment_id inc) e s2 = (Inr users, s3)"
    and told: "for_each (remdups (opt_list (o_created_by ord) @ managers @ users))
      (\<lambda>u. notify u (IncidentOpened (o_id ord) (i_id inc) (i_kind inc) (i_description inc))) e s3 = (Inr (), s')"
    unfolding save_incident_def by (elim bind_ok seq_ok return_ok) (hypsubst, rule that)
  have "tb_incidents s1 = tb_incidents s @ [stored incidents_t e inc]" using made by (rule create_run) simp
  moreover have "tb_incidents s2 = tb_incidents s1"
    using managers unfolding warehouse_managers_def by (rule keeps_run [rotated]) (intro keep_frames)
  moreover have "tb_incidents s3 = tb_incidents s2"
    using users unfolding assignment_users_def by (rule keeps_run [rotated]) (intro keep_frames)
  moreover have "tb_incidents s' = tb_incidents s3"
    using told by (rule keeps_run [rotated]) (intro keep_frames; simp)
  ultimately show ?thesis by (intro that) simp
qed

lemma receipt_discrepancy_run [runs]:
  assumes "receipt_discrepancy ord a item expected e s = (Inr u, s')"
  obtains "expected = None \<or> expected = Some (r_package_count item)" and "tb_incidents s' = tb_incidents s"
  | n i where "expected = Some n" and "n \<noteq> r_package_count item" and "tb_incidents s' = tb_incidents s @ [i]"
      and "i_order_id i = o_id ord" and "i_status i = ''open''" and "i_kind i = ''quantity_discrepancy''"
      and "i_expected_packages i = Some n" and "i_actual_packages i = Some (r_package_count item)"
proof (cases "expected = None \<or> expected = Some (r_package_count item)")
  case True
  with assms have "s' = s" unfolding receipt_discrepancy_def when_do_def return_def by auto
  with True show ?thesis using that(1) by simp
next
  case False
  then obtain n where n: "expected = Some n" "n \<noteq> r_package_count item" by auto
  from assms obtain i s1 r where i: "uuid_new e s = (Inr i, s1)"
    and saved: "save_incident ord \<lparr>i_id = i, i_order_id = o_id ord, i_assignment_id = Some (a_id a),
         i_warehouse_id = o_origin_warehouse ord, i_source_operation = None, i_kind = ''quantity_discrepancy'',
         i_description = receipt_text (r_id item) n (r_package_count item), i_expected_packages = Some n,
         i_actual_packages = Some (r_package_count item), i_status = ''open'', i_reported_by = r_recorded_by item,
         i_reported_at = r_recorded_at item, i_resolution = [], i_resolution_note = [], i_recipient_name = [],
         i_resolved_by = None, i_resolved_at = None\<rparr> e s1 = (Inr r, s')"
    unfolding receipt_discrepancy_def n(1) option.case when_do_def if_P [OF n(2)]
    by (elim bind_ok return_ok) (hypsubst, rule that)
  from i have "tb_incidents s1 = tb_incidents s" by (elim uuid_new_run) simp
  moreover from saved have "tb_incidents s' = tb_incidents s1 @ [stored incidents_t e \<lparr>i_id = i, i_order_id = o_id ord,
         i_assignment_id = Some (a_id a),
         i_warehouse_id = o_origin_warehouse ord, i_source_operation = None, i_kind = ''quantity_discrepancy'',
         i_description = receipt_text (r_id item) n (r_package_count item), i_expected_packages = Some n,
         i_actual_packages = Some (r_package_count item), i_status = ''open'', i_reported_by = r_recorded_by item,
         i_reported_at = r_recorded_at item, i_resolution = [], i_resolution_note = [], i_recipient_name = [],
         i_resolved_by = None, i_resolved_at = None\<rparr>]"
    by (rule save_incident_run)
  ultimately show ?thesis by (intro that(2) [OF n]) (assumption | simp add: incidents_t_def)+
qed

text \<open>The whole transaction.\<close>

lemma delivery_receipt_tx_run:
  assumes "delivery_receipt_tx order user role item e s = (Inr r, s')"
  obtains ord a arrived where "r = item" and "ord \<in> set (tb_orders s)" and "o_id ord = order"
    and "a \<in> set (tb_assignments s)" and "a_id a = r_assignment_id item" and "a_order_id a = order"
    and "may_record_receipt s ord a user role"
    and "o_status ord = OrderArrived" and "a_status a = AssignmentActive"
    and "o_arrived_at ord = Some arrived" and "arrived \<le> r_received_at item"
    and "\<forall>x \<in> set (tb_receipts s). r_order_id x \<noteq> order"
    and "o_dest_warehouse ord \<noteq> None \<Longrightarrow> \<exists>w \<in> set (tb_operations s). wo_order_id w = order \<and>
           wo_assignment_id w = Some (a_id a) \<and> wo_type w = ''unload'' \<and> wo_package_count w = r_package_count item"
    and "tb_receipts s' = tb_receipts s @ [stored receipts_t e item]"
    and "expected_at_receipt s ord \<in> {None, Some (r_package_count item)} \<Longrightarrow> tb_incidents s' = tb_incidents s"
    and "\<And>n. expected_at_receipt s ord = Some n \<Longrightarrow> n \<noteq> r_package_count item \<Longrightarrow>
           \<exists>i. tb_incidents s' = tb_incidents s @ [i] \<and> i_order_id i = order \<and> i_status i = ''open'' \<and>
             i_kind i = ''quantity_discrepancy'' \<and> i_expected_packages i = Some n \<and>
             i_actual_packages i = Some (r_package_count item)"
proof -
  from assms obtain ord s1 a s2 s3 s4 s5 expected s6 s7 s8 where
    ord: "get_one_locked orders_t (\<lambda>x. o_id x = order) e s = (Inr ord, s1)"
    and a: "get_one_locked assignments_t (\<lambda>x. a_id x = r_assignment_id item) e s1 = (Inr a, s2)"
    and mine: "fail_if (a_order_id a \<noteq> order) (Business ErrAssignmentStale) e s2 = (Inr (), s3)"
    and actor: "receipt_actor ord a user role e s3 = (Inr (), s4)"
    and state: "receipt_state ord a item e s4 = (Inr (), s5)"
    and expected: "receipt_expected ord a (r_package_count item) e s5 = (Inr expected, s6)"
    and made: "create receipts_t item e s6 = (Inr (), s7)"
    and disc: "receipt_discrepancy ord a item expected e s7 = (Inr (), s8)"
    and told: "(case o_created_by ord of None \<Rightarrow> return ()
          | Some owner \<Rightarrow> notify owner (ReceiptRecorded order (r_recipient_name item) (r_package_count item))) e s8 = (Inr (), s')"
    and r: "r = item"
    unfolding delivery_receipt_tx_def by (elim bind_ok seq_ok return_ok) (hypsubst, rule that; (assumption | rule refl))
  note o = get_one_lockedD [OF ord, unfolded table_rows]
  note a' = get_one_lockedD [OF a, unfolded table_rows]
  from mine have s3: "s3 = s2" and same: "a_order_id a = order" by (elim fail_if_ok; simp)+
  from actor have s4: "s4 = s2" and who: "may_record_receipt s2 ord a user role" by (elim receipt_actor_run; simp add: s3)+
  from state obtain arrived where s5: "s5 = s2" and st: "o_status ord = OrderArrived" "a_status a = AssignmentActive"
    and at: "o_arrived_at ord = Some arrived" "arrived \<le> r_received_at item"
    and first: "\<forall>x \<in> set (tb_receipts s2). r_order_id x \<noteq> o_id ord"
    by (rule receipt_state_run) (rule that; simp add: s4)
  from expected have s6: "s6 = s2" and n: "expected = expected_at_receipt s2 ord"
    by (elim receipt_expected_run; simp add: s5)+
  have unloaded: "o_dest_warehouse ord \<noteq> None \<Longrightarrow> \<exists>w \<in> set (tb_operations s2). wo_order_id w = o_id ord \<and>
           wo_assignment_id w = Some (a_id a) \<and> wo_type w = ''unload'' \<and> wo_package_count w = r_package_count item"
    using expected by (rule receipt_expected_run) (simp add: s5)
  have s7: "s7 = set_rows receipts_t (\<lambda>rs. rs @ [stored receipts_t e item]) s2" using made by (rule create_run) (simp add: s6)
  have i7: "tb_incidents s7 = tb_incidents s2" "tb_receipts s7 = tb_receipts s2 @ [stored receipts_t e item]" by (simp_all add: s7)
  have r8: "tb_receipts s8 = tb_receipts s7"
    using disc unfolding receipt_discrepancy_def save_incident_def warehouse_managers_def assignment_users_def
    by (rule keeps_run [rotated]) (intro keep_frames; simp)
  have end_: "tb_receipts s' = tb_receipts s8"
    using told by (rule keeps_run [rotated]) (intro keep_frames; simp)
  have end_i: "tb_incidents s' = tb_incidents s8"
    using told by (rule keeps_run [rotated]) (intro keep_frames; simp)
  have core: "tb_receipts s2 = tb_receipts s" "tb_operations s2 = tb_operations s" "tb_incidents s2 = tb_incidents s"
    "tb_assignments s1 = tb_assignments s" "expected_at_receipt s2 ord = expected_at_receipt s ord"
    "may_record_receipt s2 ord a user role = may_record_receipt s ord a user role"
    by (simp_all add: a'(3) o(3) expected_at_receipt_def latest_load_def may_record_receipt_def manages_def)
  have none: "tb_incidents s8 = tb_incidents s" if "expected_at_receipt s ord \<in> {None, Some (r_package_count item)}"
    using disc that by (cases rule: receipt_discrepancy_run) (auto simp: n core i7)
  have some: "\<exists>i. tb_incidents s8 = tb_incidents s @ [i] \<and> i_order_id i = order \<and> i_status i = ''open'' \<and>
             i_kind i = ''quantity_discrepancy'' \<and> i_expected_packages i = Some k \<and>
             i_actual_packages i = Some (r_package_count item)"
    if "expected_at_receipt s ord = Some k" "k \<noteq> r_package_count item" for k
    using disc that by (cases rule: receipt_discrepancy_run) (auto simp: n core i7 o(2))
  show ?thesis
    using a'(1) first unloaded i7(2) r8 end_ end_i none some core who o(2)
    by (intro that [OF r o(1,2) _ a'(2) same _ st at]) simp_all
qed

end
