(* ===== verification/Handovers.thy ===== *)
theory Handovers
  imports Warehouse_Flow
begin

text \<open>
  Handing the cargo over on the road (internal/services/handover.go): the request of a manager, the
  confirmation of the driver who releases the cargo and the acceptance of the one who takes it over,
  which replaces the active assignment of the order.
\<close>

section \<open>Locks and the manager\<close>

text \<open>\<^verbatim>\<open>lockHandoverFleet\<close>: all drivers before all vehicles, each sorted by id.\<close>

definition lock_handover_fleet :: "assignment \<Rightarrow> uuid \<Rightarrow> uuid \<Rightarrow> (driver list \<times> vehicle list) op" where
  "lock_handover_fleet old driver vehicle =
    bind (lock_drivers None (fleet_ids driver (Some (a_driver_id old)))) (\<lambda>drivers.
    bind (lock_vehicles None (fleet_ids vehicle (Some (a_vehicle_id old)))) (\<lambda>vehicles.
    return (drivers, vehicles)))"

definition authorize_handover_manager :: "order \<Rightarrow> uuid \<Rightarrow> string \<Rightarrow> unit op" where
  "authorize_handover_manager ord user role =
    (if role = ''admin'' then return ()
     else seq (fail_if (role \<noteq> ''manager'') forbidden)
       (bind (manager_warehouse_id user) (\<lambda>w. fail_if (o_origin_warehouse ord \<noteq> Some w) forbidden)))"

section \<open>CreateTripHandover\<close>

definition handover_input_invalid :: "trip_handover_create \<Rightarrow> bool" where
  "handover_input_invalid req \<longleftrightarrow>
     hc_driver_id req = uuid_nil \<or> hc_vehicle_id req = uuid_nil \<or> hc_reason req = [] \<or> hc_location req = [] \<or>
     hc_cargo_condition req = [] \<or> 1000 < rune_count (hc_reason req) \<or> 1000 < rune_count (hc_location req) \<or>
     2000 < rune_count (hc_cargo_condition req)"

definition trimmed_handover :: "trip_handover_create \<Rightarrow> trip_handover_create" where
  "trimmed_handover req = req\<lparr>hc_reason := trim_space (hc_reason req), hc_location := trim_space (hc_location req),
     hc_cargo_condition := trim_space (hc_cargo_condition req)\<rparr>"

text \<open>\<^verbatim>\<open>UPDATE trip_handovers SET status='expired' WHERE ... AND expires_at <= $2\<close>.\<close>

definition expire_handovers :: "uuid \<Rightarrow> time \<Rightarrow> trip_handover list \<Rightarrow> trip_handover list" where
  "expire_handovers order now = map (\<lambda>h.
     if t_order_id h = order \<and> t_status h = ''pending'' \<and> t_expires_at h \<le> now then h\<lparr>t_status := ''expired''\<rparr> else h)"

definition new_handover :: "uuid \<Rightarrow> uuid \<Rightarrow> uuid \<Rightarrow> assignment \<Rightarrow> time \<Rightarrow> trip_handover_create \<Rightarrow> trip_handover" where
  "new_handover i order user old now req =
    \<lparr>t_id = i, t_order_id = order, t_previous_assignment = a_id old, t_next_assignment = None,
     t_driver_id = hc_driver_id req, t_vehicle_id = hc_vehicle_id req, t_created_by = user,
     t_reason = hc_reason req, t_location = hc_location req, t_cargo_condition = hc_cargo_condition req,
     t_planned_to = hc_planned_to req, t_status = ''pending'', t_created_at = now,
     t_expires_at = now + minutes 15, t_outgoing_confirmed = None, t_completed_at = None\<rparr>"

definition create_handover_tx :: "uuid \<Rightarrow> uuid \<Rightarrow> string \<Rightarrow> time \<Rightarrow> trip_handover_create \<Rightarrow> trip_handover op" where
  "create_handover_tx order user role now req =
    bind (get_one_locked orders_t (\<lambda>x. o_id x = order)) (\<lambda>ord.
    seq (authorize_handover_manager ord user role)
    (seq (fail_if (o_status ord \<noteq> OrderInTransit) (Business ErrInvalidOrderTransition))
    (bind (get_one_locked assignments_t (\<lambda>a. a_order_id a = order \<and> a_status a = AssignmentActive)) (\<lambda>old.
     seq (fail_if (a_driver_id old = hc_driver_id req \<and> a_vehicle_id old = hc_vehicle_id req) (Business ErrInvalidOrderInput))
    (bind (lock_handover_fleet old (hc_driver_id req) (hc_vehicle_id req)) (\<lambda>(drivers, vehicles).
     bind (deref (find (\<lambda>d. d_id d = hc_driver_id req) drivers)) (\<lambda>drv.
     bind (deref (find (\<lambda>v. v_id v = hc_vehicle_id req) vehicles)) (\<lambda>veh.
     bind (deref (find (\<lambda>d. d_id d = a_driver_id old) drivers)) (\<lambda>outgoing.
     seq (validate_assignment_resources ord drv veh now (hc_planned_to req))
    (seq (exec (tb_handovers_update (expire_handovers order (trunc_us now))))
    (bind uuid_new (\<lambda>i.
     let item = new_handover i order user old now req
     in seq (conflicting (Business ErrAssignmentStale) (create handovers_t item))
       (seq (for_each [d_user_id outgoing, d_user_id drv]
               (\<lambda>u. notify u (HandoverRequested i order (t_reason item) (t_location item))))
       (return item))))))))))))))"

definition create_trip_handover :: "uuid \<Rightarrow> uuid \<Rightarrow> string \<Rightarrow> trip_handover_create \<Rightarrow> trip_handover op" where
  "create_trip_handover order user role request =
    seq (fail_if (role \<noteq> ''manager'' \<and> role \<noteq> ''admin'') forbidden)
    (let req = trimmed_handover request
     in seq (fail_if (handover_input_invalid req) (Business ErrInvalidOrderInput))
       (bind time_now (\<lambda>now.
        seq (fail_if (\<not> now < hc_planned_to req) (Business ErrInvalidTimeWindow))
        (in_tx (create_handover_tx order user role now req)))))"

section \<open>Lists\<close>

definition list_incoming_trip_handovers :: "uuid \<Rightarrow> string \<Rightarrow> trip_handover list op" where
  "list_incoming_trip_handovers user role =
    seq (fail_if (role \<noteq> ''driver'') forbidden)
    (bind time_now (\<lambda>now.
     query (\<lambda>s. sort_key (\<lambda>h. (t_created_at h, t_id h)) (filter (\<lambda>h.
       list_ex (\<lambda>d. d_id d = t_driver_id h \<and> d_user_id d = user) (tb_drivers s) \<and>
       t_status h = ''pending'' \<and> trunc_us now < t_expires_at h \<and>
       list_ex (\<lambda>x. o_id x = t_order_id h \<and> o_status x = OrderInTransit) (tb_orders s) \<and>
       list_ex (\<lambda>a. a_id a = t_previous_assignment h \<and> a_status a = AssignmentActive) (tb_assignments s)) (tb_handovers s)))))"

definition list_trip_handovers :: "uuid \<Rightarrow> uuid \<Rightarrow> string \<Rightarrow> trip_handover list op" where
  "list_trip_handovers order user role =
    bind (get_order order user role) (\<lambda>_.
    query (\<lambda>s. sort_key (\<lambda>h. (t_created_at h, t_id h)) (filter (\<lambda>h. t_order_id h = order) (tb_handovers s))))"

section \<open>UpdateTripHandover\<close>

text \<open>Lines 188-194: who may act.\<close>

definition handover_actor :: "string \<Rightarrow> order \<Rightarrow> driver \<Rightarrow> driver \<Rightarrow> uuid \<Rightarrow> string \<Rightarrow> unit op" where
  "handover_actor action ord outgoing incoming user role =
    (if action = ''cancel'' then authorize_handover_manager ord user role
     else fail_if (role \<noteq> ''driver'' \<or> (action = ''confirm-release'' \<and> d_user_id outgoing \<noteq> user) \<or>
       (action = ''accept'' \<and> d_user_id incoming \<noteq> user)) forbidden)"

text \<open>Lines 231-249: the old assignment is released, a new active one takes its place.\<close>

definition handed_over :: "time \<Rightarrow> assignment \<Rightarrow> assignment" where
  "handed_over now old = old\<lparr>a_status := AssignmentReleased, a_released_at := Some now,
     a_release_code := Some ''in_transit_handover''\<rparr>"

definition next_assignment :: "uuid \<Rightarrow> uuid \<Rightarrow> time \<Rightarrow> trip_handover \<Rightarrow> assignment" where
  "next_assignment i order now item =
    \<lparr>a_id = i, a_order_id = order, a_driver_id = t_driver_id item, a_vehicle_id = t_vehicle_id item,
     a_status = AssignmentActive, a_planned_from = now, a_planned_to = t_planned_to item,
     a_created_by = t_created_by item, a_source = ''manual'', a_recommendation_id = None,
     a_recommendation_at = None, a_assigned_at = now, a_offer_expires_at = now + minutes 15,
     a_accepted_at = Some now, a_rejected_at = None, a_released_at = None, a_started_at = Some now,
     a_completed_at = None, a_recipient_name = None, a_delivery_comment = None, a_rejection_code = None,
     a_rejection_comment = None, a_release_code = None\<rparr>"

definition replace_active :: "order \<Rightarrow> assignment \<Rightarrow> time \<Rightarrow> trip_handover \<Rightarrow> (order \<times> assignment) op" where
  "replace_active ord old now item =
    seq (update assignments_t (\<lambda>x. a_id x = a_id old) (handed_over now old))
    (bind uuid_new (\<lambda>i.
     let next = next_assignment i (o_id ord) now item; ord' = ord\<lparr>o_driver_id := Some (a_driver_id next)\<rparr>
     in seq (reserving (create assignments_t next))
       (seq (update orders_t (\<lambda>x. o_id x = o_id ord) ord')
       (return (ord', next)))))"

text \<open>Lines 253-275: the freed booking is queued, two documents are requested, the customer is told.\<close>

definition record_handover ::
  "order \<Rightarrow> assignment \<Rightarrow> assignment \<Rightarrow> driver \<Rightarrow> vehicle \<Rightarrow> trip_handover \<Rightarrow> uuid \<Rightarrow> time \<Rightarrow> unit op" where
  "record_handover ord old next outgoing old_vehicle item user now =
    seq (enqueue_dispatch_after_release old)
    (bind (find_user (d_user_id outgoing)) (\<lambda>account.
     bind (deref (t_outgoing_confirmed item)) (\<lambda>confirmed.
     seq (enqueue_operational_document ord (Some next) ''cargo_handover'' (t_id item) user
       [FHandoverReason (t_reason item), FHandoverPlace (t_location item), FHandoverCondition (t_cargo_condition item),
        FPreviousAssignment (a_id old), FPreviousDriver (u_full_name account) (a_driver_id old),
        FPreviousVehicle (v_plate_number old_vehicle) (a_vehicle_id old),
        FReleaseConfirmed confirmed, FAcceptConfirmed now] [d_user_id outgoing])
    (seq (enqueue_operational_document ord (Some next) ''trip_assignment'' (a_id next) user [] [])
    (case o_created_by ord of None \<Rightarrow> return ()
     | Some owner \<Rightarrow> notify owner (HandoverCompleted (o_id ord) (t_reason item) (t_location item)))))))"

definition accept_handover ::
  "order \<Rightarrow> assignment \<Rightarrow> driver \<Rightarrow> driver \<Rightarrow> vehicle \<Rightarrow> vehicle \<Rightarrow> trip_handover \<Rightarrow> uuid \<Rightarrow> time \<Rightarrow> trip_handover op" where
  "accept_handover ord old outgoing incoming old_vehicle veh item user now =
    seq (fail_if (t_outgoing_confirmed item = None) (Business ErrAssignmentStale))
    (seq (fail_if (\<not> now < t_planned_to item) (Business ErrInvalidTimeWindow))
    (seq (validate_assignment_resources ord incoming veh now (t_planned_to item))
    (bind (replace_active ord old now item) (\<lambda>(ord', next).
     seq (record_handover ord' (handed_over now old) next outgoing old_vehicle item user now)
     (return (item\<lparr>t_status := ''completed'', t_completed_at := Some now, t_next_assignment := Some (a_id next)\<rparr>))))))"

text \<open>Lines 212-278: what a driver does to a pending, unexpired request.\<close>

definition handover_step ::
  "string \<Rightarrow> order \<Rightarrow> assignment \<Rightarrow> driver \<Rightarrow> driver \<Rightarrow> vehicle \<Rightarrow> vehicle \<Rightarrow> trip_handover \<Rightarrow> uuid \<Rightarrow> time \<Rightarrow> trip_handover op" where
  "handover_step action ord old outgoing incoming old_vehicle veh item user now =
    seq (fail_if (o_status ord \<noteq> OrderInTransit \<or> a_status old \<noteq> AssignmentActive) (Business ErrInvalidOrderTransition))
    (if action = ''confirm-release'' then
       seq (fail_if (t_outgoing_confirmed item \<noteq> None) (Business ErrAssignmentStale))
       (return (item\<lparr>t_outgoing_confirmed := Some now\<rparr>))
     else if action = ''accept'' then accept_handover ord old outgoing incoming old_vehicle veh item user now
     else throw (Business ErrInvalidOrderInput))"

text \<open>The transaction; an expired request is closed and committed, and the call still fails.\<close>

definition update_handover_tx :: "uuid \<Rightarrow> uuid \<Rightarrow> string \<Rightarrow> string \<Rightarrow> (err + trip_handover) op" where
  "update_handover_tx i user role action =
    bind (get_one handovers_t (\<lambda>h. t_id h = i)) (\<lambda>seed.
    bind (get_one_locked orders_t (\<lambda>x. o_id x = t_order_id seed)) (\<lambda>ord.
    bind (get_one_locked assignments_t (\<lambda>a. a_id a = t_previous_assignment seed)) (\<lambda>old.
    bind (get_one_locked handovers_t (\<lambda>h. t_id h = i)) (\<lambda>item.
    bind (lock_handover_fleet old (t_driver_id item) (t_vehicle_id item)) (\<lambda>(drivers, vehicles).
    bind (deref (find (\<lambda>d. d_id d = a_driver_id old) drivers)) (\<lambda>outgoing.
    bind (deref (find (\<lambda>d. d_id d = t_driver_id item) drivers)) (\<lambda>incoming.
    bind (deref (find (\<lambda>v. v_id v = a_vehicle_id old) vehicles)) (\<lambda>old_vehicle.
    bind (deref (find (\<lambda>v. v_id v = t_vehicle_id item) vehicles)) (\<lambda>veh.
    seq (handover_actor action ord outgoing incoming user role)
    (bind time_now (\<lambda>now.
     seq (fail_if (t_status item \<noteq> ''pending'') (Business ErrAssignmentStale))
     (if action \<noteq> ''cancel'' \<and> \<not> now < t_expires_at item then
        seq (update handovers_t (\<lambda>h. t_id h = i) (item\<lparr>t_status := ''expired''\<rparr>))
        (return (Inl (Business ErrAssignmentExpired)))
      else
        bind (if action = ''cancel'' then return (item\<lparr>t_status := ''cancelled''\<rparr>)
              else handover_step action ord old outgoing incoming old_vehicle veh item user now) (\<lambda>item'.
        seq (update handovers_t (\<lambda>h. t_id h = i) item')
        (return (Inr item')))))))))))))))"

definition update_trip_handover :: "uuid \<Rightarrow> uuid \<Rightarrow> string \<Rightarrow> string \<Rightarrow> trip_handover op" where
  "update_trip_handover i user role action =
    seq (fail_if (role \<noteq> ''driver'' \<and> role \<noteq> ''manager'' \<and> role \<noteq> ''admin'') forbidden)
    (bind (in_tx (update_handover_tx i user role action)) lift_sum)"

section \<open>What the parts keep\<close>

lemma handover_parts_core [core_frames]:
  "framed keeps_core (lock_handover_fleet old driver vehicle)"
  "framed keeps_core (authorize_handover_manager ord user role)"
  "framed keeps_core (handover_actor action ord outgoing incoming user role)"
  "framed keeps_core (record_handover ord old next outgoing old_vehicle item user now)"
  unfolding lock_handover_fleet_def authorize_handover_manager_def handover_actor_def record_handover_def find_user_def
  by (intro core_frames; simp)+

lemma create_handover_tx_core [core_frames]: "framed keeps_core (create_handover_tx order user role now req)"
  unfolding create_handover_tx_def Let_def by (intro core_frames; simp add: same_core_def)

lemma create_trip_handover_core [core_frames]: "framed keeps_core (create_trip_handover order user role req)"
  unfolding create_trip_handover_def Let_def
  by (intro core_frames; simp)

section \<open>Replacing the active assignment\<close>

text \<open>A handover belongs to the order of its previous assignment.\<close>

definition handovers_ok :: "db \<Rightarrow> bool" where
  "handovers_ok s \<longleftrightarrow> (\<forall>h \<in> set (tb_handovers s).
     \<exists>a \<in> set (tb_assignments s). a_id a = t_previous_assignment h \<and> a_order_id a = t_order_id h)"

lemma replace_active_run:
  assumes "replace_active ord old now item e s = (Inr (ord', next), s')"
    and mem: "old \<in> set (tb_assignments s)" "ord \<in> set (tb_orders s)"
  obtains "ord' = ord\<lparr>o_driver_id := Some (t_driver_id item)\<rparr>"
    and "next = next_assignment (a_id next) (o_id ord) now item"
    and "tb_assignments s' = overwrite (\<lambda>x. a_id x = a_id old) (assignment_row e (handed_over now old)) (tb_assignments s) @
           [assignment_row e next]"
    and "assignment_violation e s (overwrite (\<lambda>x. a_id x = a_id old) (assignment_row e (handed_over now old)) (tb_assignments s)) next = None"
    and "tb_orders s' = overwrite (\<lambda>x. o_id x = o_id ord) (order_row e ord') (tb_orders s)"
    and "tb_history s' = tb_history s"
proof -
  have ex: "list_ex (\<lambda>x. a_id x = a_id old) (tb_assignments s)" "list_ex (\<lambda>x. o_id x = o_id ord) (tb_orders s)"
    using mem by (auto simp: list_ex_iff)
  from assms(1) obtain s1 i s2 n s3 where
    released: "update assignments_t (\<lambda>x. a_id x = a_id old) (handed_over now old) e s = (Inr (), s1)"
    and i: "uuid_new e s1 = (Inr i, s2)" and n: "n = next_assignment i (o_id ord) now item"
    and made: "reserving (create assignments_t n) e s2 = (Inr (), s3)"
    and order: "update orders_t (\<lambda>x. o_id x = o_id ord) (ord\<lparr>o_driver_id := Some (a_driver_id n)\<rparr>) e s3 = (Inr (), s')"
    and eq: "(ord', next) = (ord\<lparr>o_driver_id := Some (a_driver_id n)\<rparr>, n)"
    unfolding replace_active_def Let_def
    by (elim bind_ok seq_ok return_ok) (hypsubst, rule that; (assumption | rule refl))
  let ?as = "overwrite (\<lambda>x. a_id x = a_id old) (assignment_row e (handed_over now old)) (tb_assignments s)"
  from released have s1: "s1 = s\<lparr>tb_assignments := ?as\<rparr>" by (elim update_run) (simp_all add: ex(1))
  from i have s2: "s2 = s1\<lparr>issued := Suc (issued s)\<rparr>" by (elim uuid_new_run) (simp add: s1)
  from made have s3: "s3 = s2\<lparr>tb_assignments := ?as @ [assignment_row e n]\<rparr>"
    and v: "assignment_violation e s2 ?as n = None"
    by (elim reserving_run create_run; simp add: s2 s1)+
  from order have s': "s' = s3\<lparr>tb_orders := overwrite (\<lambda>x. o_id x = o_id ord)
       (order_row e (ord\<lparr>o_driver_id := Some (a_driver_id n)\<rparr>)) (tb_orders s)\<rparr>"
    by (elim update_run) (simp_all add: s3 s2 s1 ex(2))
  have nd: "a_driver_id (next_assignment i j k m) = t_driver_id m" "a_id (next_assignment i j k m) = i" for j k m
    by (simp_all add: next_assignment_def)
  have v': "assignment_violation e s ?as n = None"
    using v by (simp add: assignment_violation_def s2 s1 Let_def)
  show ?thesis
    using eq n v' by (intro that) (simp_all add: s' s3 s2 s1 nd)
qed

lemma replaced_bookings:
  assumes ok: "bookings_ok orders as" and a: "a \<in> set as" "open_status (a_status a)"
    and b: "a_id b = a_id a" "a_order_id b = a_order_id a" "\<not> open_status (a_status b)"
    and c: "a_id c \<notin> a_id ` set (overwrite (\<lambda>y. a_id y = a_id a) b as)" "a_order_id c = a_order_id a"
      "open_status (a_status c)" "a_order_id a \<in> orders"
  shows "bookings_ok orders (overwrite (\<lambda>y. a_id y = a_id a) b as @ [c])"
    and "open_of (overwrite (\<lambda>y. a_id y = a_id a) b as @ [c]) i = (if i = a_order_id a then Some c else open_of as i)"
    and "persists as (overwrite (\<lambda>y. a_id y = a_id a) b as @ [c])"
proof -
  have opens: "open_status (a_status b) \<longrightarrow> open_status (a_status a)" using a(2) by simp
  note ow = overwrite_booking [OF ok a(1) b(1,2) opens]
  have free: "open_status (a_status c) \<longrightarrow> open_of (overwrite (\<lambda>y. a_id y = a_id a) b as) (a_order_id c) = None"
    using ow(2) a(2) b(3) c(2) by simp
  have ord: "a_order_id c \<in> orders" using c(2,4) by simp
  note ap = append_booking [OF ow(1) c(1) ord free]
  show "bookings_ok orders (overwrite (\<lambda>y. a_id y = a_id a) b as @ [c])" by (rule ap(1))
  show "open_of (overwrite (\<lambda>y. a_id y = a_id a) b as @ [c]) i = (if i = a_order_id a then Some c else open_of as i)"
    using ap(2) [of i] ow(2) [of i] c(2,3) by simp
  have "distinct (map a_id as)" using ok by (simp add: bookings_ok_def)
  then show "persists as (overwrite (\<lambda>y. a_id y = a_id a) b as @ [c])"
    using persists_trans [OF persists_overwrite [OF _ a(1) b(1,2)] persists_append] by blast
qed

lemma replace_active_refines:
  assumes run: "replace_active ord old now item e s = (Inr (ord', next), s')"
    and mem: "old \<in> set (tb_assignments s)" "ord \<in> set (tb_orders s)" "a_order_id old = o_id ord"
    and st: "o_status ord = OrderInTransit" "a_status old = AssignmentActive"
  shows "refines e s s'"
  using run mem(1,2)
proof (rule replace_active_run)
  let ?b = "assignment_row e (handed_over now old)"
  let ?as = "overwrite (\<lambda>x. a_id x = a_id old) ?b (tb_assignments s)"
  let ?c = "assignment_row e next"
  assume ord': "ord' = ord\<lparr>o_driver_id := Some (t_driver_id item)\<rparr>"
    and n: "next = next_assignment (a_id next) (o_id ord) now item"
    and as': "tb_assignments s' = ?as @ [?c]" and v: "assignment_violation e s ?as next = None"
    and os': "tb_orders s' = overwrite (\<lambda>x. o_id x = o_id ord) (order_row e ord') (tb_orders s)"
    and hs': "tb_history s' = tb_history s"
  have nx: "a_order_id next = o_id ord" "a_status next = AssignmentActive" "a_driver_id next = t_driver_id item"
    by (subst n, simp add: next_assignment_def)+
  have opn: "open_status (a_status old)" using st(2) by simp
  have b: "a_id ?b = a_id old" "a_order_id ?b = a_order_id old" "\<not> open_status (a_status ?b)"
    by (simp_all add: handed_over_def)
  have c: "a_id ?c \<notin> a_id ` set ?as" "a_order_id ?c = a_order_id old" "open_status (a_status ?c)"
    using assignment_violationD(1) [OF v] nx mem(3) by simp_all
  have inorders: "a_order_id old \<in> o_id ` set (tb_orders s)" using mem by auto
  show ?thesis
  proof (rule one_order_refines [where x = ord and x' = "order_row e ord'" and hs = "[]"])
    show "ord \<in> set (tb_orders s)" by (rule mem(2))
    show "o_id (order_row e ord') = o_id ord" by (simp add: ord')
    show "tb_history s' = tb_history s @ []" "\<forall>h \<in> set []. h_order_id h = o_id ord" by (simp_all add: hs')
    show "tb_orders s' = overwrite (\<lambda>y. o_id y = o_id ord) (order_row e ord') (tb_orders s)" by (rule os')
    show "replay (o_status ord) (transitions [] (o_id ord)) = Some (o_status (order_row e ord'))"
      by (simp add: transitions_def ord')
    assume cs: "consistent s"
    note new = replaced_bookings [OF consistentD(2) [OF cs] mem(1) opn b c inorders]
    show "bookings_ok (o_id ` set (tb_orders s)) (tb_assignments s')" unfolding as' by (rule new(1))
    show "persists (tb_assignments s) (tb_assignments s')" unfolding as' by (rule new(3))
    show "\<forall>i. i \<noteq> o_id ord \<longrightarrow> open_of (tb_assignments s') i = open_of (tb_assignments s) i"
      unfolding as' new(2) using mem(3) by simp
    have before: "open_of (tb_assignments s) (o_id ord) = Some old"
      using open_of_unique [OF consistentD(2) [OF cs] mem(1) opn] mem(3) by simp
    then have "coherent ord (Some old)" using consistentD(4) [OF cs mem(2)] by simp
    then show "coherent (order_row e ord') (open_of (tb_assignments s') (o_id ord))"
      unfolding as' new(2) using mem(3) st nx by (simp add: ord')
    show "lifecycle\<^sup>*\<^sup>* (o_status ord, map_option a_status (open_of (tb_assignments s) (o_id ord)))
       (o_status (order_row e ord'), map_option a_status (open_of (tb_assignments s') (o_id ord)))"
      unfolding as' new(2) before using mem(3) st nx by (simp add: ord')
  qed
qed

section \<open>Runs\<close>

lemma found_subset:
  assumes "\<forall>y \<in> set ys. find (p y) xs = Some y"
  shows "set ys \<subseteq> set xs"
proof
  fix y assume "y \<in> set ys"
  then have "find (p y) xs = Some y" using assms by (rule bspec [rotated])
  then show "y \<in> set xs" by (rule conjunct1 [OF find_Some_mem])
qed

lemma lock_handover_fleet_run [runs]:
  assumes "lock_handover_fleet old driver vehicle e s = (Inr (ds, vs), s')"
  obtains l where "s' = s\<lparr>locks := l\<rparr>" and "set ds \<subseteq> set (tb_drivers s)" and "set vs \<subseteq> set (tb_vehicles s)"
proof -
  from assms obtain s1 where ds: "lock_drivers None (fleet_ids driver (Some (a_driver_id old))) e s = (Inr ds, s1)"
    and vs: "lock_vehicles None (fleet_ids vehicle (Some (a_vehicle_id old))) e s1 = (Inr vs, s')"
    unfolding lock_handover_fleet_def by (elim bind_ok return_ok) simp
  from ds obtain l where s1: "s1 = s\<lparr>locks := l\<rparr>" and d: "set ds \<subseteq> set (tb_drivers s)"
    by (rule lock_drivers_run) (drule found_subset, rule that)
  from vs obtain l' where "s' = s1\<lparr>locks := l'\<rparr>" and v: "set vs \<subseteq> set (tb_vehicles s1)"
    by (rule lock_vehicles_run) (drule found_subset, rule that)
  with s1 d show ?thesis by (intro that [of l']) simp_all
qed

text \<open>Who may ask for a handover or withdraw it.\<close>

definition handover_manager :: "db \<Rightarrow> order \<Rightarrow> uuid \<Rightarrow> string \<Rightarrow> bool" where
  "handover_manager s ord user role \<longleftrightarrow>
     role = ''admin'' \<or> role = ''manager'' \<and> (\<exists>w. manages s user w \<and> o_origin_warehouse ord = Some w)"

lemma authorize_handover_manager_run [runs]:
  assumes "authorize_handover_manager ord user role e s = (Inr u, s')"
  obtains "s' = s" and "handover_manager s ord user role"
proof -
  have "s' = s \<and> handover_manager s ord user role"
    using assms unfolding authorize_handover_manager_def
    by (cases "role = ''admin''")
       (auto elim!: seq_ok bind_ok fail_if_ok return_ok simp: handover_manager_def manages_def manager_warehouse_id_def
         elim!: optional_ok get_one_run case_option_ok throw_ok)
  then show ?thesis using that by blast
qed

lemma handover_actor_run [runs]:
  assumes "handover_actor action ord outgoing incoming user role e s = (Inr u, s')"
  obtains "s' = s" and "action = ''cancel'' \<longrightarrow> handover_manager s ord user role"
    and "action \<noteq> ''cancel'' \<longrightarrow> role = ''driver''"
    and "action = ''confirm-release'' \<longrightarrow> d_user_id outgoing = user"
    and "action = ''accept'' \<longrightarrow> d_user_id incoming = user"
proof (cases "action = ''cancel''")
  case True
  with assms have "authorize_handover_manager ord user role e s = (Inr u, s')" by (simp add: handover_actor_def)
  with True show ?thesis by (elim authorize_handover_manager_run) (intro that; simp)
next
  case False
  with assms have "fail_if (role \<noteq> ''driver'' \<or> (action = ''confirm-release'' \<and> d_user_id outgoing \<noteq> user) \<or>
       (action = ''accept'' \<and> d_user_id incoming \<noteq> user)) forbidden e s = (Inr u, s')"
    by (simp add: handover_actor_def)
  with False show ?thesis by (elim fail_if_ok) (intro that; simp)
qed

lemma keeps_renamed [keep_frames]:
  "framed (keeps f) m \<Longrightarrow> framed (keeps f) (reserving m)"
  "framed (keeps f) m \<Longrightarrow> framed (keeps f) (conflicting er m)"
  by (auto simp: framed_def reserving_def conflicting_def split: prod.splits sum.splits) (metis snd_conv)+

lemma record_handover_keeps:
  "framed (keeps tb_handovers) (record_handover ord old nxt outgoing old_vehicle item user now)"
  unfolding record_handover_def find_user_def enqueue_dispatch_after_release_def enqueue_operational_document_def
    assignment_fields_def
  by (intro keep_frames; simp)

lemma accept_handover_run:
  assumes "accept_handover ord old outgoing incoming old_vehicle veh item user now e s = (Inr item', s')"
  obtains ord' nxt t where "t_outgoing_confirmed item \<noteq> None" and "now < t_planned_to item"
    and "eligible s ord incoming veh now (t_planned_to item)"
    and "replace_active ord old now item e s = (Inr (ord', nxt), t)" and "same_core t s'"
    and "tb_handovers s' = tb_handovers s"
    and "item' = item\<lparr>t_status := ''completed'', t_completed_at := Some now, t_next_assignment := Some (a_id nxt)\<rparr>"
proof -
  from assms obtain s1 s2 s3 ord' nxt t where
    a: "fail_if (t_outgoing_confirmed item = None) (Business ErrAssignmentStale) e s = (Inr (), s1)"
    and b: "fail_if (\<not> now < t_planned_to item) (Business ErrInvalidTimeWindow) e s1 = (Inr (), s2)"
    and c: "validate_assignment_resources ord incoming veh now (t_planned_to item) e s2 = (Inr (), s3)"
    and d: "replace_active ord old now item e s3 = (Inr (ord', nxt), t)"
    and f: "record_handover ord' (handed_over now old) nxt outgoing old_vehicle item user now e t = (Inr (), s')"
    and g: "item' = item\<lparr>t_status := ''completed'', t_completed_at := Some now, t_next_assignment := Some (a_id nxt)\<rparr>"
    unfolding accept_handover_def
    apply (elim bind_ok seq_ok case_prod_ok return_ok)
    apply hypsubst
    apply (rule that)
    apply assumption+
    done
  from a have s1: "s1 = s" by (rule fail_if_ok)
  from a have confirmed: "t_outgoing_confirmed item \<noteq> None" by (rule fail_if_ok)
  from b have s2: "s2 = s1" by (rule fail_if_ok)
  from b have early: "now < t_planned_to item" by (rule fail_if_ok) simp
  from c have s3: "s3 = s2" by (rule validate_assignment_resources_run)
  from c have el2: "eligible s2 ord incoming veh now (t_planned_to item)" by (rule validate_assignment_resources_run)
  note el = el2 [unfolded s2 s1] and s0 = s3 s2 s1
  have core: "same_core t s'" using f by (rule core_run [rotated]) (rule core_frames)
  have "tb_handovers s' = tb_handovers t" using f by (rule keeps_run [OF record_handover_keeps])
  moreover have "tb_handovers t = tb_handovers s"
    using d unfolding s0 replace_active_def Let_def
    by (rule keeps_run [rotated]) (intro keep_frames; simp)
  ultimately show ?thesis using d unfolding s0 by (intro that [OF confirmed early el _ core _ g]) simp_all
qed
lemma handover_step_run:
  assumes "handover_step action ord old outgoing incoming old_vehicle veh item user now e s = (Inr item', s')"
  obtains (confirmed) "o_status ord = OrderInTransit" and "a_status old = AssignmentActive" and "action = ''confirm-release''"
    and "t_outgoing_confirmed item = None" and "item' = item\<lparr>t_outgoing_confirmed := Some now\<rparr>" and "s' = s"
  | (accepted) ord' nxt t where "o_status ord = OrderInTransit" and "a_status old = AssignmentActive" and "action = ''accept''"
    and "t_outgoing_confirmed item \<noteq> None" and "now < t_planned_to item"
    and "eligible s ord incoming veh now (t_planned_to item)"
    and "replace_active ord old now item e s = (Inr (ord', nxt), t)" and "same_core t s'"
    and "tb_handovers s' = tb_handovers s"
    and "item' = item\<lparr>t_status := ''completed'', t_completed_at := Some now, t_next_assignment := Some (a_id nxt)\<rparr>"
proof -
  from assms obtain s1 where state: "fail_if (o_status ord \<noteq> OrderInTransit \<or> a_status old \<noteq> AssignmentActive)
       (Business ErrInvalidOrderTransition) e s = (Inr (), s1)"
    and step: "(if action = ''confirm-release'' then
       seq (fail_if (t_outgoing_confirmed item \<noteq> None) (Business ErrAssignmentStale))
       (return (item\<lparr>t_outgoing_confirmed := Some now\<rparr>))
     else if action = ''accept'' then accept_handover ord old outgoing incoming old_vehicle veh item user now
     else throw (Business ErrInvalidOrderInput)) e s1 = (Inr item', s')"
    unfolding handover_step_def by (rule seq_ok)
  from state have s1: "s1 = s" and st: "o_status ord = OrderInTransit" "a_status old = AssignmentActive"
    by (elim fail_if_ok; simp)+
  from step show ?thesis
  proof (elim if_ok)
    assume a: "action = ''confirm-release''" and "seq (fail_if (t_outgoing_confirmed item \<noteq> None) (Business ErrAssignmentStale))
       (return (item\<lparr>t_outgoing_confirmed := Some now\<rparr>)) e s1 = (Inr item', s')"
    then show ?thesis by (elim seq_ok fail_if_ok return_ok) (rule confirmed [OF st a]; simp add: s1)
  next
    assume a: "action = ''accept''" and
      run: "accept_handover ord old outgoing incoming old_vehicle veh item user now e s1 = (Inr item', s')"
    show ?thesis using run unfolding s1 by (rule accept_handover_run) (rule accepted [OF st a])
  qed (erule throw_ok)
qed

text \<open>The transaction up to the change of the request.\<close>

lemma update_handover_parts:
  assumes "update_handover_tx i user role action e s = (Inr x, s')"
  obtains item ord old outgoing incoming old_vehicle veh u now where
    "item \<in> set (tb_handovers s)" and "t_id item = i" and "find (\<lambda>h. t_id h = i) (tb_handovers s) = Some item"
    and "ord \<in> set (tb_orders s)" and "o_id ord = t_order_id item"
    and "old \<in> set (tb_assignments s)" and "a_id old = t_previous_assignment item"
    and "outgoing \<in> set (tb_drivers s)" and "d_id outgoing = a_driver_id old"
    and "incoming \<in> set (tb_drivers s)" and "d_id incoming = t_driver_id item"
    and "veh \<in> set (tb_vehicles s)" and "v_id veh = t_vehicle_id item"
    and "u = s\<lparr>locks := locks u, ticks := ticks u\<rparr>"
    and "handover_actor action ord outgoing incoming user role e (s\<lparr>locks := locks u\<rparr>) = (Inr (), s\<lparr>locks := locks u\<rparr>)"
    and "t_status item = ''pending''" and "now = clock e (ticks s)"
    and "(if action \<noteq> ''cancel'' \<and> \<not> now < t_expires_at item then
        seq (update handovers_t (\<lambda>h. t_id h = i) (item\<lparr>t_status := ''expired''\<rparr>))
        (return (Inl (Business ErrAssignmentExpired)))
      else
        bind (if action = ''cancel'' then return (item\<lparr>t_status := ''cancelled''\<rparr>)
              else handover_step action ord old outgoing incoming old_vehicle veh item user now) (\<lambda>item'.
        seq (update handovers_t (\<lambda>h. t_id h = i) item')
        (return (Inr item')))) e u = (Inr x, s')"
proof -
  from assms obtain seed s1 ord s2 old s3 item s4 drivers vehicles s5 outgoing s6 incoming s7 old_vehicle s8 veh s9 s10 now s11 s12 where
    seed: "get_one handovers_t (\<lambda>h. t_id h = i) e s = (Inr seed, s1)"
    and ord: "get_one_locked orders_t (\<lambda>x. o_id x = t_order_id seed) e s1 = (Inr ord, s2)"
    and old: "get_one_locked assignments_t (\<lambda>a. a_id a = t_previous_assignment seed) e s2 = (Inr old, s3)"
    and item: "get_one_locked handovers_t (\<lambda>h. t_id h = i) e s3 = (Inr item, s4)"
    and fleet: "lock_handover_fleet old (t_driver_id item) (t_vehicle_id item) e s4 = (Inr (drivers, vehicles), s5)"
    and outgoing: "deref (find (\<lambda>d. d_id d = a_driver_id old) drivers) e s5 = (Inr outgoing, s6)"
    and incoming: "deref (find (\<lambda>d. d_id d = t_driver_id item) drivers) e s6 = (Inr incoming, s7)"
    and old_vehicle: "deref (find (\<lambda>v. v_id v = a_vehicle_id old) vehicles) e s7 = (Inr old_vehicle, s8)"
    and veh: "deref (find (\<lambda>v. v_id v = t_vehicle_id item) vehicles) e s8 = (Inr veh, s9)"
    and actor: "handover_actor action ord outgoing incoming user role e s9 = (Inr (), s10)"
    and now: "time_now e s10 = (Inr now, s11)"
    and pending: "fail_if (t_status item \<noteq> ''pending'') (Business ErrAssignmentStale) e s11 = (Inr (), s12)"
    and rest: "(if action \<noteq> ''cancel'' \<and> \<not> now < t_expires_at item then
        seq (update handovers_t (\<lambda>h. t_id h = i) (item\<lparr>t_status := ''expired''\<rparr>))
        (return (Inl (Business ErrAssignmentExpired)))
      else
        bind (if action = ''cancel'' then return (item\<lparr>t_status := ''cancelled''\<rparr>)
              else handover_step action ord old outgoing incoming old_vehicle veh item user now) (\<lambda>item'.
        seq (update handovers_t (\<lambda>h. t_id h = i) item')
        (return (Inr item')))) e s12 = (Inr x, s')"
    unfolding update_handover_tx_def
    apply (elim bind_ok [of "get_one _ _"] bind_ok [of "get_one_locked _ _"] bind_ok [of "lock_handover_fleet _ _ _"]
        bind_ok [of "deref _"] bind_ok [of time_now] seq_ok [of "handover_actor _ _ _ _ _ _"] seq_ok [of "fail_if _ _"] case_prod_ok)
      apply hypsubst
    apply (rule that)
    apply assumption+
    done
  from seed have s1: "s1 = s" and sf: "find (\<lambda>h. t_id h = i) (tb_handovers s) = Some seed"
    by (rule get_one_run, simp only: table_rows)+
  note o = get_one_lockedD [OF ord, unfolded table_rows] and a = get_one_lockedD [OF old, unfolded table_rows]
  note it = get_one_lockedD [OF item, unfolded table_rows]
  have itf: "find (\<lambda>h. t_id h = i) (tb_handovers s3) = Some item" using item by (rule get_one_locked_run) (simp only: table_rows)
  define l where "l = locks s4"
  have s3: "tb_handovers s3 = tb_handovers s" by (simp only: a(3) o(3) s1) simp
  have s4: "s4 = s\<lparr>locks := l\<rparr>" unfolding l_def it(3) a(3) o(3) s1 by simp
  have same: "seed = item" using itf [unfolded s3] sf by (metis option.inject)
  from fleet obtain l' where s5: "s5 = s4\<lparr>locks := l'\<rparr>" and ds: "set drivers \<subseteq> set (tb_drivers s4)"
    and vs: "set vehicles \<subseteq> set (tb_vehicles s4)" by (rule lock_handover_fleet_run)
  have pick: "y \<in> set xs \<and> p y \<and> t' = t" if "deref (find p xs) e t = (Inr y, t')" for p :: "'x \<Rightarrow> bool" and xs y t t'
    using that by (rule deref_ok) (drule find_Some_mem, simp)
  note po = pick [OF outgoing] and pi = pick [OF incoming] and pv = pick [OF old_vehicle] and pw = pick [OF veh]
  have s9: "s9 = s\<lparr>locks := l'\<rparr>" using po pi pv pw s5 s4 by simp
  have s10: "s10 = s9"
    using actor by (rule handover_actor_run)
  from now have n: "now = clock e (ticks s)" and s11: "s11 = s\<lparr>locks := l', ticks := Suc (ticks s)\<rparr>"
    by (elim time_now_run; simp add: s10 s9)+
  from pending have s12: "s12 = s11" by (rule fail_if_ok)
  from pending have st: "t_status item = ''pending''" by (rule fail_if_ok) simp
  have mem: "item \<in> set (tb_handovers s)" "t_id item = i" using find_Some_mem [OF sf] same by simp_all
  have core: "tb_orders s1 = tb_orders s" "tb_assignments s2 = tb_assignments s" "tb_drivers s4 = tb_drivers s"
    "tb_vehicles s4 = tb_vehicles s"
    by (simp_all add: s1 o(3) s4)
  show ?thesis
  proof (rule that)
    show "find (\<lambda>h. t_id h = i) (tb_handovers s) = Some item" using sf same by simp
    show "s12 = s\<lparr>locks := locks s12, ticks := ticks s12\<rparr>" by (simp add: s12 s11)
    show "handover_actor action ord outgoing incoming user role e (s\<lparr>locks := locks s12\<rparr>) = (Inr (), s\<lparr>locks := locks s12\<rparr>)"
      using actor by (simp add: s12 s11 s10 s9)
    show "ord \<in> set (tb_orders s)" "o_id ord = t_order_id item" using o(1,2) core same by simp_all
    show "old \<in> set (tb_assignments s)" "a_id old = t_previous_assignment item" using a(1,2) core same by simp_all
    show "outgoing \<in> set (tb_drivers s)" "d_id outgoing = a_driver_id old" using po ds core by auto
    show "incoming \<in> set (tb_drivers s)" "d_id incoming = t_driver_id item" using pi ds core by auto
    show "veh \<in> set (tb_vehicles s)" "v_id veh = t_vehicle_id item" using pw vs core by auto
  qed (fact mem st n rest)+
qed
section \<open>The invariant of handovers\<close>

definition sound :: "db \<Rightarrow> bool" where
  "sound s \<longleftrightarrow> consistent s \<and> handovers_ok s"

definition keeps_sound :: "env \<Rightarrow> db \<Rightarrow> db \<Rightarrow> bool" where
  "keeps_sound e s s' \<longleftrightarrow> (sound s \<longrightarrow> sound s' \<and> grows s s' \<and> (\<forall>i. moves (phase_of s i) (phase_of s' i)))"

interpretation so: preorder_frame keeps_sound
proof
  show "keeps_sound e s s" for e s by (simp add: keeps_sound_def)
  show "keeps_sound e s u" if "keeps_sound e s t" and "keeps_sound e t u" for e s t u
    using that unfolding keeps_sound_def by (meson moves_trans grows_trans)
qed

text \<open>New handovers must come from old ones, or belong to the order of their previous assignment.\<close>

lemma handovers_ok_step:
  assumes "handovers_ok s" and "persists (tb_assignments s) (tb_assignments s')"
    and "\<And>h. h \<in> set (tb_handovers s') \<Longrightarrow>
       (\<exists>g \<in> set (tb_handovers s). t_previous_assignment h = t_previous_assignment g \<and> t_order_id h = t_order_id g) \<or>
       (\<exists>a \<in> set (tb_assignments s). a_id a = t_previous_assignment h \<and> a_order_id a = t_order_id h)"
  shows "handovers_ok s'"
  unfolding handovers_ok_def
proof
  fix h assume "h \<in> set (tb_handovers s')"
  with assms(1,3) obtain a where "a \<in> set (tb_assignments s)" "a_id a = t_previous_assignment h" "a_order_id a = t_order_id h"
    unfolding handovers_ok_def by metis
  with assms(2) show "\<exists>a \<in> set (tb_assignments s'). a_id a = t_previous_assignment h \<and> a_order_id a = t_order_id h"
    unfolding persists_def by metis
qed

lemma keeps_soundI:
  assumes "sound s \<Longrightarrow> refines e s s'"
    and "\<And>h. sound s \<Longrightarrow> h \<in> set (tb_handovers s') \<Longrightarrow>
       (\<exists>g \<in> set (tb_handovers s). t_previous_assignment h = t_previous_assignment g \<and> t_order_id h = t_order_id g) \<or>
       (\<exists>a \<in> set (tb_assignments s). a_id a = t_previous_assignment h \<and> a_order_id a = t_order_id h)"
  shows "keeps_sound e s s'"
  unfolding keeps_sound_def
proof
  assume s: "sound s"
  with assms(1) have r: "consistent s' \<and> grows s s' \<and> (\<forall>i. moves (phase_of s i) (phase_of s' i))"
    by (simp add: refines_def sound_def)
  have "handovers_ok s'"
    by (rule handovers_ok_step [of s]) (use s r assms(2) in \<open>simp_all add: sound_def grows_def\<close>)
  with r show "sound s' \<and> grows s s' \<and> (\<forall>i. moves (phase_of s i) (phase_of s' i))" by (simp add: sound_def)
qed

lemma sound_of_refines: "framed refines m \<Longrightarrow> framed (keeps tb_handovers) m \<Longrightarrow> framed keeps_sound m"
  unfolding framed_def keeps_def by (intro allI keeps_soundI) auto

lemma sound_in_tx:
  assumes "\<And>e s x s'. m e s = (Inr x, s') \<Longrightarrow> keeps_sound e s s'"
  shows "framed keeps_sound (in_tx m)"
  unfolding framed_def
proof (intro allI)
  fix e s
  obtain r s' where m: "m e (s\<lparr>locks := []\<rparr>) = (r, s')" by fastforce
  have eq: "sound (s\<lparr>locks := l\<rparr>) = sound s" "grows (s\<lparr>locks := l\<rparr>) t = grows s t"
    "phase_of (s\<lparr>locks := l\<rparr>) i = phase_of s i" for l t i
    by (simp_all add: sound_def consistent_def handovers_ok_def grows_def phase_of_def)
  show "keeps_sound e s (snd (in_tx m e s))"
  proof (cases r)
    case (Inl er)
    have "tb_handovers (rollback s s') = tb_handovers s" "refines e s (rollback s s')"
      by (simp_all add: rollback_def same_core_refines same_core_def)
    then show ?thesis by (intro keeps_soundI) (auto simp: in_tx_def m Inl)
  next
    case (Inr x)
    then have "keeps_sound e (s\<lparr>locks := []\<rparr>) s'" using assms m by blast
    then show ?thesis by (simp add: in_tx_def m Inr keeps_sound_def eq)
  qed
qed

lemma conflicting_run [runs]:
  assumes "conflicting er m e s = (Inr v, s')"
  obtains "m e s = (Inr v, s')"
  using assms unfolding conflicting_def by (auto split: prod.splits sum.splits)

lemma picked_run:
  assumes "deref (find p xs) e s = (Inr y, s')"
  shows "s' = s" and "y \<in> set xs" and "p y"
proof -
  from assms show "s' = s" by (rule deref_ok)
  from assms have "find p xs = Some y" by (rule deref_ok)
  from find_Some_mem [OF this] show "y \<in> set xs" "p y" by simp_all
qed

lemma create_handover_tx_run:
  assumes "create_handover_tx order user role now req e s = (Inr r, s')"
  obtains ord old drv veh where "ord \<in> set (tb_orders s)" and "o_id ord = order" and "o_status ord = OrderInTransit"
    and "handover_manager s ord user role"
    and "old \<in> set (tb_assignments s)" and "a_order_id old = order" and "a_status old = AssignmentActive"
    and "a_driver_id old \<noteq> hc_driver_id req \<or> a_vehicle_id old \<noteq> hc_vehicle_id req"
    and "drv \<in> set (tb_drivers s)" and "d_id drv = hc_driver_id req"
    and "veh \<in> set (tb_vehicles s)" and "v_id veh = hc_vehicle_id req"
    and "eligible s ord drv veh now (hc_planned_to req)"
    and "r = new_handover (t_id r) order user old now req"
    and "tb_handovers s' = expire_handovers order (trunc_us now) (tb_handovers s) @ [handover_row e r]"
    and "\<forall>h \<in> set (expire_handovers order (trunc_us now) (tb_handovers s)). t_order_id h = order \<longrightarrow> t_status h \<noteq> ''pending''"
proof -
  from assms obtain ord s1 s2 s3 old s4 s5 drivers vehicles s6 drv s7 veh s8 outgoing s9 s10 s11 i s12 s13 where
    ord: "get_one_locked orders_t (\<lambda>x. o_id x = order) e s = (Inr ord, s1)"
    and mgr: "authorize_handover_manager ord user role e s1 = (Inr (), s2)"
    and st: "fail_if (o_status ord \<noteq> OrderInTransit) (Business ErrInvalidOrderTransition) e s2 = (Inr (), s3)"
    and old: "get_one_locked assignments_t (\<lambda>a. a_order_id a = order \<and> a_status a = AssignmentActive) e s3 = (Inr old, s4)"
    and differs: "fail_if (a_driver_id old = hc_driver_id req \<and> a_vehicle_id old = hc_vehicle_id req) (Business ErrInvalidOrderInput) e s4 = (Inr (), s5)"
    and fleet: "lock_handover_fleet old (hc_driver_id req) (hc_vehicle_id req) e s5 = (Inr (drivers, vehicles), s6)"
    and drv: "deref (find (\<lambda>d. d_id d = hc_driver_id req) drivers) e s6 = (Inr drv, s7)"
    and veh: "deref (find (\<lambda>v. v_id v = hc_vehicle_id req) vehicles) e s7 = (Inr veh, s8)"
    and outgoing: "deref (find (\<lambda>d. d_id d = a_driver_id old) drivers) e s8 = (Inr outgoing, s9)"
    and valid: "validate_assignment_resources ord drv veh now (hc_planned_to req) e s9 = (Inr (), s10)"
    and expired: "exec (tb_handovers_update (expire_handovers order (trunc_us now))) e s10 = (Inr (), s11)"
    and i: "uuid_new e s11 = (Inr i, s12)"
    and made: "conflicting (Business ErrAssignmentStale) (create handovers_t (new_handover i order user old now req)) e s12 = (Inr (), s13)"
    and told: "for_each [d_user_id outgoing, d_user_id drv] (\<lambda>u. notify u (HandoverRequested i order
         (t_reason (new_handover i order user old now req)) (t_location (new_handover i order user old now req)))) e s13 = (Inr (), s')"
    and r: "r = new_handover i order user old now req"
    unfolding create_handover_tx_def Let_def
    apply (elim bind_ok seq_ok case_prod_ok return_ok)
    apply hypsubst
    apply (rule that)
    apply (assumption | rule refl)+
    done
  note o = get_one_lockedD [OF ord, unfolded table_rows] and a = get_one_lockedD [OF old, unfolded table_rows]
  from mgr have s2: "s2 = s1" by (rule authorize_handover_manager_run)
  from mgr have may: "handover_manager s1 ord user role" by (rule authorize_handover_manager_run)
  from st have s3: "s3 = s2" by (rule fail_if_ok)
  from st have transit: "o_status ord = OrderInTransit" by (rule fail_if_ok) simp
  from differs have s5: "s5 = s4" by (rule fail_if_ok)
  from differs have other: "a_driver_id old \<noteq> hc_driver_id req \<or> a_vehicle_id old \<noteq> hc_vehicle_id req" by (rule fail_if_ok) simp
  from fleet obtain l where s6: "s6 = s5\<lparr>locks := l\<rparr>" and ds: "set drivers \<subseteq> set (tb_drivers s5)"
    and vs: "set vehicles \<subseteq> set (tb_vehicles s5)" by (rule lock_handover_fleet_run)
  note pd = picked_run [OF drv] and pv = picked_run [OF veh] and po = picked_run [OF outgoing]
  from valid have s10: "s10 = s9" by (rule validate_assignment_resources_run)
  from valid have el: "eligible s9 ord drv veh now (hc_planned_to req)" by (rule validate_assignment_resources_run)
  have s9: "s9 = s\<lparr>locks := l\<rparr>" unfolding po(1) pv(1) pd(1) s6 s5 a(3) s3 s2 o(3) by simp
  from expired have s11: "s11 = tb_handovers_update (expire_handovers order (trunc_us now)) s9"
    unfolding s10 by (rule exec_run)
  from i have s12: "s12 = s11\<lparr>issued := Suc (issued s11)\<rparr>" by (rule uuid_new_run)
  have h12: "tb_handovers s12 = expire_handovers order (trunc_us now) (tb_handovers s)"
    by (simp add: s12 s11 s9)
  from made have made': "create handovers_t (new_handover i order user old now req) e s12 = (Inr (), s13)" by (rule conflicting_run)
  then have s13: "s13 = set_rows handovers_t (\<lambda>rs. rs @ [stored handovers_t e (new_handover i order user old now req)]) s12"
    by (rule create_run)
  from made' have v: "violation handovers_t e s12 (rows handovers_t s12) (new_handover i order user old now req) = None"
    by (rule create_run)
  have single: "\<forall>h \<in> set (tb_handovers s12). t_order_id h = order \<longrightarrow> t_status h \<noteq> ''pending''"
    using v unfolding handovers_t_def table.simps first_violation_None by (auto simp: list_ex_iff new_handover_def)
  have told': "tb_handovers s' = tb_handovers s13"
    using told by (rule keeps_run [rotated]) (intro keep_frames; simp)
  have eqs: "tb_drivers s5 = tb_drivers s" "tb_vehicles s5 = tb_vehicles s" "tb_assignments s3 = tb_assignments s"
    "handover_manager s1 ord user role = handover_manager s ord user role"
    "eligible s9 ord drv veh now (hc_planned_to req) = eligible s ord drv veh now (hc_planned_to req)"
    by (simp_all add: s5 a(3) s3 s2 o(3) s9 handover_manager_def manages_def eligible_def)
  have "t_id (new_handover i order user old now req) = i" by (simp add: new_handover_def)
  then have r': "r = new_handover (t_id r) order user old now req" using r by simp
  show ?thesis
  proof (rule that [OF o(1,2) transit])
    show "tb_handovers s' = expire_handovers order (trunc_us now) (tb_handovers s) @ [handover_row e r]"
      unfolding told' s13 by (simp add: h12 r)
    show "drv \<in> set (tb_drivers s)" "veh \<in> set (tb_vehicles s)" using pd(2) pv(2) ds vs eqs(1,2) by auto
    show "old \<in> set (tb_assignments s)" "a_order_id old = order" "a_status old = AssignmentActive" using a(1,2) eqs(3) by simp_all
    show "\<forall>h \<in> set (expire_handovers order (trunc_us now) (tb_handovers s)). t_order_id h = order \<longrightarrow> t_status h \<noteq> ''pending''"
      using single unfolding h12 .
  qed (use may el eqs other pd(3) pv(3) r' in simp_all)
qed

lemma create_trip_handover_sound [simp]: "framed keeps_sound (create_trip_handover order user role req)"
proof -
  have tx: "keeps_sound e s s'" if run: "create_handover_tx order user role now r e s = (Inr h, s')" for now r e s h s'
  proof (rule keeps_soundI)
    show "refines e s s'" using core_run [OF create_handover_tx_core run] by (rule same_core_refines)
    fix g assume g: "g \<in> set (tb_handovers s')"
    show "(\<exists>h \<in> set (tb_handovers s). t_previous_assignment g = t_previous_assignment h \<and> t_order_id g = t_order_id h) \<or>
       (\<exists>a \<in> set (tb_assignments s). a_id a = t_previous_assignment g \<and> a_order_id a = t_order_id g)"
      using run
    proof (rule create_handover_tx_run)
      fix old
      assume old: "old \<in> set (tb_assignments s)" "a_order_id old = order" and h: "h = new_handover (t_id h) order user old now r"
        and rows: "tb_handovers s' = expire_handovers order (trunc_us now) (tb_handovers s) @ [handover_row e h]"
      have new: "t_previous_assignment (handover_row e h) = a_id old" "t_order_id (handover_row e h) = order"
        by (subst h, simp add: handover_row_def new_handover_def)+
      from g rows old new show ?thesis by (auto simp: expire_handovers_def split: if_splits)
    qed
  qed
  have "framed keeps_sound (time_now :: time op)"
    by (intro sound_of_refines untouched_refines keep_frames) simp_all
  then show ?thesis
    unfolding create_trip_handover_def Let_def
    by (intro so.framed_rules sound_in_tx tx)
qed

text \<open>What an update of a handover does.\<close>

definition handover_written :: "env \<Rightarrow> db \<Rightarrow> db \<Rightarrow> uuid \<Rightarrow> trip_handover \<Rightarrow> bool" where
  "handover_written e s s' i h \<longleftrightarrow> tb_handovers s' = overwrite (\<lambda>x. t_id x = i) (handover_row e h) (tb_handovers s)"

lemma handover_update_run:
  assumes "update handovers_t (\<lambda>x. t_id x = i) h e s = (Inr u, s')" and "find (\<lambda>h. t_id h = i) (tb_handovers s) = Some item"
  shows "same_core s s'" and "handover_written e s s' i h"
proof -
  from find_Some_mem [OF assms(2)] have ex: "list_ex (\<lambda>h. t_id h = i) (rows handovers_t s)" by (auto simp: list_ex_iff)
  from assms(1) have s': "s' = set_rows handovers_t (overwrite (\<lambda>x. t_id x = i) (stored handovers_t e h)) s"
    by (rule update_run) (use ex in simp_all)
  show "same_core s s'" by (simp add: s' same_core_def)
  show "handover_written e s s' i h" by (simp add: s' handover_written_def)
qed

lemma update_handover_tx_run:
  assumes "update_handover_tx i user role action e s = (Inr x, s')"
  obtains (expired) item where "find (\<lambda>h. t_id h = i) (tb_handovers s) = Some item" and "t_status item = ''pending''"
    and "action \<noteq> ''cancel''" and "t_expires_at item \<le> clock e (ticks s)" and "x = Inl (Business ErrAssignmentExpired)"
    and "same_core s s'" and "handover_written e s s' i (item\<lparr>t_status := ''expired''\<rparr>)"
  | (cancelled) item ord where "find (\<lambda>h. t_id h = i) (tb_handovers s) = Some item" and "t_status item = ''pending''"
    and "action = ''cancel''" and "ord \<in> set (tb_orders s)" and "o_id ord = t_order_id item" and "handover_manager s ord user role"
    and "x = Inr (item\<lparr>t_status := ''cancelled''\<rparr>)"
    and "same_core s s'" and "handover_written e s s' i (item\<lparr>t_status := ''cancelled''\<rparr>)"
  | (confirmed) item ord old drv where "find (\<lambda>h. t_id h = i) (tb_handovers s) = Some item" and "t_status item = ''pending''"
    and "action = ''confirm-release''" and "role = ''driver''" and "clock e (ticks s) < t_expires_at item"
    and "ord \<in> set (tb_orders s)" and "o_id ord = t_order_id item" and "o_status ord = OrderInTransit"
    and "old \<in> set (tb_assignments s)" and "a_id old = t_previous_assignment item" and "a_status old = AssignmentActive"
    and "drv \<in> set (tb_drivers s)" and "d_id drv = a_driver_id old" and "d_user_id drv = user"
    and "t_outgoing_confirmed item = None"
    and "x = Inr (item\<lparr>t_outgoing_confirmed := Some (clock e (ticks s))\<rparr>)"
    and "same_core s s'" and "handover_written e s s' i (item\<lparr>t_outgoing_confirmed := Some (clock e (ticks s))\<rparr>)"
  | (accepted) item ord old drv veh ord' nxt u v where
        "find (\<lambda>h. t_id h = i) (tb_handovers s) = Some item" and "t_status item = ''pending''"
    and "action = ''accept''" and "role = ''driver''" and "clock e (ticks s) < t_expires_at item"
    and "ord \<in> set (tb_orders s)" and "o_id ord = t_order_id item" and "o_status ord = OrderInTransit"
    and "old \<in> set (tb_assignments s)" and "a_id old = t_previous_assignment item" and "a_status old = AssignmentActive"
    and "drv \<in> set (tb_drivers s)" and "d_id drv = t_driver_id item" and "d_user_id drv = user"
    and "veh \<in> set (tb_vehicles s)" and "v_id veh = t_vehicle_id item"
    and "t_outgoing_confirmed item \<noteq> None" and "clock e (ticks s) < t_planned_to item"
    and "eligible s ord drv veh (clock e (ticks s)) (t_planned_to item)"
    and "same_core s u" and "replace_active ord old (clock e (ticks s)) item e u = (Inr (ord', nxt), v)" and "same_core v s'"
    and "x = Inr (item\<lparr>t_status := ''completed'', t_completed_at := Some (clock e (ticks s)), t_next_assignment := Some (a_id nxt)\<rparr>)"
    and "handover_written e s s' i (item\<lparr>t_status := ''completed'', t_completed_at := Some (clock e (ticks s)),
           t_next_assignment := Some (a_id nxt)\<rparr>)"
proof -
  note case_confirmed = confirmed and case_accepted = accepted
  from assms show ?thesis
proof (rule update_handover_parts, goal_cases)
  case (1 item ord old outgoing incoming old_vehicle veh u now)
  note found = 1(3) and u = 1(14) and actor = 1(15) and st = 1(16) and now = 1(17) and rest = 1(18)
  obtain l n where ul: "u = s\<lparr>locks := l, ticks := n\<rparr>" using u by (rule that)
  have core_u: "same_core s u" and hu: "tb_handovers u = tb_handovers s" by (simp_all add: ul same_core_def)
  have fu: "find (\<lambda>h. t_id h = i) (tb_handovers u) = Some item" using found hu by simp
  have wr: "same_core s t \<and> handover_written e s t i h" if "update handovers_t (\<lambda>h. t_id h = i) h e u = (Inr (), t)" for h t
    using handover_update_run [OF that fu] same_core_trans [OF core_u] by (simp add: handover_written_def hu)
  have el: "eligible u ord incoming veh now (t_planned_to item) = eligible s ord incoming veh now (t_planned_to item)"
    by (simp add: ul eligible_def)
  have man: "handover_manager (s\<lparr>locks := locks u\<rparr>) ord user role = handover_manager s ord user role"
    by (simp add: handover_manager_def manages_def)
  show ?case
    using rest
  proof (rule if_ok)
    assume c: "action \<noteq> ''cancel'' \<and> \<not> now < t_expires_at item" and
      run: "seq (update handovers_t (\<lambda>h. t_id h = i) (item\<lparr>t_status := ''expired''\<rparr>))
        (return (Inl (Business ErrAssignmentExpired))) e u = (Inr x, s')"
    from run have w: "update handovers_t (\<lambda>h. t_id h = i) (item\<lparr>t_status := ''expired''\<rparr>) e u = (Inr (), s')"
      and x: "x = Inl (Business ErrAssignmentExpired)" by (elim seq_ok return_ok; simp)+
    show ?thesis using c x wr [OF w] by (intro expired [OF found st]) (simp_all add: now)
  next
    assume c: "\<not> (action \<noteq> ''cancel'' \<and> \<not> now < t_expires_at item)" and
      run: "bind (if action = ''cancel'' then return (item\<lparr>t_status := ''cancelled''\<rparr>)
              else handover_step action ord old outgoing incoming old_vehicle veh item user now) (\<lambda>item'.
        seq (update handovers_t (\<lambda>h. t_id h = i) item') (return (Inr item'))) e u = (Inr x, s')"
    from run obtain item' v where step: "(if action = ''cancel'' then return (item\<lparr>t_status := ''cancelled''\<rparr>)
              else handover_step action ord old outgoing incoming old_vehicle veh item user now) e u = (Inr item', v)"
      and w: "update handovers_t (\<lambda>h. t_id h = i) item' e v = (Inr (), s')" and x: "x = Inr item'"
      by (elim bind_ok seq_ok return_ok) simp
    show ?thesis
    proof (cases "action = ''cancel''")
      case True
      with step have item': "item' = item\<lparr>t_status := ''cancelled''\<rparr>" and v: "v = u" by (simp_all add: return_def)
      have "handover_manager s ord user role" using actor True man by (elim handover_actor_run) simp
      then show ?thesis using True x wr [OF w [unfolded v]] by (intro cancelled [OF found st True 1(4,5)]) (simp_all add: item')
    next
      case False
      with c have early: "clock e (ticks s) < t_expires_at item" by (simp add: now)
      from step False have "handover_step action ord old outgoing incoming old_vehicle veh item user now e u = (Inr item', v)"
        by simp
      then show ?thesis
      proof (cases rule: handover_step_run)
        case confirmed
        have who: "role = ''driver''" "d_user_id outgoing = user" using actor confirmed(3) by (elim handover_actor_run; simp)+
        show ?thesis
          using x wr [OF w [unfolded confirmed(6)]]
          by (intro case_confirmed [OF found st confirmed(3) who(1) early 1(4,5) confirmed(1) 1(6,7) confirmed(2) 1(8,9) who(2) confirmed(4)])
             (simp_all add: confirmed(5) now)
      next
        case (accepted ord' nxt t)
        have who: "role = ''driver''" "d_user_id incoming = user" using actor accepted(3) by (elim handover_actor_run; simp)+
        have hv: "find (\<lambda>h. t_id h = i) (tb_handovers v) = Some item" using fu accepted(9) by simp
        note w2 = handover_update_run [OF w hv]
        have core: "same_core t s'" using accepted(8) w2(1) by (rule same_core_trans)
        have hw: "handover_written e s s' i item'" using w2(2) by (simp add: handover_written_def accepted(9) hu)
        show ?thesis
          using x hw core accepted(5,6) el
          by (intro case_accepted [OF found st accepted(3) who(1) early 1(4,5) accepted(1) 1(6,7) accepted(2)
              1(10,11) who(2) 1(12,13) accepted(4) _ _ core_u accepted(7) [unfolded now] core])
             (simp_all add: accepted(10) now)
      qed
    qed
  qed
qed
qed
lemma update_handover_tx_sound:
  assumes run: "update_handover_tx i user role action e s = (Inr x, s')"
  shows "keeps_sound e s s'"
proof -
  have step: "keeps_sound e s s'" if found: "find (\<lambda>h. t_id h = i) (tb_handovers s) = Some item"
    and written: "handover_written e s s' i h" and same: "t_previous_assignment h = t_previous_assignment item" "t_order_id h = t_order_id item"
    and ref: "sound s \<Longrightarrow> refines e s s'" for item h
  proof (rule keeps_soundI [OF ref])
    fix g assume "g \<in> set (tb_handovers s')"
    then have "g = handover_row e h \<or> g \<in> set (tb_handovers s)"
      using written by (auto simp: handover_written_def set_overwrite split: if_splits)
    moreover have "item \<in> set (tb_handovers s)" using find_Some_mem [OF found] by simp
    ultimately show "(\<exists>h \<in> set (tb_handovers s). t_previous_assignment g = t_previous_assignment h \<and> t_order_id g = t_order_id h) \<or>
       (\<exists>a \<in> set (tb_assignments s). a_id a = t_previous_assignment g \<and> a_order_id a = t_order_id g)"
      using same by (auto simp: handover_row_def)
  qed
  show ?thesis
    using run
  proof (cases rule: update_handover_tx_run)
    case (expired item)
    then show ?thesis by (intro step [OF expired(1,7)] same_core_refines) simp_all
  next
    case (cancelled item ord)
    then show ?thesis by (intro step [OF cancelled(1,9)] same_core_refines) simp_all
  next
    case (confirmed item ord old drv)
    then show ?thesis by (intro step [OF confirmed(1,18)] same_core_refines) simp_all
  next
    case (accepted item ord old drv veh ord' nxt u v)
    show ?thesis
    proof (rule step [OF accepted(1,24)])
      assume so: "sound s"
      have "item \<in> set (tb_handovers s)" using find_Some_mem [OF accepted(1)] by simp
      with so obtain a where a: "a \<in> set (tb_assignments s)" "a_id a = t_previous_assignment item" "a_order_id a = t_order_id item"
        by (auto simp: sound_def handovers_ok_def)
      have "distinct (map a_id (tb_assignments s))" using so by (simp add: sound_def consistent_def bookings_ok_def)
      then have "a = old" using a(1,2) accepted(9,10) by (auto dest: distinct_key_unique)
      with a accepted(7) have ord: "a_order_id old = o_id ord" by simp
      have mem: "old \<in> set (tb_assignments u)" "ord \<in> set (tb_orders u)" using accepted(6,9,20) by (simp_all add: same_core_def)
      have "refines e u v" by (rule replace_active_refines [OF accepted(21) mem ord accepted(8,11)])
      moreover have "same_core u s" using accepted(20) by (simp add: same_core_def)
      ultimately show "refines e s s'" using accepted(22) by (rule refines_same_core)
    qed simp_all
  qed
qed

lemma update_trip_handover_sound [simp]: "framed keeps_sound (update_trip_handover i user role action)"
  unfolding update_trip_handover_def
  by (intro so.framed_rules sound_in_tx) (erule update_handover_tx_sound)

end
