(* ===== verification/Constraints.thy ===== *)
theory Constraints
  imports Transport Receipts Handovers
begin

text \<open>
  Invariants of single tables that every command keeps.  The locale states what a table with a
  guarded set of rows promises; its interpretations are the exclusion constraint of assignments and
  the unique constraints of handovers, receipts and warehouse operations.
\<close>

section \<open>Tables that guard an invariant\<close>

locale guarded_table = table_field t for t :: "'r table" +
  fixes inv :: "'r set \<Rightarrow> bool"
  assumes inv_subset: "inv S \<Longrightarrow> T \<subseteq> S \<Longrightarrow> inv T"
    and inv_insert: "violation t e s others r = None \<Longrightarrow> inv (set others) \<Longrightarrow> inv (insert (stored t e r) (set others))"
begin

lemma created_inv: "create t r e s = (v, s') \<Longrightarrow> inv (set (rows t s)) \<Longrightarrow> inv (set (rows t s'))"
  using inv_insert by (auto simp: create_def rows_set split: option.splits)

lemma updated_inv:
  assumes "update t p r e s = (v, s')" and "inv (set (rows t s))"
  shows "inv (set (rows t s'))"
proof (cases "list_ex p (rows t s) \<and> violation t e s (filter (\<lambda>x. \<not> p x) (rows t s)) r = None")
  case True
  have "inv (set (filter (\<lambda>x. \<not> p x) (rows t s)))" by (rule inv_subset [OF assms(2)]) auto
  with True have new: "inv (insert (stored t e r) (set (filter (\<lambda>x. \<not> p x) (rows t s))))" by (intro inv_insert [where s = s]) simp_all
  have "s' = set_rows t (overwrite p (stored t e r)) s" using assms(1) True by (auto simp: update_def)
  moreover have "set (overwrite p (stored t e r) (rows t s)) \<subseteq> insert (stored t e r) (set (filter (\<lambda>x. \<not> p x) (rows t s)))"
    by (auto simp: set_overwrite)
  ultimately show ?thesis using inv_subset [OF new] by (simp add: rows_set)
next
  case False
  then have "s' = s" using assms(1) by (auto simp: update_def split: option.splits if_splits)
  with assms(2) show ?thesis by simp
qed

end

text \<open>No driver and no vehicle is booked twice at the same time.\<close>

definition no_overlap :: "assignment set \<Rightarrow> bool" where
  "no_overlap S \<longleftrightarrow> (\<forall>a \<in> S. \<forall>b \<in> S. open_status (a_status a) \<longrightarrow> open_status (a_status b) \<longrightarrow> a_id a \<noteq> a_id b \<longrightarrow>
     a_driver_id a = a_driver_id b \<or> a_vehicle_id a = a_vehicle_id b \<longrightarrow> \<not> windows_overlap a b)"

text \<open>At most one row of a kind has a given key: the unique indexes, partial ones included.\<close>

definition unique_by :: "('r \<Rightarrow> bool) \<Rightarrow> ('r \<Rightarrow> 'k) \<Rightarrow> ('r \<Rightarrow> uuid) \<Rightarrow> 'r set \<Rightarrow> bool" where
  "unique_by kind key ident S \<longleftrightarrow> (\<forall>x \<in> S. \<forall>y \<in> S. kind x \<longrightarrow> kind y \<longrightarrow> key x = key y \<longrightarrow> ident x = ident y)"

lemma unique_by_subset: "unique_by kind key ident S \<Longrightarrow> T \<subseteq> S \<Longrightarrow> unique_by kind key ident T"
  unfolding unique_by_def by (meson subsetD)

lemma unique_by_insert:
  assumes "unique_by kind key ident S" and "kind r \<Longrightarrow> \<forall>y \<in> S. kind y \<longrightarrow> key y \<noteq> key r"
  shows "unique_by kind key ident (insert r S)"
  unfolding unique_by_def
proof (intro ballI impI)
  fix x y
  assume x: "x \<in> insert r S" and y: "y \<in> insert r S" and kinds: "kind x" "kind y" and keys: "key x = key y"
  consider "x = r" "y = r" | "x = r" "y \<in> S" | "x \<in> S" "y = r" | "x \<in> S" "y \<in> S" using x y by blast
  then show "ident x = ident y"
  proof cases
    case 1
    then show ?thesis by simp
  next
    case 2
    then show ?thesis using assms(2) kinds keys by (metis (full_types))
  next
    case 3
    then show ?thesis using assms(2) kinds keys by (metis (full_types))
  next
    case 4
    then show ?thesis using assms(1) kinds keys unfolding unique_by_def by blast
  qed
qed

lemma unique_by_fresh:
  assumes "unique_by kind key ident S" and "key r \<notin> key ` S"
  shows "unique_by kind key ident (insert r S)"
proof (rule unique_by_insert [OF assms(1)])
  show "\<forall>y \<in> S. kind y \<longrightarrow> key y \<noteq> key r" using assms(2) by (metis imageI)
qed

abbreviation one_pending :: "trip_handover set \<Rightarrow> bool" where
  "one_pending \<equiv> unique_by (\<lambda>h. t_status h = ''pending'') t_order_id t_id"

abbreviation one_receipt :: "delivery_receipt set \<Rightarrow> bool" where
  "one_receipt \<equiv> unique_by (\<lambda>_. True) r_order_id r_id"

abbreviation once_each :: "warehouse_operation set \<Rightarrow> bool" where
  "once_each \<equiv> unique_by (\<lambda>_. True) (\<lambda>w. (wo_order_id w, wo_type w, wo_assignment_id w)) wo_id"

lemma windows_overlap_sym: "windows_overlap x y = windows_overlap y x"
  by (auto simp: windows_overlap_def)

interpretation booked: guarded_table assignments_t no_overlap
proof
  show "no_overlap T" if "no_overlap S" "T \<subseteq> S" for S T using that unfolding no_overlap_def by blast
  fix e s others r
  assume v: "violation assignments_t e s others r = None" and ok: "no_overlap (set others)"
  have "violation assignments_t = assignment_violation" by (simp add: assignments_t_def)
  with v have free: "open_status (a_status r) \<Longrightarrow> \<forall>y \<in> set others. open_status (a_status y) \<longrightarrow>
       a_driver_id y = a_driver_id r \<or> a_vehicle_id y = a_vehicle_id r \<longrightarrow> \<not> windows_overlap (assignment_row e r) y"
    using assignment_violationD(4) by metis
  show "no_overlap (insert (stored assignments_t e r) (set others))"
    using ok free windows_overlap_sym unfolding no_overlap_def by auto
qed

interpretation pending: guarded_table handovers_t one_pending
proof (unfold_locales, erule (1) unique_by_subset)
  fix e s others r
  assume v: "violation handovers_t e s others r = None" and ok: "one_pending (set others)"
  from v have "t_status r = ''pending'' \<Longrightarrow> \<forall>h \<in> set others. t_status h = ''pending'' \<longrightarrow> t_order_id h \<noteq> t_order_id r"
    unfolding handovers_t_def table.simps first_violation_None by (auto simp: list_ex_iff)
  then show "one_pending (insert (stored handovers_t e r) (set others))"
    by (intro unique_by_insert ok) (simp add: handovers_t_def handover_row_def)
qed

interpretation receipted: guarded_table receipts_t one_receipt
proof (unfold_locales, erule (1) unique_by_subset)
  fix e s others r
  assume v: "violation receipts_t e s others r = None" and ok: "one_receipt (set others)"
  from v have "r_order_id r \<notin> r_order_id ` set others"
    unfolding receipts_t_def table.simps first_violation_None by simp
  then show "one_receipt (insert (stored receipts_t e r) (set others))"
    by (intro unique_by_fresh ok) (simp add: receipts_t_def)
qed

interpretation operated: guarded_table operations_t once_each
proof (unfold_locales, erule (1) unique_by_subset)
  fix e s others r
  assume v: "violation operations_t e s others r = None" and ok: "once_each (set others)"
  from v have "(wo_order_id r, wo_type r, wo_assignment_id r) \<notin> (\<lambda>y. (wo_order_id y, wo_type y, wo_assignment_id y)) ` set others"
    unfolding operations_t_def table.simps first_violation_None by simp
  then show "once_each (insert (stored operations_t e r) (set others))"
    by (intro unique_by_fresh ok) (simp add: operations_t_def)
qed

section \<open>The invariant of the four tables\<close>

definition tables_ok :: "db \<Rightarrow> bool" where
  "tables_ok s \<longleftrightarrow> no_overlap (set (tb_assignments s)) \<and> one_pending (set (tb_handovers s)) \<and>
     one_receipt (set (tb_receipts s)) \<and> once_each (set (tb_operations s))"

definition keeps_tables :: "env \<Rightarrow> db \<Rightarrow> db \<Rightarrow> bool" where
  "keeps_tables e s s' \<longleftrightarrow> (tables_ok s \<longrightarrow> tables_ok s')"

interpretation tbl: preorder_frame keeps_tables
  by unfold_locales (simp_all add: keeps_tables_def)

named_theorems table_frames "rules that show that an operation keeps the table invariants and the handovers"

lemmas [table_frames] = tbl.framed_rules keep_frames

definition unguarded :: "'r table \<Rightarrow> bool" where
  "unguarded t \<longleftrightarrow> (\<forall>f s. tables_ok (set_rows t f s) = tables_ok s)"

lemma unguarded_tables [simp]:
  "unguarded users_t" "unguarded drivers_t" "unguarded vehicles_t" "unguarded warehouses_t" "unguarded managers_t"
  "unguarded driver_documents_t" "unguarded driver_shifts_t" "unguarded vehicle_documents_t" "unguarded counterparties_t"
  "unguarded orders_t" "unguarded routes_t" "unguarded history_t" "unguarded incidents_t"
  "unguarded notifications_t" "unguarded outbox_t"
  by (simp_all add: unguarded_def tables_ok_def)

lemma tables_statements [simp]:
  "unguarded t \<Longrightarrow> framed keeps_tables (create t r)" "unguarded t \<Longrightarrow> framed keeps_tables (update t p r)"
  by (auto simp: framed_def keeps_tables_def unguarded_def create_def update_def split: option.splits)

lemma frame_of:
  assumes "\<And>e s v s'. m e s = (v, s') \<Longrightarrow> tables_ok s \<Longrightarrow> tables_ok s'"
  shows "framed keeps_tables m"
  unfolding framed_def keeps_tables_def using assms by (metis prod.collapse)

lemma guarded_creates [simp]:
  "framed keeps_tables (create assignments_t a)" "framed keeps_tables (create handovers_t h)"
  "framed keeps_tables (create receipts_t r)" "framed keeps_tables (create operations_t w)"
  subgoal by (rule frame_of, frule booked.created_inv) (auto simp: tables_ok_def create_def split: option.splits)
  subgoal by (rule frame_of, frule pending.created_inv) (auto simp: tables_ok_def create_def split: option.splits)
  subgoal by (rule frame_of, frule receipted.created_inv) (auto simp: tables_ok_def create_def split: option.splits)
  subgoal by (rule frame_of, frule operated.created_inv) (auto simp: tables_ok_def create_def split: option.splits)
  done

lemma guarded_updates [simp]:
  "framed keeps_tables (update assignments_t p a)" "framed keeps_tables (update handovers_t q h)"
  subgoal by (rule frame_of, frule booked.updated_inv) (auto simp: tables_ok_def update_def split: option.splits if_splits)
  subgoal by (rule frame_of, frule pending.updated_inv) (auto simp: tables_ok_def update_def split: option.splits if_splits)
  done

lemma untouched_tables [simp]:
  assumes "framed untouched m"
  shows "framed keeps_tables m" and "framed (keeps tb_handovers) m"
proof -
  have "tables_ok s' = tables_ok s \<and> tb_handovers s' = tb_handovers s" if u: "untouched e s s'" for e s s'
  proof -
    have eq: "s' = s\<lparr>ticks := ticks s', issued := issued s', locks := locks s'\<rparr>" using u by (simp only: untouched_def)
    show ?thesis by (subst (1 2) eq, simp add: tables_ok_def)
  qed
  with assms show "framed keeps_tables m" "framed (keeps tb_handovers) m"
    unfolding framed_def keeps_tables_def keeps_def by blast+
qed

lemma tables_exec [simp]: "(\<And>s. tables_ok (f s) = tables_ok s) \<Longrightarrow> framed keeps_tables (exec f)"
  by (simp add: framed_def exec_def keeps_tables_def)

lemma renamed_tables [table_frames]:
  "framed keeps_tables m \<Longrightarrow> framed keeps_tables (reserving m)"
  "framed keeps_tables m \<Longrightarrow> framed keeps_tables (conflicting er m)"
  "framed keeps_tables m \<Longrightarrow> framed keeps_tables (attempt m)"
  "framed keeps_tables m \<Longrightarrow> framed keeps_tables (busy_or m er)"
  "framed (keeps f) m \<Longrightarrow> framed (keeps f) (attempt m)"
  "framed (keeps f) m \<Longrightarrow> framed (keeps f) (busy_or m er)"
  unfolding framed_def reserving_def conflicting_def attempt_def busy_or_def
  by (auto split: prod.splits sum.splits) (metis snd_conv)+

lemma case_prod_tables [table_frames]:
  "(\<And>a b. framed keeps_tables (k a b)) \<Longrightarrow> framed keeps_tables (case p of (a, b) \<Rightarrow> k a b)"
  by (cases p) simp

lemma in_tx_tables [table_frames]:
  assumes "framed keeps_tables m"
  shows "framed keeps_tables (in_tx m)"
proof -
  have "tables_ok (snd (in_tx m e s))" if ok: "tables_ok s" for e s
  proof -
    obtain r s' where m: "m e (s\<lparr>locks := []\<rparr>) = (r, s')" by fastforce
    have "tables_ok (s\<lparr>locks := []\<rparr>)" using ok by (simp add: tables_ok_def)
    with framedD [OF assms m] have "tables_ok s'" by (simp add: keeps_tables_def)
    with ok show ?thesis by (cases r) (simp_all add: in_tx_def m rollback_def tables_ok_def)
  qed
  then show ?thesis by (simp add: framed_def keeps_tables_def)
qed

lemma in_tx_handovers [table_frames]:
  assumes "framed (keeps tb_handovers) m"
  shows "framed (keeps tb_handovers) (in_tx m)"
proof -
  have "tb_handovers (snd (in_tx m e s)) = tb_handovers s" for e s
  proof -
    obtain r s' where m: "m e (s\<lparr>locks := []\<rparr>) = (r, s')" by fastforce
    from keeps_run [OF assms m] show ?thesis by (cases r) (simp_all add: in_tx_def m rollback_def)
  qed
  then show ?thesis by (simp add: framed_def keeps_def)
qed

lemma untouched_locks [simp]: "framed untouched (get_one_nowait t p)" "framed untouched (lock_row wait t p)"
  by (simp_all add: framed_def untouched_def lock_row_def get_one_nowait_def get_one_locked_def split: option.splits)

lemma untouched_get_all_locked [simp]: "framed untouched (get_all_locked t p key)"
  by (simp add: framed_def untouched_def get_all_locked_def Let_def)

lemma load_parties_tables [simp]:
  "framed keeps_tables (load_parties allowed ids parties)" "framed (keeps tb_handovers) (load_parties allowed ids parties)"
  by (induction allowed ids parties rule: load_parties.induct) (auto intro!: table_frames)

section \<open>The recording operations\<close>

lemma upsert_dispatch_tables [simp]:
  "framed keeps_tables (upsert_dispatch q)" "framed (keeps tb_handovers) (upsert_dispatch q)"
  by (simp_all add: framed_def keeps_tables_def keeps_def tables_ok_def upsert_dispatch_def Let_def)

lemma recording_tables [simp]:
  "framed keeps_tables (notify user text)"
  "framed keeps_tables (record_order_status order from to actor reason)"
  "framed keeps_tables (enqueue_dispatch_request ord)"
  "framed keeps_tables (enqueue_dispatch_after_release rel)"
  "framed keeps_tables (enqueue_operational_document ord asg kind reference actor extra others)"
  unfolding notify_def record_order_status_def enqueue_dispatch_request_def build_dispatch_request_def
    enqueue_dispatch_after_release_def enqueue_operational_document_def assignment_fields_def find_user_def
  by (intro table_frames; simp add: tables_ok_def)+

lemma recording_handovers [simp]:
  "framed (keeps tb_handovers) (notify user text)"
  "framed (keeps tb_handovers) (record_order_status order from to actor reason)"
  "framed (keeps tb_handovers) (enqueue_dispatch_request ord)"
  "framed (keeps tb_handovers) (enqueue_dispatch_after_release rel)"
  "framed (keeps tb_handovers) (enqueue_operational_document ord asg kind reference actor extra others)"
  unfolding notify_def record_order_status_def enqueue_dispatch_request_def build_dispatch_request_def
    enqueue_dispatch_after_release_def enqueue_operational_document_def assignment_fields_def find_user_def
  by (intro table_frames; simp)+
section \<open>Every command\<close>

lemma expire_assignment_by_id_tables [simp]:
  "framed keeps_tables (expire_assignment_by_id candidate wait)" "framed (keeps tb_handovers) (expire_assignment_by_id candidate wait)"
  unfolding expire_assignment_by_id_def expire_assignment_def lock_assignment_context_with_wait_def lock_row_def
  by (intro table_frames; simp)+

lemma expire_stale_assignments_tables [simp]:
  "framed keeps_tables (expire_stale_assignments order driver vehicle)" "framed (keeps tb_handovers) (expire_stale_assignments order driver vehicle)"
  unfolding expire_stale_assignments_def expire_assignments_def
  by (intro table_frames; simp)+

lemma create_order_tables [simp]:
  "framed keeps_tables (create_order req user role)" "framed (keeps tb_handovers) (create_order req user role)"
  unfolding create_order_def warehouse_endpoint_def Let_def
  by (intro table_frames; simp)+

lemma update_draft_order_tables [simp]:
  "framed keeps_tables (update_draft_order i user role ureq)" "framed (keeps tb_handovers) (update_draft_order i user role ureq)"
  unfolding update_draft_order_def update_draft_tx_def Let_def
  by (intro table_frames; simp)+

lemma set_transport_details_tables [simp]:
  "framed keeps_tables (set_transport_details i user role treq)" "framed (keeps tb_handovers) (set_transport_details i user role treq)"
  unfolding set_transport_details_def set_transport_tx_def Let_def
  by (intro table_frames; simp)+

lemma submit_order_tables [simp]:
  "framed keeps_tables (submit_order i user role)" "framed (keeps tb_handovers) (submit_order i user role)"
  unfolding submit_order_def submit_tx_def Let_def
  by (intro table_frames; simp)+

lemma cancel_order_tables [simp]:
  "framed keeps_tables (cancel_order i user role creq)" "framed (keeps tb_handovers) (cancel_order i user role creq)"
  unfolding cancel_order_def cancel_tx_def cancel_checks_def cancel_writes_def release_cancelled_def
    lock_fleet_of_def warehouse_load_exists_def Let_def
  by (intro table_frames; simp)+

lemma create_assignment_tables [simp]:
  "framed keeps_tables (create_assignment order user role areq)" "framed (keeps tb_handovers) (create_assignment order user role areq)"
  unfolding create_assignment_def offer_tx_def replaced_assignment_def lock_offer_fleet_def lock_drivers_def
    lock_vehicles_def check_offer_state_def check_offer_source_def release_previous_def insert_offer_def
    warehouse_load_exists_def validate_assignment_resources_def Let_def
  by (intro table_frames; simp)+

lemma accept_assignment_tables [simp]:
  "framed keeps_tables (accept_assignment i user role)" "framed (keeps tb_handovers) (accept_assignment i user role)"
  unfolding accept_assignment_def accept_tx_def expire_assignment_def lock_assignment_context_def
    lock_assignment_context_with_wait_def lock_row_def validate_assignment_resources_def Let_def
  by (intro table_frames; simp)+

lemma reject_assignment_tables [simp]:
  "framed keeps_tables (reject_assignment i user role jreq)" "framed (keeps tb_handovers) (reject_assignment i user role jreq)"
  unfolding reject_assignment_def reject_tx_def lock_assignment_context_def lock_assignment_context_with_wait_def
    lock_row_def Let_def
  by (intro table_frames; simp)+

lemma start_assignment_tables [simp]:
  "framed keeps_tables (start_assignment i user role)" "framed (keeps tb_handovers) (start_assignment i user role)"
  unfolding start_assignment_def start_tx_def lock_assignment_context_def lock_assignment_context_with_wait_def
    lock_row_def require_no_open_incidents_def require_warehouse_operation_def warehouse_operation_exists_def
    Let_def
  by (intro table_frames; simp)+

lemma arrive_assignment_tables [simp]:
  "framed keeps_tables (arrive_assignment i user role)" "framed (keeps tb_handovers) (arrive_assignment i user role)"
  unfolding arrive_assignment_def arrive_tx_def lock_assignment_context_def lock_assignment_context_with_wait_def
    lock_row_def Let_def
  by (intro table_frames; simp)+

lemma complete_assignment_tables [simp]:
  "framed keeps_tables (complete_assignment i user role dreq)" "framed (keeps tb_handovers) (complete_assignment i user role dreq)"
  unfolding complete_assignment_def complete_tx_def authorize_completion_def completion_receipt_def
    record_delivery_def trip_legs_def lock_assignment_context_def lock_assignment_context_with_wait_def
    lock_row_def require_no_open_incidents_def require_warehouse_operation_def warehouse_operation_exists_def
    Let_def
  by (intro table_frames; simp)+

lemma create_order_incident_tables [simp]:
  "framed keeps_tables (create_order_incident order user role ireq)" "framed (keeps tb_handovers) (create_order_incident order user role ireq)"
  unfolding create_order_incident_def create_incident_tx_def save_incident_def warehouse_managers_def
    assignment_users_def driver_belongs_def Let_def
  by (intro table_frames; simp)+

lemma resolve_order_incident_tables [simp]:
  "framed keeps_tables (resolve_order_incident i user role rreq)" "framed (keeps tb_handovers) (resolve_order_incident i user role rreq)"
  unfolding resolve_order_incident_def resolve_incident_tx_def Let_def
  by (intro table_frames; simp)+

lemma create_warehouse_operation_tables [simp]:
  "framed keeps_tables (create_warehouse_operation order user role wreq)" "framed (keeps tb_handovers) (create_warehouse_operation order user role wreq)"
  unfolding create_warehouse_operation_def warehouse_operation_tx_def operation_assignment_def
    receive_or_return_checks_def vehicle_operation_checks_def lock_undo_fleet_def operation_recipients_def
    undo_warehouse_loading_def record_warehouse_discrepancy_def expected_packages_def save_incident_def
    warehouse_managers_def assignment_users_def warehouse_load_exists_def require_no_open_incidents_def
    require_warehouse_operation_def warehouse_operation_exists_def Let_def
  by (intro table_frames; simp)+

lemma create_delivery_receipt_tables [simp]:
  "framed keeps_tables (create_delivery_receipt order user role qreq)" "framed (keeps tb_handovers) (create_delivery_receipt order user role qreq)"
  unfolding create_delivery_receipt_def delivery_receipt_tx_def receipt_actor_def receipt_state_def
    receipt_expected_def receipt_discrepancy_def save_incident_def warehouse_managers_def assignment_users_def
    driver_belongs_def Let_def
  by (intro table_frames; simp)+

lemma create_counterparty_tables [simp]:
  "framed keeps_tables (create_counterparty user role preq)" "framed (keeps tb_handovers) (create_counterparty user role preq)"
  unfolding create_counterparty_def Let_def
  by (intro table_frames; simp)+

lemma update_counterparty_tables [simp]:
  "framed keeps_tables (update_counterparty i user role preq)" "framed (keeps tb_handovers) (update_counterparty i user role preq)"
  unfolding update_counterparty_def update_counterparty_tx_def Let_def
  by (intro table_frames; simp)+

lemma expire_page_tables [simp]:
  "framed keeps_tables (expire_page candidates cursor)" "framed (keeps tb_handovers) (expire_page candidates cursor)"
  by (induction candidates arbitrary: cursor) (auto intro!: table_frames)

lemma expire_due_tables [simp]:
  "framed keeps_tables (expire_due_assignments_after cursor)" "framed (keeps tb_handovers) (expire_due_assignments_after cursor)"
  unfolding expire_due_assignments_after_def by (intro table_frames; simp)+

text \<open>The handover commands keep the tables too.\<close>

lemma expire_handovers_tables: "tables_ok s \<Longrightarrow> tables_ok (tb_handovers_update (expire_handovers order now) s)"
proof -
  have "one_pending (set (expire_handovers order now hs))" if "one_pending (set hs)" for hs
  proof -
    have "h \<in> set hs" if "h \<in> set (expire_handovers order now hs)" "t_status h = ''pending''" for h
      using that unfolding expire_handovers_def by (auto split: if_splits)
    with that show ?thesis unfolding unique_by_def by blast
  qed
  then show "tables_ok s \<Longrightarrow> ?thesis" by (simp add: tables_ok_def)
qed

lemma exec_tables: "(\<And>s. tables_ok s \<Longrightarrow> tables_ok (f s)) \<Longrightarrow> framed keeps_tables (exec f)"
  by (simp add: framed_def exec_def keeps_tables_def)

lemma lock_handover_fleet_tables [simp]: "framed keeps_tables (lock_handover_fleet old driver vehicle)"
  unfolding lock_handover_fleet_def lock_drivers_def lock_vehicles_def by (intro table_frames; simp)

lemma create_trip_handover_tables [simp]: "framed keeps_tables (create_trip_handover order user role hreq)"
  unfolding create_trip_handover_def create_handover_tx_def authorize_handover_manager_def validate_assignment_resources_def Let_def
  by (intro table_frames exec_tables expire_handovers_tables; simp)

lemma update_trip_handover_tables [simp]: "framed keeps_tables (update_trip_handover i user role action)"
  unfolding update_trip_handover_def update_handover_tx_def handover_actor_def handover_step_def accept_handover_def
    replace_active_def record_handover_def find_user_def authorize_handover_manager_def validate_assignment_resources_def Let_def
  by (intro table_frames; simp)

end
