(* ===== verification/Sample.thy ===== *)
theory Sample
  imports Schema
begin

text \<open>
  A small depot on which the properties are exercised: one warehouse with its manager, a
  customer, two drivers with valid licences, two registered vehicles, and an order with its
  route.  The clock advances one second per reading and uuids are counted from 1000.
\<close>

definition sample_env :: env where
  "sample_env = \<lparr>clock = (\<lambda>n. seconds (1000 + int n)), uuid_source = (\<lambda>n. 1000 + n),
     pricing_conf = \<lparr>base_fee = Fin 500, per_km = Fin 30, per_kg = Fin 2, per_m3 = Fin 100\<rparr>,
     plan_route = (\<lambda>a b. Inr \<lparr>es_coordinates = [], es_distance_km = Fin 10, es_duration_sec = 600\<rparr>),
     parse_mail = Some, pg_numeric = (\<lambda>p q x. x), pg_fits = (\<lambda>p q x. True), busy = (\<lambda>l. False)\<rparr>"

definition sample_user :: "uuid \<Rightarrow> string \<Rightarrow> string \<Rightarrow> user" where
  "sample_user i name role = \<lparr>u_id = i, u_email = name, u_slug = name, u_password_hash = [], u_full_name = name,
     u_avatar_url = [], u_role = role, u_created_at = 0, u_updated_at = 0, u_last_login_at = None\<rparr>"

definition sample_driver :: "uuid \<Rightarrow> uuid \<Rightarrow> string \<Rightarrow> driver" where
  "sample_driver i user name = \<lparr>d_id = i, d_user_id = user, d_vehicle_id = None, d_license_number = name,
     d_license_expiry = hours 1000, d_rating = Fin 5, d_slug = name, d_status = ''available''\<rparr>"

definition sample_vehicle :: "uuid \<Rightarrow> string \<Rightarrow> vehicle" where
  "sample_vehicle i plate = \<lparr>v_id = i, v_plate_number = plate, v_brand = None, v_model = None, v_year = None,
     v_capacity_kg = Fin 1000, v_capacity_m3 = Fin 20, v_status = ''available'', v_slug = plate\<rparr>"

definition sample_registration :: "uuid \<Rightarrow> uuid \<Rightarrow> vehicle_document" where
  "sample_registration i veh = \<lparr>vd_id = i, vd_vehicle_id = veh, vd_type = ''registration'', vd_number = ''r'',
     vd_valid_until = hours 1000, vd_status = ''valid'', vd_created_at = 0\<rparr>"

definition sample_order :: "uuid \<Rightarrow> order_status \<Rightarrow> order" where
  "sample_order i st = \<lparr>o_policy_version = 0, o_details = NoDetails, o_dest_warehouse = None, o_id = i,
     o_created_by = Some 1, o_driver_id = (if st \<in> {OrderAssigned, OrderInTransit, OrderArrived} then Some 20 else None),
     o_manager_id = None, o_origin_warehouse = None, o_origin_address = ''A'', o_dest_address = ''B'',
     o_cargo = ''c'', o_weight_kg = Fin 100, o_volume_m3 = Fin 1, o_status = st, o_total_price = Some (Fin 900),
     o_pickup_from = Some (hours 10), o_pickup_to = Some (hours 20), o_created_at = 0,
     o_submitted_at = (if st = OrderDraft then None else Some 0), o_assigned_at = None, o_started_at = None,
     o_arrived_at = (if st = OrderArrived then Some 0 else None),
     o_delivered_at = None, o_cancelled_at = None\<rparr>"

definition sample_route :: "uuid \<Rightarrow> uuid \<Rightarrow> route" where
  "sample_route i order = \<lparr>ro_id = i, ro_order_id = order, ro_driver_id = None, ro_coordinates = CoordsJson [],
     ro_current_index = 0, ro_started_at = None, ro_finished_at = None, ro_distance_km = Some (Fin 10),
     ro_duration_sec = Some 600, ro_status = ''pending''\<rparr>"

definition sample_assignment :: "uuid \<Rightarrow> uuid \<Rightarrow> assignment_status \<Rightarrow> time \<Rightarrow> assignment" where
  "sample_assignment i order st expires = \<lparr>a_id = i, a_order_id = order, a_driver_id = 20, a_vehicle_id = 30, a_status = st,
     a_planned_from = hours 10, a_planned_to = hours 12, a_created_by = 2, a_source = ''manual'',
     a_recommendation_id = None, a_recommendation_at = None, a_assigned_at = 0, a_offer_expires_at = expires,
     a_accepted_at = (if st = AssignmentPendingAcceptance then None else Some 0), a_rejected_at = None,
     a_released_at = None, a_started_at = (if st = AssignmentActive then Some 0 else None), a_completed_at = None,
     a_recipient_name = None, a_delivery_comment = None, a_rejection_code = None, a_rejection_comment = None,
     a_release_code = None\<rparr>"

text \<open>The recorded path of an order to its status.\<close>

definition sample_path :: "order_status \<Rightarrow> (order_status \<times> order_status) list" where
  "sample_path st = take (order_rank st)
     [(OrderDraft, OrderReadyForDispatch), (OrderReadyForDispatch, OrderAssigned), (OrderAssigned, OrderInTransit),
      (OrderInTransit, OrderArrived)]"

definition sample_history :: "uuid \<Rightarrow> order_status \<Rightarrow> status_history list" where
  "sample_history order st = map (\<lambda>(n, (from, to)). \<lparr>h_id = n, h_order_id = order, h_from = Some from, h_to = to,
     h_actor = None, h_reason = None, h_created_at = 0\<rparr>) (List.enumerate 500 (sample_path st))"

text \<open>The depot with the order 40 in status \<open>st\<close> and at most one assignment 50 of it.\<close>

definition sample_db :: "order_status \<Rightarrow> assignment list \<Rightarrow> db" where
  "sample_db st as = \<lparr>tb_users = [sample_user 1 ''client'' ''client'', sample_user 2 ''admin'' ''admin'',
       sample_user 3 ''manager'' ''manager'', sample_user 4 ''driver'' ''driver'', sample_user 5 ''driver2'' ''driver''],
     tb_drivers = [sample_driver 20 4 ''d1'', sample_driver 21 5 ''d2''], tb_driver_documents = [], tb_driver_shifts = [],
     tb_vehicles = [sample_vehicle 30 ''v1'', sample_vehicle 31 ''v2''],
     tb_vehicle_documents = [sample_registration 60 30, sample_registration 61 31],
     tb_warehouses = [\<lparr>w_id = 10, w_slug = ''w'', w_name = ''w'', w_address = ''W'', w_city = ''c'',
       w_latitude = Some (Fin 1), w_longitude = Some (Fin 2), w_status = ''active'', w_created_at = 0\<rparr>],
     tb_managers = [\<lparr>m_id = 11, m_user_id = 3, m_warehouse_id = Some 10, m_slug = ''m''\<rparr>],
     tb_counterparties = [], tb_orders = [sample_order 40 st], tb_routes = [sample_route 41 40],
     tb_assignments = as, tb_history = sample_history 40 st, tb_handovers = [], tb_operations = [],
     tb_incidents = [], tb_receipts = [], tb_notifications = [], tb_outbox = [], tb_inbox = [],
     tb_recommendations = [], tb_release_queue = [], ticks = 0, issued = 0, locks = []\<rparr>"

text \<open>The depot with an offer that can still be accepted, and with one that has expired.\<close>

definition offered_db :: db where
  "offered_db = sample_db OrderReadyForDispatch
     [sample_assignment 50 40 AssignmentPendingAcceptance (hours 1)]"

definition stale_db :: db where
  "stale_db = sample_db OrderReadyForDispatch
     [sample_assignment 50 40 AssignmentPendingAcceptance (seconds 900)]"

definition assigned_db :: db where
  "assigned_db = sample_db OrderAssigned [sample_assignment 50 40 AssignmentAccepted (hours 1)]"

definition moving_db :: db where
  "moving_db = sample_db OrderInTransit [sample_assignment 50 40 AssignmentActive (hours 1)]"

definition arrived_db :: db where
  "arrived_db = sample_db OrderArrived [sample_assignment 50 40 AssignmentActive (hours 1)]"

end
