(* ===== verification/System.thy ===== *)
theory System
  imports Offering Constraints Sample
begin

text \<open>
  The commands together: every command of the services, in any order and with any arguments,
  keeps the database consistent and moves each order along the lifecycle machine.
\<close>

section \<open>Every command refines the machine\<close>

lemma attempt_refines: "framed refines m \<Longrightarrow> framed refines (attempt m)"
  unfolding framed_def attempt_def by (auto split: prod.splits) (metis snd_conv)

lemma lists_refine [simp]:
  "framed refines (get_order i user role)"
  "framed refines (manager_check role user ok)"
  "framed refines (get_all t p)" "framed refines (query f)" "framed refines time_now" "framed refines (ask g)"
  by (rule untouched_refines; simp)+

lemma expire_stale_assignments_refines [simp]: "framed refines (expire_stale_assignments order driver vehicle)"
  unfolding expire_stale_assignments_def expire_assignments_def
  by (intro ref.framed_rules; simp)

lemma expire_page_refines [simp]: "framed refines (expire_page candidates cursor)"
  by (induction candidates arbitrary: cursor)
     (auto intro!: ref.framed_rules attempt_refines split: prod.splits)

lemma expire_due_assignments_refines [simp]:
  "framed refines (expire_due_assignments_after cursor)" "framed refines expire_due_assignments"
  unfolding expire_due_assignments_def expire_due_assignments_after_def
  by (auto intro!: ref.framed_rules split: prod.splits)

lemma create_assignment_refines [simp]: "framed refines (create_assignment order user role req)"
  unfolding create_assignment_def
  by (intro ref.framed_rules framed_in_tx; (erule offer_tx_refines)?; simp)

lemma submit_order_refines [simp]: "framed refines (submit_order i user role)"
  unfolding submit_order_def by (intro framed_in_tx) (erule submit_tx_refines)

lemma cancel_order_refines [simp]: "framed refines (cancel_order i user role creq)"
  unfolding cancel_order_def by (intro ref.framed_rules framed_in_tx) (erule cancel_tx_refines)

lemma accept_assignment_refines [simp]: "framed refines (accept_assignment i user role)"
  unfolding accept_assignment_def by (intro ref.framed_rules framed_in_tx) (erule accept_tx_refines)

lemma reject_assignment_refines [simp]: "framed refines (reject_assignment i user role jreq)"
  unfolding reject_assignment_def by (intro ref.framed_rules framed_in_tx) (erule reject_tx_refines)

lemma start_assignment_refines [simp]: "framed refines (start_assignment i user role)"
  unfolding start_assignment_def by (intro ref.framed_rules framed_in_tx) (erule start_tx_refines)

lemma arrive_assignment_refines [simp]: "framed refines (arrive_assignment i user role)"
  unfolding arrive_assignment_def by (intro ref.framed_rules framed_in_tx) (erule arrive_tx_refines)

lemma complete_assignment_refines [simp]: "framed refines (complete_assignment i user role dreq)"
  unfolding complete_assignment_def by (intro ref.framed_rules framed_in_tx) (erule complete_tx_refines)

lemma apply_draft_update_fields [simp]:
  "o_id (apply_draft_update req x) = o_id x" "o_status (apply_draft_update req x) = o_status x"
  by (simp_all add: apply_draft_update_def)

lemma update_draft_tx_refines:
  assumes "update_draft_tx i user role req e s = (Inr r, s')"
  shows "refines e s s'"
  using assms
proof (rule update_draft_tx_run)
  fix old rt
  assume old: "find (\<lambda>x. o_id x = i) (tb_orders s) = Some old" and draft: "o_status old = OrderDraft"
    and r: "r = (apply_draft_update req old)\<lparr>o_total_price := Some (order_price (pricing_conf e)
           (the (ro_distance_km rt)) (o_weight_kg r) (o_volume_m3 r))\<rparr>"
    and s': "tb_orders s' = overwrite (\<lambda>x. o_id x = i) (order_row e r) (tb_orders s)"
      "tb_assignments s' = tb_assignments s" "tb_history s' = tb_history s"
  from find_Some_mem [OF old] have x: "old \<in> set (tb_orders s)" and id: "o_id old = i" by simp_all
  have row: "o_id r = i" "o_status r = OrderDraft" by (subst r, simp add: id draft)+
  show ?thesis
  proof (rule order_change_refines [where x = old and x' = "order_row e r" and hs = "[]"])
    fix oa assume "coherent old oa"
    then have "oa = None" using draft by (rule coherent_draft)
    then show "coherent (order_row e r) oa \<and>
       lifecycle\<^sup>*\<^sup>* (o_status old, map_option a_status oa) (o_status (order_row e r), map_option a_status oa)"
      using row draft by simp
  qed (simp_all add: x id row draft s' transitions_def)
qed

lemma update_draft_order_refines [simp]: "framed refines (update_draft_order i user role ureq)"
  unfolding update_draft_order_def by (intro ref.framed_rules framed_in_tx) (erule update_draft_tx_refines)

section \<open>Sequences of commands\<close>

datatype command =
    CreateOrder order_create uuid string
  | UpdateDraftOrder uuid uuid string order_draft_update
  | SetTransportDetails uuid uuid string transport_details_write
  | SubmitOrder uuid uuid string
  | CancelOrder uuid uuid string order_cancel
  | CreateAssignment uuid uuid string assignment_create
  | AcceptAssignment uuid uuid string
  | RejectAssignment uuid uuid string assignment_reject
  | StartAssignment uuid uuid string
  | ArriveAssignment uuid uuid string
  | CompleteAssignment uuid uuid string delivery_complete
  | ExpireDueAssignments expiry_cursor
  | CreateCounterparty uuid string counterparty_write
  | UpdateCounterparty uuid uuid string counterparty_write
  | CreateOrderIncident uuid uuid string order_incident_create
  | ResolveOrderIncident uuid uuid string order_incident_resolve
  | CreateWarehouseOperation uuid uuid string warehouse_operation_create
  | CreateDeliveryReceipt uuid uuid string delivery_receipt_create
  | CreateTripHandover uuid uuid string trip_handover_create
  | UpdateTripHandover uuid uuid string string

text \<open>The database after a command, whether it succeeded or failed.\<close>

definition after :: "'a op \<Rightarrow> env \<Rightarrow> db \<Rightarrow> db" where
  "after m e s = snd (m e s)"

fun run_command :: "command \<Rightarrow> env \<Rightarrow> db \<Rightarrow> db" where
  "run_command (CreateOrder req user role) = after (create_order req user role)"
| "run_command (UpdateDraftOrder i user role req) = after (update_draft_order i user role req)"
| "run_command (SetTransportDetails i user role req) = after (set_transport_details i user role req)"
| "run_command (SubmitOrder i user role) = after (submit_order i user role)"
| "run_command (CancelOrder i user role req) = after (cancel_order i user role req)"
| "run_command (CreateAssignment i user role req) = after (create_assignment i user role req)"
| "run_command (AcceptAssignment i user role) = after (accept_assignment i user role)"
| "run_command (RejectAssignment i user role req) = after (reject_assignment i user role req)"
| "run_command (StartAssignment i user role) = after (start_assignment i user role)"
| "run_command (ArriveAssignment i user role) = after (arrive_assignment i user role)"
| "run_command (CompleteAssignment i user role req) = after (complete_assignment i user role req)"
| "run_command (ExpireDueAssignments cursor) = after (expire_due_assignments_after cursor)"
| "run_command (CreateCounterparty user role req) = after (create_counterparty user role req)"
| "run_command (UpdateCounterparty i user role req) = after (update_counterparty i user role req)"
| "run_command (CreateOrderIncident i user role req) = after (create_order_incident i user role req)"
| "run_command (ResolveOrderIncident i user role req) = after (resolve_order_incident i user role req)"
| "run_command (CreateWarehouseOperation i user role req) = after (create_warehouse_operation i user role req)"
| "run_command (CreateDeliveryReceipt i user role req) = after (create_delivery_receipt i user role req)"
| "run_command (CreateTripHandover i user role req) = after (create_trip_handover i user role req)"
| "run_command (UpdateTripHandover i user role action) = after (update_trip_handover i user role action)"

definition run_all :: "command list \<Rightarrow> env \<Rightarrow> db \<Rightarrow> db" where
  "run_all cs e s = fold (\<lambda>c. run_command c e) cs s"

lemma after_framed: "framed R m \<Longrightarrow> R e s (after m e s)"
  by (simp add: framed_def after_def)

lemma counterparties_core [simp]:
  "framed keeps_core (create_counterparty user role req)" "framed keeps_core (update_counterparty i user role req)"
  unfolding create_counterparty_def update_counterparty_def update_counterparty_tx_def Let_def
  by (intro core_frames; simp)+

lemma run_command_sound: "keeps_sound e s (run_command c e s)"
  by (cases c) (simp_all add: after_framed sound_of_refines core_refines create_order_incident_core
      resolve_order_incident_core create_delivery_receipt_core)

lemma run_command_tables: "keeps_tables e s (run_command c e s)"
  by (cases c) (simp_all add: after_framed)

text \<open>A preorder that every command respects holds of every sequence.\<close>

lemma run_all_frame:
  assumes "preorder_frame R" and "\<And>c s. R e s (run_command c e s)"
  shows "R e s (run_all cs e s)"
  unfolding run_all_def
proof (induction cs arbitrary: s)
  case Nil
  show ?case using preorder_frame.frame_refl [OF assms(1)] by simp
next
  case (Cons c cs)
  show ?case using preorder_frame.frame_trans [OF assms(1) assms(2) Cons.IH] by simp
qed

lemma run_all_sound: "keeps_sound e s (run_all cs e s)"
  by (rule run_all_frame) (unfold_locales, auto intro: so.frame_refl so.frame_trans run_command_sound)

lemma run_all_tables: "keeps_tables e s (run_all cs e s)"
  by (rule run_all_frame) (unfold_locales, auto intro: tbl.frame_refl tbl.frame_trans run_command_tables)

lemma run_all_moves: "sound s \<Longrightarrow> moves (phase_of s i) (phase_of (run_all cs e s) i)"
  using run_all_sound unfolding keeps_sound_def by blast

text \<open>A database without orders, assignments, history and handovers.\<close>

definition no_trade :: "db \<Rightarrow> bool" where
  "no_trade s \<longleftrightarrow> tb_orders s = [] \<and> tb_assignments s = [] \<and> tb_history s = [] \<and>
     tb_handovers s = []"

lemma no_trade_sound: "no_trade s \<Longrightarrow> sound s"
  by (simp add: no_trade_def sound_def handovers_ok_def consistent_def bookings_ok_def)

section \<open>What holds after any sequence of commands\<close>

text \<open>C1: Whatever commands run, in any order, by anybody and with any outcome, a consistent database
  stays consistent: ids are unique, every order has at most one open assignment and its status fits that
  assignment, every handover belongs to the order of the assignment it replaces, and the recorded history
  of every order replays to its status.\<close>

theorem consistent_always: "sound s \<Longrightarrow> sound (run_all cs e s)"
  using run_all_sound unfolding keeps_sound_def by blast

lemma consistent_always_witness:
  "sound (run_all [AcceptAssignment 50 4 ''driver'', StartAssignment 50 4 ''driver'',
     ArriveAssignment 50 4 ''driver'', CancelOrder 40 2 ''admin'' \<lparr>oc_comment = None, oc_reason_code = None\<rparr>,
     CompleteAssignment 50 4 ''driver'' \<lparr>dl_comment = None, dl_recipient_name = None\<rparr>] sample_env offered_db)"
  by (rule consistent_always) code_simp

text \<open>C2: Starting from a database without orders, every order is always in one of the nine phases of the
  lifecycle machine: no command sequence produces another pair of order status and open assignment.\<close>

theorem phase_always: "no_trade s \<Longrightarrow> phase_of (run_all cs e s) i = Some p \<Longrightarrow> p \<in> set phases"
proof -
  assume s: "no_trade s" and p: "phase_of (run_all cs e s) i = Some p"
  have "phase_of s i = None" using s by (simp add: no_trade_def phase_of_def order_of_def)
  with run_all_moves [OF no_trade_sound [OF s], of i cs e] p show ?thesis
    by (simp add: moves_def reachable_phases)
qed

definition sample_order_create :: order_create where
  "sample_order_create = \<lparr>ow_cargo = None, ow_dest_address = ''B'', ow_dest_warehouse = None,
     ow_origin_address = Some ''A'', ow_origin_warehouse = None, ow_pickup_from = None, ow_pickup_to = None,
     ow_volume_m3 = Some (Fin 1), ow_weight_kg = Some (Fin 3)\<rparr>"

definition empty_db :: db where
  "empty_db = (sample_db OrderDraft [])\<lparr>tb_orders := [], tb_routes := [], tb_history := []\<rparr>"

lemma phase_always_witness:
  "phase_of (run_all [CreateOrder sample_order_create 1 ''client'', SubmitOrder 1000 1 ''client''] sample_env empty_db) 1000 =
     Some (OrderDraft, None) \<and> (OrderDraft, None) \<in> set phases"
proof -
  have "no_trade empty_db" by code_simp
  moreover have "phase_of (run_all [CreateOrder sample_order_create 1 ''client'', SubmitOrder 1000 1 ''client'']
     sample_env empty_db) 1000 = Some (OrderDraft, None)" by code_simp
  ultimately show ?thesis using phase_always by blast
qed

text \<open>C3: A completed or cancelled order never changes its phase again.\<close>

theorem finished_forever:
  assumes "sound s" and "phase_of s i = Some p" and "terminal (fst p)"
  shows "phase_of (run_all cs e s) i = Some p"
proof -
  have "moves (Some p) (phase_of (run_all cs e s) i)" using run_all_moves [OF assms(1)] assms(2) by metis
  then show ?thesis using lifecycle_terminal assms(3) by (auto simp: moves_def split: option.splits)
qed

lemma finished_forever_witness:
  "phase_of (run_all [SubmitOrder 40 1 ''client'', UpdateDraftOrder 40 1 ''client'' \<lparr>ou_cargo = Some ''x'',
     ou_pickup_from = None, ou_pickup_to = None, ou_volume_m3 = None, ou_weight_kg = None\<rparr>] sample_env
     (run_all [CancelOrder 40 1 ''client'' \<lparr>oc_comment = None, oc_reason_code = None\<rparr>] sample_env offered_db)) 40 =
   Some (OrderCancelled, None)"
  by (rule finished_forever) code_simp+



text \<open>C5: Each command, whatever its outcome, takes every order along the lifecycle machine: its phase
  before and after are connected by steps of the machine, and no order disappears.\<close>

theorem command_refines_lifecycle:
  assumes "sound s" and "phase_of s i = Some p"
  shows "\<exists>q. phase_of (run_command c e s) i = Some q \<and> lifecycle\<^sup>*\<^sup>* p q"
proof -
  have "moves (phase_of s i) (phase_of (run_command c e s) i)"
    using run_command_sound assms(1) unfolding keeps_sound_def by blast
  then show ?thesis using assms(2) by (auto simp: moves_def split: option.splits)
qed

lemma command_refines_lifecycle_witness:
  "\<exists>q. phase_of (run_command (AcceptAssignment 50 4 ''driver'') sample_env offered_db) 40 = Some q \<and>
     lifecycle\<^sup>*\<^sup>* (OrderReadyForDispatch, Some AssignmentPendingAcceptance) q"
  by (rule command_refines_lifecycle) code_simp+



text \<open>Nothing that was recorded is lost: the status history only grows, and an assignment is never
  deleted and never moves to another order.\<close>

theorem records_persist:
  assumes "sound s"
  shows "(\<exists>hs. tb_history (run_all cs e s) = tb_history s @ hs) \<and>
    (\<lambda>a. (a_id a, a_order_id a)) ` set (tb_assignments s) \<subseteq> (\<lambda>a. (a_id a, a_order_id a)) ` set (tb_assignments (run_all cs e s))"
proof -
  have g: "grows s (run_all cs e s)"
    using run_all_sound [of e s cs] assms unfolding keeps_sound_def by blast
  then have "\<exists>hs. tb_history (run_all cs e s) = tb_history s @ hs" by (simp add: grows_def)
  moreover from g have "(a_id a, a_order_id a) \<in> (\<lambda>a. (a_id a, a_order_id a)) ` set (tb_assignments (run_all cs e s))"
    if "a \<in> set (tb_assignments s)" for a
    using that unfolding grows_def persists_def by (metis (mono_tags, lifting) image_iff)
  ultimately show ?thesis by blast
qed

lemma records_persist_witness:
  "(\<exists>hs. tb_history (run_all [AcceptAssignment 50 4 ''driver'', StartAssignment 50 4 ''driver''] sample_env offered_db) =
      tb_history offered_db @ hs) \<and>
   (\<lambda>a. (a_id a, a_order_id a)) ` set (tb_assignments offered_db) \<subseteq> (\<lambda>a. (a_id a, a_order_id a)) `
      set (tb_assignments (run_all [AcceptAssignment 50 4 ''driver'', StartAssignment 50 4 ''driver''] sample_env offered_db))"
  by (rule records_persist) code_simp

text \<open>C7: No double booking: whatever commands run, two open assignments that share a driver or a vehicle
  never overlap in time.\<close>

theorem no_double_booking:
  assumes "tables_ok s" and "a \<in> set (tb_assignments (run_all cs e s))" and "b \<in> set (tb_assignments (run_all cs e s))"
    and "open_status (a_status a)" and "open_status (a_status b)" and "a_id a \<noteq> a_id b"
    and "a_driver_id a = a_driver_id b \<or> a_vehicle_id a = a_vehicle_id b"
  shows "\<not> windows_overlap a b"
  using run_all_tables [of e s cs] assms unfolding keeps_tables_def tables_ok_def no_overlap_def by blast

text \<open>Two orders for the same driver, one booked from 10:00 to 12:00, one offered from 12:00 to 14:00.\<close>

definition booked_db :: db where
  "booked_db = assigned_db\<lparr>tb_orders := [sample_order 40 OrderAssigned, sample_order 42 OrderReadyForDispatch],
     tb_assignments := [sample_assignment 50 40 AssignmentAccepted (hours 1),
       (sample_assignment 51 42 AssignmentPendingAcceptance (hours 1))\<lparr>a_planned_from := hours 12, a_planned_to := hours 14\<rparr>]\<rparr>"

lemma no_double_booking_witness:
  "\<not> windows_overlap (tb_assignments (run_all [AcceptAssignment 51 4 ''driver''] sample_env booked_db) ! 0)
      (tb_assignments (run_all [AcceptAssignment 51 4 ''driver''] sample_env booked_db) ! 1)"
proof -
  let ?as = "tb_assignments (run_all [AcceptAssignment 51 4 ''driver''] sample_env booked_db)"
  have "tables_ok booked_db" by (simp add: tables_ok_def no_overlap_def unique_by_def booked_db_def assigned_db_def sample_db_def
      sample_assignment_def windows_overlap_def hours_def)
  moreover have "?as ! 0 \<in> set ?as \<and> ?as ! 1 \<in> set ?as" by (rule conjI; rule nth_mem; code_simp)
  moreover have "open_status (a_status (?as ! 0)) \<and> open_status (a_status (?as ! 1)) \<and> a_id (?as ! 0) \<noteq> a_id (?as ! 1) \<and>
      a_driver_id (?as ! 0) = a_driver_id (?as ! 1)" by code_simp
  ultimately show ?thesis using no_double_booking by blast
qed

end
