(* ===== verification/Trip_Guarantees.thy ===== *)
theory Trip_Guarantees
  imports Offering Sample
begin

text \<open>
  What the commands of a trip guarantee: when a client's, manager's or driver's call can succeed,
  and exactly which rows it then changes.  The statements are about the whole calls of
  internal/services/assignment.go, role check and transaction included.
\<close>

section \<open>Calls and their transactions\<close>

text \<open>A call that checks the role and then runs one transaction.\<close>

lemma checked_tx_run:
  assumes "seq (fail_if refused forbidden) (in_tx m) e s = (Inr r, s')"
  shows "\<not> refused" and "m e (s\<lparr>locks := []\<rparr>) = (Inr r, s')"
  using assms by (elim seq_ok fail_if_ok in_tx_run; simp)+

lemma tables_core [simp]:
  "manages (s\<lparr>locks := l\<rparr>) = manages s"
  "release_queued (s\<lparr>locks := l\<rparr>) = release_queued s"
  "rewrote e (s\<lparr>locks := l\<rparr>) s' = rewrote e s s'"
  "closed e (s\<lparr>locks := l\<rparr>) s' = closed e s s'"
  by (simp_all add: manages_def release_queued_def rewrote_def closed_def fun_eq_iff)

lemma succeeds:
  assumes "\<not> isl (fst (m e s))"
  obtains r s' where "m e s = (Inr r, s')"
  using assms by (cases "m e s") (auto simp: isl_def split: sum.splits; metis sumE)

section \<open>Accepting an offer\<close>

text \<open>C15: A driver accepts only his own offer, only while it is pending and unexpired, only for an order in
  dispatch, and only if he and the vehicle are eligible at that moment.  Then, in one step, the assignment
  is accepted, the order is assigned to that driver and one history entry is written; every other order
  and assignment is left alone.\<close>

theorem accept_assignment_effect:
  assumes "accept_assignment i user role e s = (Inr r, s')"
  shows "role = ''driver'' \<and> (\<exists>ord a drv veh now h. context_of s i ord a drv veh \<and> d_user_id drv = user \<and>
     a_status a = AssignmentPendingAcceptance \<and> now = clock e (ticks s) \<and> now < a_offer_expires_at a \<and>
     o_status ord = OrderReadyForDispatch \<and> eligible s ord drv veh (a_planned_from a) (a_planned_to a) \<and>
     r = a\<lparr>a_status := AssignmentAccepted, a_accepted_at := Some now\<rparr> \<and>
     rewrote e s s' ord (ord\<lparr>o_status := OrderAssigned, o_driver_id := Some (a_driver_id a), o_assigned_at := Some now\<rparr>)
       a r [h] \<and>
     history_entry (o_id ord) OrderReadyForDispatch OrderAssigned user None h)"
proof -
  from assms have role: "role = ''driver''" and tx: "accept_tx i user e (s\<lparr>locks := []\<rparr>) = (Inr (Inr r), s')"
    unfolding accept_assignment_def by (elim seq_ok bind_ok fail_if_ok in_tx_run lift_sum_ok; simp)+
  from tx show ?thesis
  proof (cases rule: accept_tx_run)
    case (accepted ord a drv veh now h)
    then show ?thesis using role
      by (intro conjI exI [of _ ord] exI [of _ a] exI [of _ drv] exI [of _ veh] exI [of _ now] exI [of _ h])
         (simp_all add: context_of_core)
  qed simp
qed

lemma accept_assignment_effect_witness:
  "\<exists>ord a drv veh. context_of offered_db 50 ord a drv veh \<and> d_user_id drv = 4 \<and> o_status ord = OrderReadyForDispatch \<and>
     eligible offered_db ord drv veh (a_planned_from a) (a_planned_to a)"
proof -
  have "\<not> isl (fst (accept_assignment 50 4 ''driver'' sample_env offered_db))" by code_simp
  then obtain r s' where "accept_assignment 50 4 ''driver'' sample_env offered_db = (Inr r, s')" by (rule succeeds)
  from accept_assignment_effect [OF this] show ?thesis by blast
qed

section \<open>Rejecting an offer\<close>

text \<open>A rejected offer is closed with the driver's reason and queued for dispatch again; neither the order
  nor its history changes, so the order stays in dispatch.\<close>

theorem reject_assignment_effect:
  assumes "reject_assignment i user role req e s = (Inr r, s')"
  shows "role = ''driver'' \<and> (\<exists>ord a drv veh. context_of s i ord a drv veh \<and> d_user_id drv = user \<and>
     a_status a = AssignmentPendingAcceptance \<and>
     r = a\<lparr>a_status := AssignmentRejected, a_rejected_at := Some (clock e (ticks s)),
           a_rejection_code := Some (rj_reason_code req), a_rejection_comment := rj_comment req\<rparr> \<and>
     closed e s s' a r)"
proof -
  note run = checked_tx_run [OF assms [unfolded reject_assignment_def]]
  from run(2) show ?thesis
  proof (cases rule: reject_tx_run)
    case (1 ord a drv veh now)
    then show ?thesis using run(1)
      by (intro conjI exI [of _ ord] exI [of _ a] exI [of _ drv] exI [of _ veh]) (simp_all add: context_of_core)
  qed
qed

lemma reject_assignment_effect_witness:
  "\<exists>s' r ord a drv veh. context_of offered_db 50 ord a drv veh \<and> closed sample_env offered_db s' a r"
proof -
  let ?call = "reject_assignment 50 4 ''driver'' \<lparr>rj_comment = None, rj_reason_code = ''busy''\<rparr>"
  have "\<not> isl (fst (?call sample_env offered_db))" by code_simp
  then obtain r s' where "?call sample_env offered_db = (Inr r, s')" by (rule succeeds)
  from reject_assignment_effect [OF this] show ?thesis by blast
qed

section \<open>Starting and completing the trip\<close>

text \<open>C16: A trip starts only from an accepted assignment of the caller under an assigned order, with no open
  incident, and, when the cargo comes from a warehouse, only after the warehouse has confirmed the loading
  of this very assignment.\<close>

theorem start_assignment_effect:
  assumes "start_assignment i user role e s = (Inr r, s')"
  shows "role = ''driver'' \<and> (\<exists>ord a drv veh now h. context_of s i ord a drv veh \<and> d_user_id drv = user \<and>
     a_status a = AssignmentAccepted \<and> o_status ord = OrderAssigned \<and> no_open_incident s (o_id ord) \<and>
     (o_origin_warehouse ord = None \<or> operation_recorded s (o_id ord) ''load'' (Some i)) \<and>
     r = a\<lparr>a_status := AssignmentActive, a_started_at := Some now\<rparr> \<and>
     rewrote e s s' ord (ord\<lparr>o_status := OrderInTransit, o_started_at := Some now\<rparr>) a r [h] \<and>
     history_entry (o_id ord) OrderAssigned OrderInTransit user None h)"
proof -
  note run = checked_tx_run [OF assms [unfolded start_assignment_def]]
  from run(2) show ?thesis
  proof (cases rule: start_tx_run)
    case (1 ord a drv veh now h)
    have "o_origin_warehouse ord = None \<or> operation_recorded s (o_id ord) ''load'' (Some i)"
      using 1(7) by (cases "o_origin_warehouse ord = None") simp_all
    then show ?thesis using 1 run(1)
      by (intro conjI exI [of _ ord] exI [of _ a] exI [of _ drv] exI [of _ veh] exI [of _ now] exI [of _ h])
         (simp_all add: context_of_core)
  qed
qed

lemma start_assignment_effect_witness:
  "\<exists>ord a drv veh. context_of assigned_db 50 ord a drv veh \<and> d_user_id drv = 4 \<and> o_status ord = OrderAssigned \<and>
     no_open_incident assigned_db (o_id ord)"
proof -
  have "\<not> isl (fst (start_assignment 50 4 ''driver'' sample_env assigned_db))" by code_simp
  then obtain r s' where "start_assignment 50 4 ''driver'' sample_env assigned_db = (Inr r, s')" by (rule succeeds)
  from start_assignment_effect [OF this] show ?thesis by blast
qed

text \<open>C17: A delivery is completed only by its driver, by the manager who answers for it or by an
  administrator, only after the arrival and with no open incident.  Into a warehouse it is completed by the
  warehouse's side and after the unloading of this assignment was confirmed; under the current policy
  only with a delivery receipt, whose recipient becomes the recipient of the delivery.\<close>

theorem complete_assignment_effect:
  assumes "complete_assignment i user role req e s = (Inr r, s')"
  shows "\<exists>ord a drv veh now h. context_of s i ord a drv veh \<and>
     (role = ''driver'' \<and> d_user_id drv = user \<and> o_dest_warehouse ord = None \<or>
      role = ''manager'' \<and> (\<exists>w. manages s user w \<and> responsible_warehouse ord = Some w) \<or> role = ''admin'') \<and>
     a_status a = AssignmentActive \<and> o_status ord = OrderArrived \<and> no_open_incident s (o_id ord) \<and>
     (o_dest_warehouse ord = None \<or> operation_recorded s (o_id ord) ''unload'' (Some i)) \<and>
     (case find (\<lambda>x. r_order_id x = o_id ord) (tb_receipts s) of
        None \<Rightarrow> o_policy_version ord \<noteq> 1
      | Some x \<Rightarrow> r_assignment_id x = i \<and> a_recipient_name r = Some (r_recipient_name x)) \<and>
     rewrote e s s' ord (ord\<lparr>o_status := OrderCompleted, o_delivered_at := Some now\<rparr>) a r [h] \<and>
     a_status r = AssignmentCompleted \<and> history_entry (o_id ord) OrderArrived OrderCompleted user None h \<and>
     release_queued s' i"
proof -
  note run = checked_tx_run [OF assms [unfolded complete_assignment_def]]
  from run(2) show ?thesis
  proof (cases rule: complete_tx_run)
    case (1 ord a drv veh receipt req' now h)
    have rec: "receipt = find (\<lambda>x. r_order_id x = o_id ord) (tb_receipts s)" using 1(9) by simp
    have "case receipt of None \<Rightarrow> o_policy_version ord \<noteq> 1
      | Some x \<Rightarrow> r_assignment_id x = i \<and> a_recipient_name r = Some (r_recipient_name x)"
      using 1(2,10,12) by (cases receipt) simp_all
    note receipt = this [unfolded rec]
    have unload: "o_dest_warehouse ord = None \<or> operation_recorded s (o_id ord) ''unload'' (Some i)"
      using 1(8) by (cases "o_dest_warehouse ord = None") simp_all
    have who: "role = ''driver'' \<and> d_user_id drv = user \<and> o_dest_warehouse ord = None \<or>
      role = ''manager'' \<and> (\<exists>w. manages s user w \<and> responsible_warehouse ord = Some w) \<or> role = ''admin''"
      using run(1) 1(3,4,8) by (cases "role = ''driver''"; cases "role = ''manager''") simp_all
    have rest: "context_of s i ord a drv veh" "a_status a = AssignmentActive" "o_status ord = OrderArrived"
      "no_open_incident s (o_id ord)" "a_status r = AssignmentCompleted" "history_entry (o_id ord) OrderArrived OrderCompleted user None h"
      "rewrote e s s' ord (ord\<lparr>o_status := OrderCompleted, o_delivered_at := Some now\<rparr>) a r [h]" "release_queued s' i"
      using 1 by (simp_all add: context_of_core)
    show ?thesis
      by (intro exI [of _ ord] exI [of _ a] exI [of _ drv] exI [of _ veh] exI [of _ now] exI [of _ h] conjI rest who unload receipt)
  qed
qed

lemma complete_assignment_effect_witness:
  "\<exists>ord a drv veh. context_of arrived_db 50 ord a drv veh \<and> o_status ord = OrderArrived \<and> no_open_incident arrived_db (o_id ord)"
proof -
  let ?call = "complete_assignment 50 4 ''driver'' \<lparr>dl_comment = None, dl_recipient_name = None\<rparr>"
  have "\<not> isl (fst (?call sample_env arrived_db))" by code_simp
  then obtain r s' where "?call sample_env arrived_db = (Inr r, s')" by (rule succeeds)
  from complete_assignment_effect [OF this] show ?thesis by blast
qed

section \<open>Submitting and cancelling an order\<close>





section \<open>Offering an assignment\<close>

text \<open>The assignments after the replaced one is released.\<close>

definition released_bookings :: "env \<Rightarrow> time \<Rightarrow> assignment option \<Rightarrow> assignment list \<Rightarrow> assignment list" where
  "released_bookings e now previous as = (case previous of None \<Rightarrow> as
     | Some a \<Rightarrow> overwrite (\<lambda>x. a_id x = a_id a) (replaced_row e now a) as)"

text \<open>What an offer may replace: an unloaded offer or accepted trip of the same order.\<close>

definition replaceable :: "db \<Rightarrow> uuid \<Rightarrow> order \<Rightarrow> assignment option \<Rightarrow> bool" where
  "replaceable s order ord previous \<longleftrightarrow> (case previous of None \<Rightarrow> o_status ord = OrderReadyForDispatch
     | Some a \<Rightarrow> a \<in> set (tb_assignments s) \<and> cancellable order a \<and> \<not> loaded (tb_operations s) order (a_id a) \<and>
         (o_status ord = OrderReadyForDispatch \<or> o_status ord = OrderAssigned))"

lemma offer_tx_run:
  assumes "offer_tx order user role req e s = (Inr r, s')"
  obtains ord drv veh previous where "find (\<lambda>x. o_id x = order) (tb_orders s) = Some ord"
    and "find (\<lambda>d. d_id d = rq_driver_id req) (tb_drivers s) = Some drv"
    and "find (\<lambda>v. v_id v = rq_vehicle_id req) (tb_vehicles s) = Some veh"
    and "map_option a_id previous = rq_replaces req" and "replaceable s order ord previous"
    and "role = ''manager'' \<longrightarrow> (\<exists>w. manages s user w \<and> o_origin_warehouse ord = Some w)"
    and "eligible s ord drv veh (rq_planned_from req) (rq_planned_to req)"
    and "a_order_id r = order" and "a_status r = AssignmentPendingAcceptance" and "a_driver_id r = rq_driver_id req"
    and "a_vehicle_id r = rq_vehicle_id req" and "a_created_by r = user"
    and "a_offer_expires_at r = clock e (ticks s) + minutes 15"
    and "tb_assignments s' = released_bookings e (clock e (ticks s)) previous (tb_assignments s) @ [assignment_row e r]"
    and "\<And>p. previous = Some p \<Longrightarrow> release_queued s' (a_id p)"
  using assms
proof (rule offer_tx_parts)
  fix ord l n previous pd drv veh source s1 s2
  let ?s = "s\<lparr>locks := l, ticks := n\<rparr>"
  assume rows: "find (\<lambda>x. o_id x = order) (tb_orders s) = Some ord"
      "find (\<lambda>d. d_id d = rq_driver_id req) (tb_drivers s) = Some drv"
      "find (\<lambda>v. v_id v = rq_vehicle_id req) (tb_vehicles s) = Some veh"
    and previous: "case previous of None \<Rightarrow> rq_replaces req = None
         | Some a \<Rightarrow> rq_replaces req = Some (a_id a) \<and> a \<in> set (tb_assignments s) \<and> a_order_id a = order"
    and manager: "role = ''manager'' \<longrightarrow> (\<exists>w. manages s user w \<and> o_origin_warehouse ord = Some w)"
    and checked: "check_offer_state ord previous e ?s = (Inr (), ?s)"
    and el: "eligible s ord drv veh (rq_planned_from req) (rq_planned_to req)"
    and released: "(case previous of None \<Rightarrow> return () | Some a \<Rightarrow> release_previous ord a pd (clock e (ticks s)) user)
           e ?s = (Inr (), s1)"
    and offer: "insert_offer order user req source (clock e (ticks s)) e s1 = (Inr r, s2)"
    and table: "tb_assignments s' = tb_assignments s2"
    and queued: "\<And>p. previous = Some p \<Longrightarrow> release_queued s' (a_id p)"
  from find_Some_mem [OF rows(1)] have mem: "ord \<in> set (tb_orders s)" "o_id ord = order" by simp_all
  have ids: "map_option a_id previous = rq_replaces req" using previous by (cases previous) simp_all
  have fits: "replaceable s order ord previous"
    using checked previous
    by (cases rule: check_offer_state_run) (auto simp: replaceable_def cancellable_def mem)
  have "tb_assignments s1 = released_bookings e (clock e (ticks s)) previous (tb_assignments s)"
  proof (cases previous)
    case None
    from released [unfolded None option.case] have "s1 = ?s" by (rule return_ok)
    then show ?thesis by (simp add: None released_bookings_def)
  next
    case (Some a)
    have "a \<in> set (tb_assignments ?s)" "ord \<in> set (tb_orders ?s)" using previous mem by (simp_all add: Some)
    with released [unfolded Some option.case] show ?thesis
      by (cases rule: release_previous_run) (simp_all add: Some released_bookings_def)
  qed
  with offer have row: "a_order_id r = order" "a_status r = AssignmentPendingAcceptance" "a_driver_id r = rq_driver_id req"
    "a_vehicle_id r = rq_vehicle_id req" "a_created_by r = user" "a_offer_expires_at r = clock e (ticks s) + minutes 15"
    "tb_assignments s' = released_bookings e (clock e (ticks s)) previous (tb_assignments s) @ [assignment_row e r]"
    by (elim insert_offer_run; simp add: table)+
  show ?thesis by (rule that [OF rows ids fits manager el row queued])
qed

lemma create_assignment_run:
  assumes "create_assignment order user role req e s = (Inr r, s')"
  obtains s0 s1 where "same_core s s0"
    and "expire_stale_assignments order (rq_driver_id req) (rq_vehicle_id req) e s0 = (Inr (), s1)"
    and "offer_tx order user role req e (s1\<lparr>locks := []\<rparr>) = (Inr r, s')"
    and "role = ''manager'' \<or> role = ''admin''" and "rq_planned_from req < rq_planned_to req"
proof -
  from assms show ?thesis
    unfolding create_assignment_def
    apply (elim seq_ok bind_ok fail_if_ok if_ok return_ok in_tx_run time_now_run get_order_run)
    apply simp_all
    by (rule that [rotated], assumption, (simp; fail)+)+
qed


definition sample_offer :: assignment_create where
  "sample_offer = \<lparr>rq_driver_id = 20, rq_planned_from = hours 10, rq_planned_to = hours 12, rq_recommendation_at = None,
     rq_recommendation_id = None, rq_replaces = None, rq_source = None, rq_vehicle_id = 30\<rparr>"


section \<open>Who can drive what\<close>

text \<open>C33: The six resource checks, run over the tables of documents and shifts, let a driver and a vehicle pass
  exactly when both are free, a registration and the licence (its documents where there are any, else the
  date on file) outlast the trip by the day the code grants, the load fits, and a shift covers the whole
  window where the driver has shifts at all; a pass changes nothing.\<close>

theorem resource_checks_exact:
  "validate_assignment_resources ord drv veh from to e s = (Inr (), s) \<longleftrightarrow>
     d_status drv = ''available'' \<and> v_status veh = ''available'' \<and>
     (if \<exists>x \<in> set (tb_driver_documents s). dd_driver_id x = d_id drv \<and> dd_type x = ''license''
      then \<exists>x \<in> set (tb_driver_documents s). dd_driver_id x = d_id drv \<and> dd_type x = ''license'' \<and>
             dd_status x = ''valid'' \<and> to \<le> dd_valid_until x + hours 24
      else to \<le> d_license_expiry drv + hours 24) \<and>
     (\<exists>x \<in> set (tb_vehicle_documents s). vd_vehicle_id x = v_id veh \<and> vd_type x = ''registration'' \<and>
        vd_status x = ''valid'' \<and> to \<le> vd_valid_until x + hours 24) \<and>
     \<not> f64_lt (v_capacity_kg veh) (o_weight_kg ord) \<and> \<not> f64_lt (v_capacity_m3 veh) (o_volume_m3 ord) \<and>
     (ds_driver_id ` set (tb_driver_shifts s) \<subseteq> - {d_id drv} \<or>
      (\<exists>x \<in> set (tb_driver_shifts s). ds_driver_id x = d_id drv \<and> ds_starts_at x \<le> from \<and> to \<le> ds_ends_at x))"
proof -
  have licence: "licence_ok drv (filter P ds) to \<longleftrightarrow> (if \<exists>x \<in> set ds. P x then \<exists>x \<in> set ds. P x \<and> dd_status x = ''valid'' \<and>
      to \<le> dd_valid_until x + hours 24 else to \<le> d_license_expiry drv + hours 24)" for P ds
    by (auto simp: licence_ok_def unexpired_def filter_empty_conv list_ex_iff not_less)
  have shifts: "ds_driver_id ` set (tb_driver_shifts s) \<subseteq> - {d_id drv} \<longleftrightarrow> (\<forall>x \<in> set (tb_driver_shifts s). ds_driver_id x \<noteq> d_id drv)"
    unfolding subset_Compl_singleton by (auto simp: image_iff)
  show ?thesis unfolding validate_succeeds_iff eligible_def licence shifts by (simp only: conj_assoc)
qed

end
