(* ===== verification/Failures.thy ===== *)
theory Failures
  imports System
begin

text \<open>
  What a failed call leaves behind and which errors a call can end with.  \<open>atomic\<close> says that a
  failure changes no table; \<open>throws E\<close> that every error of an operation satisfies \<open>E\<close>.  Both are
  composed along the structure of an operation.
\<close>

section \<open>Failed calls\<close>

definition atomic :: "'a op \<Rightarrow> bool" where
  "atomic m \<longleftrightarrow> (\<forall>e s er s'. m e s = (Inl er, s') \<longrightarrow> untouched e s s')"

named_theorems atomic_rules "rules that show that a failed operation changes no table"

lemma atomic_in_tx [atomic_rules]: "atomic (in_tx m)"
  unfolding atomic_def by (auto elim!: in_tx_error simp: untouched_def rollback_def)

lemma atomic_untouched: "framed untouched m \<Longrightarrow> atomic m"
  by (auto simp: atomic_def dest: framedD)

lemma atomic_bind [atomic_rules]:
  assumes "framed untouched m" and "\<And>x. atomic (k x)"
  shows "atomic (bind m k)"
  unfolding atomic_def
proof (intro allI impI)
  fix e s er s'
  assume run: "bind m k e s = (Inl er, s')"
  obtain r t where m: "m e s = (r, t)" by (cases "m e s")
  with assms(1) have t: "untouched e s t" by (rule framedD)
  show "untouched e s s'"
  proof (cases r)
    case (Inl a)
    with run m t show ?thesis by (simp add: bind_def)
  next
    case (Inr x)
    with run m have "k x e t = (Inl er, s')" by (simp add: bind_def)
    with assms(2) have "untouched e t s'" unfolding atomic_def by blast
    with t show ?thesis by (rule unt.frame_trans)
  qed
qed

lemma atomic_seq [atomic_rules]: "framed untouched m \<Longrightarrow> atomic k \<Longrightarrow> atomic (seq m k)"
  by (simp add: seq_def atomic_bind)

lemma atomic_statement [atomic_rules]: "atomic (create t r)" "atomic (update t p r)"
  by (auto simp: atomic_def create_def update_def unt.frame_refl split: option.splits if_splits)

text \<open>A statement whose result is then only returned.\<close>

lemma atomic_then_return [atomic_rules]: "atomic m \<Longrightarrow> atomic (seq m (return x))"
  by (auto simp: atomic_def seq_def bind_def return_def split: prod.splits sum.splits)

text \<open>A transaction that commits its refusal: every other error changes nothing.\<close>

lemma committed_refusal:
  assumes "bind (in_tx m) lift_sum e s = (Inl er, s')" and "\<And>x t. m e (s\<lparr>locks := []\<rparr>) = (Inr (Inl x), t) \<Longrightarrow> x = refusal"
    and "er \<noteq> refusal"
  shows "untouched e s s'"
proof -
  obtain r t where m: "in_tx m e s = (r, t)" by (cases "in_tx m e s")
  show ?thesis
  proof (cases r)
    case (Inl x)
    with m assms(1) show ?thesis using atomic_in_tx [of m] by (auto simp: atomic_def bind_def)
  next
    case (Inr y)
    with m assms(1) have "y = Inl er" by (simp add: bind_def lift_sum_def)
    moreover have "m e (s\<lparr>locks := []\<rparr>) = (Inr y, t)" using m unfolding Inr by (rule in_tx_run)
    ultimately show ?thesis using assms(2,3) by blast
  qed
qed

section \<open>Errors of the commands\<close>

definition error_of :: "'a op \<Rightarrow> env \<Rightarrow> db \<Rightarrow> err option" where
  "error_of m e s = (case fst (m e s) of Inl er \<Rightarrow> Some er | Inr _ \<Rightarrow> None)"

lemma error_of_after: "error_of m e s = Some er \<Longrightarrow> m e s = (Inl er, after m e s)"
  by (auto simp: error_of_def after_def split: sum.splits intro: prod_eqI)

fun command_error :: "command \<Rightarrow> env \<Rightarrow> db \<Rightarrow> err option" where
  "command_error (CreateOrder req user role) = error_of (create_order req user role)"
| "command_error (UpdateDraftOrder i user role req) = error_of (update_draft_order i user role req)"
| "command_error (SetTransportDetails i user role req) = error_of (set_transport_details i user role req)"
| "command_error (SubmitOrder i user role) = error_of (submit_order i user role)"
| "command_error (CancelOrder i user role req) = error_of (cancel_order i user role req)"
| "command_error (CreateAssignment i user role req) = error_of (create_assignment i user role req)"
| "command_error (AcceptAssignment i user role) = error_of (accept_assignment i user role)"
| "command_error (RejectAssignment i user role req) = error_of (reject_assignment i user role req)"
| "command_error (StartAssignment i user role) = error_of (start_assignment i user role)"
| "command_error (ArriveAssignment i user role) = error_of (arrive_assignment i user role)"
| "command_error (CompleteAssignment i user role req) = error_of (complete_assignment i user role req)"
| "command_error (ExpireDueAssignments cursor) = error_of (expire_due_assignments_after cursor)"
| "command_error (CreateCounterparty user role req) = error_of (create_counterparty user role req)"
| "command_error (UpdateCounterparty i user role req) = error_of (update_counterparty i user role req)"
| "command_error (CreateOrderIncident i user role req) = error_of (create_order_incident i user role req)"
| "command_error (ResolveOrderIncident i user role req) = error_of (resolve_order_incident i user role req)"
| "command_error (CreateWarehouseOperation i user role req) = error_of (create_warehouse_operation i user role req)"
| "command_error (CreateDeliveryReceipt i user role req) = error_of (create_delivery_receipt i user role req)"
| "command_error (CreateTripHandover i user role req) = error_of (create_trip_handover i user role req)"
| "command_error (UpdateTripHandover i user role action) = error_of (update_trip_handover i user role action)"

text \<open>The commands that commit something before their own transaction: offers first close what has expired.\<close>

fun closes_expired_first :: "command \<Rightarrow> bool" where
  "closes_expired_first (CreateAssignment i user role req) = True"
| "closes_expired_first (ExpireDueAssignments cursor) = True"
| "closes_expired_first _ = False"

lemma lift_sum_atomic [simp]: "framed untouched (lift_sum r)"
  by (simp add: unt.framed_lift_sum)

lemma checks_untouched [simp]: "framed untouched (fail_if c er)" "framed untouched (return x)"
  by (simp_all add: unt.framed_fail_if unt.framed_return)

lemma atomic_calls [simp]:
  "atomic (create_order oreq user role)" "atomic (update_draft_order i user role dreq)"
  "atomic (set_transport_details i user role treq)" "atomic (submit_order i user role)"
  "atomic (cancel_order i user role creq)" "atomic (reject_assignment i user role jreq)"
  "atomic (start_assignment i user role)" "atomic (arrive_assignment i user role)"
  "atomic (complete_assignment i user role mreq)" "atomic (create_counterparty user role wreq)"
  "atomic (update_counterparty i user role wreq)" "atomic (create_order_incident i user role ireq)"
  "atomic (resolve_order_incident i user role sreq)" "atomic (create_warehouse_operation i user role oreq')"
  "atomic (create_delivery_receipt i user role rreq)" "atomic (create_trip_handover i user role hreq)"
  unfolding create_order_def update_draft_order_def set_transport_details_def submit_order_def cancel_order_def
    reject_assignment_def start_assignment_def arrive_assignment_def complete_assignment_def create_counterparty_def
    update_counterparty_def create_order_incident_def resolve_order_incident_def create_warehouse_operation_def
    create_delivery_receipt_def create_trip_handover_def Let_def
  by (intro atomic_rules; simp)+

lemma refused_accept: "accept_tx i user e s = (Inr (Inl x), t) \<Longrightarrow> x = Business ErrAssignmentExpired"
  by (erule accept_tx_run) simp_all

lemma refused_handover: "update_handover_tx i user role action e s = (Inr (Inl x), t) \<Longrightarrow> x = Business ErrAssignmentExpired"
  by (erule update_handover_tx_run) simp_all

lemma atomic_accept:
  assumes "accept_assignment i user role e s = (Inl er, s')" and "er \<noteq> Business ErrAssignmentExpired"
  shows "untouched e s s'"
proof (cases "role = ''driver''")
  case True
  with assms show ?thesis
    by (intro committed_refusal [where m = "accept_tx i user" and er = er and refusal = "Business ErrAssignmentExpired"])
       (simp_all add: accept_assignment_def fail_if_def seq_def bind_def return_def refused_accept)
qed (use assms in \<open>simp add: accept_assignment_def fail_if_def seq_def bind_def throw_def unt.frame_refl\<close>)

lemma atomic_handover:
  assumes "update_trip_handover i user role action e s = (Inl er, s')" and "er \<noteq> Business ErrAssignmentExpired"
  shows "untouched e s s'"
proof (cases "role \<noteq> ''driver'' \<and> role \<noteq> ''manager'' \<and> role \<noteq> ''admin''")
  case True
  with assms show ?thesis
    by (simp add: update_trip_handover_def fail_if_def seq_def bind_def throw_def unt.frame_refl)
next
  case False
  have "bind (in_tx (update_handover_tx i user role action)) lift_sum e s = (Inl er, s')"
    using assms(1) unfolding update_trip_handover_def fail_if_def if_not_P [OF False] by (simp add: seq_def bind_def return_def)
  then show ?thesis using refused_handover assms(2) by (rule committed_refusal)
qed

lemma atomic_after: "atomic m \<Longrightarrow> error_of m e s = Some er \<Longrightarrow> untouched e s (after m e s)"
  unfolding atomic_def by (blast dest: error_of_after)

lemma failed_command_untouched:
  assumes "command_error c e s = Some er" and "\<not> closes_expired_first c" and "er \<noteq> Business ErrAssignmentExpired"
  shows "untouched e s (run_command c e s)"
  using assms
  by (cases c) (simp_all add: atomic_after, (blast intro: atomic_accept atomic_handover dest: error_of_after)+)



section \<open>Which errors an operation can end with\<close>

definition throws :: "(err \<Rightarrow> bool) \<Rightarrow> 'a op \<Rightarrow> bool" where
  "throws E m \<longleftrightarrow> (\<forall>e s er s'. m e s = (Inl er, s') \<longrightarrow> E er)"

named_theorems throw_rules "rules for the errors of an operation"

lemma throws_error: "throws E m \<Longrightarrow> error_of m e s = Some er \<Longrightarrow> E er"
  unfolding throws_def by (blast dest: error_of_after)

text \<open>The continuation may use what the successful run of the first part shows.\<close>

lemma throws_bind [throw_rules]:
  assumes "throws E m" and "\<And>e s x t. m e s = (Inr x, t) \<Longrightarrow> throws E (k x)"
  shows "throws E (bind m k)"
  unfolding throws_def bind_def
proof (intro allI impI)
  fix e s er s'
  assume run: "(case m e s of (Inl er, s') \<Rightarrow> (Inl er, s') | (Inr x, s') \<Rightarrow> k x e s') = (Inl er, s')"
  obtain r t where m: "m e s = (r, t)" by (cases "m e s")
  show "E er"
  proof (cases r)
    case (Inl x)
    with run m assms(1) show ?thesis unfolding throws_def by auto
  next
    case (Inr x)
    with run m assms(2) [of e s x t] show ?thesis unfolding throws_def by auto
  qed
qed

lemma throws_seq [throw_rules]:
  "throws E m \<Longrightarrow> (\<And>e s t. m e s = (Inr (), t) \<Longrightarrow> throws E k) \<Longrightarrow> throws E (seq m k)"
  unfolding seq_def by (rule throws_bind) simp_all

lemma throws_control [throw_rules]:
  "throws E (return x)" "E er \<Longrightarrow> throws E (throw er)" "(c \<Longrightarrow> E er) \<Longrightarrow> throws E (fail_if c er)"
  "(c \<Longrightarrow> throws E u) \<Longrightarrow> throws E (when_do c u)"
  "(c \<Longrightarrow> throws E m) \<Longrightarrow> (\<not> c \<Longrightarrow> throws E m') \<Longrightarrow> throws E (if c then m else m')"
  "(\<And>er. r = Inl er \<Longrightarrow> E er) \<Longrightarrow> throws E (lift_sum r)" "(z = None \<Longrightarrow> E GoPanic) \<Longrightarrow> throws E (deref z)"
  "E er \<Longrightarrow> throws E (or_throw m er)" "throws E m'' \<Longrightarrow> throws E (optional m'')"
  "(x' = None \<Longrightarrow> throws E n) \<Longrightarrow> (\<And>y. x' = Some y \<Longrightarrow> throws E (k y)) \<Longrightarrow>
     throws E (case x' of None \<Rightarrow> n | Some y \<Rightarrow> k y)"
  "throws E m3 \<Longrightarrow> throws E (in_tx m3)"
  by (auto simp: throws_def return_def throw_def fail_if_def when_do_def lift_sum_def deref_def or_throw_def optional_def
      in_tx_def split: prod.splits sum.splits option.splits if_splits)

lemma throws_case_prod [throw_rules]: "(\<And>a b. p = (a, b) \<Longrightarrow> throws E (k a b)) \<Longrightarrow> throws E (case p of (a, b) \<Rightarrow> k a b)"
  by (cases p) simp

lemma throws_for_each [throw_rules]: "(\<And>x. throws E (f x)) \<Longrightarrow> throws E (for_each xs f)"
  by (induction xs) (simp_all add: throws_control(1) throws_seq)

lemma throws_map_tx [throw_rules]: "(\<And>x. throws E (f x)) \<Longrightarrow> throws E (map_tx f xs)"
  by (induction xs) (simp_all add: throws_control(1) throws_bind)

lemma throws_total [throw_rules]:
  "throws E (get_all t p)" "throws E (get_all_locked t p key)" "throws E (query f)" "throws E (exec g)" "throws E (ask h)"
  "throws E time_now" "throws E uuid_new"
  by (simp_all add: throws_def get_all_def get_all_locked_def query_def exec_def ask_def time_now_def uuid_new_def Let_def)

text \<open>The classes of errors considered below contain those of the storage.\<close>

definition infrastructure :: "err \<Rightarrow> bool" where
  "infrastructure er \<longleftrightarrow> er = NotFound \<or> er = NoRows \<or> er = JsonError \<or> (\<exists>c. er = Pg c)"

locale error_class =
  fixes E :: "err \<Rightarrow> bool"
  assumes base: "infrastructure er \<Longrightarrow> E er"
begin

lemma stored [throw_rules]: "E NotFound" "E NoRows" "E JsonError" "E (Pg c)"
  by (rule base, simp add: infrastructure_def)+

lemma statements [throw_rules]:
  "throws E (get_one t p)" "throws E (get_one_locked t p)" "throws E (create t r)" "throws E (update t p r)"
  "throws E (get_one_nowait t p)" "throws E (lock_row wait t p)"
  by (auto simp: throws_def get_one_def get_one_locked_def get_one_nowait_def lock_row_def create_def update_def stored
      split: option.splits if_splits)

lemma mapped [throw_rules]:
  "E er \<Longrightarrow> throws E m \<Longrightarrow> throws E (busy_or m er)"
  "E er \<Longrightarrow> throws E m \<Longrightarrow> throws E (conflicting er m)"
  "E (Business ErrResourceAlreadyReserved) \<Longrightarrow> throws E m \<Longrightarrow> throws E (reserving m)"
  by (auto simp: throws_def busy_or_def conflicting_def reserving_def split: prod.splits sum.splits if_splits)

lemma recorded [throw_rules]:
  "throws E (notify user text)" "throws E (record_order_status order from to actor reason)"
  "throws E (enqueue_dispatch_after_release rel)" "throws E (find_user i)"
  unfolding notify_def record_order_status_def enqueue_dispatch_after_release_def find_user_def
  by (intro throw_rules statements; simp add: stored)+

lemma fields_read [throw_rules]: "throws E (assignment_fields a)"
  unfolding assignment_fields_def by (intro throw_rules statements recorded)

lemma upserted [throw_rules]: "throws E (upsert_dispatch q)"
  by (auto simp: throws_def upsert_dispatch_def Let_def stored split: if_splits)

lemma documented [throw_rules]:
  "throws E (lift_sum (transport_document_fields ord receipt))"
  "throws E (enqueue_operational_document ord asg kind reference actor extra others)"
proof -
  show fields: "throws E (lift_sum (transport_document_fields ord receipt))" for ord receipt
    by (auto simp: throws_def lift_sum_def transport_document_fields_def read_transport_details_def stored
        split: details_json.splits sum.splits)
  show "throws E (enqueue_operational_document ord asg kind reference actor extra others)"
    unfolding enqueue_operational_document_def by (intro throw_rules stored statements recorded fields_read fields)
qed

lemma requested [throw_rules]:
  "o_submitted_at ord \<noteq> None \<Longrightarrow> throws E (enqueue_dispatch_request ord)"
  unfolding enqueue_dispatch_request_def build_dispatch_request_def by (intro throw_rules upserted) simp_all

lemma checked [throw_rules]:
  "E forbidden \<Longrightarrow> throws E (manager_warehouse_id user)" "E forbidden \<Longrightarrow> throws E (manager_check role user ok)"
  "E (Business ErrWarehouseOperationRequired) \<Longrightarrow> throws E (require_warehouse_operation order kind a)"
  "E (Business ErrIncidentOpen) \<Longrightarrow> throws E (require_no_open_incidents order)"
  "throws E (warehouse_load_exists order i)"
  unfolding manager_warehouse_id_def manager_check_def require_warehouse_operation_def warehouse_operation_exists_def
    require_no_open_incidents_def warehouse_load_exists_def
  by (intro throw_rules statements; simp)+

lemma validated [throw_rules]:
  assumes "E (Business ErrDriverNotEligible)" "E (Business ErrDriverLicenseExpired)" "E (Business ErrVehicleNotOperational)"
    "E (Business ErrVehicleDocumentInvalid)" "E (Business ErrVehicleCapacityExceeded)" "E (Business ErrDriverOutsideShift)"
  shows "throws E (validate_assignment_resources ord drv veh from to)"
  unfolding validate_assignment_resources_def by (intro throw_rules assms)

lemma locked [throw_rules]:
  assumes "E (Business ErrAssignmentStale)" "E (Business ErrDriverNotEligible)" "E (Business ErrVehicleNotOperational)"
  shows "throws E (lock_assignment_context i)" and "throws E (lock_assignment_context_with_wait i wait)"
  unfolding lock_assignment_context_def lock_assignment_context_with_wait_def
  by (intro throw_rules statements mapped assms)+

end

section \<open>No command dereferences a nil pointer\<close>

interpretation np: error_class "\<lambda>er. er \<noteq> GoPanic"
  by unfold_locales (auto simp: infrastructure_def)

abbreviation no_panic :: "'a op \<Rightarrow> bool" where
  "no_panic \<equiv> throws (\<lambda>er. er \<noteq> GoPanic)"

lemma deref_found [throw_rules]: "list_ex p xs \<Longrightarrow> no_panic (deref (find p xs))"
  by (intro throw_rules) (auto simp: find_None_all list_ex_iff)

lemma locked_all:
  assumes "lock_drivers er ids e s = (Inr ds, s')" and "i \<in> set ids"
  shows "list_ex (\<lambda>d. d_id d = i) ds"
  using assms(1)
proof (rule lock_drivers_run)
  assume "map d_id ds = ids"
  with assms(2) show ?thesis by (auto simp: list_ex_iff)
qed

lemma locked_all_vehicles:
  assumes "lock_vehicles er ids e s = (Inr vs, s')" and "i \<in> set ids"
  shows "list_ex (\<lambda>v. v_id v = i) vs"
  using assms(1)
proof (rule lock_vehicles_run)
  assume "map v_id vs = ids"
  with assms(2) show ?thesis by (auto simp: list_ex_iff)
qed

lemma fleet_members [simp]: "i \<in> set (fleet_ids i p)" "j \<in> set (fleet_ids i (Some j))"
  unfolding fleet_ids_def set_sort by simp_all

lemma lock_fleet_safe [throw_rules]:
  "er \<noteq> Some GoPanic \<Longrightarrow> no_panic (lock_drivers er ids)" "er \<noteq> Some GoPanic \<Longrightarrow> no_panic (lock_vehicles er ids)"
  unfolding lock_drivers_def lock_vehicles_def by (intro throw_rules; auto)+

lemma lock_offer_fleet_safe [throw_rules]: "no_panic (lock_offer_fleet req previous)"
  unfolding lock_offer_fleet_def
  by (intro throw_rules) (auto intro: locked_all locked_all_vehicles)

lemma lock_offer_fleet_previous:
  assumes "lock_offer_fleet req (Some a) e s = (Inr (drv, pd, veh), s')"
  shows "pd \<noteq> None"
proof -
  from assms obtain ds s1 where "lock_drivers (Some (Business ErrDriverNotEligible))
      (fleet_ids (rq_driver_id req) (Some (a_driver_id a))) e s = (Inr ds, s1)" and "pd = find (\<lambda>d. d_id d = a_driver_id a) ds"
    unfolding lock_offer_fleet_def by (elim bind_ok return_ok) simp
  then show ?thesis using locked_all [of _ _ e s ds s1 "a_driver_id a"] by (auto simp: find_None_all list_ex_iff)
qed

lemma lock_handover_fleet_safe [throw_rules]: "no_panic (lock_handover_fleet old driver vehicle)"
  unfolding lock_handover_fleet_def by (intro throw_rules) simp_all

lemma lock_handover_fleet_all:
  assumes "lock_handover_fleet old driver vehicle e s = (Inr r, s')"
  shows "list_ex (\<lambda>d. d_id d = driver) (fst r)" "list_ex (\<lambda>d. d_id d = a_driver_id old) (fst r)"
    "list_ex (\<lambda>v. v_id v = vehicle) (snd r)" "list_ex (\<lambda>v. v_id v = a_vehicle_id old) (snd r)"
proof -
  from assms obtain ds vs s1 where "r = (ds, vs)"
    and "lock_drivers None (fleet_ids driver (Some (a_driver_id old))) e s = (Inr ds, s1)"
    and "lock_vehicles None (fleet_ids vehicle (Some (a_vehicle_id old))) e s1 = (Inr vs, s')"
    unfolding lock_handover_fleet_def by (elim bind_ok return_ok) simp
  then show "list_ex (\<lambda>d. d_id d = driver) (fst r)" "list_ex (\<lambda>d. d_id d = a_driver_id old) (fst r)"
    "list_ex (\<lambda>v. v_id v = vehicle) (snd r)" "list_ex (\<lambda>v. v_id v = a_vehicle_id old) (snd r)"
    by (auto intro: locked_all locked_all_vehicles)
qed

subsection \<open>Trips\<close>

lemma expire_safe [throw_rules]:
  "no_panic (expire_assignment a now)" "no_panic (expire_assignment_by_id candidate wait)"
  "no_panic (expire_stale_assignments order driver vehicle)"
  unfolding expire_assignment_def expire_assignment_by_id_def expire_stale_assignments_def expire_assignments_def Let_def
  by (intro throw_rules; simp)+

lemma driver_calls_safe [throw_rules]:
  "no_panic (accept_tx i user)" "no_panic (reject_tx i user jreq)" "no_panic (start_tx i user)" "no_panic (arrive_tx i user)"
  unfolding accept_tx_def reject_tx_def start_tx_def arrive_tx_def expire_assignment_def Let_def
  by (intro throw_rules; simp)+

lemma complete_safe [throw_rules]: "no_panic (complete_tx i user role mreq)"
  unfolding complete_tx_def authorize_completion_def completion_receipt_def record_delivery_def trip_legs_def Let_def
  by (intro throw_rules; simp)

lemma submit_safe [throw_rules]: "no_panic (submit_tx i user role)"
  unfolding submit_tx_def Let_def by (intro throw_rules; simp)

lemma cancel_safe [throw_rules]: "no_panic (cancel_tx i user role creq)"
  unfolding cancel_tx_def cancel_checks_def cancel_writes_def release_cancelled_def lock_fleet_of_def Let_def
  by (intro throw_rules; simp)

lemma get_order_safe [throw_rules]: "no_panic (get_order i user role)"
  unfolding get_order_def driver_check_def driver_of_user_def by (intro throw_rules; simp)

lemma offer_safe [throw_rules]: "no_panic (offer_tx order user role req)"
  unfolding offer_tx_def replaced_assignment_def check_offer_state_def check_offer_source_def release_previous_def
    insert_offer_def Let_def
  by (intro throw_rules; (simp; fail)?; blast dest: lock_offer_fleet_previous)

lemma expire_page_safe [throw_rules]: "no_panic (expire_page candidates cursor)"
proof (induction candidates arbitrary: cursor)
  case (Cons a as)
  have "no_panic (attempt m)" for m :: "unit op" by (auto simp: throws_def attempt_def split: prod.splits)
  with Cons show ?case unfolding expire_page.simps by (intro throw_rules)
qed (simp add: throw_rules)

subsection \<open>Orders, parties, the depot and handovers\<close>

lemma update_draft_safe [throw_rules]: "no_panic (update_draft_tx i user role dreq)"
  unfolding update_draft_tx_def Let_def by (intro throw_rules; (simp; fail)?; (elim runs; simp))

lemma load_parties_safe [throw_rules]: "no_panic (load_parties allowed ids parties)"
  by (induction allowed ids parties rule: load_parties.induct) (simp_all add: throw_rules)

lemma party_loaded:
  assumes "load_parties allowed ids [] e s = (Inr r, s')" and "i \<in> set ids"
  shows "map_of r i \<noteq> None"
  using assms(1)
proof (rule parties_run)
  assume "set ids \<subseteq> fst ` set r"
  with assms(2) show ?thesis by (auto simp: map_of_eq_None_iff)
qed

lemma set_transport_safe [throw_rules]: "no_panic (set_transport_tx i user role treq)"
  unfolding set_transport_tx_def Let_def
  by (intro throw_rules; (simp; fail)?; drule party_loaded [where i = "tw_sender_id treq"] party_loaded [where i = "tw_recipient_id treq"]
    party_loaded [where i = "tw_carrier_id treq"]; simp)

lemma normalize_safe [throw_rules]: "no_panic (lift_sum (normalize_counterparty parse wreq))"
  by (intro throw_rules) (auto simp: normalize_counterparty_def Let_def split: if_splits)

lemma counterparty_calls_safe [throw_rules]:
  "no_panic (create_counterparty user role wreq)" "no_panic (update_counterparty i user role wreq)"
  unfolding create_counterparty_def update_counterparty_def update_counterparty_tx_def Let_def
  by (intro throw_rules; simp)+

lemma save_incident_safe [throw_rules]: "no_panic (save_incident ord inc)"
  unfolding save_incident_def warehouse_managers_def assignment_users_def by (intro throw_rules; simp)

lemma incident_calls_safe [throw_rules]:
  "no_panic (create_incident_tx order user role ireq)" "no_panic (resolve_incident_tx i user role resolution note recipient)"
  unfolding create_incident_tx_def driver_belongs_def resolve_incident_tx_def Let_def
  by (intro throw_rules; simp)+

lemma details_safe [throw_rules]: "no_panic (lift_sum (read_transport_details ord))"
  by (intro throw_rules) (auto simp: read_transport_details_def split: details_json.splits)

lemma discrepancy_safe [throw_rules]:
  "(wo_type w = ''undo_load'' \<Longrightarrow> wo_assignment_id w \<noteq> None) \<Longrightarrow> no_panic (record_warehouse_discrepancy ord w)"
  unfolding record_warehouse_discrepancy_def expected_packages_def by (intro throw_rules; simp)

text \<open>Loading, its undoing and unloading are always of an assignment.\<close>

lemma operation_has_assignment:
  assumes "operation_assignment ord kind assignment e s = (Inr asg, s')" and "kind = ''undo_load''"
  shows "asg \<noteq> None" and "assignment \<noteq> None"
  using assms unfolding operation_assignment_def
  by (auto elim!: if_ok case_option_ok bind_ok seq_ok return_ok throw_ok)

lemma operation_assignment_safe [throw_rules]: "no_panic (operation_assignment ord kind assignment)"
  unfolding operation_assignment_def receive_or_return_checks_def vehicle_operation_checks_def
  by (intro throw_rules; simp)

lemma warehouse_operation_safe [throw_rules]:
  "no_panic (warehouse_operation_tx order user role kind count assignment condition comment recipient)"
  unfolding warehouse_operation_tx_def lock_undo_fleet_def undo_warehouse_loading_def operation_recipients_def Let_def
  by (intro throw_rules; (simp; fail)?; frule operation_has_assignment; simp)

lemma receipt_safe [throw_rules]: "no_panic (delivery_receipt_tx order user role item)"
proof -
  have state: "no_panic (receipt_state ord a item)" for ord a
    unfolding receipt_state_def by (intro throw_rules; (simp; fail)?; elim fail_if_ok; simp)
  show ?thesis
    unfolding delivery_receipt_tx_def receipt_actor_def driver_belongs_def receipt_expected_def receipt_discrepancy_def Let_def
    by (intro throw_rules state; simp)
qed

lemma handover_manager_safe [throw_rules]: "no_panic (authorize_handover_manager ord user role)"
  unfolding authorize_handover_manager_def by (intro throw_rules; simp)

lemma create_handover_safe [throw_rules]: "no_panic (create_handover_tx order user role now hreq)"
  unfolding create_handover_tx_def Let_def
  by (intro throw_rules; (simp; fail)?; frule lock_handover_fleet_all(1); frule lock_handover_fleet_all(2);
    frule lock_handover_fleet_all(3); frule lock_handover_fleet_all(4); simp)

lemma accept_handover_safe [throw_rules]: "no_panic (accept_handover ord old outgoing incoming old_vehicle veh item user now)"
  unfolding accept_handover_def replace_active_def record_handover_def Let_def
  by (intro throw_rules; (simp; fail)?; (elim runs; simp))

lemma update_handover_safe [throw_rules]: "no_panic (update_handover_tx i user role action)"
  unfolding update_handover_tx_def handover_actor_def handover_step_def Let_def
  by (intro throw_rules; (simp; fail)?; frule lock_handover_fleet_all(1); frule lock_handover_fleet_all(2);
    frule lock_handover_fleet_all(3); frule lock_handover_fleet_all(4); simp)

subsection \<open>Every command\<close>

fun creates_order :: "command \<Rightarrow> bool" where
  "creates_order (CreateOrder req user role) = True"
| "creates_order _ = False"

lemma calls_safe:
  "no_panic (update_draft_order i user role dreq)" "no_panic (set_transport_details i user role treq)"
  "no_panic (submit_order i user role)" "no_panic (cancel_order i user role creq)"
  "no_panic (create_assignment i user role areq)" "no_panic (accept_assignment i user role)"
  "no_panic (reject_assignment i user role jreq)" "no_panic (start_assignment i user role)"
  "no_panic (arrive_assignment i user role)" "no_panic (complete_assignment i user role mreq)"
  "no_panic (expire_due_assignments_after cursor)" "no_panic (create_order_incident i user role ireq)"
  "no_panic (resolve_order_incident i user role sreq)" "no_panic (create_warehouse_operation i user role wreq)"
  "no_panic (create_delivery_receipt i user role rreq)" "no_panic (create_trip_handover i user role hreq)"
  unfolding update_draft_order_def set_transport_details_def submit_order_def cancel_order_def create_assignment_def
    reject_assignment_def start_assignment_def arrive_assignment_def complete_assignment_def expire_due_assignments_after_def
    create_order_incident_def resolve_order_incident_def create_warehouse_operation_def
    create_delivery_receipt_def create_trip_handover_def Let_def accept_assignment_def
  by (intro throw_rules; (simp; fail)?; drule in_tx_run; auto dest: refused_accept)+

lemma update_trip_handover_safe: "no_panic (update_trip_handover i user role action)"
  unfolding update_trip_handover_def
  by (intro throw_rules; (simp; fail)?; drule in_tx_run; auto dest: refused_handover)

text \<open>C21: No command dereferences a nil pointer: whatever the database, the caller and the arguments are, every
  pointer the code follows without a check of its own was established before.  (Creating an order follows none,
  but reports whatever error the route planner returns.)\<close>

theorem commands_never_panic:
  assumes "\<not> creates_order c"
  shows "command_error c e s \<noteq> Some GoPanic"
  using assms
  by (cases c) (auto dest: throws_error [OF calls_safe(1)] throws_error [OF calls_safe(2)] throws_error [OF calls_safe(3)]
      throws_error [OF calls_safe(4)] throws_error [OF calls_safe(5)] throws_error [OF calls_safe(6)]
      throws_error [OF calls_safe(7)] throws_error [OF calls_safe(8)] throws_error [OF calls_safe(9)]
      throws_error [OF calls_safe(10)] throws_error [OF calls_safe(11)] throws_error [OF calls_safe(12)]
      throws_error [OF calls_safe(13)] throws_error [OF calls_safe(14)] throws_error [OF calls_safe(15)]
      throws_error [OF calls_safe(16)] throws_error [OF counterparty_calls_safe(1)]
      throws_error [OF counterparty_calls_safe(2)] throws_error [OF update_trip_handover_safe])

lemma commands_never_panic_witness:
  "command_error (CompleteAssignment 50 4 ''driver'' \<lparr>dl_comment = None, dl_recipient_name = None\<rparr>) sample_env moving_db \<noteq>
     Some GoPanic"
  by (rule commands_never_panic) simp

section \<open>The errors of accepting an offer\<close>

definition acceptance_errors :: "business_error list" where
  "acceptance_errors = [ErrForbidden, ErrAssignmentStale, ErrInvalidOrderTransition, ErrDriverNotEligible,
     ErrDriverLicenseExpired, ErrVehicleNotOperational, ErrVehicleDocumentInvalid, ErrVehicleCapacityExceeded, ErrDriverOutsideShift]"

definition acceptance_error :: "err \<Rightarrow> bool" where
  "acceptance_error er \<longleftrightarrow> infrastructure er \<or> er \<in> Business ` set acceptance_errors"

lemma acceptance_error_business [simp]: "acceptance_error (Business b) = (b \<in> set acceptance_errors)"
  by (auto simp: acceptance_error_def infrastructure_def)

interpretation ae: error_class acceptance_error
  by unfold_locales (simp add: acceptance_error_def)

lemma accept_tx_errors: "throws acceptance_error (accept_tx i user)"
  unfolding accept_tx_def expire_assignment_def Let_def
  by (intro throw_rules; simp add: acceptance_errors_def)

text \<open>A driver who accepts too late gets exactly the error \<open>ASSIGNMENT_EXPIRED\<close>, and this refusal is
  committed: the offer is closed as expired, its resources are queued for dispatch, and order and history
  are untouched.\<close>

theorem late_acceptance_closes_offer:
  assumes "error_of (accept_assignment i user role) e s = Some (Business ErrAssignmentExpired)"
  shows "\<exists>ord a drv veh. context_of s i ord a drv veh \<and> d_user_id drv = user \<and>
     a_status a = AssignmentPendingAcceptance \<and> a_offer_expires_at a \<le> clock e (ticks s) \<and>
     closed e s (after (accept_assignment i user role) e s) a (a\<lparr>a_status := AssignmentExpired\<rparr>)"
proof -
  let ?s' = "after (accept_assignment i user role) e s"
  have role: "role = ''driver''"
    using assms by (auto simp: error_of_def accept_assignment_def seq_def bind_def fail_if_def throw_def split: if_splits)
  have run: "bind (in_tx (accept_tx i user)) lift_sum e s = (Inl (Business ErrAssignmentExpired), ?s')"
    using error_of_after [OF assms] by (simp add: role accept_assignment_def seq_def bind_def fail_if_def return_def)
  obtain r t where m: "in_tx (accept_tx i user) e s = (r, t)" by (cases "in_tx (accept_tx i user) e s")
  show ?thesis
  proof (cases r)
    case (Inl x)
    with m run have "in_tx (accept_tx i user) e s = (Inl (Business ErrAssignmentExpired), ?s')" by (simp add: bind_def)
    moreover have "throws acceptance_error (in_tx (accept_tx i user))" by (rule throws_control(11) [OF accept_tx_errors])
    ultimately have "acceptance_error (Business ErrAssignmentExpired)" unfolding throws_def by blast
    then show ?thesis by (simp add: acceptance_errors_def)
  next
    case (Inr y)
    with m run have y: "y = Inl (Business ErrAssignmentExpired)" and t: "t = ?s'" by (simp_all add: bind_def lift_sum_def)
    have "accept_tx i user e (s\<lparr>locks := []\<rparr>) = (Inr y, t)" using m unfolding Inr by (rule in_tx_run)
    then show ?thesis
    proof (cases rule: accept_tx_run)
      case (expired ord a drv veh)
      then show ?thesis unfolding t
        by (intro exI [of _ ord] exI [of _ a] exI [of _ drv] exI [of _ veh]) (simp add: context_of_core closed_def)
    qed (simp add: y)
  qed
qed

lemma late_acceptance_closes_offer_witness:
  "\<exists>ord a drv veh. context_of stale_db 50 ord a drv veh \<and> a_offer_expires_at a \<le> seconds 1000 \<and>
     closed sample_env stale_db (after (accept_assignment 50 4 ''driver'') sample_env stale_db) a (a\<lparr>a_status := AssignmentExpired\<rparr>)"
proof -
  have "error_of (accept_assignment 50 4 ''driver'') sample_env stale_db = Some (Business ErrAssignmentExpired)" by code_simp
  moreover have "clock sample_env (ticks stale_db) = seconds 1000" by code_simp
  ultimately show ?thesis using late_acceptance_closes_offer by metis
qed

text \<open>Apart from that, accepting an offer ends only with one of nine business errors (the caller, the state of
  the offer or of the order, and the six eligibility errors) or with an error of the storage.\<close>

theorem acceptance_error_contract:
  assumes "error_of (accept_assignment i user role) e s = Some er"
  shows "er = Business ErrAssignmentExpired \<or> infrastructure er \<or> er \<in> Business ` set acceptance_errors"
proof -
  have "throws (\<lambda>er. er = Business ErrAssignmentExpired \<or> acceptance_error er) (accept_assignment i user role)"
    unfolding accept_assignment_def
  proof (intro throws_seq throws_bind throws_control(3,6,11))
    show "throws (\<lambda>er. er = Business ErrAssignmentExpired \<or> acceptance_error er) (accept_tx i user)"
      using accept_tx_errors unfolding throws_def by blast
    show "forbidden = Business ErrAssignmentExpired \<or> acceptance_error forbidden" by (simp add: acceptance_errors_def)
    fix e s r t er
    assume "in_tx (accept_tx i user) e s = (Inr r, t)" and "r = Inl er"
    then show "er = Business ErrAssignmentExpired \<or> acceptance_error er" by (auto dest!: in_tx_run refused_accept)
  qed
  from throws_error [OF this assms] show ?thesis by (simp add: acceptance_error_def)
qed

lemma acceptance_error_contract_witness:
  "ErrAssignmentStale \<in> set acceptance_errors"
proof -
  have "error_of (accept_assignment 50 4 ''driver'') sample_env assigned_db = Some (Business ErrAssignmentStale)" by code_simp
  from acceptance_error_contract [OF this] show ?thesis by (auto simp: infrastructure_def)
qed

end
