(* ===== verification/Depot_Guarantees.thy ===== *)
theory Depot_Guarantees
  imports Failures
begin

text \<open>
  What the operations of the warehouses, incidents, receipts and handovers guarantee
  (internal/services: warehouse_flow.go, incidents.go, delivery_receipts.go, handover.go).
\<close>

lemma succeeded:
  assumes "error_of m e s = None"
  obtains r where "m e s = (Inr r, after m e s)"
  using assms by (cases "m e s") (auto simp: error_of_def after_def split: sum.splits)

section \<open>The stage of an order in the queue of a warehouse\<close>

text \<open>The three maps that the first loop builds hold exactly what the rows say.\<close>

lemma tally_rows:
  "tally_operations ops = \<lparr>ty_seen = (\<lambda>op. (wo_order_id op, wo_type op)) ` set ops,
     ty_loads = {(i, a). \<exists>op \<in> set ops. wo_order_id op = i \<and> wo_type op = ''load'' \<and> wo_assignment_id op = Some a},
     ty_undone = {a. \<exists>op \<in> set ops. wo_type op = ''undo_load'' \<and> wo_assignment_id op = Some a}\<rparr>"
proof (induction ops rule: rev_induct)
  case Nil
  show ?case by (simp add: tally_operations_def)
next
  case (snoc op ops)
  then show ?case
    by (cases "wo_assignment_id op") (auto simp: tally_operations_def tally_operation_def Let_def)
qed

text \<open>An assignment's load that still counts.\<close>

definition loaded_here :: "warehouse_operation list \<Rightarrow> uuid \<Rightarrow> bool" where
  "loaded_here ops order \<longleftrightarrow> (\<exists>op \<in> set ops. \<exists>a. wo_order_id op = order \<and> wo_type op = ''load'' \<and> wo_assignment_id op = Some a \<and>
     (\<forall>u \<in> set ops. wo_type u = ''undo_load'' \<longrightarrow> wo_assignment_id u \<noteq> Some a))"

definition done_here :: "warehouse_operation list \<Rightarrow> uuid \<Rightarrow> string \<Rightarrow> bool" where
  "done_here ops order kind \<longleftrightarrow> (\<exists>op \<in> set ops. wo_order_id op = order \<and> wo_type op = kind)"

text \<open>The stage as a priority list: the first line that applies.\<close>

definition stage_by_priority :: "uuid \<Rightarrow> warehouse_operation list \<Rightarrow> nat \<Rightarrow> order \<Rightarrow> string" where
  "stage_by_priority w ops incidents x =
    (let i = o_id x; here = (o_origin_warehouse x = Some w) in
     if 0 < incidents then ''incident_open''
     else if o_status x = OrderCancelled \<and> here \<and> done_here ops i ''receive'' then
       (if done_here ops i ''return_to_sender'' then ''returned_to_sender'' else ''awaiting_return'')
     else if terminal (o_status x) then order_status_text (o_status x)
     else if done_here ops i ''unload'' then ''received''
     else if \<not> here then (if o_status x = OrderArrived then ''awaiting_unloading'' else ''expected'')
     else if o_started_at x \<noteq> None then ''departed''
     else if loaded_here ops i then ''ready_to_depart''
     else if \<not> done_here ops i ''receive'' then ''awaiting_receipt''
     else if o_status x = OrderAssigned then ''awaiting_loading'' else ''awaiting_assignment'')"

text \<open>C35: The queue's stage, computed by overwriting one value in two loops, is the first matching line of a
  priority list over the recorded operations: open incidents first, then cargo waiting for its return, then
  the end of the order, then unloading, and at the origin departure, loading and receipt.\<close>

theorem warehouse_stage_by_priority:
  "warehouse_stage w (tally_operations ops) incidents x = stage_by_priority w ops incidents x"
proof -
  have seen: "(i, kind) \<in> ty_seen (tally_operations ops) \<longleftrightarrow> done_here ops i kind" for i kind
    by (auto simp: tally_rows done_here_def)
  have load: "(\<exists>l \<in> ty_loads (tally_operations ops). fst l = i \<and> snd l \<notin> ty_undone (tally_operations ops)) \<longleftrightarrow> loaded_here ops i" for i
    by (auto simp: tally_rows loaded_here_def)
  have over: "terminal st \<longleftrightarrow> st = OrderCompleted \<or> st = OrderCancelled" for st
    by (cases st) (simp_all add: terminal_def)
  show ?thesis
    unfolding warehouse_stage_def stage_by_priority_def Let_def seen load over set_if_def by simp
qed

section \<open>Warehouse operations\<close>

lemma admitted_locks: "operation_admitted (s\<lparr>locks := l\<rparr>) = operation_admitted s"
  by (simp add: fun_eq_iff operation_admitted_def operation_recorded_def no_open_incident_def)

text \<open>An operation is recorded only by a manager of the warehouse it happens in or an administrator, in the
  state its kind needs, and cargo is taken in or loaded only in an active warehouse.  Undoing a load takes
  the order back into dispatch, releases the assignment and queues its resources; every other operation
  leaves orders, assignments and history alone.\<close>

theorem warehouse_operation_effect:
  assumes "create_warehouse_operation order user role req e s = (Inr r, s')"
  shows "\<exists>ord w asg. ord \<in> set (tb_orders s) \<and> o_id ord = order \<and> operation_warehouse ord (wc_operation_type req) = Some w \<and>
     (role = ''manager'' \<and> manages s user w \<or> role = ''admin'') \<and>
     wc_assignment_id req = map_option a_id asg \<and> operation_admitted s ord (wc_operation_type req) asg \<and>
     (wc_operation_type req \<in> {''receive'', ''load''} \<longrightarrow>
        map_option w_status (find (\<lambda>x. w_id x = w) (tb_warehouses s)) = Some ''active'') \<and>
     (if wc_operation_type req = ''undo_load'' then
        (\<exists>a now h. asg = Some a \<and> rewrote e s s' ord
           (ord\<lparr>o_status := OrderReadyForDispatch, o_driver_id := None, o_assigned_at := None\<rparr>) a (undone_row now a) [h])
      else same_core s s')"
proof -
  define kind where "kind = wc_operation_type req"
  from assms have role: "role = ''manager'' \<or> role = ''admin''"
    and tx: "warehouse_operation_tx order user role kind (wc_package_count req) (wc_assignment_id req)
       (trim_space (wc_cargo_condition req)) (string_value (wc_comment req)) (string_value (wc_recipient_name req)) e
       (s\<lparr>locks := []\<rparr>) = (Inr r, s')"
    unfolding create_warehouse_operation_def Let_def kind_def by (elim seq_ok fail_if_ok in_tx_run; simp)+
  from tx show ?thesis
  proof (cases rule: warehouse_operation_parts)
    case (1 ord w asg status u v now)
    have who: "role = ''manager'' \<and> manages s user w \<or> role = ''admin''" using role 1(4) by (auto simp: manages_def)
    have adm: "operation_admitted s ord kind asg"
      using 1(5) admitted_locks by metis
    have active: "kind \<in> {''receive'', ''load''} \<longrightarrow> map_option w_status (find (\<lambda>x. w_id x = w) (tb_warehouses s)) = Some ''active''"
      using 1(7,8) by auto
    have su: "same_core s u" using 1(9) by (simp add: same_core_def)
    have effect: "if kind = ''undo_load'' then
        (\<exists>a now h. asg = Some a \<and> rewrote e s s' ord
           (ord\<lparr>o_status := OrderReadyForDispatch, o_driver_id := None, o_assigned_at := None\<rparr>) a (undone_row now a) [h])
      else same_core s s'"
    proof (cases "kind = ''undo_load''")
      case True
      with 1(10) obtain a where a: "asg = Some a" and run: "undo_warehouse_loading ord a user now e u = (Inr (), v)"
        by (auto simp: when_do_def elim!: bind_ok deref_ok)
      have mem: "a \<in> set (tb_assignments u)" "ord \<in> set (tb_orders u)"
        using adm [unfolded a] True 1(1) su by (auto simp: operation_admitted_def same_core_def)
      from run mem show ?thesis
      proof (rule undo_loading_run)
        fix h
        assume "rewrote e u v ord (ord\<lparr>o_status := OrderReadyForDispatch, o_driver_id := None, o_assigned_at := None\<rparr>)
          a (undone_row now a) [h]"
        then have "rewrote e s s' ord (ord\<lparr>o_status := OrderReadyForDispatch, o_driver_id := None, o_assigned_at := None\<rparr>)
          a (undone_row now a) [h]"
          using su 1(11) by (simp add: rewrote_def same_core_def)
        with a show ?thesis unfolding if_P [OF True] by blast
      qed
    next
      case False
      with 1(10) have "v = u" by (simp add: when_do_def return_def)
      with su 1(11) False show ?thesis by (simp add: same_core_def)
    qed
    show ?thesis
      unfolding kind_def [symmetric]
      by (intro exI [of _ ord] exI [of _ w] exI [of _ asg] conjI who adm active effect) (use 1(1-3,6) in simp_all)
  qed
qed

definition sample_operation :: "string \<Rightarrow> uuid option \<Rightarrow> warehouse_operation_create" where
  "sample_operation kind a = \<lparr>wc_assignment_id = a, wc_cargo_condition = ''good'', wc_comment = Some ''why'',
     wc_operation_type = kind, wc_package_count = 3, wc_recipient_name = None\<rparr>"

text \<open>The accepted trip from the warehouse 10, its cargo received and loaded.\<close>

definition loaded_db :: db where
  "loaded_db = assigned_db\<lparr>tb_orders := [(sample_order 40 OrderAssigned)\<lparr>o_origin_warehouse := Some 10\<rparr>],
     tb_operations := map (\<lambda>(i, kind, a). \<lparr>wo_id = i, wo_order_id = 40, wo_warehouse_id = 10, wo_assignment_id = a,
       wo_type = kind, wo_package_count = 3, wo_cargo_condition = ''good'', wo_comment = [], wo_recipient_name = [],
       wo_created_by = 3, wo_occurred_at = 0\<rparr>) [(70, ''receive'', None), (71, ''load'', Some 50)]\<rparr>"

lemma warehouse_operation_effect_witness:
  "\<exists>(s' :: db) ord a now h. rewrote sample_env loaded_db s' ord
     (ord\<lparr>o_status := OrderReadyForDispatch, o_driver_id := None, o_assigned_at := None\<rparr>) a (undone_row now a) [h]"
proof -
  let ?call = "create_warehouse_operation 40 3 ''manager'' (sample_operation ''undo_load'' (Some 50))"
  have "error_of ?call sample_env loaded_db = None" by code_simp
  then obtain r where "?call sample_env loaded_db = (Inr r, after ?call sample_env loaded_db)" by (rule succeeded)
  from warehouse_operation_effect [OF this] obtain ord asg where
    effect: "if wc_operation_type (sample_operation ''undo_load'' (Some 50)) = ''undo_load'' then
        (\<exists>a now h. asg = Some a \<and> rewrote sample_env loaded_db (after ?call sample_env loaded_db) ord
           (ord\<lparr>o_status := OrderReadyForDispatch, o_driver_id := None, o_assigned_at := None\<rparr>) a (undone_row now a) [h])
      else same_core loaded_db (after ?call sample_env loaded_db)" by blast
  have "wc_operation_type (sample_operation ''undo_load'' (Some 50)) = ''undo_load''" by (simp add: sample_operation_def)
  from effect [unfolded if_P [OF this]] show ?thesis by blast
qed

section \<open>Incidents\<close>

text \<open>An incident is resolved only while it is open, only by a manager of its warehouse or an administrator, and
  only with a resolution that fits its kind: a breakdown counts as replaced only when another vehicle really
  took the cargo over, and a refusal as accepted only with a recipient, after the arrival and, into a
  warehouse, after unloading.  The row keeps everything that was reported.\<close>

theorem incident_resolution_effect:
  assumes "resolve_order_incident i user role req e s = (Inr r, s')"
  shows "\<exists>item ord. find (\<lambda>x. i_id x = i) (tb_incidents s) = Some item \<and> i_status item = ''open'' \<and>
     ord \<in> set (tb_orders s) \<and> o_id ord = i_order_id item \<and>
     (role = ''manager'' \<and> (\<exists>w. manages s user w \<and> i_warehouse_id item = Some w) \<or> role = ''admin'') \<and>
     resolution_valid s ord item (ir_resolution req) (string_value (ir_recipient_name req)) \<and>
     trim_space (ir_note req) \<noteq> [] \<and>
     r = item\<lparr>i_status := ''resolved'', i_resolution := ir_resolution req, i_resolution_note := trim_space (ir_note req),
           i_recipient_name := string_value (ir_recipient_name req), i_resolved_by := Some user, i_resolved_at := i_resolved_at r\<rparr> \<and>
     tb_incidents s' = overwrite (\<lambda>x. i_id x = i) (stored incidents_t e r) (tb_incidents s)"
proof -
  let ?note = "trim_space (ir_note req)" and ?recipient = "string_value (ir_recipient_name req)"
  from assms have role: "role = ''manager'' \<or> role = ''admin''" and given: "?note \<noteq> []"
    and tx: "resolve_incident_tx i user role (ir_resolution req) ?note ?recipient e (s\<lparr>locks := []\<rparr>) = (Inr r, s')"
    unfolding resolve_order_incident_def Let_def by (elim seq_ok fail_if_ok in_tx_run; simp)+
  from tx obtain seed s1 ord s2 item s3 s4 s5 valid s5' s6 now s7 s8 where
    seed: "get_one incidents_t (\<lambda>x. i_id x = i) e (s\<lparr>locks := []\<rparr>) = (Inr seed, s1)"
    and ord: "get_one_locked orders_t (\<lambda>x. o_id x = i_order_id seed) e s1 = (Inr ord, s2)"
    and item: "get_one_locked incidents_t (\<lambda>x. i_id x = i) e s2 = (Inr item, s3)"
    and mgr: "manager_check role user (\<lambda>w. i_warehouse_id item = Some w) e s3 = (Inr (), s4)"
    and opn: "fail_if (i_status item \<noteq> ''open'') (Business ErrIncidentStale) e s4 = (Inr (), s5)"
    and valid: "query (\<lambda>s. resolution_valid s ord item (ir_resolution req) ?recipient) e s5 = (Inr valid, s5')"
    and ok: "fail_if (\<not> valid) (Business ErrIncidentResolutionInvalid) e s5' = (Inr (), s6)"
    and now: "time_now e s6 = (Inr now, s7)"
    and r: "r = item\<lparr>i_status := ''resolved'', i_resolution := ir_resolution req, i_resolution_note := ?note,
                    i_recipient_name := ?recipient, i_resolved_by := Some user, i_resolved_at := Some now\<rparr>"
    and made: "update incidents_t (\<lambda>x. i_id x = i) (item\<lparr>i_status := ''resolved'', i_resolution := ir_resolution req,
                    i_resolution_note := ?note, i_recipient_name := ?recipient, i_resolved_by := Some user,
                    i_resolved_at := Some now\<rparr>) e s7 = (Inr (), s8)"
    and told: "for_each (remdups (i_reported_by item # opt_list (o_created_by ord)))
               (\<lambda>u. notify u (IncidentResolved (o_id ord) i (ir_resolution req) ?note)) e s8 = (Inr (), s')"
    unfolding resolve_incident_tx_def Let_def
    apply (elim bind_ok seq_ok return_ok)
    apply hypsubst
    by (rule that; (assumption | rule refl))
  note o = get_one_lockedD [OF ord, unfolded table_rows] and it = get_one_lockedD [OF item, unfolded table_rows]
  from seed have s1: "s1 = s\<lparr>locks := []\<rparr>" and sd: "find (\<lambda>x. i_id x = i) (tb_incidents s) = Some seed"
    by (elim get_one_run; simp)+
  have "find (\<lambda>x. i_id x = i) (rows incidents_t s2) = Some item" using item by (rule get_one_locked_run)
  then have found: "find (\<lambda>x. i_id x = i) (tb_incidents s) = Some item" by (simp add: o(3) s1)
  then have same: "seed = item" using sd by simp
  from mgr have s4: "s4 = s3" and m: "role = ''manager'' \<longrightarrow> (\<exists>w. manages s3 user w \<and> i_warehouse_id item = Some w)"
    by (elim manager_check_run; simp; blast)+
  from opn have s5: "s5 = s4" and st: "i_status item = ''open''" by (elim fail_if_ok; simp)+
  from valid ok have s6: "s6 = s5" and v: "resolution_valid s5 ord item (ir_resolution req) ?recipient"
    by (elim query_run fail_if_ok; simp)+
  from now have s7: "s7 = s6\<lparr>ticks := Suc (ticks s6)\<rparr>" by (rule time_now_run)
  have ex: "list_ex (\<lambda>x. i_id x = i) (tb_incidents s)" using found by (rule find_list_ex)
  from made [folded r] have "tb_incidents s8 = overwrite (\<lambda>x. i_id x = i) (stored incidents_t e r) (tb_incidents s)"
    by (elim update_run) (simp_all add: s7 s6 s5 s4 it(3) o(3) s1 ex)
  moreover have "tb_incidents s' = tb_incidents s8"
    using told by (rule keeps_run [rotated]) (intro keep_frames; simp)
  ultimately have rows: "tb_incidents s' = overwrite (\<lambda>x. i_id x = i) (stored incidents_t e r) (tb_incidents s)" by simp
  have who: "role = ''manager'' \<and> (\<exists>w. manages s user w \<and> i_warehouse_id item = Some w) \<or> role = ''admin''"
    using role m by (auto simp: it(3) o(3) s1 manages_def)
  have valid': "resolution_valid s ord item (ir_resolution req) ?recipient"
  proof -
    have "tb_assignments s5 = tb_assignments s" "tb_operations s5 = tb_operations s"
      by (simp_all add: s5 s4 it(3) o(3) s1)
    then have "resolution_valid s5 = resolution_valid s"
      by (simp only: fun_eq_iff resolution_valid_def unloaded_by_active_def simp_thms)
    then show ?thesis using v by simp
  qed
  have om: "ord \<in> set (tb_orders s)" "o_id ord = i_order_id item" using o(1,2) by (simp_all add: s1 same)
  show ?thesis
    by (intro exI [of _ item] exI [of _ ord] conjI found st om who valid' given rows) (subst (1 2) r, simp)
qed

definition broken_db :: db where
  "broken_db = moving_db\<lparr>tb_incidents := [\<lparr>i_id = 80, i_order_id = 40, i_assignment_id = Some 50, i_warehouse_id = None,
     i_source_operation = None, i_kind = ''vehicle_breakdown'', i_description = ''d'', i_expected_packages = None,
     i_actual_packages = None, i_status = ''open'', i_reported_by = 4, i_reported_at = 0, i_resolution = [],
     i_resolution_note = [], i_recipient_name = [], i_resolved_by = None, i_resolved_at = None\<rparr>]\<rparr>"

lemma incident_resolution_effect_witness:
  "\<exists>item ord. i_status item = ''open'' \<and> resolution_valid broken_db ord item ''repaired'' []"
proof -
  let ?req = "\<lparr>ir_note = ''fixed'', ir_recipient_name = None, ir_resolution = ''repaired''\<rparr>"
  let ?call = "resolve_order_incident 80 2 ''admin'' ?req"
  have "error_of ?call sample_env broken_db = None" by code_simp
  then obtain r where "?call sample_env broken_db = (Inr r, after ?call sample_env broken_db)" by (rule succeeded)
  from incident_resolution_effect [OF this] obtain item ord where
    "i_status item = ''open''" "resolution_valid broken_db ord item (ir_resolution ?req) (string_value (ir_recipient_name ?req))"
    by blast
  then show ?thesis by (auto simp: string_value_def)
qed

end
