(* ===== verification/Delivery_Guarantees.thy ===== *)
theory Delivery_Guarantees
  imports Failures
begin

text \<open>
  What delivery receipts and handovers on the road guarantee (internal/services:
  delivery_receipts.go, handover.go).
\<close>

lemma completed_call:
  assumes "error_of m e s = None"
  obtains r where "m e s = (Inr r, after m e s)"
  using assms by (cases "m e s") (auto simp: error_of_def after_def split: sum.splits)

lemma locks_irrelevant [simp]:
  "may_record_receipt (s\<lparr>locks := l\<rparr>) = may_record_receipt s"
  "expected_at_receipt (s\<lparr>locks := l\<rparr>) = expected_at_receipt s"
  "handover_manager (s\<lparr>locks := l\<rparr>) = handover_manager s"
  by (simp_all add: fun_eq_iff may_record_receipt_def manages_def expected_at_receipt_def latest_load_def handover_manager_def)

section \<open>Delivery receipts\<close>

lemma create_delivery_receipt_run:
  assumes "create_delivery_receipt order user role req e s = (Inr r, s')"
  obtains now i where "role = ''driver'' \<or> role = ''manager'' \<or> role = ''admin''" and "r = receipt_of order user now i req"
    and "\<not> receipt_invalid r" and "now = clock e (ticks s)"
    and "delivery_receipt_tx order user role r e (s\<lparr>ticks := Suc (ticks s), issued := Suc (issued s), locks := []\<rparr>) = (Inr r, s')"
proof -
  from assms have role: "role = ''driver'' \<or> role = ''manager'' \<or> role = ''admin''"
    unfolding create_delivery_receipt_def by (elim seq_ok fail_if_ok) blast
  from assms obtain now i where now: "now = clock e (ticks s)" and bad: "\<not> receipt_invalid (receipt_of order user now i req)"
    and tx: "delivery_receipt_tx order user role (receipt_of order user now i req) e
      (s\<lparr>ticks := Suc (ticks s), issued := Suc (issued s), locks := []\<rparr>) = (Inr r, s')"
    unfolding create_delivery_receipt_def Let_def
    by (elim bind_ok seq_ok fail_if_ok time_now_run uuid_new_run in_tx_run) (simp add: that)
  from tx have "r = receipt_of order user now i req" by (rule delivery_receipt_tx_run)
  with role now bad tx show ?thesis by (intro that) simp_all
qed

text \<open>A receipt is recorded once per order, for its active assignment, after the arrival and not dated before
  it, by the driver (unless a warehouse receives), by the responsible manager or an administrator; into a
  warehouse it must state what was unloaded.\<close>

theorem delivery_receipt_effect:
  assumes "create_delivery_receipt order user role req e s = (Inr r, s')"
  shows "\<exists>ord a arrived. ord \<in> set (tb_orders s) \<and> o_id ord = order \<and> o_status ord = OrderArrived \<and>
     a \<in> set (tb_assignments s) \<and> a_id a = r_assignment_id r \<and> a_order_id a = order \<and> a_status a = AssignmentActive \<and>
     role \<in> {''driver'', ''manager'', ''admin''} \<and> may_record_receipt s ord a user role \<and>
     o_arrived_at ord = Some arrived \<and> arrived \<le> r_received_at r \<and> order \<notin> r_order_id ` set (tb_receipts s) \<and>
     (o_dest_warehouse ord = None \<or> (\<exists>w \<in> set (tb_operations s). wo_order_id w = order \<and> wo_assignment_id w = Some (a_id a) \<and>
        wo_type w = ''unload'' \<and> wo_package_count w = r_package_count r)) \<and>
     tb_receipts s' = tb_receipts s @ [stored receipts_t e r]"
  using assms
proof (rule create_delivery_receipt_run)
  fix now i
  assume role: "role = ''driver'' \<or> role = ''manager'' \<or> role = ''admin''"
    and tx: "delivery_receipt_tx order user role r e (s\<lparr>ticks := Suc (ticks s), issued := Suc (issued s), locks := []\<rparr>) = (Inr r, s')"
  from tx show ?thesis
  proof (cases rule: delivery_receipt_tx_run)
    case (1 ord a arrived)
    have unloaded: "o_dest_warehouse ord = None \<or> (\<exists>w \<in> set (tb_operations s). wo_order_id w = order \<and>
        wo_assignment_id w = Some (a_id a) \<and> wo_type w = ''unload'' \<and> wo_package_count w = r_package_count r)"
      using 1(13) by (cases "o_dest_warehouse ord = None") simp_all
    have first: "order \<notin> r_order_id ` set (tb_receipts s)" using 1(12) by auto
    have who: "may_record_receipt s ord a user role" using 1(7) by (simp add: may_record_receipt_def manages_def)
    show ?thesis
      by (intro exI [of _ ord] exI [of _ a] exI [of _ arrived] conjI unloaded first who) (use 1 role in simp_all)
  qed
qed

definition sample_receipt :: "int \<Rightarrow> delivery_receipt_create" where
  "sample_receipt count = \<lparr>rr_assignment_id = 50, rr_authority_basis = ''a'', rr_cargo_condition = ''good'',
     rr_comment = None, rr_package_count = count, rr_received_at = Some (seconds 900), rr_recipient_name = ''n'',
     rr_recipient_role = ''r'', rr_seal_number = None\<rparr>"

lemma delivery_receipt_effect_witness:
  "\<exists>ord a. o_id ord = 40 \<and> o_status ord = OrderArrived \<and> may_record_receipt arrived_db ord a 4 ''driver''"
proof -
  let ?call = "create_delivery_receipt 40 4 ''driver'' (sample_receipt 3)"
  have "error_of ?call sample_env arrived_db = None" by code_simp
  then obtain r where "?call sample_env arrived_db = (Inr r, after ?call sample_env arrived_db)" by (rule completed_call)
  from delivery_receipt_effect [OF this] show ?thesis by blast
qed


text \<open>The arrived order, with three packages loaded for its trip.\<close>

definition three_loaded_db :: db where
  "three_loaded_db = arrived_db\<lparr>tb_operations := [\<lparr>wo_id = 71, wo_order_id = 40, wo_warehouse_id = 10,
     wo_assignment_id = Some 50, wo_type = ''load'', wo_package_count = 3, wo_cargo_condition = ''good'', wo_comment = [],
     wo_recipient_name = [], wo_created_by = 3, wo_occurred_at = 0\<rparr>]\<rparr>"


section \<open>Handovers on the road\<close>

text \<open>A handover is asked for only while the cargo is on the road, by the manager of the origin or an
  administrator, to another and eligible driver or vehicle; requests of the order that have run out are
  closed first, and afterwards exactly this one request of the order is pending.\<close>

theorem create_handover_effect:
  assumes "create_trip_handover order user role req e s = (Inr r, s')"
  shows "\<exists>ord old drv veh. ord \<in> set (tb_orders s) \<and> o_id ord = order \<and> o_status ord = OrderInTransit \<and>
     handover_manager s ord user role \<and> old \<in> set (tb_assignments s) \<and> a_order_id old = order \<and> a_status old = AssignmentActive \<and>
     (a_driver_id old \<noteq> t_driver_id r \<or> a_vehicle_id old \<noteq> t_vehicle_id r) \<and>
     drv \<in> set (tb_drivers s) \<and> d_id drv = t_driver_id r \<and> veh \<in> set (tb_vehicles s) \<and> v_id veh = t_vehicle_id r \<and>
     eligible s ord drv veh (clock e (ticks s)) (t_planned_to r) \<and> clock e (ticks s) < t_planned_to r \<and>
     t_previous_assignment r = a_id old \<and> t_expires_at r = clock e (ticks s) + minutes 15 \<and>
     tb_handovers s' = expire_handovers order (trunc_us (clock e (ticks s))) (tb_handovers s) @ [handover_row e r] \<and>
     filter (\<lambda>h. t_order_id h = order \<and> t_status h = ''pending'') (tb_handovers s') = [handover_row e r]"
proof -
  let ?req = "trimmed_handover req" and ?now = "clock e (ticks s)"
  let ?s = "s\<lparr>ticks := Suc (ticks s), locks := []\<rparr>"
  from assms have late: "?now < hc_planned_to ?req" and tx: "create_handover_tx order user role ?now ?req e ?s = (Inr r, s')"
    unfolding create_trip_handover_def Let_def by (elim bind_ok seq_ok fail_if_ok time_now_run in_tx_run; simp)+
  from tx show ?thesis
  proof (cases rule: create_handover_tx_run)
    case (1 ord old drv veh)
    obtain i where r: "r = new_handover i order user old ?now ?req" using 1(14) by blast
    have fields: "t_driver_id r = hc_driver_id ?req" "t_vehicle_id r = hc_vehicle_id ?req" "t_planned_to r = hc_planned_to ?req"
      "t_previous_assignment r = a_id old" "t_expires_at r = ?now + minutes 15" "t_order_id r = order" "t_status r = ''pending''"
      by (simp_all add: r new_handover_def)
    have row: "t_order_id (handover_row e r) = order" "t_status (handover_row e r) = ''pending''"
      using fields by (simp_all add: handover_row_def)
    have only: "filter (\<lambda>h. t_order_id h = order \<and> t_status h = ''pending'') (tb_handovers s') = [handover_row e r]"
      unfolding 1(15) filter_append using 1(16) row by (simp add: filter_empty_conv)
    have el: "eligible s ord drv veh ?now (t_planned_to r)" using 1(13) by (simp add: eligible_def fields)
    have mgr: "handover_manager s ord user role" using 1(4) by (simp add: handover_manager_def manages_def)
    show ?thesis
      by (intro exI [of _ ord] exI [of _ old] exI [of _ drv] exI [of _ veh] conjI only el mgr fields)
         (use 1 late in \<open>simp_all add: fields\<close>)
  qed
qed

definition sample_handover :: trip_handover_create where
  "sample_handover = \<lparr>hc_cargo_condition = ''good'', hc_driver_id = 21, hc_location = ''road'', hc_planned_to = hours 9,
     hc_reason = ''breakdown'', hc_vehicle_id = 31\<rparr>"

lemma create_handover_effect_witness:
  "\<exists>(s' :: db) h. filter (\<lambda>h. t_order_id h = 40 \<and> t_status h = ''pending'') (tb_handovers s') = [h]"
proof -
  let ?call = "create_trip_handover 40 2 ''admin'' sample_handover"
  have "error_of ?call sample_env moving_db = None" by code_simp
  then obtain r where "?call sample_env moving_db = (Inr r, after ?call sample_env moving_db)" by (rule completed_call)
  from create_handover_effect [OF this] show ?thesis by blast
qed

lemma update_trip_handover_run:
  assumes "update_trip_handover i user role action e s = (Inr r, s')"
  shows "update_handover_tx i user role action e (s\<lparr>locks := []\<rparr>) = (Inr (Inr r), s')"
  using assms unfolding update_trip_handover_def by (elim seq_ok bind_ok fail_if_ok in_tx_run lift_sum_ok) simp

text \<open>C23: The incoming driver takes the cargo over only after the outgoing driver confirmed the release, before the
  request runs out and while he and his vehicle are eligible.  In one step the old assignment is released, a
  new active one of the incoming driver takes its place, and the order, still in transit and with the same
  history, is his.\<close>

theorem accept_handover_effect:
  assumes "update_trip_handover i user role ''accept'' e s = (Inr r, s')"
  shows "\<exists>item ord old drv veh nxt. find (\<lambda>h. t_id h = i) (tb_handovers s) = Some item \<and> t_status item = ''pending'' \<and>
     role = ''driver'' \<and> clock e (ticks s) < t_expires_at item \<and> t_outgoing_confirmed item \<noteq> None \<and>
     ord \<in> set (tb_orders s) \<and> o_id ord = t_order_id item \<and> o_status ord = OrderInTransit \<and>
     old \<in> set (tb_assignments s) \<and> a_id old = t_previous_assignment item \<and> a_status old = AssignmentActive \<and>
     drv \<in> set (tb_drivers s) \<and> d_id drv = t_driver_id item \<and> d_user_id drv = user \<and>
     veh \<in> set (tb_vehicles s) \<and> v_id veh = t_vehicle_id item \<and>
     eligible s ord drv veh (clock e (ticks s)) (t_planned_to item) \<and>
     nxt = next_assignment (a_id nxt) (o_id ord) (clock e (ticks s)) item \<and>
     tb_assignments s' = overwrite (\<lambda>x. a_id x = a_id old)
       (assignment_row e (handed_over (clock e (ticks s)) old)) (tb_assignments s) @ [assignment_row e nxt] \<and>
     tb_orders s' = overwrite (\<lambda>x. o_id x = o_id ord)
       (order_row e (ord\<lparr>o_driver_id := Some (t_driver_id item)\<rparr>)) (tb_orders s) \<and> tb_history s' = tb_history s \<and>
     r = item\<lparr>t_status := ''completed'', t_completed_at := Some (clock e (ticks s)), t_next_assignment := Some (a_id nxt)\<rparr> \<and>
     handover_written e s s' i r"
proof -
  let ?now = "clock e (ticks s)"
  from update_trip_handover_run [OF assms] show ?thesis
  proof (cases rule: update_handover_tx_run)
    case (accepted item ord old drv veh ord' nxt u v)
    have mem: "old \<in> set (tb_assignments u)" "ord \<in> set (tb_orders u)" using accepted(6,9,20) by (simp_all add: same_core_def)
    from accepted(21) mem have ra: "ord' = ord\<lparr>o_driver_id := Some (t_driver_id item)\<rparr>"
      "nxt = next_assignment (a_id nxt) (o_id ord) ?now item"
      "tb_assignments v = overwrite (\<lambda>x. a_id x = a_id old) (assignment_row e (handed_over ?now old)) (tb_assignments u) @ [assignment_row e nxt]"
      "tb_orders v = overwrite (\<lambda>x. o_id x = o_id ord) (order_row e ord') (tb_orders u)" "tb_history v = tb_history u"
      by (rule replace_active_run; simp)+
    have tables: "tb_assignments s' = overwrite (\<lambda>x. a_id x = a_id old)
       (assignment_row e (handed_over ?now old)) (tb_assignments s) @ [assignment_row e nxt]"
      "tb_orders s' = overwrite (\<lambda>x. o_id x = o_id ord) (order_row e (ord\<lparr>o_driver_id := Some (t_driver_id item)\<rparr>)) (tb_orders s)"
      "tb_history s' = tb_history s"
      using ra(1,3-5) accepted(20,22) by (simp_all add: same_core_def)
    have el: "eligible s ord drv veh ?now (t_planned_to item)" using accepted(19) by (simp add: eligible_def)
    have row: "r = item\<lparr>t_status := ''completed'', t_completed_at := Some ?now, t_next_assignment := Some (a_id nxt)\<rparr>"
      using accepted(23) by simp
    have written: "handover_written e s s' i r" using accepted(24) by (simp add: handover_written_def row)
    show ?thesis
      by (intro exI [of _ item] exI [of _ ord] exI [of _ old] exI [of _ drv] exI [of _ veh] exI [of _ nxt] conjI
          ra(2) tables el row written) (use accepted in simp_all)
  qed simp_all
qed

text \<open>The trip whose driver has released the cargo to the driver 21.\<close>

definition released_db :: db where
  "released_db = moving_db\<lparr>tb_handovers := [\<lparr>t_id = 90, t_order_id = 40, t_previous_assignment = 50, t_next_assignment = None,
     t_driver_id = 21, t_vehicle_id = 31, t_created_by = 2, t_reason = ''r'', t_location = ''l'', t_cargo_condition = ''g'',
     t_planned_to = hours 9, t_status = ''pending'', t_created_at = 0, t_expires_at = hours 1,
     t_outgoing_confirmed = Some (seconds 100), t_completed_at = None\<rparr>]\<rparr>"

lemma accept_handover_effect_witness:
  "\<exists>(s' :: db) old nxt. tb_assignments s' = overwrite (\<lambda>x. a_id x = a_id old)
     (assignment_row sample_env (handed_over (seconds 1000) old)) (tb_assignments released_db) @ [assignment_row sample_env nxt]"
proof -
  let ?call = "update_trip_handover 90 5 ''driver'' ''accept''"
  have "error_of ?call sample_env released_db = None" by code_simp
  then obtain r where run: "?call sample_env released_db = (Inr r, after ?call sample_env released_db)" by (rule completed_call)
  have now: "clock sample_env (ticks released_db) = seconds 1000" by code_simp
  from accept_handover_effect [OF run, unfolded now] show ?thesis by blast
qed

interpretation nx: error_class "\<lambda>er. er \<noteq> Business ErrAssignmentExpired"
  by unfold_locales (auto simp: infrastructure_def)

lemma handover_never_throws_expired:
  "throws (\<lambda>er. er \<noteq> Business ErrAssignmentExpired) (update_handover_tx i user role action)"
  unfolding update_handover_tx_def lock_handover_fleet_def lock_drivers_def lock_vehicles_def handover_actor_def
    authorize_handover_manager_def handover_step_def accept_handover_def replace_active_def record_handover_def Let_def option.case
  by (intro throw_rules; simp)

text \<open>A driver who answers a handover too late gets the error \<open>ASSIGNMENT_EXPIRED\<close>, and the refusal is
  committed: the request is closed as expired, while orders, assignments and history stay as they are.\<close>

theorem late_handover_closes_request:
  assumes "error_of (update_trip_handover i user role action) e s = Some (Business ErrAssignmentExpired)"
  shows "action \<noteq> ''cancel'' \<and> (\<exists>item. find (\<lambda>h. t_id h = i) (tb_handovers s) = Some item \<and> t_status item = ''pending'' \<and>
     t_expires_at item \<le> clock e (ticks s) \<and> same_core s (after (update_trip_handover i user role action) e s) \<and>
     handover_written e s (after (update_trip_handover i user role action) e s) i (item\<lparr>t_status := ''expired''\<rparr>))"
proof -
  let ?s' = "after (update_trip_handover i user role action) e s"
  have role: "role = ''driver'' \<or> role = ''manager'' \<or> role = ''admin''"
    using assms by (auto simp: error_of_def update_trip_handover_def seq_def bind_def fail_if_def throw_def split: if_splits)
  have run: "bind (in_tx (update_handover_tx i user role action)) lift_sum e s = (Inl (Business ErrAssignmentExpired), ?s')"
    using error_of_after [OF assms] role by (auto simp: update_trip_handover_def seq_def bind_def fail_if_def return_def)
  obtain x t where m: "in_tx (update_handover_tx i user role action) e s = (x, t)"
    by (cases "in_tx (update_handover_tx i user role action) e s")
  show ?thesis
  proof (cases x)
    case (Inl er)
    with m run have "in_tx (update_handover_tx i user role action) e s = (Inl (Business ErrAssignmentExpired), ?s')" by (simp add: bind_def)
    moreover have "throws (\<lambda>er. er \<noteq> Business ErrAssignmentExpired) (in_tx (update_handover_tx i user role action))"
      by (rule throws_control(11) [OF handover_never_throws_expired])
    ultimately show ?thesis unfolding throws_def by blast
  next
    case (Inr y)
    with m run have y: "y = Inl (Business ErrAssignmentExpired)" and t: "t = ?s'" by (simp_all add: bind_def lift_sum_def)
    have "update_handover_tx i user role action e (s\<lparr>locks := []\<rparr>) = (Inr y, t)" using m unfolding Inr by (rule in_tx_run)
    then show ?thesis
    proof (cases rule: update_handover_tx_run)
      case (expired item)
      then show ?thesis unfolding t by (intro conjI exI [of _ item]) (simp_all add: same_core_def handover_written_def)
    qed (simp_all add: y)
  qed
qed

lemma late_handover_closes_request_witness:
  "let late = released_db\<lparr>ticks := 3000\<rparr> in
   handover_written sample_env late (after (update_trip_handover 90 5 ''driver'' ''accept'') sample_env late) 90
     (hd (tb_handovers late)\<lparr>t_status := ''expired''\<rparr>)"
proof -
  let ?late = "released_db\<lparr>ticks := 3000\<rparr>"
  have "error_of (update_trip_handover 90 5 ''driver'' ''accept'') sample_env ?late = Some (Business ErrAssignmentExpired)" by code_simp
  from late_handover_closes_request [OF this] show ?thesis by (auto simp: Let_def released_db_def)
qed

end
