(* ===== verification/Party_Guarantees.thy ===== *)
theory Party_Guarantees
  imports Failures
begin

text \<open>
  What clients and managers can rely on: who sees an order, what it costs, that a new order can be
  read back, and what the catalogue of counterparties and the transport details guarantee
  (internal/services: order.go, counterparties.go, transport_details.go).
\<close>

lemma call_ok:
  assumes "error_of m e s = None"
  obtains r where "m e s = (Inr r, after m e s)"
  using assms by (cases "m e s") (auto simp: error_of_def after_def split: sum.splits)

lemma find_key:
  assumes "distinct (map key xs)" and "x \<in> set xs"
  shows "find (\<lambda>y. key y = key x) xs = Some x"
proof -
  from assms(2) obtain y where y: "find (\<lambda>y. key y = key x) xs = Some y"
    using find_None_all [of "\<lambda>y. key y = key x" xs] by (cases "find (\<lambda>y. key y = key x) xs") auto
  with find_Some_mem [OF y] distinct_key_unique [OF assms(1) _ assms(2)] show ?thesis by simp
qed

section \<open>Who sees an order\<close>


lemma list_orders_run:
  assumes "list_orders user role params e s = (Inr xs, s')"
  obtains w drv where "role = ''client'' \<or> role = ''driver'' \<or> role = ''manager'' \<or> role = ''admin''"
    and "role = ''manager'' \<longrightarrow> manages s user w" and "s' = s"
    and "xs = filter (\<lambda>x. (role = ''client'' \<longrightarrow> o_created_by x = Some user) \<and> (role = ''driver'' \<longrightarrow> driven_by s drv x) \<and>
       (role = ''manager'' \<longrightarrow> order_touches_warehouse x w) \<and>
       if_given (lo_status params) (\<lambda>st. order_status_text (o_status x) = st) \<and>
       if_given (lo_driver_id params) (\<lambda>d. o_driver_id x = Some d)) (tb_orders s)"
proof -
  from assms obtain w drv s1 s2 where role: "role = ''client'' \<or> role = ''driver'' \<or> role = ''manager'' \<or> role = ''admin''"
    and w: "(if role = ''manager'' then manager_warehouse_id user else return uuid_nil) e s = (Inr w, s1)"
    and d: "(if role = ''driver'' then bind (driver_of_user user) (\<lambda>drv. return (d_id drv)) else return uuid_nil) e s1 = (Inr drv, s2)"
    and xs: "query (\<lambda>s. filter (\<lambda>x. (role = ''client'' \<longrightarrow> o_created_by x = Some user) \<and> (role = ''driver'' \<longrightarrow> driven_by s drv x) \<and>
       (role = ''manager'' \<longrightarrow> order_touches_warehouse x w) \<and>
       if_given (lo_status params) (\<lambda>st. order_status_text (o_status x) = st) \<and>
       if_given (lo_driver_id params) (\<lambda>d. o_driver_id x = Some d)) (tb_orders s)) e s2 = (Inr xs, s')"
    unfolding list_orders_def by (elim seq_ok bind_ok fail_if_ok) blast
  from w have s1: "s1 = s" and m: "role = ''manager'' \<longrightarrow> manages s user w"
    by (elim if_ok manager_warehouse_id_run return_ok; simp add: manages_def)+
  from d have s2: "s2 = s1" by (elim if_ok bind_ok driver_of_user_run return_ok) simp_all
  from xs show ?thesis by (elim query_run) (rule that [OF role m]; simp add: s1 s2)
qed

text \<open>C37: Every order that ListOrders shows a client, a manager or an administrator, GetOrder opens for him.\<close>

theorem listed_orders_can_be_opened:
  assumes "sound s" and "list_orders user role params e s = (Inr xs, s')" and "x \<in> set xs" and "role \<noteq> ''driver''"
  shows "fst (get_order (o_id x) user role e' s) = Inr x"
  using assms(2)
proof (rule list_orders_run)
  fix w drv
  assume role: "role = ''client'' \<or> role = ''driver'' \<or> role = ''manager'' \<or> role = ''admin''"
    and m: "role = ''manager'' \<longrightarrow> manages s user w"
    and xs: "xs = filter (\<lambda>x. (role = ''client'' \<longrightarrow> o_created_by x = Some user) \<and> (role = ''driver'' \<longrightarrow> driven_by s drv x) \<and>
       (role = ''manager'' \<longrightarrow> order_touches_warehouse x w) \<and>
       if_given (lo_status params) (\<lambda>st. order_status_text (o_status x) = st) \<and>
       if_given (lo_driver_id params) (\<lambda>d. o_driver_id x = Some d)) (tb_orders s)"
  have mem: "x \<in> set (tb_orders s)" using assms(3) by (simp add: xs)
  have "distinct (map o_id (tb_orders s))" using assms(1) by (simp add: sound_def consistent_def)
  then have found: "find (\<lambda>y. o_id y = o_id x) (tb_orders s) = Some x" using mem by (rule find_key)
  have in_list: "(role = ''client'' \<longrightarrow> o_created_by x = Some user) \<and> (role = ''driver'' \<longrightarrow> driven_by s drv x) \<and>
       (role = ''manager'' \<longrightarrow> order_touches_warehouse x w)"
    using assms(3) unfolding xs set_filter mem_Collect_eq by (elim conjE) (intro conjI; assumption)
  from role have may: "may_see e' s user role x"
  proof (elim disjE)
    assume "role = ''manager''"
    with in_list m show ?thesis by (auto simp: may_see_def)
  qed (use in_list assms(4) in \<open>simp_all add: may_see_def\<close>)
  have known: "\<not> role \<notin> {''client'', ''driver'', ''manager'', ''admin''}" using role by simp
  show ?thesis unfolding get_order_result if_not_P [OF known] found option.case if_P [OF may] ..
qed

lemma listed_orders_can_be_opened_witness:
  "fst (get_order 40 1 ''client'' sample_env assigned_db) = Inr (sample_order 40 OrderAssigned)"
proof -
  let ?call = "list_orders 1 ''client'' \<lparr>lo_status = None, lo_driver_id = None\<rparr>"
  have "fst (?call sample_env assigned_db) = Inr [sample_order 40 OrderAssigned]" by code_simp
  then have run: "?call sample_env assigned_db = (Inr [sample_order 40 OrderAssigned], snd (?call sample_env assigned_db))"
    by (metis prod.collapse)
  have so: "sound assigned_db" by code_simp
  have "fst (get_order (o_id (sample_order 40 OrderAssigned)) 1 ''client'' sample_env assigned_db) = Inr (sample_order 40 OrderAssigned)"
    using so run by (rule listed_orders_can_be_opened) simp_all
  then show ?thesis by (simp add: sample_order_def)
qed

text \<open>For drivers this fails: a cancelled order keeps its driver, who still finds it in his list and is refused by GetOrder.\<close>

lemma cancelled_order_listed_but_refused:
  "let s = run_all [CancelOrder 40 2 ''admin'' \<lparr>oc_comment = None, oc_reason_code = None\<rparr>] sample_env assigned_db in
   map_sum id (map o_id) (fst (list_orders 4 ''driver'' \<lparr>lo_status = None, lo_driver_id = None\<rparr> sample_env s)) = Inr [40] \<and>
   fst (get_order 40 4 ''driver'' sample_env s) = Inl forbidden"
  by code_simp

section \<open>Creating and editing an order\<close>



text \<open>Only a draft can be edited, by its client, the manager of its origin or an administrator; the edit keeps every
  field it does not name, prices the order anew for its route and the merged weight and volume, and touches
  neither assignments nor history.\<close>

theorem update_draft_effect:
  assumes "update_draft_order i user role req e s = (Inr r, s')"
  shows "\<exists>old rt. find (\<lambda>x. o_id x = i) (tb_orders s) = Some old \<and> o_status old = OrderDraft \<and>
     find (\<lambda>r. ro_order_id r = i) (tb_routes s) = Some rt \<and>
     (role = ''client'' \<and> o_created_by old = Some user \<or>
      role = ''manager'' \<and> (\<exists>w. manages s user w \<and> o_origin_warehouse old = Some w) \<or> role = ''admin'') \<and>
     r = (apply_draft_update req old)\<lparr>o_total_price := Some (order_price (pricing_conf e) (the (ro_distance_km rt))
            (o_weight_kg r) (o_volume_m3 r))\<rparr> \<and>
     \<not> window_reversed (o_pickup_from r) (o_pickup_to r) \<and>
     tb_orders s' = overwrite (\<lambda>x. o_id x = i) (order_row e r) (tb_orders s) \<and>
     tb_assignments s' = tb_assignments s \<and> tb_history s' = tb_history s"
proof -
  from assms have role: "role = ''client'' \<or> role = ''manager'' \<or> role = ''admin''"
    and tx: "update_draft_tx i user role req e (s\<lparr>locks := []\<rparr>) = (Inr r, s')"
    unfolding update_draft_order_def by (elim seq_ok fail_if_ok in_tx_run; simp)+
  from tx show ?thesis
  proof (rule update_draft_tx_run)
    fix old rt
    assume "find (\<lambda>x. o_id x = i) (tb_orders (s\<lparr>locks := []\<rparr>)) = Some old"
      "find (\<lambda>r. ro_order_id r = i) (tb_routes (s\<lparr>locks := []\<rparr>)) = Some rt"
      and who: "role = ''client'' \<longrightarrow> o_created_by old = Some user"
        "role = ''manager'' \<longrightarrow> (\<exists>w. manages (s\<lparr>locks := []\<rparr>) user w \<and> o_origin_warehouse old = Some w)"
      and draft: "o_status old = OrderDraft" and window: "\<not> window_reversed (o_pickup_from r) (o_pickup_to r)"
      and row: "r = (apply_draft_update req old)\<lparr>o_total_price := Some (order_price (pricing_conf e) (the (ro_distance_km rt))
            (o_weight_kg r) (o_volume_m3 r))\<rparr>"
      and "tb_orders s' = overwrite (\<lambda>x. o_id x = i) (order_row e r) (tb_orders (s\<lparr>locks := []\<rparr>))"
        "tb_assignments s' = tb_assignments (s\<lparr>locks := []\<rparr>)" "tb_history s' = tb_history (s\<lparr>locks := []\<rparr>)"
    then have tables: "find (\<lambda>x. o_id x = i) (tb_orders s) = Some old" "find (\<lambda>r. ro_order_id r = i) (tb_routes s) = Some rt"
      "tb_orders s' = overwrite (\<lambda>x. o_id x = i) (order_row e r) (tb_orders s)" "tb_assignments s' = tb_assignments s"
      "tb_history s' = tb_history s" by simp_all
    have may: "role = ''client'' \<and> o_created_by old = Some user \<or>
      role = ''manager'' \<and> (\<exists>w. manages s user w \<and> o_origin_warehouse old = Some w) \<or> role = ''admin''"
      using role who by (cases "role = ''client''"; cases "role = ''manager''") (simp_all add: manages_def)
    show ?thesis by (intro exI [of _ old] exI [of _ rt] conjI tables draft may window row)
  qed
qed

lemma update_draft_effect_witness:
  "\<exists>old. o_status old = OrderDraft \<and> o_created_by old = Some 1 \<and>
     find (\<lambda>x. o_id x = 40) (tb_orders (sample_db OrderDraft [])) = Some old"
proof -
  let ?req = "\<lparr>ou_cargo = Some ''x'', ou_pickup_from = None, ou_pickup_to = None, ou_volume_m3 = None, ou_weight_kg = Some (Fin 2)\<rparr>"
  let ?call = "update_draft_order 40 1 ''client'' ?req"
  have "error_of ?call sample_env (sample_db OrderDraft []) = None" by code_simp
  then obtain r where "?call sample_env (sample_db OrderDraft []) = (Inr r, after ?call sample_env (sample_db OrderDraft []))"
    by (rule call_ok)
  from update_draft_effect [OF this] obtain old where
    old: "find (\<lambda>x. o_id x = 40) (tb_orders (sample_db OrderDraft [])) = Some old" "o_status old = OrderDraft"
    and who: "''client'' = ''client'' \<and> o_created_by old = Some 1 \<or>
      ''client'' = ''manager'' \<and> (\<exists>w. manages (sample_db OrderDraft []) 1 w \<and> o_origin_warehouse old = Some w) \<or> ''client'' = ''admin''"
    by blast
  from who have "o_created_by old = Some 1" by simp
  with old show ?thesis by blast
qed

text \<open>C39: Under a tariff of finite, non-negative charges the price never falls when the distance, the weight or the
  volume grows, rounding of every intermediate result included.\<close>

theorem order_price_monotone:
  assumes "pricing_ok conf" and "f64_nonneg d" and "f64_nonneg w" and "f64_nonneg v"
    and "f64_le d d'" and "f64_le w w'" and "f64_le v v'"
    and "f64_finite d" and "f64_finite w" and "f64_finite v" and "f64_finite d'" and "f64_finite w'" and "f64_finite v'"
  shows "f64_le (order_price conf d w v) (order_price conf d' w' v')"
  using assms by (rule order_price_mono)

lemma order_price_monotone_witness:
  "f64_le (order_price (pricing_conf sample_env) (Fin 10) (Fin 3) (Fin 1)) (order_price (pricing_conf sample_env) (Fin 12) (Fin 3) (Fin 2))"
  by (rule order_price_monotone) (simp_all add: sample_env_def pricing_ok_def charge_ok_def)

section \<open>The catalogue of counterparties\<close>

lemma ends_safe: "throws E m \<Longrightarrow> error_of m e s = Some er \<Longrightarrow> E er"
  by (rule throws_error)

text \<open>Statements on other tables than the catalogue are not involved, so one rule is enough.\<close>

lemma accepted_request_passes_checks:
  assumes "normalize_counterparty parse req = Inr item"
  shows "throws (\<lambda>er. er \<noteq> Pg CheckViolation) (create counterparties_t (item\<lparr>cp_id := i, cp_owner_user_id := u, cp_created_at := t, cp_updated_at := t'\<rparr>))"
    and "throws (\<lambda>er. er \<noteq> Pg CheckViolation) (update counterparties_t p (item\<lparr>cp_id := i, cp_owner_user_id := u, cp_created_at := t, cp_updated_at := t'\<rparr>))"
proof -
  have "violation counterparties_t e s others (item\<lparr>cp_id := i, cp_owner_user_id := u, cp_created_at := t, cp_updated_at := t'\<rparr>) \<noteq>
    Some CheckViolation" for e s others
    by (rule normalized_never_check [OF assms]) simp_all
  then show "throws (\<lambda>er. er \<noteq> Pg CheckViolation) (create counterparties_t (item\<lparr>cp_id := i, cp_owner_user_id := u, cp_created_at := t, cp_updated_at := t'\<rparr>))"
    and "throws (\<lambda>er. er \<noteq> Pg CheckViolation) (update counterparties_t p (item\<lparr>cp_id := i, cp_owner_user_id := u, cp_created_at := t, cp_updated_at := t'\<rparr>))"
    unfolding throws_def create_def update_def by (auto split: option.splits if_splits)
qed

lemma normalize_error: "normalize_counterparty parse req = Inl er \<Longrightarrow> er = Business ErrInvalidOrderInput"
  by (auto simp: normalize_counterparty_def Let_def split: if_splits)


text \<open>The control digits of an INN are determined by the other digits: two valid numbers of the same length that
  agree on all other digits are the same number.\<close>

theorem inn_control_digits:
  assumes "valid_inn x" and "valid_inn y" and "length x = length y"
    and "take (if length x = 10 then 9 else 10) x = take (if length x = 10 then 9 else 10) y"
  shows "x = y"
proof -
  have len: "length x = 10 \<or> length x = 12" using assms(1) by (auto simp: valid_inn_def ascii_digits_def)
  define p where "p = take (if length x = 10 then 9 else 10) x"
  have x: "x = p @ drop (if length x = 10 then 9 else 10) x" and y: "y = p @ drop (if length x = 10 then 9 else 10) y"
    unfolding p_def using assms(4) by (metis append_take_drop_id)+
  show ?thesis
  proof (cases "length x = 10")
    case True
    then obtain a b where "drop 9 x = [a]" "drop 9 y = [b]"
      using assms(3) by (cases "drop 9 x"; cases "drop 9 y") (auto simp: drop_eq_Nil dest!: arg_cong [where f = length])
    moreover have "length p = 9" using True by (simp add: p_def)
    ultimately show ?thesis using x y assms(1,2) inn10_digit [of p a b] True by simp
  next
    case False
    then have n: "length x = 12" using len by simp
    have two: "\<exists>a b. drop 10 z = [a, b]" if "length z = 12" for z :: string
    proof -
      have "length (drop 10 z) = Suc (Suc 0)" using that by simp
      then show ?thesis by (metis length_Suc_conv length_0_conv)
    qed
    obtain a b c d where "drop 10 x = [a, b]" "drop 10 y = [c, d]" using two n assms(3) by metis
    moreover have "length p = 10" using n by (simp add: p_def)
    ultimately show ?thesis using x y assms(1,2) inn12_digits [of p a b c d] False by simp
  qed
qed

lemma inn_control_digits_witness: "\<not> valid_inn ''7707083894''"
proof
  assume wrong: "valid_inn ''7707083894''"
  have right: "valid_inn ''7707083893''" by code_simp
  have "''7707083893'' = ''7707083894''" by (rule inn_control_digits [OF right wrong]) simp_all
  then show False by simp
qed

text \<open>An accepted counterparty can be sent again as it was stored, and is accepted unchanged.\<close>

theorem counterparty_resubmits:
  assumes "normalize_counterparty parse req = Inr item"
  shows "normalize_counterparty parse (request_of item) = Inr item"
proof -
  have item: "item = counterparty_of req" using assms by (rule normalize_ok)
  then have eq: "counterparty_of (request_of item) = counterparty_of req" by (simp add: counterparty_of_request_of)
  have "normalize_counterparty parse (request_of item) = normalize_counterparty parse req"
    unfolding normalize_counterparty_def eq ..
  with assms show ?thesis by simp
qed

definition sample_party_request :: counterparty_write where
  "sample_party_request = \<lparr>cw_address = '' Street 1 '', cw_contact_name = ''n'', cw_email = None, cw_inn = Some ''7707083893'',
     cw_kind = ''organization'', cw_kpp = None, cw_name = ''Firm'', cw_phone = Some '' 1 '', cw_shared = None, cw_status = None\<rparr>"

lemma counterparty_resubmits_witness:
  "normalize_counterparty Some (request_of (counterparty_of sample_party_request)) = Inr (counterparty_of sample_party_request)"
  by (rule counterparty_resubmits [where req = sample_party_request]) code_simp

text \<open>A counterparty is changed only by its owner or an administrator, and made shared only by an administrator;
  its id, owner and creation time stay, and every other record of the catalogue, every order and every
  snapshot taken of the record earlier are left alone.\<close>

theorem update_counterparty_effect:
  assumes "update_counterparty i user role req e s = (Inr c, s')"
  shows "\<exists>old item. find (\<lambda>c. cp_id c = i \<and> (role = ''admin'' \<or> cp_owner_user_id c = user)) (tb_counterparties s) = Some old \<and>
     normalize_counterparty (parse_mail e) req = Inr item \<and> (cp_shared c \<longrightarrow> role = ''admin'') \<and>
     cp_id c = i \<and> cp_owner_user_id c = cp_owner_user_id old \<and>
     tb_counterparties s' = overwrite (\<lambda>c. cp_id c = i) (stored counterparties_t e c) (tb_counterparties s) \<and>
     filter (\<lambda>c. cp_id c \<noteq> i) (tb_counterparties s') = filter (\<lambda>c. cp_id c \<noteq> i) (tb_counterparties s) \<and>
     tb_orders s' = tb_orders s"
  using assms
proof (rule update_counterparty_run)
  fix old item l n
  assume rows: "normalize_counterparty (parse_mail e) req = Inr item"
      "find (\<lambda>c. cp_id c = i \<and> (role = ''admin'' \<or> cp_owner_user_id c = user)) (tb_counterparties s) = Some old"
      "cp_id c = i" "cp_owner_user_id c = cp_owner_user_id old"
    and shared: "cp_shared item \<longrightarrow> role = ''admin''" "cp_shared c = cp_shared item"
    and s': "s' = tb_counterparties_update (overwrite (\<lambda>c. cp_id c = i) (stored counterparties_t e c)) (s\<lparr>locks := l, ticks := n\<rparr>)"
  have id: "cp_id (stored counterparties_t e c) = i" using rows(3) by (simp add: counterparties_t_def)
  have cat: "tb_counterparties s' = overwrite (\<lambda>c. cp_id c = i) (stored counterparties_t e c) (tb_counterparties s)"
    and ord: "tb_orders s' = tb_orders s" by (simp_all add: s')
  have others: "filter (\<lambda>c. cp_id c \<noteq> i) (overwrite (\<lambda>c. cp_id c = i) y xs) = filter (\<lambda>c. cp_id c \<noteq> i) xs" if "cp_id y = i" for y xs
    using that by (induction xs) (auto simp: overwrite_def)
  have sh: "cp_shared c \<longrightarrow> role = ''admin''" using shared by simp
  show ?thesis
    by (intro exI [of _ old] exI [of _ item] conjI rows sh cat ord) (simp only: cat others [OF id])
qed

definition catalogue_db :: db where
  "catalogue_db = empty_db\<lparr>tb_counterparties := [(counterparty_of sample_party_request)\<lparr>cp_id := 5, cp_owner_user_id := 1\<rparr>]\<rparr>"

lemma update_counterparty_effect_witness:
  "\<exists>old. cp_id old = 5 \<and> cp_owner_user_id old = 1 \<and> find (\<lambda>c. cp_id c = 5 \<and> (''client'' = ''admin'' \<or> cp_owner_user_id c = 1))
     (tb_counterparties catalogue_db) = Some old"
proof -
  let ?call = "update_counterparty 5 1 ''client'' sample_party_request"
  have "error_of ?call sample_env catalogue_db = None" by code_simp
  then obtain c where "?call sample_env catalogue_db = (Inr c, after ?call sample_env catalogue_db)" by (rule call_ok)
  from update_counterparty_effect [OF this] obtain old where
    old: "find (\<lambda>c. cp_id c = 5 \<and> (''client'' = ''admin'' \<or> cp_owner_user_id c = 1)) (tb_counterparties catalogue_db) = Some old" by blast
  from find_Some_mem [OF this] have "cp_id old = 5" "cp_owner_user_id old = 1" by simp_all
  with old show ?thesis by blast
qed

section \<open>Transport details\<close>

text \<open>Transport details are set only on a draft, by its client, the manager of its origin or an administrator, and hold
  a copy of three active records of the catalogue that this caller may use, the carrier never an individual;
  from then on the order is under the current transport policy.\<close>

theorem set_transport_effect:
  assumes "set_transport_details i user role req e s = (Inr r, s')"
  shows "\<exists>ord d. find (\<lambda>x. o_id x = i) (tb_orders s) = Some ord \<and> o_status ord = OrderDraft \<and>
     (role = ''client'' \<and> o_created_by ord = Some user \<or>
      role = ''manager'' \<and> (\<exists>w. manages s user w \<and> o_origin_warehouse ord = Some w) \<or> role = ''admin'') \<and>
     usable_party s ord user role (tw_sender_id req) (td_sender d) \<and>
     usable_party s ord user role (tw_recipient_id req) (td_recipient d) \<and>
     usable_party s ord user role (tw_carrier_id req) (td_carrier d) \<and> cp_kind (td_carrier d) \<noteq> ''individual'' \<and>
     td_package_count d = tw_package_count req \<and> 0 < td_package_count d \<and> td_recorded_by d = user \<and>
     r = ord\<lparr>o_details := Details d, o_policy_version := 1\<rparr> \<and>
     tb_orders s' = overwrite (\<lambda>x. o_id x = i) (order_row e r) (tb_orders s) \<and> tb_counterparties s' = tb_counterparties s"
proof -
  from assms have role: "role = ''client'' \<or> role = ''manager'' \<or> role = ''admin''" and valid: "\<not> transport_input_invalid req"
    and tx: "set_transport_tx i user role req e (s\<lparr>locks := []\<rparr>) = (Inr r, s')"
    unfolding set_transport_details_def can_manage_counterparties_def by (elim seq_ok fail_if_ok in_tx_run; simp)+
  have usable: "usable_party (s\<lparr>locks := []\<rparr>) = usable_party s" by (simp add: fun_eq_iff usable_party_def)
  from tx show ?thesis
  proof (rule set_transport_tx_run)
    fix ord d
    assume ord: "find (\<lambda>x. o_id x = i) (tb_orders (s\<lparr>locks := []\<rparr>)) = Some ord"
      and who: "role = ''client'' \<longrightarrow> o_created_by ord = Some user"
        "role = ''manager'' \<longrightarrow> (\<exists>w. manages (s\<lparr>locks := []\<rparr>) user w \<and> o_origin_warehouse ord = Some w)"
      and u: "usable_party (s\<lparr>locks := []\<rparr>) ord user role (tw_sender_id req) (td_sender d)"
        "usable_party (s\<lparr>locks := []\<rparr>) ord user role (tw_recipient_id req) (td_recipient d)"
        "usable_party (s\<lparr>locks := []\<rparr>) ord user role (tw_carrier_id req) (td_carrier d)"
      and rest: "o_status ord = OrderDraft" "cp_kind (td_carrier d) \<noteq> ''individual''" "td_package_count d = tw_package_count req"
        "td_recorded_by d = user" "r = ord\<lparr>o_details := Details d, o_policy_version := 1\<rparr>"
      and t: "tb_orders s' = overwrite (\<lambda>x. o_id x = i) (order_row e r) (tb_orders (s\<lparr>locks := []\<rparr>))"
        "tb_counterparties s' = tb_counterparties (s\<lparr>locks := []\<rparr>)"
    have tables: "find (\<lambda>x. o_id x = i) (tb_orders s) = Some ord"
      "tb_orders s' = overwrite (\<lambda>x. o_id x = i) (order_row e r) (tb_orders s)" "tb_counterparties s' = tb_counterparties s"
      using ord t by simp_all
    have may: "role = ''client'' \<and> o_created_by ord = Some user \<or>
      role = ''manager'' \<and> (\<exists>w. manages s user w \<and> o_origin_warehouse ord = Some w) \<or> role = ''admin''"
      using role who by (cases "role = ''client''"; cases "role = ''manager''") (simp_all add: manages_def)
    have pos: "0 < td_package_count d" using valid rest(3) by (simp add: transport_input_invalid_def)
    show ?thesis by (intro exI [of _ ord] exI [of _ d] conjI tables may u [unfolded usable] pos rest)
  qed
qed

definition draft_with_catalogue_db :: db where
  "draft_with_catalogue_db = (sample_db OrderDraft [])\<lparr>tb_counterparties := tb_counterparties catalogue_db\<rparr>"

lemma set_transport_effect_witness:
  "\<exists>(d :: transport_details) ord. usable_party draft_with_catalogue_db ord 1 ''client'' 5 (td_carrier d) \<and> td_package_count d = 3"
proof -
  let ?req = "\<lparr>tw_basis_date = hours 24, tw_basis_number = ''1'', tw_basis_type = ''contract'', tw_carrier_id = 5,
     tw_package_count = 3, tw_recipient_id = 5, tw_sender_id = 5, tw_terms = None\<rparr>"
  let ?call = "set_transport_details 40 1 ''client'' ?req"
  have "error_of ?call sample_env draft_with_catalogue_db = None" by code_simp
  then obtain r where "?call sample_env draft_with_catalogue_db = (Inr r, after ?call sample_env draft_with_catalogue_db)"
    by (rule call_ok)
  from set_transport_effect [OF this] obtain d :: transport_details and ord where
    "usable_party draft_with_catalogue_db ord 1 ''client'' (tw_carrier_id ?req) (td_carrier d)"
    "td_package_count d = tw_package_count ?req" by blast
  then show ?thesis by (intro exI [of _ d] exI [of _ ord]) simp
qed

end
