(* ===== verification/Messaging.thy ===== *)
theory Messaging
  imports Access
begin

text \<open>
  The messages the program exchanges with the dispatch and document services: the requests for
  recommendations and their refresh after a release (internal/services/dispatch.go,
  dispatch_refresh.go), the recommendations that come back (internal/events/dispatch.go), and the
  relay of the outbox and the inbox of ready documents (internal/events/worker.go).  The stream
  itself (JetStream) is outside the repository: whether it takes a message is an argument, and what
  was handed to it is part of the result.
\<close>

section \<open>Requests and recommendations (dispatch.go)\<close>

record dispatch_recommendations =
  rec_status :: string
  rec_created_at :: "time option"
  rec_candidates :: "dispatch_candidate list"

definition build_order_dispatch_request :: "uuid \<Rightarrow> uuid \<Rightarrow> string \<Rightarrow> dispatch_request op" where
  "build_order_dispatch_request order user role =
    seq (fail_if (role \<noteq> ''manager'' \<and> role \<noteq> ''admin'') forbidden)
    (bind (get_order order user role) (\<lambda>ord.
     seq (fail_if (o_status ord \<noteq> OrderReadyForDispatch \<or> o_submitted_at ord = None) (Business ErrInvalidOrderTransition))
     (build_dispatch_request ord)))"

definition get_dispatch_recommendations :: "uuid \<Rightarrow> uuid \<Rightarrow> string \<Rightarrow> dispatch_recommendations op" where
  "get_dispatch_recommendations order user role =
    seq (fail_if (role \<noteq> ''manager'' \<and> role \<noteq> ''admin'') forbidden)
    (bind (get_order order user role) (\<lambda>ord.
     if o_status ord \<noteq> OrderReadyForDispatch
     then return \<lparr>rec_status = ''unavailable'', rec_created_at = None, rec_candidates = []\<rparr>
     else
      bind (query (\<lambda>s. find (\<lambda>x. rc_order_id x = order) (tb_recommendations s))) (\<lambda>row.
      case row of None \<Rightarrow> return \<lparr>rec_status = ''pending'', rec_created_at = None, rec_candidates = []\<rparr>
      | Some x \<Rightarrow>
          bind (deref (o_submitted_at ord)) (\<lambda>submitted.
          return (if rc_submitted_at x \<noteq> submitted
            then \<lparr>rec_status = ''pending'', rec_created_at = None, rec_candidates = []\<rparr>
            else \<lparr>rec_status = ''ready'', rec_created_at = Some (rc_created_at x), rec_candidates = rc_candidates x\<rparr>)))))"

section \<open>Asking again after a release (dispatch_refresh.go)\<close>

definition dispatch_refresh_batch_size :: nat where
  "dispatch_refresh_batch_size = 100"

text \<open>The oldest record of the queue that no other worker holds (\<^verbatim>\<open>FOR UPDATE SKIP LOCKED\<close>).\<close>

definition next_release :: "release_row option op" where
  "next_release =
    bind (ask busy) (\<lambda>taken.
    query (\<lambda>s. find (\<lambda>q. \<not> taken (LockOther (q_assignment_id q)))
      (sort_key (\<lambda>q. (q_created_at q, q_assignment_id q)) (tb_release_queue s))))"

text \<open>The WHERE clause of the page: an order in dispatch without an open assignment that is the
  released one or wants its resources in the freed window.\<close>

definition wants_release :: "db \<Rightarrow> release_row \<Rightarrow> order \<Rightarrow> bool" where
  "wants_release s q x \<longleftrightarrow>
     o_status x = OrderReadyForDispatch \<and> o_submitted_at x \<noteq> None \<and>
     (o_id x = q_order_id q \<or>
      (case (o_pickup_from x, o_pickup_to x) of
         (Some f, Some t) \<Rightarrow> f < q_planned_to q \<and> q_planned_from q < t | _ \<Rightarrow> False)) \<and>
     \<not> list_ex (\<lambda>a. a_order_id a = o_id x \<and>
          a_status a \<in> {AssignmentPendingAcceptance, AssignmentAccepted, AssignmentActive}) (tb_assignments s)"

definition after_cursor :: "uuid option \<Rightarrow> order \<Rightarrow> bool" where
  "after_cursor cursor x \<longleftrightarrow> (case cursor of None \<Rightarrow> True | Some c \<Rightarrow> c < o_id x)"

definition release_page :: "release_row \<Rightarrow> db \<Rightarrow> order list" where
  "release_page q s = take dispatch_refresh_batch_size
     (sort_key o_id (filter (\<lambda>x. wants_release s q x \<and> after_cursor (q_last_order_id q) x) (tb_orders s)))"

definition finish_release :: "release_row \<Rightarrow> order list \<Rightarrow> db \<Rightarrow> db" where
  "finish_release q orders s =
    (if length orders < dispatch_refresh_batch_size
     then s\<lparr>tb_release_queue := filter (\<lambda>x. q_assignment_id x \<noteq> q_assignment_id q) (tb_release_queue s)\<rparr>
     else s\<lparr>tb_release_queue := map (\<lambda>x. if q_assignment_id x = q_assignment_id q
            then x\<lparr>q_last_order_id := Some (o_id (last orders))\<rparr> else x) (tb_release_queue s)\<rparr>)"

definition process_dispatch_release :: "bool op" where
  "process_dispatch_release = in_tx (
    bind next_release (\<lambda>row.
    case row of None \<Rightarrow> return False
    | Some q \<Rightarrow>
        bind (query (release_page q)) (\<lambda>orders.
        seq (for_each orders enqueue_dispatch_request)
        (seq (exec (finish_release q orders))
        (return True)))))"

text \<open>The loop of RunDispatchRefresh over its first \<open>n\<close> ticks: a failed pass is logged and tried again.\<close>

fun run_dispatch_refresh :: "nat \<Rightarrow> unit op" where
  "run_dispatch_refresh 0 = return ()"
| "run_dispatch_refresh (Suc n) = (\<lambda>e s. run_dispatch_refresh n e (snd (process_dispatch_release e s)))"

section \<open>Recommendations that come back (events/dispatch.go)\<close>

text \<open>
  \<open>data\<close> is what decoding the message gives (\<open>None\<close> when it is not the JSON of the event), and
  \<open>uuid_text_ok\<close> is \<^verbatim>\<open>uuid.Parse\<close> of the uuid package.
\<close>

definition candidate_valid :: "(string \<Rightarrow> bool) \<Rightarrow> dispatch_candidate \<Rightarrow> bool" where
  "candidate_valid uuid_text_ok c \<longleftrightarrow>
     uuid_text_ok (dc_id c) \<and> dc_driver_id c \<noteq> uuid_nil \<and> dc_vehicle_id c \<noteq> uuid_nil \<and> f64_finite (dc_score c)"

definition recommendation_valid :: "(string \<Rightarrow> bool) \<Rightarrow> dispatch_recommended \<Rightarrow> bool" where
  "recommendation_valid uuid_text_ok ev \<longleftrightarrow>
     de_event_id ev \<noteq> uuid_nil \<and> de_order_id ev \<noteq> uuid_nil \<and> de_submitted_at ev \<noteq> zero_time \<and>
     de_requested_at ev \<noteq> zero_time \<and> de_created_at ev \<noteq> zero_time \<and> length (de_candidates ev) \<le> 5 \<and>
     list_all (candidate_valid uuid_text_ok) (de_candidates ev)"

text \<open>\<^verbatim>\<open>INSERT INTO integration_inbox ... ON CONFLICT DO NOTHING\<close>: whether the event is new.\<close>

definition receive_once :: "uuid \<Rightarrow> bool op" where
  "receive_once event = (\<lambda>e s.
    if event \<in> set (tb_inbox s) then (Inr False, s) else (Inr True, s\<lparr>tb_inbox := tb_inbox s @ [event]\<rparr>))"

definition recommendation_of :: "dispatch_recommended \<Rightarrow> recommendation_row" where
  "recommendation_of ev = \<lparr>rc_order_id = de_order_id ev, rc_event_id = de_event_id ev,
     rc_submitted_at = trunc_us (de_submitted_at ev), rc_requested_at = trunc_us (de_requested_at ev),
     rc_created_at = trunc_us (de_created_at ev), rc_candidates = de_candidates ev\<rparr>"

text \<open>\<^verbatim>\<open>ON CONFLICT (order_id) DO UPDATE ... WHERE requested_at <= EXCLUDED.requested_at\<close>.\<close>

definition upsert_recommendation :: "recommendation_row \<Rightarrow> recommendation_row list \<Rightarrow> recommendation_row list" where
  "upsert_recommendation r rs =
    (if list_ex (\<lambda>x. rc_order_id x = rc_order_id r) rs
     then overwrite (\<lambda>x. rc_order_id x = rc_order_id r \<and> rc_requested_at x \<le> rc_requested_at r) r rs
     else rs @ [r])"

definition store_recommendation_tx :: "dispatch_recommended \<Rightarrow> unit op" where
  "store_recommendation_tx ev =
    bind (receive_once (de_event_id ev)) (\<lambda>fresh.
    if \<not> fresh then return ()
    else
     bind (optional (get_one_locked orders_t (\<lambda>x. o_id x = de_order_id ev))) (\<lambda>found.
     case found of None \<Rightarrow> return ()
     | Some ord \<Rightarrow>
         bind (case o_submitted_at ord of None \<Rightarrow> throw (External ''cannot scan NULL into time'') | Some t \<Rightarrow> return t) (\<lambda>submitted.
         when_do (o_status ord = OrderReadyForDispatch \<and> submitted = de_submitted_at ev)
           (exec (\<lambda>s. s\<lparr>tb_recommendations := upsert_recommendation (recommendation_of ev) (tb_recommendations s)\<rparr>)))))"

definition store_dispatch_recommended :: "(string \<Rightarrow> bool) \<Rightarrow> dispatch_recommended option \<Rightarrow> unit op" where
  "store_dispatch_recommended uuid_text_ok data = (case data of None \<Rightarrow> throw InvalidEvent
   | Some ev \<Rightarrow> seq (fail_if (\<not> recommendation_valid uuid_text_ok ev) InvalidEvent) (in_tx (store_recommendation_tx ev)))"

section \<open>Documents that are ready (events/worker.go)\<close>

definition valid_document_type :: "string \<Rightarrow> bool" where
  "valid_document_type kind \<longleftrightarrow> kind \<in> {''transport_order'', ''trip_assignment'', ''cargo_handover'',
     ''delivery_confirmation'', ''service_report'', ''cancellation_notice''}"

definition document_ready_valid :: "document_ready \<Rightarrow> bool" where
  "document_ready_valid ev \<longleftrightarrow> ey_event_id ev \<noteq> uuid_nil \<and> ey_document_id ev \<noteq> uuid_nil \<and>
     ey_order_id ev \<noteq> uuid_nil \<and> ey_user_id ev \<noteq> uuid_nil \<and> valid_document_type (ey_type ev)"

definition document_ready_tx :: "document_ready \<Rightarrow> unit op" where
  "document_ready_tx ev =
    bind (receive_once (ey_event_id ev)) (\<lambda>fresh.
    when_do fresh
     (bind (query (\<lambda>s. list_ex (\<lambda>u. u_id u = ey_user_id ev) (tb_users s))) (\<lambda>user_exists.
      when_do user_exists
       (bind uuid_new (\<lambda>i. bind time_now (\<lambda>now.
        create notifications_t
          \<lparr>n_id = i, n_user_id = ey_user_id ev, n_notice = DocumentIsReady (ey_order_id ev),
           n_document_id = Some (ey_document_id ev), n_is_read = False, n_created_at = now\<rparr>))))))"

definition receive_document_ready :: "document_ready option \<Rightarrow> unit op" where
  "receive_document_ready data = (case data of None \<Rightarrow> throw InvalidEvent
   | Some ev \<Rightarrow> seq (fail_if (\<not> document_ready_valid ev) InvalidEvent) (in_tx (document_ready_tx ev)))"

text \<open>
  \<^verbatim>\<open>handleDocumentReady\<close> and the loop body around it: a message that can never be processed is
  published on \<^verbatim>\<open>invalid.events.v1\<close> (\<open>isolate\<close>, whose failure is an error), and the message is
  acknowledged when that or the receiver succeeded, else delivered again.
\<close>

datatype delivery = Acked | Redelivered

definition handle_event :: "unit op \<Rightarrow> unit op \<Rightarrow> unit op" where
  "handle_event receive isolate = (\<lambda>e s. case receive e s of
     (Inl InvalidEvent, s') \<Rightarrow> isolate e s' | (r, s') \<Rightarrow> (r, s'))"

definition consume :: "unit op \<Rightarrow> unit op \<Rightarrow> env \<Rightarrow> db \<Rightarrow> delivery \<times> db" where
  "consume receive isolate = (\<lambda>e s. case handle_event receive isolate e s of
     (Inl _, s') \<Rightarrow> (Redelivered, s') | (Inr _, s') \<Rightarrow> (Acked, s'))"

text \<open>The two subscriptions of the worker and their receivers.\<close>

datatype message = DocumentReadyM "document_ready option" | DispatchRecommendedM "dispatch_recommended option"

fun receiver :: "(string \<Rightarrow> bool) \<Rightarrow> message \<Rightarrow> unit op" where
  "receiver uuid_text_ok (DocumentReadyM data) = receive_document_ready data"
| "receiver uuid_text_ok (DispatchRecommendedM data) = store_dispatch_recommended uuid_text_ok data"

section \<open>The relay of the outbox (events/worker.go)\<close>

definition outbox_batch :: "(lock \<Rightarrow> bool) \<Rightarrow> db \<Rightarrow> outbox_row list" where
  "outbox_batch taken s = take 20 (filter (\<lambda>x. \<not> taken (LockOther (x_id x)))
     (sort_key (\<lambda>x. (x_created_at x, x_id x)) (filter (\<lambda>x. x_published_at x = None) (tb_outbox s))))"

definition mark_published :: "uuid \<Rightarrow> time \<Rightarrow> outbox_row list \<Rightarrow> outbox_row list" where
  "mark_published i now = map (\<lambda>x. if x_id x = i then x\<lparr>x_published_at := Some (trunc_us now)\<rparr> else x)"

text \<open>The loop over a batch: what the stream took, and the error that ended the loop early.\<close>

fun relay :: "(outbox_row \<Rightarrow> err option) \<Rightarrow> outbox_row list \<Rightarrow> (outbox_row list \<times> err option) op" where
  "relay answer [] = return ([], None)"
| "relay answer (x # xs) = (case answer x of Some er \<Rightarrow> return ([], Some er)
   | None \<Rightarrow> bind time_now (\<lambda>now.
       seq (exec (\<lambda>s. s\<lparr>tb_outbox := mark_published (x_id x) now (tb_outbox s)\<rparr>))
       (bind (relay answer xs) (\<lambda>(sent, er). return (x # sent, er)))))"

text \<open>One pass: the messages that were handed to the stream stay there when the transaction is
  rolled back.\<close>

definition publish_pending :: "(outbox_row \<Rightarrow> err option) \<Rightarrow> env \<Rightarrow> db \<Rightarrow> outbox_row list \<times> err option \<times> db" where
  "publish_pending answer e s =
    (case relay answer (outbox_batch (busy e) s) e (s\<lparr>locks := []\<rparr>) of
       (Inl er, s') \<Rightarrow> ([], Some er, rollback s s')
     | (Inr (sent, Some er), s') \<Rightarrow> (sent, Some er, rollback s s')
     | (Inr (sent, None), s') \<Rightarrow> (sent, None, s'))"

fun run_relay :: "(nat \<Rightarrow> outbox_row \<Rightarrow> err option) \<Rightarrow> nat \<Rightarrow> env \<Rightarrow> db \<Rightarrow> outbox_row list \<times> db" where
  "run_relay answer 0 e s = ([], s)"
| "run_relay answer (Suc n) e s =
    (let (sent, er, s') = publish_pending (answer n) e s; (later, s'') = run_relay answer n e s'
     in (sent @ later, s''))"

end
