(* ===== verification/Message_Guarantees.thy ===== *)
theory Message_Guarantees
  imports Messaging Failures Sample "HOL-Library.Sublist" "HOL-Library.Multiset"
begin

text \<open>
  What the messaging of the program promises: the relay hands every message of the outbox to the
  stream in order and marks none that was not taken, a message that is delivered again changes
  nothing, a stored recommendation is the one that is shown, and a released resource is offered to
  every waiting order.
\<close>

section \<open>The relay\<close>

abbreviation outbox_key :: "outbox_row \<Rightarrow> time \<times> uuid" where
  "outbox_key x \<equiv> (x_created_at x, x_id x)"

definition unsent :: "db \<Rightarrow> outbox_row list" where
  "unsent s = filter (\<lambda>x. x_published_at x = None) (tb_outbox s)"

text \<open>\<open>ys\<close> are the rows \<open>xs\<close> of which exactly those with an id of \<open>ids\<close> are marked as published.\<close>

definition marked :: "uuid set \<Rightarrow> outbox_row list \<Rightarrow> outbox_row list \<Rightarrow> bool" where
  "marked ids = list_all2 (\<lambda>x y. if x_id x \<in> ids then \<exists>t. y = x\<lparr>x_published_at := Some t\<rparr> else y = x)"

lemma marked_refl [simp]: "marked {} xs xs"
  by (simp add: marked_def list_all2_refl)

lemma marked_one: "marked {i} xs (mark_published i now xs)"
  by (auto simp: marked_def mark_published_def list_all2_map2 intro!: list_all2_refl)

lemma marked_trans:
  assumes "marked A xs ys" and "marked B ys zs"
  shows "marked (A \<union> B) xs zs"
  using assms unfolding marked_def
proof (rule list_all2_trans [rotated])
  fix x y z
  assume "if x_id x \<in> A then \<exists>t. y = x\<lparr>x_published_at := Some t\<rparr> else y = x"
    and "if x_id y \<in> B then \<exists>t. z = y\<lparr>x_published_at := Some t\<rparr> else z = y"
  then show "if x_id x \<in> A \<union> B then \<exists>t. z = x\<lparr>x_published_at := Some t\<rparr> else z = x"
    by (cases "x_id x \<in> A"; cases "x_id x \<in> B") (auto split: if_splits)
qed

lemma marked_unsent:
  "marked ids xs ys \<Longrightarrow>
     filter (\<lambda>x. x_published_at x = None) ys = filter (\<lambda>x. x_published_at x = None \<and> x_id x \<notin> ids) xs"
  unfolding marked_def by (induction rule: list_all2_induct) (auto split: if_splits)

lemma marked_ids: "marked ids xs ys \<Longrightarrow> map x_id ys = map x_id xs"
  unfolding marked_def by (induction rule: list_all2_induct) (auto split: if_splits)

lemma marked_row:
  assumes "marked ids xs ys" and "x \<in> set xs"
  shows "x \<in> set ys \<or> x_id x \<in> ids \<and> (\<exists>t. x\<lparr>x_published_at := Some t\<rparr> \<in> set ys)"
  using assms unfolding marked_def by (induction rule: list_all2_induct) (auto split: if_splits)

lemma relay_run:
  "\<exists>sent er ys n. relay answer xs e s = (Inr (sent, er), s\<lparr>tb_outbox := ys, ticks := n\<rparr>) \<and> prefix sent xs \<and>
     (er = None \<longrightarrow> sent = xs) \<and> marked (x_id ` set sent) (tb_outbox s) ys \<and> (\<forall>x \<in> set sent. answer x = None)"
proof (induction xs arbitrary: s)
  case Nil
  then show ?case by (intro exI [of _ "[]"] exI [of _ None] exI [of _ "tb_outbox s"] exI [of _ "ticks s"]) (simp add: return_def)
next
  case (Cons x xs)
  show ?case
  proof (cases "answer x")
    case (Some er)
    then show ?thesis
      by (intro exI [of _ "[]"] exI [of _ "Some er"] exI [of _ "tb_outbox s"] exI [of _ "ticks s"]) (simp add: return_def)
  next
    case None
    let ?now = "clock e (ticks s)"
    let ?s = "s\<lparr>ticks := Suc (ticks s), tb_outbox := mark_published (x_id x) ?now (tb_outbox s)\<rparr>"
    from Cons.IH [of ?s] obtain sent er ys n where
      rest: "relay answer xs e ?s = (Inr (sent, er), ?s\<lparr>tb_outbox := ys, ticks := n\<rparr>)" and "prefix sent xs"
      "er = None \<longrightarrow> sent = xs" and m: "marked (x_id ` set sent) (tb_outbox ?s) ys" and "\<forall>x \<in> set sent. answer x = None"
      by blast
    from m have "marked (x_id ` set sent) (mark_published (x_id x) ?now (tb_outbox s)) ys" by simp
    from marked_trans [OF marked_one this] have "marked (x_id ` set (x # sent)) (tb_outbox s) ys" by simp
    moreover have "relay answer (x # xs) e s = (Inr (x # sent, er), s\<lparr>tb_outbox := ys, ticks := n\<rparr>)"
      using None rest by (simp add: bind_def seq_def time_now_def exec_def return_def)
    ultimately show ?thesis using \<open>prefix sent xs\<close> \<open>er = None \<longrightarrow> sent = xs\<close> \<open>\<forall>x \<in> set sent. answer x = None\<close> None
      by (intro exI [of _ "x # sent"] exI [of _ er] exI [of _ ys] exI [of _ n]) simp
  qed
qed

lemma publish_pending_run:
  assumes "publish_pending answer e s = (sent, er, s')"
  shows "prefix sent (outbox_batch (busy e) s)" and "\<forall>x \<in> set sent. answer x = None"
    and "er = None \<Longrightarrow> sent = outbox_batch (busy e) s"
    and "er = None \<Longrightarrow> marked (x_id ` set sent) (tb_outbox s) (tb_outbox s')"
    and "er = None \<Longrightarrow> \<exists>n. s' = s\<lparr>tb_outbox := tb_outbox s', ticks := n, locks := []\<rparr>"
    and "er \<noteq> None \<Longrightarrow> untouched e s s'"
proof -
  obtain sent' er' ys n where run: "relay answer (outbox_batch (busy e) s) e (s\<lparr>locks := []\<rparr>) =
      (Inr (sent', er'), s\<lparr>locks := [], tb_outbox := ys, ticks := n\<rparr>)" and
    facts: "prefix sent' (outbox_batch (busy e) s)" "er' = None \<longrightarrow> sent' = outbox_batch (busy e) s"
      "marked (x_id ` set sent') (tb_outbox s) ys" "\<forall>x \<in> set sent'. answer x = None"
    using relay_run [of answer "outbox_batch (busy e) s" e "s\<lparr>locks := []\<rparr>"] by auto
  have eq: "sent = sent'" "er = er'" using assms run by (auto simp: publish_pending_def split: option.splits)
  show "prefix sent (outbox_batch (busy e) s)" "\<forall>x \<in> set sent. answer x = None" using facts eq by simp_all
  show "sent = outbox_batch (busy e) s" if "er = None" using facts eq that by simp
  have done_: "s' = s\<lparr>locks := [], tb_outbox := ys, ticks := n\<rparr>" if "er = None"
    using assms run eq that by (auto simp: publish_pending_def)
  show "marked (x_id ` set sent) (tb_outbox s) (tb_outbox s')" if "er = None" using done_ [OF that] facts eq by simp
  show "\<exists>n. s' = s\<lparr>tb_outbox := tb_outbox s', ticks := n, locks := []\<rparr>" if "er = None"
    using done_ [OF that] by (intro exI [of _ n]) simp
  show "untouched e s s'" if "er \<noteq> None"
    using assms run eq that by (auto simp: publish_pending_def untouched_def rollback_def)
qed
section \<open>At least once, in order, and never lost\<close>

lemma untouched_outbox: "untouched e s s' \<Longrightarrow> tb_outbox s' = tb_outbox s"
  unfolding untouched_def by (erule ssubst) simp

lemma run_relay_keeps:
  assumes "run_relay answer n e s = (sent, s')"
  shows "\<exists>ids. ids \<subseteq> x_id ` set sent \<and> marked ids (tb_outbox s) (tb_outbox s')"
  using assms
proof (induction n arbitrary: s sent)
  case 0
  then show ?case by (intro exI [of _ "{}"]) simp
next
  case (Suc n)
  obtain first er t where pass: "publish_pending (answer n) e s = (first, er, t)" by (cases "publish_pending (answer n) e s")
  obtain later where rest: "run_relay answer n e t = (later, s')" and sent: "sent = first @ later"
    using Suc.prems pass by (auto simp: Let_def split: prod.splits)
  obtain ids where ids: "ids \<subseteq> x_id ` set later" and m: "marked ids (tb_outbox t) (tb_outbox s')"
    using Suc.IH [OF rest] by blast
  have "\<exists>A. A \<subseteq> x_id ` set first \<and> marked A (tb_outbox s) (tb_outbox t)"
  proof (cases er)
    case None
    then show ?thesis using publish_pending_run(4) [OF pass] by blast
  next
    case (Some _)
    then have "tb_outbox t = tb_outbox s" using publish_pending_run(6) [OF pass] by (simp add: untouched_outbox)
    then show ?thesis by (intro exI [of _ "{}"]) simp
  qed
  then obtain A where "A \<subseteq> x_id ` set first" "marked A (tb_outbox s) (tb_outbox t)" by blast
  with marked_trans [OF this(2) m] ids show ?case unfolding sent by (intro exI [of _ "A \<union> ids"]) auto
qed


lemma filter_take_out:
  "distinct (map x_id xs) \<Longrightarrow> filter (\<lambda>x. x_id x \<notin> x_id ` set (take n xs)) xs = drop n xs"
proof (induction xs arbitrary: n)
  case (Cons x xs)
  show ?case
  proof (cases n)
    case (Suc m)
    have "x_id y \<noteq> x_id x" if "y \<in> set xs" for y using Cons.prems that by simp (metis image_eqI)
    then have "filter (\<lambda>y. x_id y \<notin> x_id ` set (take n (x # xs))) (x # xs) = filter (\<lambda>y. x_id y \<notin> x_id ` set (take m xs)) xs"
      using Suc by (auto intro!: filter_cong)
    then show ?thesis using Cons Suc by simp
  qed simp
qed simp

lemma full_pass:
  assumes free: "busy e = (\<lambda>l. False)" and ids: "distinct (map x_id (tb_outbox s))"
  obtains s' where "publish_pending (\<lambda>_. None) e s = (take 20 (sort_key outbox_key (unsent s)), None, s')"
    and "sort_key outbox_key (unsent s') = drop 20 (sort_key outbox_key (unsent s))" and "distinct (map x_id (tb_outbox s'))"
proof -
  let ?q = "sort_key outbox_key (unsent s)"
  have batch: "outbox_batch (busy e) s = take 20 ?q" by (simp add: outbox_batch_def unsent_def free)
  obtain sent er s' where pass: "publish_pending (\<lambda>_. None) e s = (sent, er, s')" by (cases "publish_pending (\<lambda>_. None) e s")
  obtain sent' er' ys n where relay: "relay (\<lambda>_. None) (take 20 ?q) e (s\<lparr>locks := []\<rparr>) = (Inr (sent', er'), s\<lparr>locks := [], tb_outbox := ys, ticks := n\<rparr>)"
    using relay_run [of "\<lambda>_. None" "take 20 ?q" e "s\<lparr>locks := []\<rparr>"] by auto
  have "relay (\<lambda>_. None) xs e s0 = (Inr (sent0, er0), s1) \<Longrightarrow> er0 = None" for xs s0 sent0 er0 s1
    by (induction xs arbitrary: s0 sent0 er0 s1) (auto simp: return_def elim!: runs split: prod.splits)
  from this [OF relay] have er: "er = None" using pass relay by (simp add: publish_pending_def batch)
  have sent: "sent = take 20 ?q" using publish_pending_run(3) [OF pass er] batch by simp
  have m: "marked (x_id ` set (take 20 ?q)) (tb_outbox s) (tb_outbox s')" using publish_pending_run(4) [OF pass er] sent by simp
  have "distinct (map x_id (unsent s))" using ids unfolding unsent_def by (rule distinct_map_filter)
  then have q: "distinct (map x_id ?q)" by (simp add: distinct_map)
  have "unsent s' = filter (\<lambda>x. x_id x \<notin> x_id ` set (take 20 ?q)) (unsent s)"
    using marked_unsent [OF m] unfolding unsent_def by (simp add: conj_commute)
  then have "sort_key outbox_key (unsent s') = filter (\<lambda>x. x_id x \<notin> x_id ` set (take 20 ?q)) ?q" by (simp add: filter_sort)
  also have "\<dots> = drop 20 ?q" using q by (rule filter_take_out)
  finally show ?thesis using that pass sent er marked_ids [OF m] ids by simp
qed

lemma relay_drains_by_pages:
  assumes "busy e = (\<lambda>l. False)" and "distinct (map x_id (tb_outbox s))"
  shows "fst (run_relay (\<lambda>_ _. None) n e s) = take (20 * n) (sort_key outbox_key (unsent s))"
    and "sort_key outbox_key (unsent (snd (run_relay (\<lambda>_ _. None) n e s))) = drop (20 * n) (sort_key outbox_key (unsent s))"
proof -
  have "fst (run_relay (\<lambda>_ _. None) n e s) = take (20 * n) (sort_key outbox_key (unsent s)) \<and>
      sort_key outbox_key (unsent (snd (run_relay (\<lambda>_ _. None) n e s))) = drop (20 * n) (sort_key outbox_key (unsent s))"
    using assms(2)
  proof (induction n arbitrary: s)
    case (Suc n)
    obtain t where "publish_pending (\<lambda>_. None) e s = (take 20 (sort_key outbox_key (unsent s)), None, t)"
      and "sort_key outbox_key (unsent t) = drop 20 (sort_key outbox_key (unsent s))" and "distinct (map x_id (tb_outbox t))"
      using full_pass [OF assms(1) Suc.prems] by blast
    with Suc.IH [of t] show ?case
      by (cases "run_relay (\<lambda>_ _. None) n e t") (auto simp: take_add add.commute)
  qed simp
  then show "fst (run_relay (\<lambda>_ _. None) n e s) = take (20 * n) (sort_key outbox_key (unsent s))"
    and "sort_key outbox_key (unsent (snd (run_relay (\<lambda>_ _. None) n e s))) = drop (20 * n) (sort_key outbox_key (unsent s))"
    by simp_all
qed



section \<open>Messages that are delivered again\<close>

definition message_valid :: "(string \<Rightarrow> bool) \<Rightarrow> message \<Rightarrow> bool" where
  "message_valid uuid_text_ok m \<longleftrightarrow> (case m of
     DocumentReadyM data \<Rightarrow> (\<exists>ev. data = Some ev \<and> document_ready_valid ev)
   | DispatchRecommendedM data \<Rightarrow> (\<exists>ev. data = Some ev \<and> recommendation_valid uuid_text_ok ev))"

definition received :: "message \<Rightarrow> db \<Rightarrow> bool" where
  "received m s \<longleftrightarrow> (case m of
     DocumentReadyM data \<Rightarrow> (\<exists>ev. data = Some ev \<and> ey_event_id ev \<in> set (tb_inbox s))
   | DispatchRecommendedM data \<Rightarrow> (\<exists>ev. data = Some ev \<and> de_event_id ev \<in> set (tb_inbox s)))"

lemma receive_once_run [runs]:
  assumes "receive_once i e s = (Inr fresh, s')"
  obtains "fresh = (i \<notin> set (tb_inbox s))" and "s' = s\<lparr>tb_inbox := tb_inbox s @ (if i \<in> set (tb_inbox s) then [] else [i])\<rparr>"
  using assms by (auto simp: receive_once_def split: if_splits)

text \<open>A message that was processed is in the inbox.\<close>

definition inbox_keeps :: "env \<Rightarrow> db \<Rightarrow> db \<Rightarrow> bool" where
  "inbox_keeps e s s' \<longleftrightarrow> tb_inbox s' = tb_inbox s"

interpretation ik: preorder_frame inbox_keeps
  by unfold_locales (auto simp: inbox_keeps_def)

lemma inbox_statements [simp]:
  "framed inbox_keeps (query f)" "framed inbox_keeps uuid_new" "framed inbox_keeps time_now"
  "framed inbox_keeps (create notifications_t n)" "framed inbox_keeps (get_one_locked orders_t p)"
  "framed inbox_keeps (exec (\<lambda>s. s\<lparr>tb_recommendations := g s\<rparr>))"
  by (simp_all add: framed_def inbox_keeps_def query_def uuid_new_def time_now_def create_def get_one_locked_def exec_def
      notifications_t_def orders_t_def split: option.splits)

lemma receiver_received:
  assumes "receiver uuid_text_ok m e s = (Inr u, s')"
  shows "received m s'"
proof (cases m)
  case (DocumentReadyM data)
  have rest: "framed inbox_keeps (when_do fresh
     (bind (query (\<lambda>s. list_ex (\<lambda>u. u_id u = ey_user_id ev) (tb_users s))) (\<lambda>user_exists.
      when_do user_exists (bind uuid_new (\<lambda>i. bind time_now (\<lambda>now. create notifications_t (n i now)))))))" for fresh ev n
    by (intro ik.framed_rules; simp)
  from assms show ?thesis
    unfolding DocumentReadyM receiver.simps receive_document_ready_def document_ready_tx_def received_def
    by (elim runs) (auto dest!: framedD [OF rest] simp: inbox_keeps_def)
next
  case (DispatchRecommendedM data)
  have rest: "framed inbox_keeps (bind (optional (get_one_locked orders_t (\<lambda>x. o_id x = de_order_id ev))) (\<lambda>found.
     case found of None \<Rightarrow> return ()
     | Some ord \<Rightarrow>
         bind (case o_submitted_at ord of None \<Rightarrow> throw (External ''cannot scan NULL into time'') | Some t \<Rightarrow> return t) (\<lambda>submitted.
         when_do (o_status ord = OrderReadyForDispatch \<and> submitted = de_submitted_at ev)
           (exec (\<lambda>s. s\<lparr>tb_recommendations := upsert_recommendation (recommendation_of ev) (tb_recommendations s)\<rparr>)))))" for ev
    by (intro ik.framed_rules; simp)
  from assms show ?thesis
    unfolding DispatchRecommendedM receiver.simps store_dispatch_recommended_def store_recommendation_tx_def received_def
    by (elim runs) (auto dest!: framedD [OF rest] simp: inbox_keeps_def)
qed

lemma receiver_again:
  assumes "message_valid uuid_text_ok m" and "received m t"
  shows "receiver uuid_text_ok m e t = (Inr (), t\<lparr>locks := []\<rparr>)"
  using assms
  by (cases m) (auto simp: message_valid_def received_def receive_document_ready_def document_ready_tx_def
      store_dispatch_recommended_def store_recommendation_tx_def receive_once_def in_tx_def seq_def bind_def fail_if_def
      when_do_def return_def)

lemma receiver_not_invalid:
  assumes "message_valid uuid_text_ok m"
  shows "receiver uuid_text_ok m e s \<noteq> (Inl InvalidEvent, s')"
  using assms
  by (cases m) (auto simp: message_valid_def receive_document_ready_def document_ready_tx_def
      store_dispatch_recommended_def store_recommendation_tx_def receive_once_def in_tx_def seq_def bind_def fail_if_def
      when_do_def return_def query_def uuid_new_def time_now_def create_def optional_def get_one_locked_def throw_def exec_def
      split: option.splits if_splits prod.splits sum.splits)

text \<open>C26: A message counts once.  When a valid message was acknowledged, delivering it again, to any later state of
  the database, is acknowledged as well and changes no table: no second notification, no older
  recommendation over a newer one.\<close>

theorem redelivery_harmless:
  assumes valid: "message_valid uuid_text_ok m" and acked: "consume (receiver uuid_text_ok m) isolate e s = (Acked, s')"
    and later: "set (tb_inbox s') \<subseteq> set (tb_inbox t)"
  shows "fst (consume (receiver uuid_text_ok m) isolate e' t) = Acked \<and>
    untouched e' t (snd (consume (receiver uuid_text_ok m) isolate e' t))"
proof -
  obtain r u where run: "receiver uuid_text_ok m e s = (r, u)" by (cases "receiver uuid_text_ok m e s")
  have "r \<noteq> Inl InvalidEvent" using receiver_not_invalid [OF valid, of e s u] run by blast
  then have "handle_event (receiver uuid_text_ok m) isolate e s = (r, u)"
    using run by (auto simp: handle_event_def split: sum.splits err.splits)
  with acked run have "receiver uuid_text_ok m e s = (Inr (), s')" by (cases r) (auto simp: consume_def)
  then have "received m s'" by (rule receiver_received)
  then have "received m t" using later by (cases m) (auto simp: received_def)
  from receiver_again [OF valid this] show ?thesis by (simp add: consume_def handle_event_def untouched_def)
qed

definition sample_ready :: document_ready where
  "sample_ready = \<lparr>ey_event_id = 900, ey_document_id = 901, ey_order_id = 40, ey_user_id = 1, ey_type = ''service_report''\<rparr>"

lemma redelivery_harmless_witness:
  "\<exists>s'. consume (receiver (\<lambda>_. True) (DocumentReadyM (Some sample_ready))) (return ()) sample_env assigned_db = (Acked, s') \<and>
     length (tb_notifications s') = 1 \<and>
     untouched sample_env s' (snd (consume (receiver (\<lambda>_. True) (DocumentReadyM (Some sample_ready))) (return ()) sample_env s'))"
proof -
  let ?m = "DocumentReadyM (Some sample_ready)"
  let ?run = "consume (receiver (\<lambda>_. True) ?m) (return ()) sample_env assigned_db"
  have valid: "message_valid (\<lambda>_. True) ?m"
    by (simp add: message_valid_def sample_ready_def document_ready_valid_def valid_document_type_def uuid_nil_def)
  have "fst ?run = Acked" by code_simp
  then have run: "?run = (Acked, snd ?run)" by (metis prod.collapse)
  moreover have "length (tb_notifications (snd ?run)) = 1" by code_simp
  ultimately show ?thesis using redelivery_harmless [OF valid run subset_refl, of sample_env] by blast
qed
section \<open>A recommendation is read back\<close>

lemma upsert_recommendation_find:
  assumes "distinct (map rc_order_id rs)" and "list_all (\<lambda>x. rc_order_id x = rc_order_id r \<longrightarrow> rc_requested_at x \<le> rc_requested_at r) rs"
  shows "find (\<lambda>x. rc_order_id x = rc_order_id r) (upsert_recommendation r rs) = Some r"
proof (cases "list_ex (\<lambda>x. rc_order_id x = rc_order_id r) rs")
  case True
  then have "find (\<lambda>x. rc_order_id x = rc_order_id r) (overwrite (\<lambda>x. rc_order_id x = rc_order_id r \<and> rc_requested_at x \<le> rc_requested_at r) r rs) = Some r"
    using assms(2) by (induction rs) (auto simp: overwrite_def)
  with True show ?thesis by (simp add: upsert_recommendation_def)
next
  case False
  then have "find (\<lambda>x. rc_order_id x = rc_order_id r) rs = None" by (simp add: find_None_all list_ex_iff)
  with False show ?thesis by (simp add: upsert_recommendation_def find_append)
qed

text \<open>A recommendation that arrives for an order still in dispatch since the same submission, and that is not older
  than the one on file, is what a dispatcher with access to the order is shown next.\<close>

theorem recommendation_reads_back:
  assumes stored: "store_dispatch_recommended uuid_text_ok (Some ev) e s = (Inr (), s')"
    and fresh: "de_event_id ev \<notin> set (tb_inbox s)"
    and ord: "find (\<lambda>x. o_id x = de_order_id ev) (tb_orders s) = Some ord" "o_status ord = OrderReadyForDispatch"
      "o_submitted_at ord = Some (de_submitted_at ev)" "trunc_us (de_submitted_at ev) = de_submitted_at ev"
    and newest: "distinct (map rc_order_id (tb_recommendations s))"
      "list_all (\<lambda>x. rc_order_id x = de_order_id ev \<longrightarrow> rc_requested_at x \<le> trunc_us (de_requested_at ev)) (tb_recommendations s)"
    and role: "role = ''manager'' \<or> role = ''admin''"
    and access: "get_order (de_order_id ev) user role e' s' = (Inr ord, t)"
  shows "get_dispatch_recommendations (de_order_id ev) user role e' s' =
    (Inr \<lparr>rec_status = ''ready'', rec_created_at = Some (trunc_us (de_created_at ev)), rec_candidates = de_candidates ev\<rparr>, t)"
proof -
  from stored fresh ord have "tb_recommendations s' = upsert_recommendation (recommendation_of ev) (tb_recommendations s)"
    by (auto simp: store_dispatch_recommended_def store_recommendation_tx_def receive_once_def in_tx_def seq_def bind_def fail_if_def
      when_do_def return_def optional_def get_one_locked_def exec_def orders_t_def throw_def split: if_splits)
  then have "find (\<lambda>x. rc_order_id x = de_order_id ev) (tb_recommendations s') = Some (recommendation_of ev)"
    using upsert_recommendation_find [OF newest(1), of "recommendation_of ev"] newest(2) by (simp add: recommendation_of_def)
  moreover from get_order_run [OF access] have "tb_recommendations t = tb_recommendations s'" by (metis db.select_convs(21) db.surjective db.update_convs(23))
  ultimately show ?thesis
    using role access ord by (auto simp: get_dispatch_recommendations_def seq_def bind_def fail_if_def return_def query_def deref_def recommendation_of_def)
qed

definition sample_recommended :: dispatch_recommended where
  "sample_recommended = \<lparr>de_event_id = 910, de_order_id = 40, de_submitted_at = 0, de_requested_at = seconds 5,
     de_created_at = seconds 6, de_candidates = [\<lparr>dc_id = ''c'', dc_driver_id = 20, dc_vehicle_id = 30, dc_score = Fin 1, dc_reason = []\<rparr>]\<rparr>"

lemma recommendation_reads_back_witness:
  "\<exists>s' t. store_dispatch_recommended (\<lambda>_. True) (Some sample_recommended) sample_env (sample_db OrderReadyForDispatch []) = (Inr (), s') \<and>
     get_dispatch_recommendations 40 2 ''admin'' sample_env s' =
       (Inr \<lparr>rec_status = ''ready'', rec_created_at = Some (seconds 6), rec_candidates = de_candidates sample_recommended\<rparr>, t)"
proof -
  let ?s = "sample_db OrderReadyForDispatch []"
  let ?run = "store_dispatch_recommended (\<lambda>_. True) (Some sample_recommended) sample_env ?s"
  have "fst ?run = Inr ()" by code_simp
  then have stored: "?run = (Inr (), snd ?run)" by (metis prod.collapse)
  have access: "get_order (de_order_id sample_recommended) 2 ''admin'' sample_env (snd ?run) = (Inr (sample_order 40 OrderReadyForDispatch), snd ?run)"
    by code_simp
  have row: "find (\<lambda>x. o_id x = de_order_id sample_recommended) (tb_orders ?s) = Some (sample_order 40 OrderReadyForDispatch)"
    "o_status (sample_order 40 OrderReadyForDispatch) = OrderReadyForDispatch"
    "o_submitted_at (sample_order 40 OrderReadyForDispatch) = Some (de_submitted_at sample_recommended)"
    "trunc_us (de_submitted_at sample_recommended) = de_submitted_at sample_recommended"
    "de_event_id sample_recommended \<notin> set (tb_inbox ?s)" "distinct (map rc_order_id (tb_recommendations ?s))"
    "list_all (\<lambda>x. rc_order_id x = de_order_id sample_recommended \<longrightarrow> rc_requested_at x \<le> trunc_us (de_requested_at sample_recommended)) (tb_recommendations ?s)"
    by (simp_all add: sample_db_def sample_order_def sample_recommended_def trunc_us_def)
  have "get_dispatch_recommendations (de_order_id sample_recommended) 2 ''admin'' sample_env (snd ?run) =
      (Inr \<lparr>rec_status = ''ready'', rec_created_at = Some (trunc_us (de_created_at sample_recommended)),
            rec_candidates = de_candidates sample_recommended\<rparr>, snd ?run)"
    by (rule recommendation_reads_back [OF stored row(5,1,2,3,4,6,7) _ access]) simp
  with stored show ?thesis by (auto simp: sample_recommended_def trunc_us_def seconds_def)
qed

end
