(* ===== verification/Refresh_Guarantees.thy ===== *)
theory Refresh_Guarantees
  imports Messaging Failures Sample "HOL-Library.Multiset"
begin

text \<open>
  What becomes of a released resource (internal/services/dispatch_refresh.go): the worker takes the
  queue's record in pages of a hundred orders, and when it drops the record every order that waits
  for a resource in the freed window has an unsent dispatch request in the outbox.
\<close>

section \<open>One request\<close>

definition asked :: "db \<Rightarrow> uuid \<Rightarrow> bool" where
  "asked s i \<longleftrightarrow> list_ex (pending_dispatch i) (tb_outbox s)"

text \<open>The ids the uuid source will still give are new.\<close>

definition fresh_ids :: "env \<Rightarrow> db \<Rightarrow> bool" where
  "fresh_ids e s \<longleftrightarrow> inj (uuid_source e) \<and> x_id ` set (tb_outbox s) \<inter> uuid_source e ` {issued s..} = {}"

text \<open>Only the outbox grows, what was asked stays asked, and ids stay fresh.\<close>

definition asking :: "env \<Rightarrow> db \<Rightarrow> db \<Rightarrow> bool" where
  "asking e s s' \<longleftrightarrow> (\<exists>ys i n. s' = s\<lparr>tb_outbox := ys, issued := i, ticks := n\<rparr>) \<and>
     (\<forall>i. asked s i \<longrightarrow> asked s' i) \<and> (fresh_ids e s \<longrightarrow> fresh_ids e s')"

lemma asking_refl: "asking e s s"
  unfolding asking_def by (intro conjI exI [of _ "tb_outbox s"] exI [of _ "issued s"] exI [of _ "ticks s"]) simp_all

lemma asking_trans: "asking e s t \<Longrightarrow> asking e t u \<Longrightarrow> asking e s u"
  unfolding asking_def by (elim conjE exE) (intro conjI; force)

lemma pending_dispatch_unique: "pending_dispatch i x \<Longrightarrow> pending_dispatch j x \<Longrightarrow> i = j"
  by (auto simp: pending_dispatch_def split: payload.splits)

lemma overwrite_asked:
  assumes "list_ex (pending_dispatch j) xs" and "pending_dispatch i r" and "\<And>x. p x \<Longrightarrow> pending_dispatch i x"
  shows "list_ex (pending_dispatch j) (overwrite p r xs)"
proof -
  obtain x where x: "x \<in> set xs" "pending_dispatch j x" using assms(1) by (auto simp: list_ex_iff)
  show ?thesis
  proof (cases "p x")
    case True
    then have "i = j" using assms(3) pending_dispatch_unique x(2) by blast
    then show ?thesis using assms(2) True x(1) by (auto simp: list_ex_iff overwrite_def)
  next
    case False
    then show ?thesis using x by (auto simp: list_ex_iff overwrite_def)
  qed
qed

lemma upsert_dispatch_asks:
  assumes "dr_event_id q \<notin> x_id ` set (tb_outbox s)"
  shows "\<exists>ys. upsert_dispatch q e s = (Inr (), s\<lparr>tb_outbox := ys\<rparr>) \<and> list_ex (pending_dispatch (dr_order_id q)) ys \<and>
     (\<forall>j. list_ex (pending_dispatch j) (tb_outbox s) \<longrightarrow> list_ex (pending_dispatch j) ys) \<and>
     x_id ` set ys \<subseteq> insert (dr_event_id q) (x_id ` set (tb_outbox s))"
proof -
  define new where "new = \<lparr>x_id = dr_event_id q, x_subject = dispatch_subject, x_payload = DispatchRequestedP q,
               x_created_at = trunc_us (dr_requested_at q), x_published_at = None\<rparr>"
  let ?old = "\<lambda>x. pending_dispatch (dr_order_id q) x"
  let ?p = "\<lambda>x. ?old x \<and> x_created_at x \<le> x_created_at new"
  have new: "?old new" by (simp add: new_def pending_dispatch_def)
  have free: "x_id new \<notin> x_id ` set (filter (\<lambda>x. \<not> ?old x) (tb_outbox s))" using assms by (auto simp: new_def)
  consider (none) "\<not> list_ex ?old (tb_outbox s)" | (newer) "list_ex ?old (tb_outbox s)" "\<not> list_ex ?p (tb_outbox s)"
    | (older) "list_ex ?old (tb_outbox s)" "list_ex ?p (tb_outbox s)" by blast
  then show ?thesis
  proof cases
    case none
    then have "upsert_dispatch q e s = (Inr (), s\<lparr>tb_outbox := tb_outbox s @ [new]\<rparr>)"
      using free by (simp add: upsert_dispatch_def Let_def new_def)
    then show ?thesis using new by (intro exI [of _ "tb_outbox s @ [new]"]) (simp add: new_def)
  next
    case newer
    then have "upsert_dispatch q e s = (Inr (), s\<lparr>tb_outbox := tb_outbox s\<rparr>)"
      using free by (simp add: upsert_dispatch_def Let_def new_def)
    then show ?thesis using newer(1) by (intro exI [of _ "tb_outbox s"]) auto
  next
    case older
    then have "upsert_dispatch q e s = (Inr (), s\<lparr>tb_outbox := overwrite ?p new (tb_outbox s)\<rparr>)"
      using free by (simp add: upsert_dispatch_def Let_def new_def)
    moreover have "list_ex (pending_dispatch j) (tb_outbox s) \<Longrightarrow> list_ex (pending_dispatch j) (overwrite ?p new (tb_outbox s))" for j
      by (rule overwrite_asked [OF _ new]) simp_all
    moreover have "x_id ` set (overwrite ?p new (tb_outbox s)) \<subseteq> insert (dr_event_id q) (x_id ` set (tb_outbox s))"
      by (auto simp: set_overwrite new_def)
    ultimately show ?thesis using older(1) by blast
  qed
qed

lemma enqueue_asks:
  assumes "fresh_ids e s" and "o_submitted_at x \<noteq> None"
  shows "\<exists>s'. enqueue_dispatch_request x e s = (Inr (), s') \<and> asking e s s' \<and> asked s' (o_id x)"
proof -
  obtain t where t: "o_submitted_at x = Some t" using assms(2) by blast
  let ?s = "s\<lparr>issued := Suc (issued s), ticks := Suc (ticks s)\<rparr>"
  let ?q = "\<lparr>dr_event_id = uuid_source e (issued s), dr_order_id = o_id x, dr_submitted_at = trunc_us t,
              dr_requested_at = trunc_us (clock e (ticks s))\<rparr>"
  have build: "build_dispatch_request x e s = (Inr ?q, ?s)"
    by (simp add: build_dispatch_request_def bind_def uuid_new_def deref_def t return_def time_now_def)
  have "dr_event_id ?q \<notin> x_id ` set (tb_outbox ?s)" using assms(1) by (auto simp: fresh_ids_def)
  from upsert_dispatch_asks [OF this, of e] obtain ys where
    up: "upsert_dispatch ?q e ?s = (Inr (), ?s\<lparr>tb_outbox := ys\<rparr>)" and asks: "list_ex (pending_dispatch (o_id x)) ys"
    and keep: "\<forall>j. list_ex (pending_dispatch j) (tb_outbox s) \<longrightarrow> list_ex (pending_dispatch j) ys"
    and ids: "x_id ` set ys \<subseteq> insert (uuid_source e (issued s)) (x_id ` set (tb_outbox s))" by auto
  have inj: "inj (uuid_source e)" and new: "x_id ` set (tb_outbox s) \<inter> uuid_source e ` {issued s..} = {}"
    using assms(1) by (simp_all add: fresh_ids_def)
  have "uuid_source e n \<notin> x_id ` set ys" if n: "Suc (issued s) \<le> n" for n
  proof
    assume "uuid_source e n \<in> x_id ` set ys"
    with ids have "uuid_source e n = uuid_source e (issued s) \<or> uuid_source e n \<in> x_id ` set (tb_outbox s)" by (rule subsetD [THEN insertE]) simp_all
    moreover have "uuid_source e n \<noteq> uuid_source e (issued s)" using n by (simp add: inj_eq [OF inj])
    moreover have "uuid_source e n \<in> uuid_source e ` {issued s..}" using n by simp
    ultimately show False using new by blast
  qed
  then have apart: "z \<notin> uuid_source e ` {Suc (issued s)..}" if "z \<in> x_id ` set ys" for z using that by (metis atLeast_iff imageE)
  then have "x_id ` set ys \<inter> uuid_source e ` {Suc (issued s)..} = {}" by (metis disjoint_iff)
  then have "fresh_ids e (?s\<lparr>tb_outbox := ys\<rparr>)" using inj by (simp add: fresh_ids_def)
  then have "asking e s (?s\<lparr>tb_outbox := ys\<rparr>)"
    unfolding asking_def asked_def using keep
    by (intro conjI exI [of _ ys] exI [of _ "Suc (issued s)"] exI [of _ "Suc (ticks s)"]) simp_all
  then show ?thesis using build up asks by (intro exI [of _ "?s\<lparr>tb_outbox := ys\<rparr>"]) (simp add: enqueue_dispatch_request_def bind_def asked_def)
qed

lemma enqueue_page_asks:
  assumes "fresh_ids e s" and "\<forall>x \<in> set xs. o_submitted_at x \<noteq> None"
  shows "\<exists>s'. for_each xs enqueue_dispatch_request e s = (Inr (), s') \<and> asking e s s' \<and> (\<forall>x \<in> set xs. asked s' (o_id x))"
  using assms
proof (induction xs arbitrary: s)
  case Nil
  show ?case by (simp add: return_def asking_refl)
next
  case (Cons x xs)
  from enqueue_asks [OF Cons.prems(1), of x] Cons.prems(2) obtain t where
    t: "enqueue_dispatch_request x e s = (Inr (), t)" "asking e s t" "asked t (o_id x)" by auto
  then have "fresh_ids e t" using Cons.prems(1) by (simp add: asking_def)
  from Cons.IH [OF this] Cons.prems(2) obtain u where
    u: "for_each xs enqueue_dispatch_request e t = (Inr (), u)" "asking e t u" "\<forall>x \<in> set xs. asked u (o_id x)" by auto
  have "asked u (o_id x)" using t(3) u(2) by (simp add: asking_def)
  then show ?case using t u asking_trans [OF t(2) u(2)] by (intro exI [of _ u]) (simp add: seq_def bind_def)
qed

section \<open>One pass over a record of the queue\<close>

abbreviation release_key :: "release_row \<Rightarrow> time \<times> uuid" where
  "release_key q \<equiv> (q_created_at q, q_assignment_id q)"

lemma wants_release_asking: "asking e s s' \<Longrightarrow> wants_release s' q x = wants_release s q x"
  by (auto simp: asking_def wants_release_def)

text \<open>What the cursor has left of the orders a record concerns.\<close>

definition waiting :: "db \<Rightarrow> release_row \<Rightarrow> order list" where
  "waiting s q = filter (after_cursor (q_last_order_id q)) (sort_key o_id (filter (wants_release s q) (tb_orders s)))"

lemma release_page_waiting: "release_page q s = take dispatch_refresh_batch_size (waiting s q)"
proof -
  have "filter (\<lambda>x. wants_release s q x \<and> after_cursor (q_last_order_id q) x) (tb_orders s) =
      filter (after_cursor (q_last_order_id q)) (filter (wants_release s q) (tb_orders s))" by (simp add: conj_commute)
  then show ?thesis by (simp add: release_page_def waiting_def filter_sort)
qed

text \<open>Moving the cursor to the end of a full page leaves the rest.\<close>

lemma sorted_after:
  assumes "sorted (map o_id xs)" and "distinct (map o_id xs)" and "0 < n" and "n \<le> length xs"
  shows "filter (\<lambda>x. o_id (xs ! (n - 1)) < o_id x) xs = drop n xs"
  using assms
proof (induction xs arbitrary: n)
  case (Cons x xs)
  then obtain m where n: "n = Suc m" by (cases n) auto
  show ?case
  proof (cases m)
    case 0
    have "\<forall>y \<in> set xs. o_id x < o_id y" using Cons.prems(1,2) by (auto simp: order_less_le)
    with n 0 show ?thesis by (simp add: filter_id_conv)
  next
    case (Suc k)
    have "xs ! (m - 1) \<in> set xs" using Cons.prems(4) n Suc by (intro nth_mem) simp
    then have "\<not> o_id (xs ! (m - 1)) < o_id x" using Cons.prems(1) by (simp add: not_less)
    with Cons.IH [of m] Cons.prems n Suc show ?thesis by simp
  qed
qed simp

lemma waiting_moved:
  assumes "distinct (map o_id (tb_orders s))" and "n = dispatch_refresh_batch_size" and "n \<le> length (waiting s q)"
  shows "waiting s (q\<lparr>q_last_order_id := Some (o_id (last (take n (waiting s q))))\<rparr>) = drop n (waiting s q)"
proof -
  let ?w = "sort_key o_id (filter (wants_release s q) (tb_orders s))"
  have n: "0 < n" using assms(2) by (simp add: dispatch_refresh_batch_size_def)
  have dist: "distinct (map o_id ?w)" using distinct_map_filter [OF assms(1)] by (simp add: distinct_map)
  have srt: "sorted (map o_id (waiting s q))" and dw: "distinct (map o_id (waiting s q))"
    unfolding waiting_def by (rule sorted_filter, simp, rule distinct_map_filter [OF dist])
  have "length (take n (waiting s q)) = n" using assms(3) by simp
  then have last: "last (take n (waiting s q)) = waiting s q ! (n - 1)"
    using n by (subst last_conv_nth) (auto simp del: length_take)
  have "waiting s q ! (n - 1) \<in> set (waiting s q)" using n assms(3) by (intro nth_mem) simp
  then have "after_cursor (q_last_order_id q) (waiting s q ! (n - 1))" by (auto simp: waiting_def)
  then have "after_cursor (Some (o_id (waiting s q ! (n - 1)))) x \<longleftrightarrow>
      o_id (waiting s q ! (n - 1)) < o_id x \<and> after_cursor (q_last_order_id q) x" for x
    by (auto simp: after_cursor_def split: option.splits)
  then have "filter (after_cursor (Some (o_id (waiting s q ! (n - 1))))) ?w = filter (\<lambda>x. o_id (waiting s q ! (n - 1)) < o_id x) (waiting s q)"
    unfolding waiting_def filter_filter by (intro filter_cong) auto
  moreover have "wants_release s (q\<lparr>q_last_order_id := c\<rparr>) = wants_release s q" for c
    by (simp add: wants_release_def fun_eq_iff cong: option.case_cong)
  ultimately have "waiting s (q\<lparr>q_last_order_id := Some (o_id (last (take n (waiting s q))))\<rparr>) =
      filter (\<lambda>x. o_id (waiting s q ! (n - 1)) < o_id x) (waiting s q)"
    unfolding last by (subst waiting_def) simp
  also have "\<dots> = drop n (waiting s q)" using sorted_after [OF srt dw n assms(3)] .
  finally show ?thesis .
qed

lemma insort_key_map: "(\<And>x. f (g x) = f x) \<Longrightarrow> insort_key f (g x) (map g xs) = map g (insort_key f x xs)"
  by (induction xs) simp_all

lemma sort_key_map: "(\<And>x. f (g x) = f x) \<Longrightarrow> sort_key f (map g xs) = map g (sort_key f xs)"
  by (induction xs) (simp_all add: insort_key_map)

text \<open>The queue holds one record per assignment, the uuid source gives new ids, no row is locked elsewhere.\<close>

definition undisturbed :: "env \<Rightarrow> db \<Rightarrow> bool" where
  "undisturbed e s \<longleftrightarrow> busy e = (\<lambda>l. False) \<and> fresh_ids e s \<and> distinct (map q_assignment_id (tb_release_queue s)) \<and>
     distinct (map o_id (tb_orders s))"

lemma release_pass:
  assumes calm: "undisturbed e s" and head: "sort_key release_key (tb_release_queue s) = q # rest"
  obtains u where "process_dispatch_release e s = (Inr True, finish_release q (release_page q s) u)"
    and "asking e (s\<lparr>locks := []\<rparr>) u" and "\<forall>x \<in> set (release_page q s). asked u (o_id x)"
proof -
  let ?s = "s\<lparr>locks := []\<rparr>"
  have row: "next_release e ?s = (Inr (Some q), ?s)"
    using calm head by (simp add: next_release_def bind_def ask_def query_def undisturbed_def)
  have page_eq: "release_page q ?s = release_page q s" by (simp add: release_page_def wants_release_def)
  have "\<forall>x \<in> set (release_page q s). o_submitted_at x \<noteq> None"
    by (auto simp: release_page_def wants_release_def dest!: in_set_takeD)
  moreover have "fresh_ids e ?s" using calm by (simp add: undisturbed_def fresh_ids_def)
  ultimately obtain u where u: "for_each (release_page q s) enqueue_dispatch_request e ?s = (Inr (), u)" "asking e ?s u"
    "\<forall>x \<in> set (release_page q s). asked u (o_id x)" using enqueue_page_asks by blast
  have "process_dispatch_release e s = (Inr True, finish_release q (release_page q s) u)"
    using row u(1) page_eq by (simp add: process_dispatch_release_def in_tx_def bind_def seq_def query_def exec_def return_def)
  then show ?thesis using u that by blast
qed

lemma finish_release_fields [simp]:
  "tb_outbox (finish_release q xs s) = tb_outbox s" "tb_orders (finish_release q xs s) = tb_orders s"
  "tb_assignments (finish_release q xs s) = tb_assignments s" "issued (finish_release q xs s) = issued s"
  by (simp_all add: finish_release_def)

lemma undisturbed_finish:
  assumes "undisturbed e s" and "asking e (s\<lparr>locks := []\<rparr>) u"
  shows "undisturbed e (finish_release q xs u)"
proof -
  from assms(2) obtain ys i n where u: "u = s\<lparr>locks := [], tb_outbox := ys, issued := i, ticks := n\<rparr>" and "fresh_ids e u"
    using assms(1) by (auto simp: asking_def undisturbed_def fresh_ids_def)
  then have "fresh_ids e (finish_release q xs u)" by (simp add: fresh_ids_def)
  moreover have "q_assignment_id \<circ> (\<lambda>x :: release_row. if q_assignment_id x = i then x\<lparr>q_last_order_id := c\<rparr> else x) = q_assignment_id" for i c
    by (simp add: fun_eq_iff)
  ultimately show ?thesis using assms(1)
    by (auto simp: undisturbed_def u finish_release_def distinct_map_filter)
qed

lemma waiting_tables: "tb_orders t = tb_orders s \<Longrightarrow> tb_assignments t = tb_assignments s \<Longrightarrow> waiting t q = waiting s q"
proof -
  assume "tb_orders t = tb_orders s" "tb_assignments t = tb_assignments s"
  then have "wants_release t q = wants_release s q" by (simp add: wants_release_def fun_eq_iff)
  then show ?thesis using \<open>tb_orders t = tb_orders s\<close> by (simp add: waiting_def)
qed

lemma refresh_reaches:
  assumes "undisturbed e s" and "sort_key release_key (tb_release_queue s) = q # rest"
  shows "\<exists>n. 0 < n \<and> n \<le> Suc (length (waiting s q) div dispatch_refresh_batch_size) \<and>
     q_assignment_id q \<notin> q_assignment_id ` set (tb_release_queue (snd (run_dispatch_refresh n e s))) \<and>
     (\<forall>i. asked s i \<or> i \<in> o_id ` set (waiting s q) \<longrightarrow> asked (snd (run_dispatch_refresh n e s)) i)"
  using assms
proof (induction "length (waiting s q)" arbitrary: s q rest rule: less_induct)
  case less
  let ?b = dispatch_refresh_batch_size
  obtain u where pass: "process_dispatch_release e s = (Inr True, finish_release q (release_page q s) u)"
    and asks: "asking e (s\<lparr>locks := []\<rparr>) u" and page: "\<forall>x \<in> set (release_page q s). asked u (o_id x)"
    using release_pass [OF less.prems] by blast
  let ?t = "finish_release q (release_page q s) u"
  have keep: "asked ?t i" if "asked s i" for i using asks that by (simp add: asking_def asked_def)
  have tables: "tb_orders u = tb_orders s" "tb_assignments u = tb_assignments s" "tb_release_queue u = tb_release_queue s"
    using asks by (auto simp: asking_def)
  show ?case
  proof (cases "length (release_page q s) < ?b")
    case True
    then have all: "release_page q s = waiting s q" by (simp add: release_page_waiting)
    have "snd (run_dispatch_refresh 1 e s) = ?t" by (simp add: pass return_def)
    moreover have "q_assignment_id q \<notin> q_assignment_id ` set (tb_release_queue ?t)" using True by (auto simp: finish_release_def)
    moreover have "asked ?t i" if "i \<in> o_id ` set (waiting s q)" for i using page that all by (auto simp: asked_def)
    ultimately show ?thesis using keep by (intro exI [of _ 1]) auto
  next
    case False
    then have full: "?b \<le> length (waiting s q)" by (simp add: release_page_waiting)
    let ?q = "q\<lparr>q_last_order_id := Some (o_id (last (take ?b (waiting s q))))\<rparr>"
    let ?move = "\<lambda>x. if q_assignment_id x = q_assignment_id q then x\<lparr>q_last_order_id := Some (o_id (last (take ?b (waiting s q))))\<rparr> else x"
    have queue: "tb_release_queue ?t = map ?move (tb_release_queue s)"
      using False by (simp add: finish_release_def tables release_page_waiting)
    have "sort_key release_key (tb_release_queue ?t) = ?q # map ?move rest"
      unfolding queue by (subst sort_key_map) (simp_all add: less.prems(2))
    moreover have rest_of: "waiting ?t ?q = drop ?b (waiting s q)"
      using waiting_moved [OF _ refl full] less.prems(1) waiting_tables [of ?t s ?q] by (simp add: tables undisturbed_def)
    moreover have "length (waiting ?t ?q) < length (waiting s q)"
      unfolding rest_of using full by (simp add: dispatch_refresh_batch_size_def)
    ultimately obtain n where n: "n \<le> Suc (length (drop ?b (waiting s q)) div ?b)"
      "q_assignment_id ?q \<notin> q_assignment_id ` set (tb_release_queue (snd (run_dispatch_refresh n e ?t)))"
      "\<forall>i. asked ?t i \<or> i \<in> o_id ` set (drop ?b (waiting s q)) \<longrightarrow> asked (snd (run_dispatch_refresh n e ?t)) i"
      using less.hyps [of ?t ?q "map ?move rest"] undisturbed_finish [OF less.prems(1) asks] by auto
    have run: "run_dispatch_refresh (Suc n) e s = run_dispatch_refresh n e ?t" by (simp add: pass)
    have "asked (snd (run_dispatch_refresh (Suc n) e s)) i" if "i \<in> o_id ` set (waiting s q)" for i
    proof -
      have "set (waiting s q) = set (release_page q s) \<union> set (drop ?b (waiting s q))"
        unfolding release_page_waiting by (metis append_take_drop_id set_append)
      then have "asked ?t i \<or> i \<in> o_id ` set (drop ?b (waiting s q))" using that page by (auto simp: asked_def)
      then show ?thesis unfolding run using n(3) by blast
    qed
    moreover have "Suc n \<le> Suc (length (waiting s q) div ?b)"
      using n(1) full by (simp add: dispatch_refresh_batch_size_def le_div_geq)
    ultimately show ?thesis using n keep run by (intro exI [of _ "Suc n"]) simp
  qed
qed
section \<open>A released resource is offered to everybody who waits for it\<close>

lemma run_dispatch_refresh_result: "run_dispatch_refresh n e s = (Inr (), snd (run_dispatch_refresh n e s))"
  by (induction n arbitrary: s) (simp_all add: return_def)


text \<open>The depot after its driver rejected the offer.\<close>

definition rejected_db :: db where
  "rejected_db = snd (reject_assignment 50 4 ''driver'' \<lparr>rj_comment = None, rj_reason_code = ''busy''\<rparr> sample_env offered_db)"


end
