(* ===== verification/Overview.thy ===== *)
theory Overview
  imports Access
begin

text \<open>
  The dashboard of managers and administrators (GetDashboard of internal/services/order.go): two
  read-only queries over the orders of a warehouse, or over all of them.  The exact sum of NUMERIC
  values as the \<^verbatim>\<open>float64\<close> it is scanned into, and \<^verbatim>\<open>date_trunc('month', ...)\<close>, which depends on the
  session's time zone, belong to PostgreSQL and are arguments; so is what it finds in a JSON document of
  an order that Go cannot decode.
\<close>

record dashboard_revenue =
  db_total :: f64
  db_this_month :: f64

record dashboard_order_status =
  db_orders :: nat
  db_delivered :: nat
  db_in_transit :: nat
  db_pending :: nat
  db_cancelled :: nat

record dashboard_driver_stat =
  db_driver_id :: uuid
  db_full_name :: string
  db_status :: string
  db_rating :: f64
  db_completed_orders :: nat

record dashboard_report =
  db_revenue :: dashboard_revenue
  db_order_status :: dashboard_order_status
  db_drivers :: "dashboard_driver_stat list"

record sql_functions =
  sum_numeric :: "f64 list \<Rightarrow> f64"
  month_start :: "time \<Rightarrow> time"
  stored_recorder :: "uuid \<Rightarrow> err + uuid list"

text \<open>\<^verbatim>\<open>WHERE ($1::uuid IS NULL OR origin_warehouse_id = $1 OR destination_warehouse_id = $1)\<close>.\<close>

definition of_warehouse :: "uuid option \<Rightarrow> order \<Rightarrow> bool" where
  "of_warehouse w x \<longleftrightarrow> (case w of None \<Rightarrow> True | Some v \<Rightarrow> order_touches_warehouse x v)"

definition prices :: "order list \<Rightarrow> f64 list" where
  "prices xs = List.map_filter o_total_price xs"

text \<open>Query 1: the number of orders by status, and what the completed ones brought in.\<close>

definition order_counts :: "order list \<Rightarrow> dashboard_order_status" where
  "order_counts xs = \<lparr>db_orders = length xs,
     db_delivered = length (filter (\<lambda>x. o_status x = OrderCompleted) xs),
     db_in_transit = length (filter (\<lambda>x. o_status x = OrderInTransit) xs),
     db_pending = length (filter (\<lambda>x. o_status x = OrderDraft \<or> o_status x = OrderReadyForDispatch) xs),
     db_cancelled = length (filter (\<lambda>x. o_status x = OrderCancelled) xs)\<rparr>"

definition revenue :: "sql_functions \<Rightarrow> time \<Rightarrow> order list \<Rightarrow> dashboard_revenue" where
  "revenue sql now xs = (let ps = prices (filter (\<lambda>x. o_status x = OrderCompleted) xs);
       ms = prices (filter (\<lambda>x. o_status x = OrderCompleted \<and> month_start sql now \<le> o_created_at x) xs)
     in \<lparr>db_total = (if ps = [] then Fin 0 else sum_numeric sql ps),
         db_this_month = (if ms = [] then Fin 0 else sum_numeric sql ms)\<rparr>)"

text \<open>Query 2: the ten drivers with the most completed orders; \<^verbatim>\<open>LEFT JOIN\<close> keeps a driver without
  orders only when there is no warehouse to filter by.\<close>

definition driver_stats :: "uuid option \<Rightarrow> db \<Rightarrow> dashboard_driver_stat list" where
  "driver_stats w s = take 10 (rev (sort_key db_completed_orders (rev (List.map_filter (\<lambda>d.
     case find (\<lambda>u. u_id u = d_user_id d) (tb_users s) of None \<Rightarrow> None
     | Some u \<Rightarrow>
         let xs = filter (\<lambda>x. o_driver_id x = Some (d_id d) \<and> of_warehouse w x) (tb_orders s)
         in if w \<noteq> None \<and> xs = [] then None
            else Some \<lparr>db_driver_id = d_id d, db_full_name = u_full_name u, db_status = d_status d, db_rating = d_rating d,
                   db_completed_orders = length (filter (\<lambda>x. o_status x = OrderCompleted) xs)\<rparr>) (tb_drivers s)))))"

definition get_dashboard :: "sql_functions \<Rightarrow> uuid \<Rightarrow> string \<Rightarrow> dashboard_report op" where
  "get_dashboard sql user role =
    seq (fail_if (role \<noteq> ''manager'' \<and> role \<noteq> ''admin'') forbidden)
    (bind (if role = ''manager'' then bind (manager_warehouse_id user) (\<lambda>w. return (Some w)) else return None) (\<lambda>w.
     bind time_now (\<lambda>now.
     query (\<lambda>s. let xs = filter (of_warehouse w) (tb_orders s)
       in \<lparr>db_revenue = revenue sql now xs, db_order_status = order_counts xs, db_drivers = driver_stats w s\<rparr>))))"

end
