(* ===== verification/References.thy ===== *)
theory References
  imports Overview "HOL-Library.AList"
begin

text \<open>
  The names shown beside an order (internal/services/order_references.go): one read-only query that
  resolves the participants of an order to labels, for a caller who may open it.  A map is an association
  list whose keys are the identifiers themselves, which \<^verbatim>\<open>uuid.String\<close> writes one to one.
\<close>

record order_references =
  rf_users :: "(uuid \<times> string) list"
  rf_drivers :: "(uuid \<times> string) list"
  rf_vehicles :: "(uuid \<times> string) list"
  rf_warehouses :: "(uuid \<times> string) list"
  rf_assignments :: "(uuid \<times> string) list"

section \<open>The common table expressions\<close>

definition order_rows :: "db \<Rightarrow> uuid \<Rightarrow> order list" where
  "order_rows s i = filter (\<lambda>x. o_id x = i) (tb_orders s)"

definition assignment_rows :: "db \<Rightarrow> uuid \<Rightarrow> assignment list" where
  "assignment_rows s i = filter (\<lambda>a. a_order_id a = i) (tb_assignments s)"

definition handover_rows :: "db \<Rightarrow> uuid \<Rightarrow> trip_handover list" where
  "handover_rows s i = filter (\<lambda>h. t_order_id h = i) (tb_handovers s)"

definition operation_rows :: "db \<Rightarrow> uuid \<Rightarrow> warehouse_operation list" where
  "operation_rows s i = filter (\<lambda>x. wo_order_id x = i) (tb_operations s)"

definition incident_rows :: "db \<Rightarrow> uuid \<Rightarrow> incident list" where
  "incident_rows s i = filter (\<lambda>x. i_order_id x = i) (tb_incidents s)"

definition driver_rows :: "db \<Rightarrow> uuid \<Rightarrow> driver list" where
  "driver_rows s i = filter (\<lambda>d. d_id d \<in> set (map a_driver_id (assignment_rows s i) @ map t_driver_id (handover_rows s i) @
     List.map_filter o_driver_id (order_rows s i))) (tb_drivers s)"

definition vehicle_rows :: "db \<Rightarrow> uuid \<Rightarrow> vehicle list" where
  "vehicle_rows s i = filter (\<lambda>v. v_id v \<in> set (map a_vehicle_id (assignment_rows s i) @ map t_vehicle_id (handover_rows s i))) (tb_vehicles s)"

text \<open>
  \<^verbatim>\<open>NULLIF(transport_details->>'recordedByUserId','')::uuid\<close>: who recorded the transport details.  What
  PostgreSQL makes of a document that does not decode is an argument.
\<close>

definition recorder_of :: "sql_functions \<Rightarrow> order \<Rightarrow> err + uuid list" where
  "recorder_of sql ord = (case o_details ord of NoDetails \<Rightarrow> Inr [] | Details d \<Rightarrow> Inr [td_recorded_by d]
     | BadDetails \<Rightarrow> stored_recorder sql (o_id ord))"

fun recorders :: "sql_functions \<Rightarrow> order list \<Rightarrow> err + uuid list" where
  "recorders sql [] = Inr []"
| "recorders sql (x # xs) = (case recorder_of sql x of Inl er \<Rightarrow> Inl er
     | Inr ids \<Rightarrow> (case recorders sql xs of Inl er \<Rightarrow> Inl er | Inr rest \<Rightarrow> Inr (ids @ rest)))"

definition user_rows :: "db \<Rightarrow> uuid \<Rightarrow> uuid list \<Rightarrow> user list" where
  "user_rows s i recorded = filter (\<lambda>u. u_id u \<in> set (map d_user_id (driver_rows s i) @ List.map_filter o_created_by (order_rows s i) @
     map a_created_by (assignment_rows s i) @ map t_created_by (handover_rows s i) @ map wo_created_by (operation_rows s i) @
     map i_reported_by (incident_rows s i) @ List.map_filter i_resolved_by (incident_rows s i) @
     map r_recorded_by (filter (\<lambda>r. r_order_id r = i) (tb_receipts s)) @ recorded)) (tb_users s)"

definition warehouse_rows :: "db \<Rightarrow> uuid \<Rightarrow> warehouse list" where
  "warehouse_rows s i = filter (\<lambda>w. w_id w \<in> set (List.map_filter o_origin_warehouse (order_rows s i) @
     List.map_filter o_dest_warehouse (order_rows s i) @ map wo_warehouse_id (operation_rows s i) @
     List.map_filter i_warehouse_id (incident_rows s i))) (tb_warehouses s)"

section \<open>Labels\<close>

text \<open>A middle dot between blanks, in UTF-8.\<close>

definition middle_dot :: string where
  "middle_dot = [CHR 0x20, CHR 0xC2, CHR 0xB7, CHR 0x20]"

text \<open>\<^verbatim>\<open>concat_ws\<close> leaves NULL arguments out.\<close>

fun concat_ws :: "string \<Rightarrow> string option list \<Rightarrow> string" where
  "concat_ws sep [] = []"
| "concat_ws sep (None # xs) = concat_ws sep xs"
| "concat_ws sep (Some x # xs) = (if list_all (\<lambda>y. y = None) xs then x else x @ sep @ concat_ws sep xs)"

definition null_if_empty :: "string \<Rightarrow> string option" where
  "null_if_empty x = (if x = [] then None else Some x)"

definition vehicle_label :: "vehicle \<Rightarrow> string" where
  "vehicle_label v = concat_ws middle_dot [Some (v_plate_number v), null_if_empty (concat_ws '' '' [v_brand v, v_model v])]"

text \<open>A later row of the same key replaces an earlier one.\<close>

definition label_map :: "(uuid \<times> string) list \<Rightarrow> (uuid \<times> string) list" where
  "label_map xs = fold (\<lambda>(i, l). AList.update i l) xs []"

definition order_references_of :: "db \<Rightarrow> uuid \<Rightarrow> uuid list \<Rightarrow> order_references" where
  "order_references_of s i recorded = (let us = user_rows s i recorded; ds = driver_rows s i; vs = vehicle_rows s i
     in \<lparr>rf_users = label_map (map (\<lambda>u. (u_id u, u_full_name u)) us),
         rf_drivers = label_map [(d_id d, u_full_name u). d \<leftarrow> ds, u \<leftarrow> us, u_id u = d_user_id d],
         rf_vehicles = label_map (map (\<lambda>v. (v_id v, vehicle_label v)) vs),
         rf_warehouses = label_map (map (\<lambda>w. (w_id w, w_name w)) (warehouse_rows s i)),
         rf_assignments = label_map [(a_id a, concat_ws middle_dot [Some (u_full_name u), Some (v_plate_number v)]).
           a \<leftarrow> assignment_rows s i, d \<leftarrow> ds, d_id d = a_driver_id a, u \<leftarrow> us, u_id u = d_user_id d, v \<leftarrow> vs, v_id v = a_vehicle_id a]\<rparr>)"

definition get_order_references :: "sql_functions \<Rightarrow> uuid \<Rightarrow> uuid \<Rightarrow> string \<Rightarrow> order_references op" where
  "get_order_references sql i user role =
    bind (get_order i user role) (\<lambda>_.
    bind (query (\<lambda>s. recorders sql (order_rows s i))) (\<lambda>r.
    case r of Inl er \<Rightarrow> throw er | Inr recorded \<Rightarrow> query (\<lambda>s. order_references_of s i recorded)))"

lemma untouched_get_order_references [simp]: "framed untouched (get_order_references sql i user role)"
  unfolding get_order_references_def by (intro unt.framed_rules) (simp_all add: unt.framed_throw split: sum.split)

end
