(* ===== verification/Http.thy ===== *)
theory Http
  imports Messaging References Failures "HOL-Library.Word"
begin

text \<open>
  The HTTP handlers of orders, assignments, handovers, incidents, warehouse operations, transport
  documents and recommendations (internal/handler): who calls, what the body decodes to, which
  service is called, and which status and payload the answer carries.  The text of a body is outside
  the model: a handler is given what \<^verbatim>\<open>json.Decoder\<close> makes of it, a value, nothing (\<^verbatim>\<open>io.EOF\<close>) or an
  error.  An answer is the status, the payload type and the payload that \<^verbatim>\<open>Server.JSON\<close> wraps.
\<close>

section \<open>Requests and answers (server_impl.go)\<close>

record claims =
  cl_id :: uuid
  cl_email :: string
  cl_role :: string
  cl_token_id :: string

datatype 'r body = Decoded 'r | NoBody | BadBody

text \<open>What the document service says of a document (documentpb, generated).\<close>

record document =
  doc_id :: string
  doc_order_id :: string
  doc_type :: string
  doc_title :: string
  doc_created_at :: string
  doc_size_bytes :: "64 word"

text \<open>A cell of the spreadsheet of GetOrdersReport.\<close>

datatype cell = CText string | CNumber f64 | CTime time

datatype reply_data =
    Message string
  | OrderData order | OrderAndRoute order route | OrdersData "order list" | SheetData "cell list list"
  | DashboardData dashboard_report | ReferencesData order_references
  | AssignmentData assignment | AssignmentsData "assignment list"
  | HandoverData trip_handover | HandoversData "trip_handover list"
  | IncidentData incident | IncidentsData "incident list"
  | OperationData warehouse_operation | OperationsData "warehouse_operation list" | QueueData "queue_item list"
  | CounterpartyData counterparty | CounterpartiesData "counterparty list"
  | ReceiptData delivery_receipt | RecommendationsData dispatch_recommendations | RouteData route
  | NotificationsData "notification list" | DocumentsData "document list" | PdfData string
  | VehicleData vehicle | VehiclesData "vehicle list" | VehicleDocumentData vehicle_document | VehicleDocumentsData "vehicle_document list"
  | DriverData driver | DriversData "driver list" | DriverAccountData user driver
  | ManagerData manager | ManagersData "manager list" | ManagerAccountData user manager
  | WarehouseData warehouse | WarehousesData "warehouse list"
  | UserData user | SessionData string nat user | NoData

text \<open>\<open>Aborted\<close>: the handler panicked, \<^verbatim>\<open>net/http\<close> closes the connection without an answer.\<close>

datatype reply = Reply nat string reply_data | Aborted

type_synonym handler = "env \<Rightarrow> db \<Rightarrow> reply \<times> db"

definition reply_error :: "nat \<Rightarrow> string \<Rightarrow> reply" where
  "reply_error status text = Reply status ''error'' (Message text)"

definition internal_error :: reply where
  "internal_error = reply_error 500 ''Internal server error''"

definition invalid_body :: reply where
  "invalid_body = reply_error 400 ''Invalid request body''"

definition forbidden_reply :: reply where
  "forbidden_reply = reply_error 403 ''Forbidden''"

definition not_found_reply :: reply where
  "not_found_reply = Reply 404 ''not found'' (Message ''Not found'')"

text \<open>The service errors an API client is told about (order.go, writeOrderServiceError).\<close>

definition unprocessable :: "business_error \<Rightarrow> bool" where
  "unprocessable b \<longleftrightarrow> b \<in> {ErrInvalidOrderInput, ErrInvalidTimeWindow, ErrVehicleDocumentInvalid,
     ErrVehicleCapacityExceeded, ErrDriverLicenseExpired}"

fun write_order_service_error :: "err \<Rightarrow> reply" where
  "write_order_service_error NotFound = not_found_reply"
| "write_order_service_error (Business b) =
    (if b = ErrForbidden then reply_error 403 (business_code ErrForbidden)
     else reply_error (if unprocessable b then 422 else 409) (business_code b))"
| "write_order_service_error _ = internal_error"

text \<open>The other way of the handlers: \<open>Forbidden\<close> and, for one order, \<open>Not found\<close>, else an internal error.\<close>

fun read_error :: "bool \<Rightarrow> err \<Rightarrow> reply" where
  "read_error finds (Business b) = (if b = ErrForbidden then forbidden_reply else internal_error)"
| "read_error finds NotFound = (if finds then not_found_reply else internal_error)"
| "read_error finds _ = internal_error"

fun create_order_error :: "err \<Rightarrow> reply" where
  "create_order_error (Business b) = write_order_service_error (Business b)"
| "create_order_error _ = internal_error"

text \<open>Calling a service and answering.\<close>

definition respond :: "'a op \<Rightarrow> (err \<Rightarrow> reply) \<Rightarrow> ('a \<Rightarrow> reply) \<Rightarrow> handler" where
  "respond m fail ok = (\<lambda>e s. case m e s of
     (Inl er, s') \<Rightarrow> (if er = GoPanic then Aborted else fail er, s') | (Inr x, s') \<Rightarrow> (ok x, s'))"

definition proceed :: "'a op \<Rightarrow> (err \<Rightarrow> reply) \<Rightarrow> ('a \<Rightarrow> handler) \<Rightarrow> handler" where
  "proceed m fail k = (\<lambda>e s. case m e s of
     (Inl er, s') \<Rightarrow> (if er = GoPanic then Aborted else fail er, s') | (Inr x, s') \<Rightarrow> k x e s')"

definition answer :: "reply \<Rightarrow> handler" where
  "answer r = (\<lambda>e s. (r, s))"

text \<open>\<^verbatim>\<open>claims, ok := r.Context().Value(UserKey).(*Claims)\<close>: the older handlers answer 500, the newer ones 401.\<close>

definition with_claims :: "reply \<Rightarrow> claims option \<Rightarrow> (claims \<Rightarrow> handler) \<Rightarrow> handler" where
  "with_claims missing who h = (case who of None \<Rightarrow> answer missing | Some c \<Rightarrow> h c)"

abbreviation unauthorized :: reply where
  "unauthorized \<equiv> reply_error 401 ''Unauthorized''"

definition with_body :: "'r body \<Rightarrow> ('r \<Rightarrow> handler) \<Rightarrow> handler" where
  "with_body b h = (case b of Decoded r \<Rightarrow> h r | _ \<Rightarrow> answer invalid_body)"

text \<open>\<^verbatim>\<open>err != nil && !errors.Is(err, io.EOF)\<close>: a missing body is the zero value.\<close>

definition with_optional_body :: "'r \<Rightarrow> 'r body \<Rightarrow> ('r \<Rightarrow> handler) \<Rightarrow> handler" where
  "with_optional_body zero b h = (case b of Decoded r \<Rightarrow> h r | NoBody \<Rightarrow> h zero | BadBody \<Rightarrow> answer invalid_body)"

section \<open>Orders (order.go)\<close>

definition list_orders_handler :: "claims option \<Rightarrow> list_orders_params \<Rightarrow> handler" where
  "list_orders_handler who params = with_claims internal_error who (\<lambda>c.
    respond (list_orders (cl_id c) (cl_role c) params) (read_error False) (\<lambda>xs. Reply 200 ''success'' (OrdersData xs)))"

definition create_order_handler :: "claims option \<Rightarrow> order_create body \<Rightarrow> handler" where
  "create_order_handler who b = with_claims internal_error who (\<lambda>c.
    if cl_role c \<noteq> ''client'' \<and> cl_role c \<noteq> ''manager'' \<and> cl_role c \<noteq> ''admin'' then answer forbidden_reply
    else with_body b (\<lambda>req. respond (create_order req (cl_id c) (cl_role c)) create_order_error
      (\<lambda>(ord, rt). Reply 201 ''order'' (OrderAndRoute ord rt))))"

definition get_order_handler :: "claims option \<Rightarrow> uuid \<Rightarrow> handler" where
  "get_order_handler who i = with_claims internal_error who (\<lambda>c.
    respond (get_order i (cl_id c) (cl_role c)) (read_error True) (\<lambda>x. Reply 200 ''success'' (OrderData x)))"

definition update_draft_order_handler :: "claims option \<Rightarrow> uuid \<Rightarrow> order_draft_update body \<Rightarrow> handler" where
  "update_draft_order_handler who i b = with_claims internal_error who (\<lambda>c. with_body b (\<lambda>req.
    respond (update_draft_order i (cl_id c) (cl_role c) req) write_order_service_error (\<lambda>x. Reply 200 ''order'' (OrderData x))))"

definition cancel_order_handler :: "claims option \<Rightarrow> uuid \<Rightarrow> order_cancel body \<Rightarrow> handler" where
  "cancel_order_handler who i b = with_claims internal_error who (\<lambda>c.
    with_optional_body \<lparr>oc_comment = None, oc_reason_code = None\<rparr> b (\<lambda>req.
    respond (cancel_order i (cl_id c) (cl_role c) req) write_order_service_error (\<lambda>x. Reply 200 ''order'' (OrderData x))))"

definition update_order_status_handler :: "uuid \<Rightarrow> handler" where
  "update_order_status_handler i = answer (reply_error 410 ''use explicit /api/v1 order and assignment commands'')"

definition submit_order_handler :: "claims option \<Rightarrow> uuid \<Rightarrow> handler" where
  "submit_order_handler who i = with_claims internal_error who (\<lambda>c.
    respond (submit_order i (cl_id c) (cl_role c)) write_order_service_error (\<lambda>x. Reply 200 ''order'' (OrderData x)))"

text \<open>The report as the rows of its spreadsheet.\<close>

definition report_row :: "order \<Rightarrow> cell list" where
  "report_row x = [CText (uuid_text (o_id x)), CText (order_status_text (o_status x)), CText (o_origin_address x),
     CText (o_dest_address x), CNumber (o_weight_kg x), CNumber (o_volume_m3 x),
     (case o_total_price x of None \<Rightarrow> CText [] | Some p \<Rightarrow> CNumber p), CTime (o_created_at x)]"

definition report_sheet :: "order list \<Rightarrow> cell list list" where
  "report_sheet xs = map CText [''ID'', ''Status'', ''Origin'', ''Destination'', ''Weight'', ''Volume'', ''Price'', ''Created At''] #
     map report_row xs"

definition get_orders_report_handler :: "claims option \<Rightarrow> orders_report_params \<Rightarrow> handler" where
  "get_orders_report_handler who params = with_claims internal_error who (\<lambda>c.
    respond (get_orders_report (cl_id c) (cl_role c) params) (read_error False)
      (\<lambda>xs. Reply 200 ''orders_report.xlsx'' (SheetData (report_sheet xs))))"

definition get_dashboard_handler :: "sql_functions \<Rightarrow> claims option \<Rightarrow> handler" where
  "get_dashboard_handler sql who = with_claims internal_error who (\<lambda>c.
    respond (get_dashboard sql (cl_id c) (cl_role c)) (read_error False) (\<lambda>x. Reply 200 ''success'' (DashboardData x)))"

section \<open>Assignments (assignment.go)\<close>

definition create_assignment_handler :: "claims option \<Rightarrow> uuid \<Rightarrow> assignment_create body \<Rightarrow> handler" where
  "create_assignment_handler who i b = with_claims internal_error who (\<lambda>c. with_body b (\<lambda>req.
    respond (create_assignment i (cl_id c) (cl_role c) req) write_order_service_error (\<lambda>x. Reply 201 ''assignment'' (AssignmentData x))))"

definition list_assignments_handler :: "claims option \<Rightarrow> list_assignments_params \<Rightarrow> handler" where
  "list_assignments_handler who params = with_claims internal_error who (\<lambda>c.
    respond (list_assignments (cl_id c) (cl_role c) params) write_order_service_error (\<lambda>xs. Reply 200 ''assignments'' (AssignmentsData xs)))"

definition list_order_assignments_handler :: "claims option \<Rightarrow> uuid \<Rightarrow> handler" where
  "list_order_assignments_handler who i = with_claims internal_error who (\<lambda>c.
    respond (list_order_assignments i (cl_id c) (cl_role c)) write_order_service_error (\<lambda>xs. Reply 200 ''assignments'' (AssignmentsData xs)))"

definition assignment_handler :: "claims option \<Rightarrow> (uuid \<Rightarrow> string \<Rightarrow> assignment op) \<Rightarrow> handler" where
  "assignment_handler who call = with_claims internal_error who (\<lambda>c.
    respond (call (cl_id c) (cl_role c)) write_order_service_error (\<lambda>x. Reply 200 ''assignment'' (AssignmentData x)))"

definition accept_assignment_handler :: "claims option \<Rightarrow> uuid \<Rightarrow> handler" where
  "accept_assignment_handler who i = assignment_handler who (accept_assignment i)"

definition reject_assignment_handler :: "claims option \<Rightarrow> uuid \<Rightarrow> assignment_reject body \<Rightarrow> handler" where
  "reject_assignment_handler who i b = with_claims internal_error who (\<lambda>c. with_body b (\<lambda>req.
    respond (reject_assignment i (cl_id c) (cl_role c) req) write_order_service_error (\<lambda>x. Reply 200 ''assignment'' (AssignmentData x))))"

definition start_assignment_handler :: "claims option \<Rightarrow> uuid \<Rightarrow> handler" where
  "start_assignment_handler who i = assignment_handler who (start_assignment i)"

definition arrive_assignment_handler :: "claims option \<Rightarrow> uuid \<Rightarrow> handler" where
  "arrive_assignment_handler who i = assignment_handler who (arrive_assignment i)"

definition complete_assignment_handler :: "claims option \<Rightarrow> uuid \<Rightarrow> delivery_complete body \<Rightarrow> handler" where
  "complete_assignment_handler who i b = with_claims internal_error who (\<lambda>c.
    with_optional_body \<lparr>dl_comment = None, dl_recipient_name = None\<rparr> b (\<lambda>req.
    respond (complete_assignment i (cl_id c) (cl_role c) req) write_order_service_error (\<lambda>x. Reply 200 ''assignment'' (AssignmentData x))))"
section \<open>Trip handovers (handover.go)\<close>

definition create_trip_handover_handler :: "claims option \<Rightarrow> uuid \<Rightarrow> trip_handover_create body \<Rightarrow> handler" where
  "create_trip_handover_handler who i b = with_claims unauthorized who (\<lambda>c. with_body b (\<lambda>req.
    respond (create_trip_handover i (cl_id c) (cl_role c) req) write_order_service_error (\<lambda>x. Reply 201 ''handover'' (HandoverData x))))"

definition list_incoming_trip_handovers_handler :: "claims option \<Rightarrow> handler" where
  "list_incoming_trip_handovers_handler who = with_claims unauthorized who (\<lambda>c.
    respond (list_incoming_trip_handovers (cl_id c) (cl_role c)) write_order_service_error (\<lambda>xs. Reply 200 ''handovers'' (HandoversData xs)))"

definition list_trip_handovers_handler :: "claims option \<Rightarrow> uuid \<Rightarrow> handler" where
  "list_trip_handovers_handler who i = with_claims unauthorized who (\<lambda>c.
    respond (list_trip_handovers i (cl_id c) (cl_role c)) write_order_service_error (\<lambda>xs. Reply 200 ''handovers'' (HandoversData xs)))"

definition update_trip_handover_handler :: "claims option \<Rightarrow> uuid \<Rightarrow> string \<Rightarrow> handler" where
  "update_trip_handover_handler who i action = with_claims unauthorized who (\<lambda>c.
    respond (update_trip_handover i (cl_id c) (cl_role c) action) write_order_service_error (\<lambda>x. Reply 200 ''handover'' (HandoverData x)))"

section \<open>Incidents and warehouse operations (incidents.go, warehouse_flow.go)\<close>

definition create_order_incident_handler :: "claims option \<Rightarrow> uuid \<Rightarrow> order_incident_create body \<Rightarrow> handler" where
  "create_order_incident_handler who i b = with_claims unauthorized who (\<lambda>c. with_body b (\<lambda>req.
    respond (create_order_incident i (cl_id c) (cl_role c) req) write_order_service_error (\<lambda>x. Reply 201 ''incident'' (IncidentData x))))"

definition list_order_incidents_handler :: "claims option \<Rightarrow> uuid \<Rightarrow> handler" where
  "list_order_incidents_handler who i = with_claims unauthorized who (\<lambda>c.
    respond (list_order_incidents i (cl_id c) (cl_role c)) write_order_service_error (\<lambda>xs. Reply 200 ''incidents'' (IncidentsData xs)))"

definition resolve_order_incident_handler :: "claims option \<Rightarrow> uuid \<Rightarrow> order_incident_resolve body \<Rightarrow> handler" where
  "resolve_order_incident_handler who i b = with_claims unauthorized who (\<lambda>c. with_body b (\<lambda>req.
    respond (resolve_order_incident i (cl_id c) (cl_role c) req) write_order_service_error (\<lambda>x. Reply 200 ''incident'' (IncidentData x))))"

definition create_warehouse_operation_handler :: "claims option \<Rightarrow> uuid \<Rightarrow> warehouse_operation_create body \<Rightarrow> handler" where
  "create_warehouse_operation_handler who i b = with_claims unauthorized who (\<lambda>c. with_body b (\<lambda>req.
    respond (create_warehouse_operation i (cl_id c) (cl_role c) req) write_order_service_error (\<lambda>x. Reply 201 ''operation'' (OperationData x))))"

definition list_order_warehouse_operations_handler :: "claims option \<Rightarrow> uuid \<Rightarrow> handler" where
  "list_order_warehouse_operations_handler who i = with_claims unauthorized who (\<lambda>c.
    respond (list_order_warehouse_operations i (cl_id c) (cl_role c)) write_order_service_error (\<lambda>xs. Reply 200 ''operations'' (OperationsData xs)))"

definition list_warehouse_queue_handler :: "claims option \<Rightarrow> uuid \<Rightarrow> list_warehouse_queue_params \<Rightarrow> handler" where
  "list_warehouse_queue_handler who i params = with_claims unauthorized who (\<lambda>c.
    respond (list_warehouse_queue i (cl_id c) (cl_role c) params) write_order_service_error (\<lambda>xs. Reply 200 ''orders'' (QueueData xs)))"

section \<open>Transport documents (transport.go)\<close>

definition create_counterparty_handler :: "claims option \<Rightarrow> counterparty_write body \<Rightarrow> handler" where
  "create_counterparty_handler who b = with_claims unauthorized who (\<lambda>c. with_body b (\<lambda>req.
    respond (create_counterparty (cl_id c) (cl_role c) req) write_order_service_error (\<lambda>x. Reply 201 ''counterparty'' (CounterpartyData x))))"

definition get_counterparty_handler :: "claims option \<Rightarrow> uuid \<Rightarrow> handler" where
  "get_counterparty_handler who i = with_claims unauthorized who (\<lambda>c.
    respond (get_counterparty i (cl_id c) (cl_role c)) write_order_service_error (\<lambda>x. Reply 200 ''counterparty'' (CounterpartyData x)))"

definition list_counterparties_handler :: "claims option \<Rightarrow> list_counterparties_params \<Rightarrow> handler" where
  "list_counterparties_handler who params = with_claims unauthorized who (\<lambda>c.
    respond (list_counterparties (cl_id c) (cl_role c) params) write_order_service_error
      (\<lambda>xs. Reply 200 ''counterparties'' (CounterpartiesData xs)))"

definition update_counterparty_handler :: "claims option \<Rightarrow> uuid \<Rightarrow> counterparty_write body \<Rightarrow> handler" where
  "update_counterparty_handler who i b = with_claims unauthorized who (\<lambda>c. with_body b (\<lambda>req.
    respond (update_counterparty i (cl_id c) (cl_role c) req) write_order_service_error (\<lambda>x. Reply 200 ''counterparty'' (CounterpartyData x))))"

definition set_transport_details_handler :: "claims option \<Rightarrow> uuid \<Rightarrow> transport_details_write body \<Rightarrow> handler" where
  "set_transport_details_handler who i b = with_claims unauthorized who (\<lambda>c. with_body b (\<lambda>req.
    respond (set_transport_details i (cl_id c) (cl_role c) req) write_order_service_error (\<lambda>x. Reply 200 ''order'' (OrderData x))))"

text \<open>The body of a receipt: the count is a pointer of its own, so that zero differs from missing.\<close>

definition create_delivery_receipt_handler :: "claims option \<Rightarrow> uuid \<Rightarrow> (delivery_receipt_create \<times> int option) body \<Rightarrow> handler" where
  "create_delivery_receipt_handler who i b = with_claims unauthorized who (\<lambda>c. with_body b (\<lambda>(req, count).
    case count of None \<Rightarrow> answer invalid_body
    | Some n \<Rightarrow> respond (create_delivery_receipt i (cl_id c) (cl_role c) (req\<lparr>rr_package_count := n\<rparr>)) write_order_service_error
        (\<lambda>x. Reply 201 ''receipt'' (ReceiptData x))))"

definition get_delivery_receipt_handler :: "claims option \<Rightarrow> uuid \<Rightarrow> handler" where
  "get_delivery_receipt_handler who i = with_claims unauthorized who (\<lambda>c.
    respond (get_delivery_receipt i (cl_id c) (cl_role c)) write_order_service_error (\<lambda>x. Reply 200 ''receipt'' (ReceiptData x)))"

section \<open>Recommendations and routes (dispatch.go, route.go)\<close>

definition get_dispatch_recommendations_handler :: "claims option \<Rightarrow> uuid \<Rightarrow> handler" where
  "get_dispatch_recommendations_handler who i = with_claims unauthorized who (\<lambda>c.
    respond (get_dispatch_recommendations i (cl_id c) (cl_role c)) write_order_service_error (\<lambda>x. Reply 200 ''success'' (RecommendationsData x)))"

text \<open>
  The synchronous refresh.  \<open>recommend\<close> is the gRPC client of the dispatch service: absent, or a
  function that fails or gives what its JSON decodes to.
\<close>

type_synonym dispatch_client = "(dispatch_request \<Rightarrow> unit + dispatch_recommended option) option"

definition answers_request :: "dispatch_request \<Rightarrow> dispatch_recommended \<Rightarrow> bool" where
  "answers_request q ev \<longleftrightarrow> de_event_id ev = dr_event_id q \<and> de_order_id ev = dr_order_id q \<and>
     de_submitted_at ev = dr_submitted_at q \<and> de_requested_at ev = dr_requested_at q"

definition refresh_with :: "(string \<Rightarrow> bool) \<Rightarrow> dispatch_client \<Rightarrow> claims \<Rightarrow> uuid \<Rightarrow> dispatch_request \<Rightarrow> handler" where
  "refresh_with uuid_text_ok recommend c i q = (case recommend of None \<Rightarrow> answer (reply_error 503 ''dispatch unavailable'')
   | Some rpc \<Rightarrow> (case rpc q of Inl _ \<Rightarrow> answer (reply_error 503 ''dispatch unavailable'')
      | Inr None \<Rightarrow> answer (reply_error 502 ''invalid dispatch response'')
      | Inr (Some ev) \<Rightarrow>
          if \<not> answers_request q ev then answer (reply_error 502 ''invalid dispatch response'')
          else (\<lambda>e s. case store_dispatch_recommended uuid_text_ok (Some ev) e s of
            (Inl _, s') \<Rightarrow> (reply_error 502 ''invalid dispatch response'', s')
          | (Inr _, s') \<Rightarrow> get_dispatch_recommendations_handler (Some c) i e s')))"

definition refresh_dispatch_recommendations_handler ::
  "(string \<Rightarrow> bool) \<Rightarrow> dispatch_client \<Rightarrow> claims option \<Rightarrow> uuid \<Rightarrow> handler" where
  "refresh_dispatch_recommendations_handler uuid_text_ok recommend who i = with_claims unauthorized who (\<lambda>c e s.
    case build_order_dispatch_request i (cl_id c) (cl_role c) e s of
      (Inl er, s') \<Rightarrow> (if er = GoPanic then Aborted else write_order_service_error er, s')
    | (Inr q, s') \<Rightarrow> refresh_with uuid_text_ok recommend c i q e s')"

definition get_route :: "uuid \<Rightarrow> uuid \<Rightarrow> string \<Rightarrow> route op" where
  "get_route i user role = bind (get_order i user role) (\<lambda>_. get_one routes_t (\<lambda>r. ro_order_id r = i))"

definition get_order_references_handler :: "sql_functions \<Rightarrow> claims option \<Rightarrow> uuid \<Rightarrow> handler" where
  "get_order_references_handler sql who i = with_claims unauthorized who (\<lambda>c.
    respond (get_order_references sql i (cl_id c) (cl_role c)) write_order_service_error (\<lambda>x. Reply 200 ''references'' (ReferencesData x)))"

definition get_route_handler :: "claims option \<Rightarrow> uuid \<Rightarrow> handler" where
  "get_route_handler who i = with_claims unauthorized who (\<lambda>c.
    respond (get_route i (cl_id c) (cl_role c)) write_order_service_error (\<lambda>x. Reply 200 ''success'' (RouteData x)))"

section \<open>The table of routes\<close>

datatype http_call =
    ListOrders list_orders_params | PostOrder "order_create body" | GetOrder uuid
  | PatchDraft uuid "order_draft_update body" | PostCancel uuid "order_cancel body" | PatchOrderStatus uuid
  | PostSubmit uuid | GetOrdersReport orders_report_params | GetDashboard
  | PostAssignment uuid "assignment_create body" | ListAssignments list_assignments_params | ListOrderAssignments uuid
  | PostAccept uuid | PostReject uuid "assignment_reject body" | PostStart uuid | PostArrive uuid
  | PostComplete uuid "delivery_complete body"
  | PostHandover uuid "trip_handover_create body" | ListIncomingHandovers | ListHandovers uuid
  | PostConfirmRelease uuid | PostAcceptHandover uuid | PostCancelHandover uuid
  | PostIncident uuid "order_incident_create body" | ListIncidents uuid | PostResolve uuid "order_incident_resolve body"
  | PostOperation uuid "warehouse_operation_create body" | ListOperations uuid
  | GetWarehouseQueue uuid list_warehouse_queue_params
  | PostCounterparty "counterparty_write body" | GetCounterparty uuid | ListCounterparties list_counterparties_params
  | PutCounterparty uuid "counterparty_write body" | PutTransportDetails uuid "transport_details_write body"
  | PostReceipt uuid "(delivery_receipt_create \<times> int option) body" | GetReceipt uuid
  | GetRecommendations uuid | GetRoute uuid | GetReferences uuid

fun serve :: "sql_functions \<Rightarrow> claims option \<Rightarrow> http_call \<Rightarrow> handler" where
  "serve sql who (ListOrders params) = list_orders_handler who params"
| "serve sql who (PostOrder b) = create_order_handler who b"
| "serve sql who (GetOrder i) = get_order_handler who i"
| "serve sql who (PatchDraft i b) = update_draft_order_handler who i b"
| "serve sql who (PostCancel i b) = cancel_order_handler who i b"
| "serve sql who (PatchOrderStatus i) = update_order_status_handler i"
| "serve sql who (PostSubmit i) = submit_order_handler who i"
| "serve sql who (GetOrdersReport params) = get_orders_report_handler who params"
| "serve sql who GetDashboard = get_dashboard_handler sql who"
| "serve sql who (PostAssignment i b) = create_assignment_handler who i b"
| "serve sql who (ListAssignments params) = list_assignments_handler who params"
| "serve sql who (ListOrderAssignments i) = list_order_assignments_handler who i"
| "serve sql who (PostAccept i) = accept_assignment_handler who i"
| "serve sql who (PostReject i b) = reject_assignment_handler who i b"
| "serve sql who (PostStart i) = start_assignment_handler who i"
| "serve sql who (PostArrive i) = arrive_assignment_handler who i"
| "serve sql who (PostComplete i b) = complete_assignment_handler who i b"
| "serve sql who (PostHandover i b) = create_trip_handover_handler who i b"
| "serve sql who ListIncomingHandovers = list_incoming_trip_handovers_handler who"
| "serve sql who (ListHandovers i) = list_trip_handovers_handler who i"
| "serve sql who (PostConfirmRelease i) = update_trip_handover_handler who i ''confirm-release''"
| "serve sql who (PostAcceptHandover i) = update_trip_handover_handler who i ''accept''"
| "serve sql who (PostCancelHandover i) = update_trip_handover_handler who i ''cancel''"
| "serve sql who (PostIncident i b) = create_order_incident_handler who i b"
| "serve sql who (ListIncidents i) = list_order_incidents_handler who i"
| "serve sql who (PostResolve i b) = resolve_order_incident_handler who i b"
| "serve sql who (PostOperation i b) = create_warehouse_operation_handler who i b"
| "serve sql who (ListOperations i) = list_order_warehouse_operations_handler who i"
| "serve sql who (GetWarehouseQueue i params) = list_warehouse_queue_handler who i params"
| "serve sql who (PostCounterparty b) = create_counterparty_handler who b"
| "serve sql who (GetCounterparty i) = get_counterparty_handler who i"
| "serve sql who (ListCounterparties params) = list_counterparties_handler who params"
| "serve sql who (PutCounterparty i b) = update_counterparty_handler who i b"
| "serve sql who (PutTransportDetails i b) = set_transport_details_handler who i b"
| "serve sql who (PostReceipt i b) = create_delivery_receipt_handler who i b"
| "serve sql who (GetReceipt i) = get_delivery_receipt_handler who i"
| "serve sql who (GetRecommendations i) = get_dispatch_recommendations_handler who i"
| "serve sql who (GetRoute i) = get_route_handler who i"
| "serve sql who (GetReferences i) = get_order_references_handler sql who i"

text \<open>What the requests of a run do to the database, one after another.\<close>

fun serve_all :: "sql_functions \<Rightarrow> (claims option \<times> http_call) list \<Rightarrow> env \<Rightarrow> db \<Rightarrow> db" where
  "serve_all sql [] e s = s"
| "serve_all sql ((who, call) # calls) e s = serve_all sql calls e (snd (serve sql who call e s))"

end
