(* ===== verification/Http_Guarantees.thy ===== *)
theory Http_Guarantees
  imports Http
begin

text \<open>
  The HTTP handlers add nothing to the services and hide nothing of them: each request runs at most
  one command, a success status means that the command succeeded, every business error has an answer
  of its own, and what holds for all sequences of commands holds for all sequences of requests.
\<close>

section \<open>The command behind a request\<close>

definition given :: "'r body \<Rightarrow> ('r \<Rightarrow> command) \<Rightarrow> command option" where
  "given b k = (case b of Decoded r \<Rightarrow> Some (k r) | _ \<Rightarrow> None)"

definition given_or :: "'r \<Rightarrow> 'r body \<Rightarrow> ('r \<Rightarrow> command) \<Rightarrow> command option" where
  "given_or zero b k = (case b of Decoded r \<Rightarrow> Some (k r) | NoBody \<Rightarrow> Some (k zero) | BadBody \<Rightarrow> None)"

fun issued_command :: "claims \<Rightarrow> http_call \<Rightarrow> command option" where
  "issued_command c (PostOrder b) =
    (if cl_role c = ''client'' \<or> cl_role c = ''manager'' \<or> cl_role c = ''admin''
     then given b (\<lambda>req. CreateOrder req (cl_id c) (cl_role c)) else None)"
| "issued_command c (PatchDraft i b) = given b (UpdateDraftOrder i (cl_id c) (cl_role c))"
| "issued_command c (PostCancel i b) = given_or \<lparr>oc_comment = None, oc_reason_code = None\<rparr> b (CancelOrder i (cl_id c) (cl_role c))"
| "issued_command c (PostSubmit i) = Some (SubmitOrder i (cl_id c) (cl_role c))"
| "issued_command c (PostAssignment i b) = given b (CreateAssignment i (cl_id c) (cl_role c))"
| "issued_command c (PostAccept i) = Some (AcceptAssignment i (cl_id c) (cl_role c))"
| "issued_command c (PostReject i b) = given b (RejectAssignment i (cl_id c) (cl_role c))"
| "issued_command c (PostStart i) = Some (StartAssignment i (cl_id c) (cl_role c))"
| "issued_command c (PostArrive i) = Some (ArriveAssignment i (cl_id c) (cl_role c))"
| "issued_command c (PostComplete i b) =
    given_or \<lparr>dl_comment = None, dl_recipient_name = None\<rparr> b (CompleteAssignment i (cl_id c) (cl_role c))"
| "issued_command c (PostHandover i b) = given b (CreateTripHandover i (cl_id c) (cl_role c))"
| "issued_command c (PostConfirmRelease i) = Some (UpdateTripHandover i (cl_id c) (cl_role c) ''confirm-release'')"
| "issued_command c (PostAcceptHandover i) = Some (UpdateTripHandover i (cl_id c) (cl_role c) ''accept'')"
| "issued_command c (PostCancelHandover i) = Some (UpdateTripHandover i (cl_id c) (cl_role c) ''cancel'')"
| "issued_command c (PostIncident i b) = given b (CreateOrderIncident i (cl_id c) (cl_role c))"
| "issued_command c (PostResolve i b) = given b (ResolveOrderIncident i (cl_id c) (cl_role c))"
| "issued_command c (PostOperation i b) = given b (CreateWarehouseOperation i (cl_id c) (cl_role c))"
| "issued_command c (PostCounterparty b) = given b (CreateCounterparty (cl_id c) (cl_role c))"
| "issued_command c (PutCounterparty i b) = given b (UpdateCounterparty i (cl_id c) (cl_role c))"
| "issued_command c (PutTransportDetails i b) = given b (SetTransportDetails i (cl_id c) (cl_role c))"
| "issued_command c (PostReceipt i b) = (case b of
     Decoded (req, Some n) \<Rightarrow> Some (CreateDeliveryReceipt i (cl_id c) (cl_role c) (req\<lparr>rr_package_count := n\<rparr>)) | _ \<Rightarrow> None)"
| "issued_command c _ = None"

fun success :: "reply \<Rightarrow> bool" where
  "success (Reply status kind payload) \<longleftrightarrow> 200 \<le> status \<and> status < 300"
| "success Aborted \<longleftrightarrow> False"

section \<open>Errors\<close>

lemma errors_fail [simp]:
  "\<not> success internal_error" "\<not> success invalid_body" "\<not> success forbidden_reply" "\<not> success not_found_reply"
  "\<not> success unauthorized"
  by (simp_all add: internal_error_def invalid_body_def forbidden_reply_def not_found_reply_def reply_error_def)

lemma write_order_service_error_fails [simp]: "\<not> success (write_order_service_error er)"
  by (cases er) (simp_all add: reply_error_def)

lemma read_error_fails [simp]: "\<not> success (read_error finds er)"
  by (cases er) simp_all

lemma create_order_error_fails [simp]: "\<not> success (create_order_error er)"
  by (cases er) (simp_all add: reply_error_def)


section \<open>One request\<close>

lemma respond_state [simp]: "snd (respond m fail ok e s) = after m e s"
  by (auto simp: respond_def after_def split: prod.splits sum.splits)

lemma respond_success:
  assumes "\<And>er. \<not> success (fail er)" and "\<And>x. success (ok x)"
  shows "success (fst (respond m fail ok e s)) \<longleftrightarrow> error_of m e s = None"
  using assms by (auto simp: respond_def error_of_def split: prod.splits sum.splits)

lemma answer_simps [simp]: "answer r e s = (r, s)"
  by (simp add: answer_def)

lemma reads_untouched [simp]:
  "framed untouched (list_incoming_trip_handovers user role)" "framed untouched (list_trip_handovers i user role)"
  "framed untouched (list_order_incidents i user role)" "framed untouched (list_order_warehouse_operations i user role)"
  "framed untouched (list_warehouse_queue i user role qparams)" "framed untouched (get_counterparty i user role)"
  "framed untouched (list_counterparties user role cparams)" "framed untouched (get_delivery_receipt i user role)"
  "framed untouched (get_dispatch_recommendations i user role)" "framed untouched (get_dashboard sql user role)"
  "framed untouched (get_route i user role)"
  unfolding list_incoming_trip_handovers_def list_trip_handovers_def list_order_incidents_def list_order_warehouse_operations_def
    list_warehouse_queue_def get_counterparty_def list_counterparties_def get_delivery_receipt_def get_dispatch_recommendations_def
    get_dashboard_def get_route_def authorize_handover_manager_def Let_def
  by (intro unt.framed_rules; simp)+

lemma untouched_after: "framed untouched m \<Longrightarrow> untouched e s (after m e s)"
  by (simp add: framed_def after_def)

lemmas handler_defs =
  list_orders_handler_def create_order_handler_def get_order_handler_def update_draft_order_handler_def
  cancel_order_handler_def update_order_status_handler_def submit_order_handler_def get_orders_report_handler_def
  get_dashboard_handler_def create_assignment_handler_def list_assignments_handler_def list_order_assignments_handler_def
  assignment_handler_def accept_assignment_handler_def reject_assignment_handler_def start_assignment_handler_def
  arrive_assignment_handler_def complete_assignment_handler_def create_trip_handover_handler_def
  list_incoming_trip_handovers_handler_def list_trip_handovers_handler_def update_trip_handover_handler_def
  create_order_incident_handler_def list_order_incidents_handler_def resolve_order_incident_handler_def
  create_warehouse_operation_handler_def list_order_warehouse_operations_handler_def list_warehouse_queue_handler_def
  create_counterparty_handler_def get_counterparty_handler_def list_counterparties_handler_def update_counterparty_handler_def
  set_transport_details_handler_def create_delivery_receipt_handler_def get_delivery_receipt_handler_def
  get_dispatch_recommendations_handler_def get_route_handler_def get_order_references_handler_def

lemma anonymous_fails: "snd (serve sql None call e s) = s \<and> \<not> success (fst (serve sql None call e s))"
  by (cases call) (simp_all add: handler_defs with_claims_def reply_error_def)

lemma reads_serve:
  "issued_command c call = None \<Longrightarrow> untouched e s (snd (serve sql (Some c) call e s))"
  by (cases call) (auto simp: handler_defs with_claims_def with_body_def with_optional_body_def given_def given_or_def
      untouched_after unt.frame_refl split: body.splits option.splits)

lemma commands_serve:
  assumes "issued_command c call = Some cmd"
  shows "snd (serve sql (Some c) call e s) = run_command cmd e s \<and>
    (success (fst (serve sql (Some c) call e s)) \<longleftrightarrow> command_error cmd e s = None)"
  using assms by (cases call) (auto simp: handler_defs with_claims_def with_body_def with_optional_body_def given_def given_or_def
      respond_success split: body.splits option.splits if_splits prod.splits)
text \<open>C8: The handlers are a faithful front of the services.  Without a session nothing happens and no request
  succeeds; with one, a request runs exactly the command it stands for, with the caller's own id and
  role, and succeeds if and only if that command does; a request that stands for no command (a read, a
  refused role, a body that does not decode) changes no table.\<close>

theorem http_refines_commands:
  "case who of
     None \<Rightarrow> snd (serve sql who call e s) = s \<and> \<not> success (fst (serve sql who call e s))
   | Some c \<Rightarrow> (case issued_command c call of
       None \<Rightarrow> untouched e s (snd (serve sql who call e s))
     | Some cmd \<Rightarrow> snd (serve sql who call e s) = run_command cmd e s \<and>
         (success (fst (serve sql who call e s)) \<longleftrightarrow> command_error cmd e s = None))"
  using anonymous_fails [of sql call e s] commands_serve reads_serve by (simp split: option.splits)

section \<open>Sequences of requests\<close>

lemma untouched_sound: "untouched e s s' \<Longrightarrow> keeps_sound e s s'"
proof -
  assume "untouched e s s'"
  then have "refines e s s'" and "tb_handovers s' = tb_handovers s"
    using untouched_same_core same_core_refines by (blast, simp add: untouched_def, metis (no_types, lifting) db.select_convs(14) db.surjective db.update_convs(23,24,25))
  then show ?thesis by (intro keeps_soundI) auto
qed

lemma serve_sound: "keeps_sound e s (snd (serve sql who call e s))"
proof (cases who)
  case None
  then show ?thesis using anonymous_fails by (simp add: so.frame_refl)
next
  case (Some c)
  show ?thesis
  proof (cases "issued_command c call")
    case None
    then show ?thesis unfolding Some by (intro untouched_sound reads_serve)
  next
    case (Some cmd)
    from commands_serve [OF this] show ?thesis unfolding \<open>who = Some c\<close> by (simp add: run_command_sound)
  qed
qed

lemma serve_all_sound: "keeps_sound e s (serve_all sql calls e s)"
  by (induction sql calls e s rule: serve_all.induct) (auto intro: so.frame_refl so.frame_trans serve_sound)

text \<open>Whoever sends whatever requests in whatever order, with or without a session: a consistent database stays
  consistent, and every order only moves along its lifecycle.\<close>

theorem http_keeps_consistent:
  assumes "sound s"
  shows "sound (serve_all sql calls e s) \<and> moves (phase_of s i) (phase_of (serve_all sql calls e s) i)"
  using serve_all_sound assms unfolding keeps_sound_def by blast

definition sample_sql :: sql_functions where
  "sample_sql = \<lparr>sum_numeric = (\<lambda>xs. foldr f64_add xs (Fin 0)), month_start = (\<lambda>t. t),
     stored_recorder = (\<lambda>i. Inr [])\<rparr>"

definition sample_claims :: "uuid \<Rightarrow> string \<Rightarrow> claims" where
  "sample_claims i role = \<lparr>cl_id = i, cl_email = [], cl_role = role, cl_token_id = ''t''\<rparr>"

lemma http_keeps_consistent_witness:
  "sound (serve_all sample_sql [(Some (sample_claims 4 ''driver''), PostAccept 50), (None, PostCancel 40 NoBody),
     (Some (sample_claims 4 ''driver''), PostReject 50 BadBody), (Some (sample_claims 4 ''driver''), PostStart 50)] sample_env offered_db)"
  by (rule conjunct1 [OF http_keeps_consistent]) code_simp

section \<open>A failed request\<close>

text \<open>The one refusal that is committed, and the one request that cleans up before it starts.\<close>

definition late_answer :: reply where
  "late_answer = reply_error 409 ''ASSIGNMENT_EXPIRED''"

fun offers :: "http_call \<Rightarrow> bool" where
  "offers (PostAssignment i b) = True"
| "offers _ = False"

lemma commands_late:
  assumes "issued_command c call = Some cmd" and "command_error cmd e s = Some (Business ErrAssignmentExpired)"
  shows "fst (serve sql (Some c) call e s) = late_answer"
proof -
  have late: "fst (respond m fail ok e s) = late_answer"
    if "error_of m e s = Some (Business ErrAssignmentExpired)" and "fail (Business ErrAssignmentExpired) = late_answer" for m :: "'a op" and fail ok
    using that by (auto simp: respond_def error_of_def split: prod.splits sum.splits)
  have "write_order_service_error (Business ErrAssignmentExpired) = late_answer"
    by (simp add: late_answer_def unprocessable_def)
  with assms late show ?thesis
    by (cases call) (auto simp: handler_defs with_claims_def with_body_def with_optional_body_def given_def given_or_def
        intro!: late split: body.splits option.splits if_splits prod.splits)
qed

lemma issued_offers: "issued_command c call = Some cmd \<Longrightarrow> closes_expired_first cmd \<Longrightarrow> offers call"
  by (cases call) (auto simp: given_def given_or_def split: body.splits if_splits option.splits prod.splits)

text \<open>An answer that is not a success means that no table changed, with the two exceptions of the services: the
  answer ASSIGNMENT_EXPIRED, which closes what came too late, and the offer of an assignment, which closes
  stale offers first.\<close>

theorem failed_request_changes_nothing:
  assumes "serve sql who call e s = (r, s')" and "\<not> success r" and "r \<noteq> late_answer" and "\<not> offers call"
  shows "untouched e s s'"
proof (cases who)
  case None
  then show ?thesis using anonymous_fails [of sql call e s] assms(1) by (simp add: unt.frame_refl)
next
  case (Some c)
  show ?thesis
  proof (cases "issued_command c call")
    case None
    from reads_serve [OF this, of e s sql] show ?thesis using assms(1) Some by simp
  next
    case (Some cmd)
    from commands_serve [OF this, of sql e s] assms(1,2) \<open>who = Some c\<close>
    have s': "s' = run_command cmd e s" and "command_error cmd e s \<noteq> None" by simp_all
    then obtain er where er: "command_error cmd e s = Some er" by blast
    moreover have "\<not> closes_expired_first cmd" using issued_offers [OF Some] assms(4) by blast
    moreover have "er \<noteq> Business ErrAssignmentExpired" using commands_late [OF Some, of e s sql] er assms(1,3) \<open>who = Some c\<close> by auto
    ultimately show ?thesis unfolding s' by (rule failed_command_untouched)
  qed
qed

lemma failed_request_changes_nothing_witness:
  "untouched sample_env offered_db (snd (serve sample_sql (Some (sample_claims 5 ''driver'')) (PostAccept 50) sample_env offered_db))"
proof (rule failed_request_changes_nothing)
  let ?r = "serve sample_sql (Some (sample_claims 5 ''driver'')) (PostAccept 50) sample_env offered_db"
  show "?r = (fst ?r, snd ?r)" by simp
  show "\<not> success (fst ?r)" by code_simp
  show "fst ?r \<noteq> late_answer" by code_simp
qed simp

section \<open>The dashboard\<close>

lemma of_warehouse_simps [simp]:
  "of_warehouse (Some w) = (\<lambda>x. order_touches_warehouse x w)" "of_warehouse None = (\<lambda>x. True)"
  by (auto simp: of_warehouse_def)

text \<open>The dashboard counts exactly the orders that the same caller sees in his list.\<close>

theorem dashboard_counts_listed_orders:
  assumes "get_dashboard sql user role e s = (Inr r, s')" and "list_orders user role \<lparr>lo_status = None, lo_driver_id = None\<rparr> e s = (Inr xs, s'')"
  shows "db_order_status r = order_counts xs"
proof -
  from assms(1) have "role = ''manager'' \<or> role = ''admin''"
    unfolding get_dashboard_def by (elim seq_ok fail_if_ok) blast
  then show ?thesis
  proof
    assume "role = ''manager''"
    with assms show ?thesis
      by (auto simp: list_orders_def get_dashboard_def seq_def bind_def fail_if_def return_def query_def time_now_def
          Let_def split: prod.splits sum.splits)
  next
    assume "role = ''admin''"
    with assms show ?thesis
      by (auto simp: list_orders_def get_dashboard_def seq_def bind_def fail_if_def return_def query_def time_now_def
          Let_def)
  qed
qed

lemma dashboard_counts_listed_orders_witness:
  "\<exists>r s'. get_dashboard sample_sql 2 ''admin'' sample_env moving_db = (Inr r, s') \<and>
     db_order_status r = order_counts [sample_order 40 OrderInTransit]"
proof -
  let ?r = "get_dashboard sample_sql 2 ''admin'' sample_env moving_db"
  have "error_of (get_dashboard sample_sql 2 ''admin'') sample_env moving_db = None" by code_simp
  then obtain r s' where "?r = (Inr r, s')" by (auto simp: error_of_def split: sum.splits) (metis prod.collapse)
  moreover have "list_orders 2 ''admin'' \<lparr>lo_status = None, lo_driver_id = None\<rparr> sample_env moving_db = (Inr [sample_order 40 OrderInTransit], moving_db)"
    by code_simp
  ultimately show ?thesis using dashboard_counts_listed_orders by blast
qed

end
