(* ===== verification/Tracking.thy ===== *)
theory Tracking
  imports Http
begin

text \<open>
  Following a trip on the map (internal/handler/hub.go and route.go): who is connected to an order,
  which orders have a tracker, and what one tick of a tracker reads, sends and writes.  A connection
  is a number; what is sent on it is part of the result.  Also the notifications of a user
  (internal/handler/notification.go).
\<close>

section \<open>The hub (hub.go)\<close>

type_synonym conn = nat

record hub =
  connections :: "uuid \<Rightarrow> conn list"
  trackers :: "uuid set"

definition new_hub :: hub where
  "new_hub = \<lparr>connections = (\<lambda>i. []), trackers = {}\<rparr>"

definition register :: "uuid \<Rightarrow> conn \<Rightarrow> hub \<Rightarrow> hub" where
  "register order c h = h\<lparr>connections := (connections h)(order := connections h order @ [c])\<rparr>"

definition unregister :: "uuid \<Rightarrow> conn \<Rightarrow> hub \<Rightarrow> hub" where
  "unregister order c h = h\<lparr>connections := (connections h)(order := remove1 c (connections h order))\<rparr>"

definition broadcast :: "uuid \<Rightarrow> 'm \<Rightarrow> hub \<Rightarrow> (conn \<times> 'm) list" where
  "broadcast order msg h = map (\<lambda>c. (c, msg)) (connections h order)"

text \<open>Whether a new tracker was started, and the hub.\<close>

definition start_tracker :: "uuid \<Rightarrow> hub \<Rightarrow> bool \<times> hub" where
  "start_tracker order h = (order \<notin> trackers h, h\<lparr>trackers := insert order (trackers h)\<rparr>)"

definition stop_tracker :: "uuid \<Rightarrow> hub \<Rightarrow> hub" where
  "stop_tracker order h = h\<lparr>trackers := trackers h - {order}\<rparr>"

section \<open>One tick (route.go, startRouteTracker)\<close>

type_synonym position = "int \<times> (f64 \<times> f64)"

definition parse_coordinates :: "route \<Rightarrow> (f64 \<times> f64) list option" where
  "parse_coordinates r = (case ro_coordinates r of CoordsJson cs \<Rightarrow> Some cs | _ \<Rightarrow> None)"

text \<open>The route of an order on the road that still has positions to report.\<close>

definition tracked_route :: "uuid \<Rightarrow> (route \<times> (f64 \<times> f64) list) option op" where
  "tracked_route order =
    bind (attempt (get_one orders_t (\<lambda>x. o_id x = order))) (\<lambda>found.
    case found of Inl _ \<Rightarrow> return None
    | Inr ord \<Rightarrow>
        if o_status ord \<noteq> OrderInTransit then return None
        else
         bind (attempt (get_one routes_t (\<lambda>r. ro_order_id r = order))) (\<lambda>got.
         case got of Inl _ \<Rightarrow> return None
         | Inr r \<Rightarrow> (case parse_coordinates r of None \<Rightarrow> return None
            | Some cs \<Rightarrow> return (if cs = [] \<or> int (length cs) \<le> ro_current_index r then None else Some (r, cs)))))"

text \<open>\<open>None\<close>: the tracker stops.  A write that fails is only logged.\<close>

definition tracker_tick :: "uuid \<Rightarrow> position option op" where
  "tracker_tick order =
    bind (tracked_route order) (\<lambda>found.
    case found of None \<Rightarrow> return None
    | Some (r, cs) \<Rightarrow>
        seq (fail_if (ro_current_index r < 0) GoPanic)
        (bind (attempt (update routes_t (\<lambda>x. ro_order_id x = order) (r\<lparr>ro_current_index := ro_current_index r + 1\<rparr>))) (\<lambda>_.
         return (Some (ro_current_index r, cs ! nat (ro_current_index r))))))"

text \<open>The tracker over its first \<open>n\<close> ticks: what it sends, and the hub and the database after it.\<close>

fun run_tracker :: "nat \<Rightarrow> uuid \<Rightarrow> env \<Rightarrow> hub \<Rightarrow> db \<Rightarrow> (conn \<times> position) list \<times> hub \<times> db" where
  "run_tracker 0 order e h s = ([], h, s)"
| "run_tracker (Suc n) order e h s = (case tracker_tick order e s of
     (Inr (Some msg), s') \<Rightarrow> (let (sent, h', t) = run_tracker n order e h s' in (broadcast order msg h @ sent, h', t))
   | (_, s') \<Rightarrow> ([], stop_tracker order h, s'))"

text \<open>What a client that connects is sent first (RouteWebSocket).  \<open>upgrade\<close> is the websocket library:
  \<open>None\<close> when the connection is upgraded, else what the library answered.\<close>

definition first_position :: "route \<Rightarrow> reply + position option" where
  "first_position r = (case parse_coordinates r of None \<Rightarrow> Inr None
   | Some cs \<Rightarrow> if int (length cs) \<le> ro_current_index r then Inr None
       else if ro_current_index r < 0 then Inl Aborted
       else Inr (Some (ro_current_index r, cs ! nat (ro_current_index r))))"

definition route_web_socket ::
  "reply option \<Rightarrow> claims option \<Rightarrow> uuid \<Rightarrow> conn \<Rightarrow> hub \<Rightarrow> env \<Rightarrow> db \<Rightarrow> (reply + position option) \<times> hub \<times> db" where
  "route_web_socket upgrade who order c h e s = (let failed = (\<lambda>er. if er = GoPanic then Aborted else write_order_service_error er) in
   case who of None \<Rightarrow> (Inl unauthorized, h, s)
   | Some u \<Rightarrow> (case get_order order (cl_id u) (cl_role u) e s of
       (Inl er, s') \<Rightarrow> (Inl (failed er), h, s')
     | (Inr ord, s') \<Rightarrow> (case get_one routes_t (\<lambda>r. ro_order_id r = order) e s' of
         (Inl er, s'') \<Rightarrow> (Inl (failed er), h, s'')
       | (Inr r, s'') \<Rightarrow> (case upgrade of Some refused \<Rightarrow> (Inl refused, h, s'')
         | None \<Rightarrow>
           let h' = register order c h;
               h'' = (if order \<notin> trackers h' \<and> o_status ord = OrderInTransit then snd (start_tracker order h') else h')
           in (case first_position r of
                Inl aborted \<Rightarrow> (Inl aborted, unregister order c h'', s'')
              | Inr first \<Rightarrow> (Inr first, h'', s''))))))"

section \<open>Notifications (notification.go)\<close>

definition list_notifications :: "claims \<Rightarrow> bool option \<Rightarrow> notification list op" where
  "list_notifications c unread_only =
    get_all notifications_t (\<lambda>n. n_user_id n = cl_id c \<and> (unread_only = Some True \<longrightarrow> \<not> n_is_read n))"

definition list_notifications_handler :: "claims option \<Rightarrow> bool option \<Rightarrow> handler" where
  "list_notifications_handler who unread_only = with_claims internal_error who (\<lambda>c.
    respond (list_notifications c unread_only) (\<lambda>_. internal_error) (\<lambda>xs. Reply 200 ''success'' (NotificationsData xs)))"

definition mark_notification_read :: "claims \<Rightarrow> uuid \<Rightarrow> unit op" where
  "mark_notification_read c i =
    bind (get_one notifications_t (\<lambda>n. n_id n = i)) (\<lambda>n.
    seq (fail_if (n_user_id n \<noteq> cl_id c) forbidden)
    (update notifications_t (\<lambda>x. n_id x = i) (n\<lparr>n_is_read := True\<rparr>)))"

definition mark_notification_read_handler :: "claims option \<Rightarrow> uuid \<Rightarrow> handler" where
  "mark_notification_read_handler who i = with_claims internal_error who (\<lambda>c.
    respond (mark_notification_read c i) (read_error True) (\<lambda>_. Reply 200 ''success'' (Message ''Updated'')))"

end
