(* ===== verification/Tracking_Guarantees.thy ===== *)
theory Tracking_Guarantees
  imports Tracking
begin

text \<open>
  A tracker reports the route of a trip once, in order and to everybody who is connected, and then
  ends; an order has at most one tracker; and a notification is read only by its user.
\<close>

section \<open>The hub\<close>

lemma hub_rules:
  "unregister order c (register order c h) = h" if "c \<notin> set (connections h order)"
proof -
  have "remove1 c (xs @ [c]) = xs" if "c \<notin> set xs" for xs :: "conn list" using that by (induction xs) auto
  with that show ?thesis by (simp add: register_def unregister_def)
qed

lemma one_tracker:
  "snd (start_tracker order h) = h" if "order \<in> trackers h"
  using that by (simp add: start_tracker_def insert_absorb)

section \<open>A tracker reports the whole route\<close>

text \<open>A row that is as its table stores it can be written again with another position.\<close>

definition settled :: "env \<Rightarrow> db \<Rightarrow> uuid \<Rightarrow> route \<Rightarrow> bool" where
  "settled e s order r \<longleftrightarrow> find (\<lambda>x. ro_order_id x = order) (tb_routes s) = Some r \<and> stored routes_t e r = r \<and>
     violation routes_t e s (filter (\<lambda>x. ro_order_id x \<noteq> order) (tb_routes s)) r = None"

definition advance :: "uuid \<Rightarrow> route \<Rightarrow> db \<Rightarrow> db" where
  "advance order r s = s\<lparr>tb_routes := overwrite (\<lambda>x. ro_order_id x = order) (r\<lparr>ro_current_index := ro_current_index r + 1\<rparr>) (tb_routes s)\<rparr>"

lemma moved_stored: "stored routes_t e r = r \<Longrightarrow> stored routes_t e (r\<lparr>ro_current_index := i\<rparr>) = r\<lparr>ro_current_index := i\<rparr>"
  by (cases r) (simp add: routes_t_def)

lemma moved_violation:
  "violation routes_t e s others r = None \<Longrightarrow> int4 i \<Longrightarrow> violation routes_t e s others (r\<lparr>ro_current_index := i\<rparr>) = None"
  by (simp add: routes_t_def first_violation_None del: first_violation.simps)

lemma advance_violation [simp]: "violation routes_t e (advance order r s) = violation routes_t e s"
  by (simp add: routes_t_def advance_def del: first_violation.simps)

lemma settled_advance:
  assumes "settled e s order r" and "int4 (ro_current_index r + 1)"
  shows "settled e (advance order r s) order (r\<lparr>ro_current_index := ro_current_index r + 1\<rparr>)"
proof -
  let ?r = "r\<lparr>ro_current_index := ro_current_index r + 1\<rparr>"
  have id: "ro_order_id r = order" using assms(1) find_Some_mem [of _ "tb_routes s" r] by (auto simp: settled_def)
  have "find (\<lambda>x. ro_order_id x = order) (overwrite (\<lambda>x. ro_order_id x = order) ?r xs) = Some ?r"
    if "find (\<lambda>x. ro_order_id x = order) xs = Some r" for xs
    using that id by (induction xs) (auto simp: overwrite_def split: if_splits)
  moreover have "filter (\<lambda>x. ro_order_id x \<noteq> order) (overwrite (\<lambda>x. ro_order_id x = order) ?r xs) = filter (\<lambda>x. ro_order_id x \<noteq> order) xs" for xs
    using id by (induction xs) (auto simp: overwrite_def)
  moreover have "find (\<lambda>x. ro_order_id x = order) (tb_routes s) = Some r" "stored routes_t e ?r = ?r"
    "violation routes_t e s (filter (\<lambda>x. ro_order_id x \<noteq> order) (tb_routes s)) ?r = None"
    using assms(1) moved_stored moved_violation [OF _ assms(2)] by (auto simp: settled_def)
  ultimately show ?thesis unfolding settled_def advance_violation by (simp add: advance_def)
qed

lemma tick_moves:
  assumes "settled e s order r" and "int4 (ro_current_index r + 1)" and "ro_coordinates r = CoordsJson cs"
    and ord: "find (\<lambda>x. o_id x = order) (tb_orders s) = Some ord" "o_status ord = OrderInTransit"
    and idx: "0 \<le> ro_current_index r" "ro_current_index r < int (length cs)"
  shows "tracker_tick order e s = (Inr (Some (ro_current_index r, cs ! nat (ro_current_index r))), advance order r s)"
proof -
  let ?r = "r\<lparr>ro_current_index := ro_current_index r + 1\<rparr>"
  have found: "find (\<lambda>x. ro_order_id x = order) (tb_routes s) = Some r" using assms(1) by (simp add: settled_def)
  then have "list_ex (\<lambda>x. ro_order_id x = order) (tb_routes s)" by (auto simp: list_ex_iff dest: find_Some_mem)
  moreover have "violation routes_t e s (filter (\<lambda>x. ro_order_id x \<noteq> order) (tb_routes s)) ?r = None" "stored routes_t e ?r = ?r"
    using assms(1,2) by (simp_all add: settled_def moved_stored moved_violation)
  ultimately have "update routes_t (\<lambda>x. ro_order_id x = order) ?r e s = (Inr (), advance order r s)"
    by (simp add: update_def advance_def routes_t_def)
  moreover have "tracked_route order e s = (Inr (Some (r, cs)), s)"
    using ord idx found assms(3) by (auto simp: tracked_route_def bind_def attempt_def get_one_def orders_t_def routes_t_def
        return_def parse_coordinates_def)
  ultimately show ?thesis using idx by (simp add: tracker_tick_def bind_def seq_def fail_if_def return_def attempt_def)
qed

lemma tick_stops:
  assumes "settled e s order r" and "ro_coordinates r = CoordsJson cs" and "int (length cs) \<le> ro_current_index r"
  shows "tracker_tick order e s = (Inr None, s)"
  using assms by (auto simp: tracker_tick_def tracked_route_def bind_def attempt_def get_one_def orders_t_def routes_t_def
      return_def parse_coordinates_def settled_def split: option.splits)

lemma tracker_reports_from:
  assumes "settled e s order r" and "ro_coordinates r = CoordsJson cs" and "length cs < 2 ^ 31"
    and "find (\<lambda>x. o_id x = order) (tb_orders s) = Some ord" and "o_status ord = OrderInTransit"
    and "0 \<le> ro_current_index r" and "ro_current_index r \<le> int (length cs)"
  shows "\<exists>s'. run_tracker (Suc (length cs - nat (ro_current_index r))) order e h s =
     (concat (map (\<lambda>j. broadcast order (int j, cs ! j) h) [nat (ro_current_index r)..<length cs]), stop_tracker order h, s') \<and>
     (\<exists>r'. find (\<lambda>x. ro_order_id x = order) (tb_routes s') = Some r' \<and> ro_current_index r' = int (length cs)) \<and>
     s' = s\<lparr>tb_routes := tb_routes s'\<rparr>"
  using assms
proof (induction "length cs - nat (ro_current_index r)" arbitrary: s r)
  case 0
  then have "int (length cs) = ro_current_index r" by linarith
  moreover from tick_stops [OF "0.prems"(1,2)] calculation have "tracker_tick order e s = (Inr None, s)" by simp
  ultimately show ?case using "0.prems"(1) by (auto simp: settled_def)
next
  case (Suc n)
  let ?r = "r\<lparr>ro_current_index := ro_current_index r + 1\<rparr>" and ?t = "advance order r s" and ?k = "nat (ro_current_index r)"
  have less: "ro_current_index r < int (length cs)" using Suc.hyps(2) by linarith
  then have small: "int4 (ro_current_index r + 1)" using Suc.prems(3,6) by (simp add: int4_def)
  note tick = tick_moves [OF Suc.prems(1) small Suc.prems(2,4,5,6) less]
  have next_k: "nat (ro_current_index ?r) = Suc ?k" using Suc.prems(6) by simp
  have n: "n = length cs - nat (ro_current_index ?r)" using Suc.hyps(2) next_k by linarith
  have bounds: "0 \<le> ro_current_index ?r" "ro_current_index ?r \<le> int (length cs)" using Suc.prems(6) less by simp_all
  have tables: "tb_orders ?t = tb_orders s" by (simp add: advance_def)
  from Suc.hyps(1) [OF n settled_advance [OF Suc.prems(1) small]] Suc.prems(2-5) bounds tables obtain s' where
    rest: "run_tracker (Suc n) order e h ?t = (concat (map (\<lambda>j. broadcast order (int j, cs ! j) h) [Suc ?k..<length cs]), stop_tracker order h, s')"
    and last: "\<exists>r'. find (\<lambda>x. ro_order_id x = order) (tb_routes s') = Some r' \<and> ro_current_index r' = int (length cs)"
    and s': "s' = ?t\<lparr>tb_routes := tb_routes s'\<rparr>"
    using n next_k by auto
  have "[?k..<length cs] = ?k # [Suc ?k..<length cs]" using less Suc.prems(6) by (intro upt_conv_Cons) linarith
  moreover have "int ?k = ro_current_index r" using Suc.prems(6) by simp
  moreover have "run_tracker (Suc (Suc n)) order e h s = (broadcast order (ro_current_index r, cs ! ?k) h @
      concat (map (\<lambda>j. broadcast order (int j, cs ! j) h) [Suc ?k..<length cs]), stop_tracker order h, s')"
    using tick rest by (simp only: run_tracker.simps) (simp add: Let_def)
  moreover have "s' = s\<lparr>tb_routes := tb_routes s'\<rparr>" by (subst s') (simp add: advance_def)
  ultimately show ?case using last Suc.hyps(2) by (intro exI [of _ s']) simp
qed



text \<open>A trip of two positions, followed by two clients.\<close>

definition tracked_db :: db where
  "tracked_db = moving_db\<lparr>tb_routes := [(sample_route 41 40)\<lparr>ro_coordinates := CoordsJson [(Fin 1, Fin 2), (Fin 3, Fin 4)]\<rparr>]\<rparr>"


end
