(* ===== verification/Inbox.thy ===== *)
theory Inbox
  imports Http
begin

text \<open>
  The document inbox (internal/handler/document.go): the list of a user's documents and the download of
  one, both asked of the document service.  The service is outside the repository: its client is what
  it answers to a request.  A download is a stream of chunks that ends, cleanly or with an error.
\<close>

record list_documents_request =
  ld_user_id :: string
  ld_limit :: "32 word"
  ld_offset :: "32 word"

record download_document_request =
  dd_user :: string
  dd_document :: string

text \<open>How a stream ends: \<^verbatim>\<open>io.EOF\<close>, the gRPC code NotFound, any other error.\<close>

datatype stream_end = StreamEof | StreamNotFound | StreamFailed

record document_client =
  list_documents :: "list_documents_request \<Rightarrow> document list option"
  download_document :: "download_document_request \<Rightarrow> (string list \<times> stream_end) option"

record inbox_params =
  ib_limit :: "int option"
  ib_offset :: "int option"

abbreviation documents_unavailable :: reply where
  "documents_unavailable \<equiv> reply_error 503 ''documents unavailable''"

text \<open>The page a caller may ask for, twenty documents from the first when he does not say.\<close>

definition page_limit :: "inbox_params \<Rightarrow> int" where
  "page_limit params = (case ib_limit params of None \<Rightarrow> 20 | Some n \<Rightarrow> n)"

definition page_offset :: "inbox_params \<Rightarrow> int" where
  "page_offset params = (case ib_offset params of None \<Rightarrow> 0 | Some n \<Rightarrow> n)"

definition inbox_request :: "uuid \<Rightarrow> inbox_params \<Rightarrow> reply + list_documents_request" where
  "inbox_request user params =
    (if page_limit params < 1 \<or> 100 < page_limit params then Inl invalid_body
     else if page_offset params < 0 \<or> 10000 < page_offset params then Inl invalid_body
     else Inr \<lparr>ld_user_id = uuid_text user, ld_limit = word_of_int (page_limit params), ld_offset = word_of_int (page_offset params)\<rparr>)"

definition list_inbox_documents_handler :: "document_client option \<Rightarrow> claims option \<Rightarrow> inbox_params \<Rightarrow> handler" where
  "list_inbox_documents_handler client who params = with_claims unauthorized who (\<lambda>c.
    case client of None \<Rightarrow> answer documents_unavailable
    | Some cl \<Rightarrow> (case inbox_request (cl_id c) params of Inl r \<Rightarrow> answer r
      | Inr q \<Rightarrow> (case list_documents cl q of None \<Rightarrow> answer documents_unavailable
        | Some docs \<Rightarrow> answer (Reply 200 ''success'' (DocumentsData docs)))))"

text \<open>
  The file is sent without the JSON wrapper, chunk after chunk.  When the stream breaks after the first
  chunk the answer just ends.
\<close>

definition download_inbox_document_handler :: "document_client option \<Rightarrow> claims option \<Rightarrow> uuid \<Rightarrow> handler" where
  "download_inbox_document_handler client who i = with_claims unauthorized who (\<lambda>c.
    case client of None \<Rightarrow> answer documents_unavailable
    | Some cl \<Rightarrow> (case download_document cl \<lparr>dd_user = uuid_text (cl_id c), dd_document = uuid_text i\<rparr> of
        None \<Rightarrow> answer documents_unavailable
      | Some ([], StreamNotFound) \<Rightarrow> answer not_found_reply
      | Some ([], _) \<Rightarrow> answer documents_unavailable
      | Some (chunks, _) \<Rightarrow> answer (Reply 200 ''application/pdf'' (PdfData (concat chunks)))))"

end
