(* ===== verification/Directory.thy ===== *)
theory Directory
  imports Inbox
begin

text \<open>
  The directory: vehicles and their documents, drivers, managers and warehouses
  (internal/handler/vehicle.go, driver.go, manager.go, warehouse.go).  These handlers call
  \<^verbatim>\<open>pkg/storage.go\<close> directly.  What they use of packages outside the repository is a parameter.
\<close>

section \<open>Libraries and configuration\<close>

text \<open>
  bcrypt (its salt depends on how much randomness was drawn before), golang-jwt with the server's key,
  \<^verbatim>\<open>crypto/rand\<close>, gosimple/slug, the geocoder, \<^verbatim>\<open>uuid.Parse\<close>, \<^verbatim>\<open>time.Time.String\<close>, the state of the Redis
  connection, the session part of the configuration, and the client of the document service, if there is one.
\<close>

record library =
  hash_password :: "nat \<Rightarrow> string \<Rightarrow> string option"
  password_matches :: "string \<Rightarrow> string \<Rightarrow> bool"
  sign_token :: "claims \<Rightarrow> time \<Rightarrow> time \<Rightarrow> string option"
  parse_token :: "string \<Rightarrow> time \<Rightarrow> claims option"
  random_bytes :: "nat \<Rightarrow> nat list option"
  slug_make :: "string \<Rightarrow> string"
  geocode :: "string \<Rightarrow> (f64 \<times> f64) option"
  parse_uuid :: "string \<Rightarrow> uuid option"
  time_text :: "time \<Rightarrow> string"
  redis_fails :: "string \<Rightarrow> bool"
  jwt_key :: string
  access_ttl :: time
  refresh_ttl :: time
  documents :: "document_client option"

definition bcrypt_generate :: "library \<Rightarrow> string \<Rightarrow> string op" where
  "bcrypt_generate L password = (\<lambda>e s. case hash_password L (issued s) password of
     None \<Rightarrow> (Inl (External ''bcrypt''), s) | Some h \<Rightarrow> (Inr h, s))"

definition generate_user_slug :: "library \<Rightarrow> string \<Rightarrow> uuid \<Rightarrow> string" where
  "generate_user_slug L name i = slug_make L (if name = [] then ''user'' else name) @ ''-'' @ uuid_text i"

section \<open>Deleting rows (storage.Delete)\<close>

text \<open>
  A DELETE follows the foreign keys that point to the rows: RESTRICT refuses it, CASCADE deletes the
  rows that point there, SET NULL clears their columns.  A DELETE that finds no row succeeds.
\<close>

definition delete_rows :: "(db \<Rightarrow> uuid list) \<Rightarrow> (uuid list \<Rightarrow> db \<Rightarrow> bool) \<Rightarrow> (uuid list \<Rightarrow> db \<Rightarrow> db) \<Rightarrow> unit op" where
  "delete_rows keys used gone = (\<lambda>e s.
     if used (keys s) s then (Inl (Pg ForeignKeyViolation), s) else (Inr (), gone (keys s) s))"

definition unset :: "uuid list \<Rightarrow> uuid option \<Rightarrow> uuid option" where
  "unset ids x = (case x of None \<Rightarrow> None | Some i \<Rightarrow> if i \<in> set ids then None else Some i)"

definition points_to :: "uuid list \<Rightarrow> uuid option \<Rightarrow> bool" where
  "points_to ids x = (case x of None \<Rightarrow> False | Some i \<Rightarrow> i \<in> set ids)"

definition vehicles_used :: "uuid list \<Rightarrow> db \<Rightarrow> bool" where
  "vehicles_used ids s \<longleftrightarrow> list_ex (\<lambda>a. a_vehicle_id a \<in> set ids) (tb_assignments s) \<or>
     list_ex (\<lambda>h. t_vehicle_id h \<in> set ids) (tb_handovers s)"

definition drop_vehicles :: "uuid list \<Rightarrow> db \<Rightarrow> db" where
  "drop_vehicles ids s = s\<lparr>tb_vehicles := filter (\<lambda>v. v_id v \<notin> set ids) (tb_vehicles s),
     tb_vehicle_documents := filter (\<lambda>x. vd_vehicle_id x \<notin> set ids) (tb_vehicle_documents s),
     tb_drivers := map (\<lambda>d. d\<lparr>d_vehicle_id := unset ids (d_vehicle_id d)\<rparr>) (tb_drivers s)\<rparr>"

definition drivers_used :: "uuid list \<Rightarrow> db \<Rightarrow> bool" where
  "drivers_used ids s \<longleftrightarrow> list_ex (\<lambda>a. a_driver_id a \<in> set ids) (tb_assignments s) \<or>
     list_ex (\<lambda>h. t_driver_id h \<in> set ids) (tb_handovers s)"

definition drop_drivers :: "uuid list \<Rightarrow> db \<Rightarrow> db" where
  "drop_drivers ids s = s\<lparr>tb_drivers := filter (\<lambda>d. d_id d \<notin> set ids) (tb_drivers s),
     tb_driver_documents := filter (\<lambda>x. dd_driver_id x \<notin> set ids) (tb_driver_documents s),
     tb_driver_shifts := filter (\<lambda>x. ds_driver_id x \<notin> set ids) (tb_driver_shifts s),
     tb_orders := map (\<lambda>x. x\<lparr>o_driver_id := unset ids (o_driver_id x)\<rparr>) (tb_orders s),
     tb_routes := map (\<lambda>r. r\<lparr>ro_driver_id := unset ids (ro_driver_id r)\<rparr>) (tb_routes s)\<rparr>"

definition drop_managers :: "uuid list \<Rightarrow> db \<Rightarrow> db" where
  "drop_managers ids s = s\<lparr>tb_managers := filter (\<lambda>m. m_id m \<notin> set ids) (tb_managers s),
     tb_orders := map (\<lambda>x. x\<lparr>o_manager_id := unset ids (o_manager_id x)\<rparr>) (tb_orders s)\<rparr>"

definition warehouses_used :: "uuid list \<Rightarrow> db \<Rightarrow> bool" where
  "warehouses_used ids s \<longleftrightarrow> list_ex (\<lambda>x. points_to ids (o_origin_warehouse x) \<or> points_to ids (o_dest_warehouse x)) (tb_orders s) \<or>
     list_ex (\<lambda>x. wo_warehouse_id x \<in> set ids) (tb_operations s) \<or>
     list_ex (\<lambda>x. points_to ids (i_warehouse_id x)) (tb_incidents s)"

definition drop_warehouses :: "uuid list \<Rightarrow> db \<Rightarrow> db" where
  "drop_warehouses ids s = s\<lparr>tb_warehouses := filter (\<lambda>w. w_id w \<notin> set ids) (tb_warehouses s),
     tb_managers := map (\<lambda>m. m\<lparr>m_warehouse_id := unset ids (m_warehouse_id m)\<rparr>) (tb_managers s)\<rparr>"

text \<open>A user takes his driver and manager rows and his notifications along.\<close>

definition drivers_of :: "uuid list \<Rightarrow> db \<Rightarrow> uuid list" where
  "drivers_of ids s = map d_id (filter (\<lambda>d. d_user_id d \<in> set ids) (tb_drivers s))"

definition managers_of :: "uuid list \<Rightarrow> db \<Rightarrow> uuid list" where
  "managers_of ids s = map m_id (filter (\<lambda>m. m_user_id m \<in> set ids) (tb_managers s))"

definition users_used :: "uuid list \<Rightarrow> db \<Rightarrow> bool" where
  "users_used ids s \<longleftrightarrow> drivers_used (drivers_of ids s) s \<or>
     list_ex (\<lambda>a. a_created_by a \<in> set ids) (tb_assignments s) \<or> list_ex (\<lambda>h. t_created_by h \<in> set ids) (tb_handovers s) \<or>
     list_ex (\<lambda>x. wo_created_by x \<in> set ids) (tb_operations s) \<or>
     list_ex (\<lambda>x. i_reported_by x \<in> set ids \<or> points_to ids (i_resolved_by x)) (tb_incidents s) \<or>
     list_ex (\<lambda>c. cp_owner_user_id c \<in> set ids) (tb_counterparties s) \<or>
     list_ex (\<lambda>x. r_recorded_by x \<in> set ids) (tb_receipts s)"

definition forget_users :: "uuid list \<Rightarrow> db \<Rightarrow> db" where
  "forget_users ids s = s\<lparr>tb_users := filter (\<lambda>u. u_id u \<notin> set ids) (tb_users s),
     tb_notifications := filter (\<lambda>n. n_user_id n \<notin> set ids) (tb_notifications s),
     tb_orders := map (\<lambda>x. x\<lparr>o_created_by := unset ids (o_created_by x)\<rparr>) (tb_orders s),
     tb_history := map (\<lambda>h. h\<lparr>h_actor := unset ids (h_actor h)\<rparr>) (tb_history s)\<rparr>"

definition drop_users :: "uuid list \<Rightarrow> db \<Rightarrow> db" where
  "drop_users ids s = forget_users ids (drop_managers (managers_of ids s) (drop_drivers (drivers_of ids s) s))"

section \<open>Guards and answers\<close>

definition admin_only :: "reply \<Rightarrow> claims option \<Rightarrow> handler \<Rightarrow> handler" where
  "admin_only missing who h = with_claims missing who (\<lambda>c. if cl_role c \<noteq> ''admin'' then answer forbidden_reply else h)"

definition failed :: "err \<Rightarrow> reply" where
  "failed er = internal_error"

text \<open>\<^verbatim>\<open>errors.Is(err, storage.ErrNotFound)\<close> answered with a text of its own.\<close>

definition absent :: "string \<Rightarrow> err \<Rightarrow> reply" where
  "absent text er = (if er = NotFound then Reply 404 ''not found'' (Message text) else internal_error)"

definition list_handler :: "'r table \<Rightarrow> ('r \<Rightarrow> bool) \<Rightarrow> ('r list \<Rightarrow> reply_data) \<Rightarrow> handler" where
  "list_handler t p f = respond (get_all t p) failed (\<lambda>xs. Reply 200 ''success'' (f xs))"

section \<open>Vehicles (vehicle.go)\<close>

text \<open>A \<^verbatim>\<open>float32\<close> of a request is the \<^verbatim>\<open>float64\<close> of the same value.\<close>

record vehicle_create =
  vc_brand :: "string option"
  vc_capacity_kg :: "f64 option"
  vc_capacity_m3 :: "f64 option"
  vc_model :: "string option"
  vc_plate_number :: string
  vc_year :: "int option"

record vehicle_update =
  vu_brand :: "string option"
  vu_capacity_kg :: "f64 option"
  vu_capacity_m3 :: "f64 option"
  vu_model :: "string option"
  vu_status :: "string option"
  vu_year :: "int option"

record vehicle_document_create =
  vdc_number :: string
  vdc_type :: string
  vdc_valid_until :: time

definition get_or :: "'a \<Rightarrow> 'a option \<Rightarrow> 'a" where
  "get_or d x = (case x of None \<Rightarrow> d | Some y \<Rightarrow> y)"

definition keep_or :: "'a option \<Rightarrow> 'a option \<Rightarrow> 'a option" where
  "keep_or d x = (case x of None \<Rightarrow> d | Some y \<Rightarrow> Some y)"

definition vehicle_invalid :: "vehicle \<Rightarrow> bool" where
  "vehicle_invalid v \<longleftrightarrow> f64_lt (v_capacity_kg v) (Fin 0) \<or> f64_lt (v_capacity_m3 v) (Fin 0)"

definition list_vehicle_documents :: "string \<Rightarrow> vehicle_document list op" where
  "list_vehicle_documents slug =
    bind (get_one vehicles_t (\<lambda>v. v_slug v = slug)) (\<lambda>v.
    query (\<lambda>s. rev (sort_key vd_created_at (filter (\<lambda>x. vd_vehicle_id x = v_id v) (tb_vehicle_documents s)))))"

definition list_vehicle_documents_handler :: "claims option \<Rightarrow> string \<Rightarrow> handler" where
  "list_vehicle_documents_handler who slug = with_claims internal_error who (\<lambda>c.
    if cl_role c \<noteq> ''manager'' \<and> cl_role c \<noteq> ''admin'' then answer forbidden_reply
    else respond (list_vehicle_documents slug) write_order_service_error (\<lambda>xs. Reply 200 ''vehicleDocuments'' (VehicleDocumentsData xs)))"

definition create_vehicle_document_tx :: "string \<Rightarrow> vehicle_document_create \<Rightarrow> vehicle_document op" where
  "create_vehicle_document_tx slug req =
    bind (get_one_locked vehicles_t (\<lambda>v. v_slug v = slug)) (\<lambda>v.
    bind uuid_new (\<lambda>i. bind time_now (\<lambda>now.
    let doc = \<lparr>vd_id = i, vd_vehicle_id = v_id v, vd_type = vdc_type req, vd_number = vdc_number req,
          vd_valid_until = vdc_valid_until req, vd_status = ''valid'', vd_created_at = now\<rparr>
    in seq (create vehicle_documents_t doc) (return doc))))"

definition vehicle_document_error :: "err \<Rightarrow> reply" where
  "vehicle_document_error er = (if er = Pg UniqueViolation then reply_error 409 ''VEHICLE_DOCUMENT_EXISTS''
     else write_order_service_error er)"

definition create_vehicle_document_handler :: "claims option \<Rightarrow> string \<Rightarrow> vehicle_document_create body \<Rightarrow> handler" where
  "create_vehicle_document_handler who slug b = admin_only internal_error who (with_body b (\<lambda>req.
    if vdc_type req \<noteq> ''registration'' \<or> vdc_number req = [] then answer invalid_body
    else proceed time_now failed (\<lambda>today.
      if vdc_valid_until req < date_only today then answer invalid_body
      else respond (in_tx (create_vehicle_document_tx slug req)) vehicle_document_error
        (\<lambda>doc. Reply 201 ''vehicleDocument'' (VehicleDocumentData doc)))))"

definition update_vehicle_document_tx :: "string \<Rightarrow> uuid \<Rightarrow> string \<Rightarrow> vehicle_document op" where
  "update_vehicle_document_tx slug i status =
    bind (get_one_locked vehicles_t (\<lambda>v. v_slug v = slug)) (\<lambda>v.
    bind (get_one_locked vehicle_documents_t (\<lambda>x. vd_id x = i \<and> vd_vehicle_id x = v_id v)) (\<lambda>old.
    let doc = old\<lparr>vd_status := status\<rparr>
    in seq (update vehicle_documents_t (\<lambda>x. vd_id x = i) doc) (return doc)))"

definition update_vehicle_document_handler :: "claims option \<Rightarrow> string \<Rightarrow> uuid \<Rightarrow> string body \<Rightarrow> handler" where
  "update_vehicle_document_handler who slug i b = admin_only internal_error who (with_body b (\<lambda>status.
    if status \<noteq> ''valid'' \<and> status \<noteq> ''suspended'' \<and> status \<noteq> ''expired'' then answer invalid_body
    else respond (in_tx (update_vehicle_document_tx slug i status)) write_order_service_error
      (\<lambda>doc. Reply 200 ''vehicleDocument'' (VehicleDocumentData doc))))"

definition list_vehicles_handler :: handler where
  "list_vehicles_handler = list_handler vehicles_t (\<lambda>_. True) VehiclesData"

definition new_vehicle :: "library \<Rightarrow> vehicle_create \<Rightarrow> uuid \<Rightarrow> vehicle" where
  "new_vehicle L req i = \<lparr>v_id = i, v_plate_number = vc_plate_number req, v_brand = vc_brand req, v_model = vc_model req,
     v_year = vc_year req, v_capacity_kg = get_or (Fin 0) (vc_capacity_kg req), v_capacity_m3 = get_or (Fin 0) (vc_capacity_m3 req),
     v_status = ''available'', v_slug = slug_make L (vc_plate_number req)\<rparr>"

definition create_vehicle_handler :: "library \<Rightarrow> claims option \<Rightarrow> vehicle_create body \<Rightarrow> handler" where
  "create_vehicle_handler L who b = admin_only internal_error who (with_body b (\<lambda>req.
    proceed uuid_new failed (\<lambda>i.
    let v = new_vehicle L req i
    in if vehicle_invalid v then answer invalid_body
       else respond (create vehicles_t v) failed (\<lambda>_. Reply 201 ''vehicle'' (VehicleData v)))))"

definition no_vehicle :: string where
  "no_vehicle = ''vehicle not found with that slug''"

definition get_vehicle_handler :: "string \<Rightarrow> handler" where
  "get_vehicle_handler slug = respond (get_one vehicles_t (\<lambda>v. v_slug v = slug)) (absent no_vehicle)
     (\<lambda>v. Reply 200 ''vehicle'' (VehicleData v))"

definition changed_vehicle :: "vehicle_update \<Rightarrow> vehicle \<Rightarrow> vehicle" where
  "changed_vehicle req v = v\<lparr>v_status := get_or (v_status v) (vu_status req), v_brand := keep_or (v_brand v) (vu_brand req),
     v_model := keep_or (v_model v) (vu_model req), v_year := keep_or (v_year v) (vu_year req),
     v_capacity_kg := get_or (v_capacity_kg v) (vu_capacity_kg req), v_capacity_m3 := get_or (v_capacity_m3 v) (vu_capacity_m3 req)\<rparr>"

definition update_vehicle_handler :: "claims option \<Rightarrow> string \<Rightarrow> vehicle_update body \<Rightarrow> handler" where
  "update_vehicle_handler who slug b = admin_only internal_error who (with_body b (\<lambda>req.
    proceed (get_one vehicles_t (\<lambda>v. v_slug v = slug)) (absent no_vehicle) (\<lambda>old.
    let v = changed_vehicle req old
    in if vehicle_invalid v then answer invalid_body
       else respond (update vehicles_t (\<lambda>x. v_slug x = slug) v) failed (\<lambda>_. Reply 200 ''vehicle'' (VehicleData v)))))"

definition delete_vehicle :: "string \<Rightarrow> unit op" where
  "delete_vehicle slug = delete_rows (\<lambda>s. map v_id (filter (\<lambda>v. v_slug v = slug) (tb_vehicles s))) vehicles_used drop_vehicles"

definition delete_vehicle_handler :: "claims option \<Rightarrow> string \<Rightarrow> handler" where
  "delete_vehicle_handler who slug = admin_only internal_error who
     (respond (delete_vehicle slug) (absent ''no vehicle with that slug found'') (\<lambda>_. Reply 200 ''deleted'' (Message slug)))"

section \<open>Drivers (driver.go)\<close>

record driver_create =
  dc_email :: string
  dc_full_name :: string
  dc_license_expiry :: time
  dc_license_number :: string
  dc_password :: string
  dc_vehicle_id :: "uuid option"

record driver_update =
  du_license_expiry :: "time option"
  du_license_number :: "string option"
  du_status :: "string option"
  du_vehicle_id :: "uuid option"

definition list_drivers_handler :: "string option \<Rightarrow> handler" where
  "list_drivers_handler status = list_handler drivers_t (\<lambda>d. case status of None \<Rightarrow> True | Some x \<Rightarrow> d_status d = x) DriversData"

text \<open>An account of the given role (also CreateManager and AuthRegister).\<close>

definition new_user :: "library \<Rightarrow> string \<Rightarrow> string \<Rightarrow> string \<Rightarrow> string \<Rightarrow> uuid \<Rightarrow> time \<Rightarrow> user" where
  "new_user L role email password_hash name i now = \<lparr>u_id = i, u_email = email, u_slug = generate_user_slug L name i,
     u_password_hash = password_hash, u_full_name = name, u_avatar_url = [], u_role = role, u_created_at = now,
     u_updated_at = now, u_last_login_at = None\<rparr>"

definition create_driver_tx :: "library \<Rightarrow> driver_create \<Rightarrow> user \<Rightarrow> time \<Rightarrow> (user \<times> driver) op" where
  "create_driver_tx L req u now =
    seq (create users_t u)
    (bind uuid_new (\<lambda>i.
    let d = \<lparr>d_id = i, d_user_id = u_id u, d_vehicle_id = dc_vehicle_id req, d_license_number = dc_license_number req,
          d_license_expiry = dc_license_expiry req, d_rating = Fin 0,
          d_slug = slug_make L (dc_full_name req @ '' '' @ dc_license_number req), d_status = ''available''\<rparr>
    in seq (create drivers_t d)
    (bind uuid_new (\<lambda>j.
    seq (create driver_documents_t \<lparr>dd_id = j, dd_driver_id = i, dd_type = ''license'', dd_number = d_license_number d,
           dd_valid_until = d_license_expiry d, dd_status = ''valid'', dd_created_at = now\<rparr>)
    (return (u, d))))))"

definition create_driver :: "library \<Rightarrow> driver_create \<Rightarrow> (user \<times> driver) op" where
  "create_driver L req =
    bind (bcrypt_generate L (dc_password req)) (\<lambda>h.
    bind time_now (\<lambda>now. bind uuid_new (\<lambda>i.
    in_tx (create_driver_tx L req (new_user L ''driver'' (dc_email req) h (dc_full_name req) i now) now))))"

definition create_driver_handler :: "library \<Rightarrow> claims option \<Rightarrow> driver_create body \<Rightarrow> handler" where
  "create_driver_handler L who b = admin_only internal_error who (with_body b (\<lambda>req.
    respond (create_driver L req) failed (\<lambda>(u, d). Reply 201 ''driver'' (DriverAccountData u d))))"

text \<open>
  All rows of a user are overwritten with the columns of the first, which the primary key refuses when
  there are two.
\<close>

definition update_my_driver_status :: "uuid \<Rightarrow> string \<Rightarrow> unit op" where
  "update_my_driver_status user status =
    bind (get_one drivers_t (\<lambda>d. d_user_id d = user)) (\<lambda>d.
    bind (query (\<lambda>s. length (filter (\<lambda>x. d_user_id x = user) (tb_drivers s)))) (\<lambda>n.
    seq (fail_if (1 < n) (Pg UniqueViolation))
    (update drivers_t (\<lambda>x. d_user_id x = user) (d\<lparr>d_status := status\<rparr>))))"

definition update_my_driver_status_handler :: "claims option \<Rightarrow> string body \<Rightarrow> handler" where
  "update_my_driver_status_handler who b = with_claims internal_error who (\<lambda>c. with_body b (\<lambda>status.
    respond (update_my_driver_status (cl_id c) status) (absent ''driver not found'')
      (\<lambda>_. Reply 200 ''success'' (Message ''status updated''))))"

definition get_driver_handler :: "string \<Rightarrow> handler" where
  "get_driver_handler slug = respond (get_one drivers_t (\<lambda>d. d_slug d = slug)) (absent ''Not found'')
     (\<lambda>d. Reply 200 ''success'' (DriverData d))"

text \<open>The optional fields are dereferenced without a check.\<close>

definition update_driver :: "string \<Rightarrow> driver_update \<Rightarrow> unit op" where
  "update_driver slug req =
    bind (get_one drivers_t (\<lambda>d. d_slug d = slug)) (\<lambda>d.
    bind (deref (du_license_number req)) (\<lambda>number.
    bind (deref (du_license_expiry req)) (\<lambda>expiry.
    bind (deref (du_status req)) (\<lambda>status.
    update drivers_t (\<lambda>x. d_slug x = slug) (d\<lparr>d_license_number := number, d_license_expiry := expiry, d_status := status,
      d_vehicle_id := du_vehicle_id req\<rparr>)))))"

definition update_driver_handler :: "claims option \<Rightarrow> string \<Rightarrow> driver_update body \<Rightarrow> handler" where
  "update_driver_handler who slug b = admin_only forbidden_reply who
     (case b of Decoded req \<Rightarrow> respond (update_driver slug req) (absent ''driver not found'') (\<lambda>_. Reply 200 ''success'' (Message slug))
      | _ \<Rightarrow> answer (reply_error 400 ''Internal server error''))"

definition delete_driver :: "string \<Rightarrow> unit op" where
  "delete_driver slug = delete_rows (\<lambda>s. map d_id (filter (\<lambda>d. d_slug d = slug) (tb_drivers s))) drivers_used drop_drivers"

definition delete_driver_handler :: "claims option \<Rightarrow> string \<Rightarrow> handler" where
  "delete_driver_handler who slug = admin_only forbidden_reply who
     (respond (delete_driver slug) (absent ''No driver with that slug found'') (\<lambda>_. Reply 200 ''deleted'' (Message slug)))"

section \<open>Managers (manager.go)\<close>

record manager_create =
  mc_email :: string
  mc_full_name :: string
  mc_password :: string
  mc_warehouse_id :: uuid

definition list_managers_handler :: handler where
  "list_managers_handler = list_handler managers_t (\<lambda>_. True) ManagersData"

definition create_manager_tx :: "library \<Rightarrow> manager_create \<Rightarrow> user \<Rightarrow> (user \<times> manager) op" where
  "create_manager_tx L req u =
    seq (create users_t u)
    (bind uuid_new (\<lambda>i.
    let m = \<lparr>m_id = i, m_user_id = u_id u, m_warehouse_id = Some (mc_warehouse_id req), m_slug = generate_user_slug L (mc_full_name req) i\<rparr>
    in seq (create managers_t m) (return (u, m))))"

definition create_manager :: "library \<Rightarrow> manager_create \<Rightarrow> (user \<times> manager) op" where
  "create_manager L req =
    bind (bcrypt_generate L (mc_password req)) (\<lambda>h.
    bind uuid_new (\<lambda>i. bind time_now (\<lambda>now.
    in_tx (create_manager_tx L req (new_user L ''manager'' (mc_email req) h (mc_full_name req) i now)))))"

definition create_manager_handler :: "library \<Rightarrow> claims option \<Rightarrow> manager_create body \<Rightarrow> handler" where
  "create_manager_handler L who b = admin_only forbidden_reply who (with_body b (\<lambda>req.
    if mc_warehouse_id req = uuid_nil then answer invalid_body
    else respond (create_manager L req) failed (\<lambda>(u, m). Reply 201 ''success'' (ManagerAccountData u m))))"

definition get_manager_handler :: "string \<Rightarrow> handler" where
  "get_manager_handler slug = respond (get_one managers_t (\<lambda>m. m_slug m = slug)) (absent ''Not found'')
     (\<lambda>m. Reply 200 ''success'' (ManagerData m))"

text \<open>
  The account is disabled and the manager row removed.  \<open>Inl\<close>: the conflict the handler reports; it
  returns before anything is written, so that its rollback and a commit are the same.
\<close>

definition delete_manager_tx :: "string \<Rightarrow> (string + unit) op" where
  "delete_manager_tx slug =
    bind (get_one managers_t (\<lambda>m. m_slug m = slug)) (\<lambda>seed.
    bind (get_one_locked users_t (\<lambda>u. u_id u = m_user_id seed)) (\<lambda>u.
    bind (get_one_locked managers_t (\<lambda>m. m_id m = m_id seed)) (\<lambda>m.
    if m_user_id m \<noteq> u_id u \<or> m_slug m \<noteq> slug then return (Inl ''MANAGER_STALE'')
    else if u_role u \<noteq> ''manager'' then return (Inl ''MANAGER_ROLE_MISMATCH'')
    else
     bind time_now (\<lambda>now.
     seq (update users_t (\<lambda>x. u_id x = u_id u) (u\<lparr>u_role := ''disabled'', u_updated_at := now\<rparr>))
     (seq (delete_rows (\<lambda>s. map m_id (filter (\<lambda>x. m_id x = m_id m) (tb_managers s))) (\<lambda>_ _. False) drop_managers)
     (return (Inr ())))))))"

definition delete_manager_handler :: "claims option \<Rightarrow> string \<Rightarrow> handler" where
  "delete_manager_handler who slug = admin_only forbidden_reply who
     (respond (in_tx (delete_manager_tx slug)) (read_error True)
       (\<lambda>r. case r of Inl conflict \<Rightarrow> reply_error 409 conflict | Inr _ \<Rightarrow> Reply 200 ''success'' (Message ''Deleted'')))"

section \<open>Warehouses (warehouse.go)\<close>

record warehouse_create =
  wc_address :: string
  wc_city :: string
  wc_name :: string

record warehouse_update =
  wu_address :: "string option"
  wu_city :: "string option"
  wu_latitude :: "f64 option"
  wu_longitude :: "f64 option"
  wu_name :: "string option"
  wu_status :: "string option"

text \<open>The Russian text of a refusal, in UTF-8.\<close>

definition address_unknown :: string where
  "address_unknown = [CHR 0xD0, CHR 0x9D, CHR 0xD0, CHR 0xB5, CHR 0x20, CHR 0xD1, CHR 0x83, CHR 0xD0, CHR 0xB4, CHR 0xD0,
     CHR 0xB0, CHR 0xD0, CHR 0xBB, CHR 0xD0, CHR 0xBE, CHR 0xD1, CHR 0x81, CHR 0xD1, CHR 0x8C, CHR 0x20,
     CHR 0xD0, CHR 0xBE, CHR 0xD0, CHR 0xBF, CHR 0xD1, CHR 0x80, CHR 0xD0, CHR 0xB5, CHR 0xD0, CHR 0xB4,
     CHR 0xD0, CHR 0xB5, CHR 0xD0, CHR 0xBB, CHR 0xD0, CHR 0xB8, CHR 0xD1, CHR 0x82, CHR 0xD1, CHR 0x8C,
     CHR 0x20, CHR 0xD0, CHR 0xBA, CHR 0xD0, CHR 0xBE, CHR 0xD0, CHR 0xBE, CHR 0xD1, CHR 0x80, CHR 0xD0,
     CHR 0xB4, CHR 0xD0, CHR 0xB8, CHR 0xD0, CHR 0xBD, CHR 0xD0, CHR 0xB0, CHR 0xD1, CHR 0x82, CHR 0xD1,
     CHR 0x8B, CHR 0x20, CHR 0xD0, CHR 0xBF, CHR 0xD0, CHR 0xBE, CHR 0x20, CHR 0xD0, CHR 0xB0, CHR 0xD0,
     CHR 0xB4, CHR 0xD1, CHR 0x80, CHR 0xD0, CHR 0xB5, CHR 0xD1, CHR 0x81, CHR 0xD1, CHR 0x83]"

definition list_warehouses_handler :: handler where
  "list_warehouses_handler = list_handler warehouses_t (\<lambda>_. True) WarehousesData"

definition create_warehouse_handler :: "library \<Rightarrow> claims option \<Rightarrow> warehouse_create body \<Rightarrow> handler" where
  "create_warehouse_handler L who b = admin_only forbidden_reply who (with_body b (\<lambda>req.
    case geocode L (wc_city req @ '', '' @ wc_address req) of
      None \<Rightarrow> answer (reply_error 400 address_unknown)
    | Some (lat, lon) \<Rightarrow>
        proceed time_now failed (\<lambda>now. proceed uuid_new failed (\<lambda>i.
        let w = \<lparr>w_id = i, w_slug = slug_make L (wc_name req), w_name = wc_name req, w_address = wc_address req, w_city = wc_city req,
              w_latitude = Some lat, w_longitude = Some lon, w_status = ''active'', w_created_at = now\<rparr>
        in respond (create warehouses_t w) failed (\<lambda>_. Reply 201 ''success'' (WarehouseData w))))))"

definition get_warehouse_handler :: "string \<Rightarrow> handler" where
  "get_warehouse_handler slug = respond (get_one warehouses_t (\<lambda>w. w_slug w = slug)) (absent ''Not found'')
     (\<lambda>w. Reply 200 ''success'' (WarehouseData w))"

definition changed_warehouse :: "warehouse_update \<Rightarrow> warehouse \<Rightarrow> warehouse" where
  "changed_warehouse req w = w\<lparr>w_address := get_or (w_address w) (wu_address req), w_city := get_or (w_city w) (wu_city req),
     w_latitude := keep_or (w_latitude w) (wu_latitude req), w_longitude := keep_or (w_longitude w) (wu_longitude req),
     w_status := get_or (w_status w) (wu_status req), w_name := get_or (w_name w) (wu_name req)\<rparr>"

definition update_warehouse_handler :: "claims option \<Rightarrow> string \<Rightarrow> warehouse_update body \<Rightarrow> handler" where
  "update_warehouse_handler who slug b = admin_only forbidden_reply who (with_body b (\<lambda>req.
    proceed (get_one warehouses_t (\<lambda>w. w_slug w = slug)) (absent ''Not found'') (\<lambda>old.
    let w = changed_warehouse req old
    in respond (update warehouses_t (\<lambda>x. w_slug x = slug) w) failed (\<lambda>_. Reply 200 ''success'' (WarehouseData w)))))"

definition delete_warehouse :: "string \<Rightarrow> unit op" where
  "delete_warehouse slug =
    delete_rows (\<lambda>s. map w_id (filter (\<lambda>w. w_slug w = slug) (tb_warehouses s))) warehouses_used drop_warehouses"

definition delete_warehouse_handler :: "claims option \<Rightarrow> string \<Rightarrow> handler" where
  "delete_warehouse_handler who slug = admin_only forbidden_reply who
     (respond (delete_warehouse slug)
       (\<lambda>er. if er = Pg ForeignKeyViolation then write_order_service_error (Business ErrWarehouseInUse) else internal_error)
       (\<lambda>_. Reply 200 ''success'' (Message slug)))"

section \<open>The table of routes\<close>

datatype directory_call =
    ListVehicles | PostVehicle "vehicle_create body" | GetVehicle string | PutVehicle string "vehicle_update body"
  | DeleteVehicle string | ListVehicleDocuments string | PostVehicleDocument string "vehicle_document_create body"
  | PatchVehicleDocument string uuid "string body"
  | ListDrivers "string option" | PostDriver "driver_create body" | GetDriver string | PutDriver string "driver_update body"
  | DeleteDriver string | PatchMyStatus "string body"
  | ListManagers | PostManager "manager_create body" | GetManager string | DeleteManager string
  | ListWarehouses | PostWarehouse "warehouse_create body" | GetWarehouse string | PutWarehouse string "warehouse_update body"
  | DeleteWarehouse string

fun serve_directory :: "library \<Rightarrow> claims option \<Rightarrow> directory_call \<Rightarrow> handler" where
  "serve_directory L who ListVehicles = list_vehicles_handler"
| "serve_directory L who (PostVehicle b) = create_vehicle_handler L who b"
| "serve_directory L who (GetVehicle slug) = get_vehicle_handler slug"
| "serve_directory L who (PutVehicle slug b) = update_vehicle_handler who slug b"
| "serve_directory L who (DeleteVehicle slug) = delete_vehicle_handler who slug"
| "serve_directory L who (ListVehicleDocuments slug) = list_vehicle_documents_handler who slug"
| "serve_directory L who (PostVehicleDocument slug b) = create_vehicle_document_handler who slug b"
| "serve_directory L who (PatchVehicleDocument slug i b) = update_vehicle_document_handler who slug i b"
| "serve_directory L who (ListDrivers status) = list_drivers_handler status"
| "serve_directory L who (PostDriver b) = create_driver_handler L who b"
| "serve_directory L who (GetDriver slug) = get_driver_handler slug"
| "serve_directory L who (PutDriver slug b) = update_driver_handler who slug b"
| "serve_directory L who (DeleteDriver slug) = delete_driver_handler who slug"
| "serve_directory L who (PatchMyStatus b) = update_my_driver_status_handler who b"
| "serve_directory L who ListManagers = list_managers_handler"
| "serve_directory L who (PostManager b) = create_manager_handler L who b"
| "serve_directory L who (GetManager slug) = get_manager_handler slug"
| "serve_directory L who (DeleteManager slug) = delete_manager_handler who slug"
| "serve_directory L who ListWarehouses = list_warehouses_handler"
| "serve_directory L who (PostWarehouse b) = create_warehouse_handler L who b"
| "serve_directory L who (GetWarehouse slug) = get_warehouse_handler slug"
| "serve_directory L who (PutWarehouse slug b) = update_warehouse_handler who slug b"
| "serve_directory L who (DeleteWarehouse slug) = delete_warehouse_handler who slug"

end
