(* ===== verification/Sessions.thy ===== *)
theory Sessions
  imports Directory Tracking Inbox
begin

text \<open>
  Accounts and sessions (internal/handler/user.go, the middleware of server_impl.go): registration,
  login, rotation of the refresh token, logout, the account of the caller, and the check of the access
  token in front of every other request.  Tokens live in Redis until their time is over; a request
  carries an access token in its header and a refresh token in its cookie.
\<close>

section \<open>Redis\<close>

text \<open>A key holds a value and the time it expires, if it does; the number counts the reads of \<^verbatim>\<open>crypto/rand\<close>.\<close>

record world =
  wd_db :: db
  wd_redis :: "string \<Rightarrow> (string \<times> time option) option"
  wd_draws :: nat

type_synonym 'a web_op = "(env, world, 'a) tx"

definition on_db :: "'a op \<Rightarrow> 'a web_op" where
  "on_db m = (\<lambda>e w. case m e (wd_db w) of (r, s') \<Rightarrow> (r, w\<lparr>wd_db := s'\<rparr>))"

definition live_value :: "time \<Rightarrow> (string \<times> time option) option \<Rightarrow> string option" where
  "live_value now entry = (case entry of None \<Rightarrow> None
   | Some (v, expires) \<Rightarrow> (case expires of None \<Rightarrow> Some v | Some t \<Rightarrow> if now < t then Some v else None))"

definition redis_command :: "library \<Rightarrow> string \<Rightarrow> unit web_op" where
  "redis_command L key = fail_if (redis_fails L key) (External ''redis'')"

definition redis_get :: "library \<Rightarrow> string \<Rightarrow> string option web_op" where
  "redis_get L key =
    seq (redis_command L key)
    (bind (on_db time_now) (\<lambda>now. (\<lambda>e w. (Inr (live_value now (wd_redis w key)), w))))"

text \<open>A time to live that is not positive means that the key does not expire.\<close>

definition redis_set :: "library \<Rightarrow> string \<Rightarrow> string \<Rightarrow> time \<Rightarrow> unit web_op" where
  "redis_set L key v ttl =
    seq (redis_command L key)
    (bind (on_db time_now) (\<lambda>now.
     (\<lambda>e w. (Inr (), w\<lparr>wd_redis := (wd_redis w)(key := Some (v, if 0 < ttl then Some (now + ttl) else None))\<rparr>))))"

definition redis_del :: "library \<Rightarrow> string \<Rightarrow> unit web_op" where
  "redis_del L key =
    seq (redis_command L key) (\<lambda>e w. (Inr (), w\<lparr>wd_redis := (wd_redis w)(key := None)\<rparr>))"

definition access_key :: "string \<Rightarrow> string" where
  "access_key token = ''access_token:'' @ token"

definition refresh_key :: "string \<Rightarrow> string" where
  "refresh_key token = ''refresh_token:'' @ token"

section \<open>Requests and answers\<close>

text \<open>
  What a handler sees of a request: the Authorization header (empty when it is missing) and the value
  of the refresh cookie; and what it does to that cookie.
\<close>

record request =
  rq_authorization :: string
  rq_cookie :: "string option"

datatype cookie = KeepCookie | SetCookie string | ClearCookie

type_synonym web = "env \<Rightarrow> world \<Rightarrow> (reply \<times> cookie) \<times> world"

definition web_answer :: "reply \<Rightarrow> web" where
  "web_answer r = (\<lambda>e w. ((r, KeepCookie), w))"

definition web_proceed :: "'a web_op \<Rightarrow> (err \<Rightarrow> reply) \<Rightarrow> ('a \<Rightarrow> web) \<Rightarrow> web" where
  "web_proceed m fail k = (\<lambda>e w. case m e w of
     (Inl er, w') \<Rightarrow> ((if er = GoPanic then Aborted else fail er, KeepCookie), w') | (Inr x, w') \<Rightarrow> k x e w')"

definition of_handler :: "handler \<Rightarrow> web" where
  "of_handler h = (\<lambda>e w. case h e (wd_db w) of (r, s') \<Rightarrow> ((r, KeepCookie), w\<lparr>wd_db := s'\<rparr>))"

definition web_body :: "'r body \<Rightarrow> ('r \<Rightarrow> web) \<Rightarrow> web" where
  "web_body b h = (case b of Decoded r \<Rightarrow> h r | _ \<Rightarrow> web_answer invalid_body)"

abbreviation missing_token :: reply where
  "missing_token \<equiv> reply_error 401 ''Missing token''"

text \<open>\<^verbatim>\<open>r.Cookie("refresh_token")\<close>: a missing cookie and an empty one are told apart.\<close>

definition with_cookie :: "request \<Rightarrow> (string \<Rightarrow> web) \<Rightarrow> web" where
  "with_cookie rq h = (case rq_cookie rq of None \<Rightarrow> web_answer missing_token
     | Some t \<Rightarrow> if t = [] then web_answer unauthorized else h t)"

section \<open>Issuing tokens\<close>

definition hex_encode :: "nat list \<Rightarrow> string" where
  "hex_encode bytes = concat (map (\<lambda>b. [digit_char (b div 16), digit_char (b mod 16)]) bytes)"

definition generate_refresh_token :: "library \<Rightarrow> string web_op" where
  "generate_refresh_token L = (\<lambda>e w.
     let w' = w\<lparr>wd_draws := Suc (wd_draws w)\<rparr>
     in case random_bytes L (wd_draws w) of None \<Rightarrow> (Inl (External ''rand''), w') | Some bytes \<Rightarrow> (Inr (hex_encode bytes), w'))"

definition token_claims :: "library \<Rightarrow> user \<Rightarrow> time \<Rightarrow> claims" where
  "token_claims L u now = \<lparr>cl_id = u_id u, cl_email = u_email u, cl_role = u_role u,
     cl_token_id = hex_encode (map (\<lambda>c. of_char c) (time_text L now @ uuid_text (u_id u)))\<rparr>"

definition generate_jwt :: "library \<Rightarrow> user \<Rightarrow> time \<Rightarrow> string web_op" where
  "generate_jwt L u lifetime =
    seq (fail_if (jwt_key L = []) (External ''jwt''))
    (bind (on_db time_now) (\<lambda>named. bind (on_db time_now) (\<lambda>expires. bind (on_db time_now) (\<lambda>issued_at.
     case sign_token L (token_claims L u named) issued_at (expires + lifetime) of
       None \<Rightarrow> throw (External ''jwt'') | Some t \<Rightarrow> return t))))"

text \<open>
  When no access token can be made the function returns without writing: \<^verbatim>\<open>net/http\<close> then sends status
  200 and an empty body.
\<close>

definition issue_tokens :: "library \<Rightarrow> user \<Rightarrow> web" where
  "issue_tokens L u =
    web_proceed (generate_jwt L u (access_ttl L)) (\<lambda>_. Reply 200 [] NoData) (\<lambda>access.
    web_proceed (generate_refresh_token L) failed (\<lambda>refresh.
    web_proceed (redis_set L (access_key access) ''valid'' (access_ttl L)) failed (\<lambda>_.
    web_proceed (redis_set L (refresh_key refresh) (uuid_text (u_id u)) (refresh_ttl L)) failed (\<lambda>_.
    (\<lambda>e w. ((Reply 200 ''auth'' (SessionData access 86400 u), SetCookie refresh), w))))))"

section \<open>Login, registration, rotation, logout\<close>

record login_request =
  lg_email :: string
  lg_password :: string

record register_request =
  rg_email :: string
  rg_full_name :: string
  rg_password :: string

text \<open>The Russian texts of two refusals, in UTF-8.\<close>

definition email_unknown :: string where
  "email_unknown = [CHR 0xD0, CHR 0x9F, CHR 0xD0, CHR 0xBE, CHR 0xD0, CHR 0xBB, CHR 0xD1, CHR 0x8C, CHR 0xD0, CHR 0xB7,
     CHR 0xD0, CHR 0xBE, CHR 0xD0, CHR 0xB2, CHR 0xD0, CHR 0xB0, CHR 0xD1, CHR 0x82, CHR 0xD0, CHR 0xB5,
     CHR 0xD0, CHR 0xBB, CHR 0xD1, CHR 0x8C, CHR 0x20, CHR 0xD1, CHR 0x81, CHR 0x20, CHR 0xD1, CHR 0x82,
     CHR 0xD0, CHR 0xB0, CHR 0xD0, CHR 0xBA, CHR 0xD0, CHR 0xB8, CHR 0xD0, CHR 0xBC, CHR 0x20, CHR 0x45,
     CHR 0x6D, CHR 0x61, CHR 0x69, CHR 0x6C, CHR 0x20, CHR 0xD0, CHR 0xBD, CHR 0xD0, CHR 0xB5, CHR 0x20,
     CHR 0xD0, CHR 0xBD, CHR 0xD0, CHR 0xB0, CHR 0xD0, CHR 0xB9, CHR 0xD0, CHR 0xB4, CHR 0xD0, CHR 0xB5,
     CHR 0xD0, CHR 0xBD]"

definition password_wrong :: string where
  "password_wrong = [CHR 0xD0, CHR 0x9D, CHR 0xD0, CHR 0xB5, CHR 0xD0, CHR 0xB2, CHR 0xD0, CHR 0xB5, CHR 0xD1, CHR 0x80,
     CHR 0xD0, CHR 0xBD, CHR 0xD1, CHR 0x8B, CHR 0xD0, CHR 0xB9, CHR 0x20, CHR 0xD0, CHR 0xBF, CHR 0xD0,
     CHR 0xB0, CHR 0xD1, CHR 0x80, CHR 0xD0, CHR 0xBE, CHR 0xD0, CHR 0xBB, CHR 0xD1, CHR 0x8C]"

definition auth_login :: "library \<Rightarrow> login_request body \<Rightarrow> web" where
  "auth_login L b = web_body b (\<lambda>req.
    web_proceed (on_db (get_one users_t (\<lambda>u. u_email u = lg_email req))) (\<lambda>_. reply_error 400 email_unknown) (\<lambda>u.
    if u_role u = ''disabled'' then web_answer unauthorized
    else if \<not> password_matches L (u_password_hash u) (lg_password req) then web_answer (reply_error 400 password_wrong)
    else web_proceed (on_db time_now) failed (\<lambda>now.
      let u' = u\<lparr>u_last_login_at := Some now, u_updated_at := now\<rparr>
      in web_proceed (on_db (update users_t (\<lambda>x. u_id x = u_id u) u')) failed (\<lambda>_. issue_tokens L u'))))"

definition auth_register :: "library \<Rightarrow> register_request body \<Rightarrow> web" where
  "auth_register L b = web_body b (\<lambda>req.
    web_proceed (on_db (bcrypt_generate L (rg_password req))) failed (\<lambda>h.
    web_proceed (on_db time_now) failed (\<lambda>now.
    web_proceed (on_db uuid_new) failed (\<lambda>i.
    let u = new_user L ''client'' (rg_email req) h (rg_full_name req) i now
    in web_proceed (on_db (create users_t u)) failed (\<lambda>_. issue_tokens L u)))))"

definition auth_refresh :: "library \<Rightarrow> request \<Rightarrow> web" where
  "auth_refresh L rq = with_cookie rq (\<lambda>t.
    web_proceed (redis_get L (refresh_key t)) failed (\<lambda>v.
    case v of None \<Rightarrow> web_answer unauthorized
    | Some text \<Rightarrow> (case parse_uuid L text of None \<Rightarrow> web_answer unauthorized
      | Some i \<Rightarrow>
          if i = uuid_nil then web_answer unauthorized
          else web_proceed (on_db (get_one users_t (\<lambda>u. u_id u = i))) (\<lambda>_. unauthorized) (\<lambda>u.
            if u_role u = ''disabled'' then web_answer unauthorized
            else web_proceed (redis_del L (refresh_key t)) failed (\<lambda>_. issue_tokens L u)))))"

text \<open>\<open>token\<close>: the access token the middleware put into the context.\<close>

definition auth_logout :: "library \<Rightarrow> request \<Rightarrow> string option \<Rightarrow> web" where
  "auth_logout L rq token = with_cookie rq (\<lambda>t.
    web_proceed (redis_del L (refresh_key t)) failed (\<lambda>_.
    case token of None \<Rightarrow> web_answer missing_token
    | Some access \<Rightarrow>
        if access = [] then web_answer missing_token
        else web_proceed (redis_del L (access_key access)) failed (\<lambda>_.
          (\<lambda>e w. ((Reply 200 ''success'' (Message ''Logged out''), ClearCookie), w)))))"

section \<open>The account of the caller\<close>

definition delete_user :: "uuid \<Rightarrow> unit op" where
  "delete_user i = delete_rows (\<lambda>s. map u_id (filter (\<lambda>u. u_id u = i) (tb_users s))) users_used drop_users"

text \<open>
  DeleteMe: the rows go in a transaction, the tokens of the request in between; every way out but the
  last rolls the transaction back, and what was deleted in Redis stays deleted.
\<close>

definition forget_tokens :: "library \<Rightarrow> request \<Rightarrow> string option \<Rightarrow> web" where
  "forget_tokens L rq token = (case token of None \<Rightarrow> web_answer missing_token
   | Some access \<Rightarrow>
       if access = [] then web_answer missing_token
       else web_proceed (redis_del L (access_key access)) failed (\<lambda>_.
         with_cookie rq (\<lambda>t. web_proceed (redis_del L (refresh_key t)) failed (\<lambda>_.
         web_answer (Reply 200 ''ok'' (Message ''deleted''))))))"

definition delete_me :: "library \<Rightarrow> request \<Rightarrow> string option \<Rightarrow> claims option \<Rightarrow> web" where
  "delete_me L rq token who = (case who of None \<Rightarrow> web_answer internal_error
   | Some c \<Rightarrow> (\<lambda>e w. case delete_user (cl_id c) e ((wd_db w)\<lparr>locks := []\<rparr>) of
       (Inl er, s') \<Rightarrow> ((internal_error, KeepCookie), w\<lparr>wd_db := rollback (wd_db w) s'\<rparr>)
     | (Inr _, s') \<Rightarrow> (case forget_tokens L rq token e (w\<lparr>wd_db := s'\<rparr>) of
         ((r, k), w') \<Rightarrow> if r = Reply 200 ''ok'' (Message ''deleted'') then ((r, k), w')
                       else ((r, k), w'\<lparr>wd_db := rollback (wd_db w) (wd_db w')\<rparr>))))"

record user_update =
  uu_avatar_url :: "string option"
  uu_current_password :: "string option"
  uu_full_name :: "string option"
  uu_password :: "string option"

definition get_me_handler :: "claims option \<Rightarrow> handler" where
  "get_me_handler who = with_claims internal_error who (\<lambda>c.
    respond (get_one users_t (\<lambda>u. u_id u = cl_id c)) failed (\<lambda>u. Reply 200 ''ok'' (UserData u)))"

definition new_hash :: "library \<Rightarrow> user_update \<Rightarrow> user \<Rightarrow> string op" where
  "new_hash L req u = (case uu_password req of None \<Rightarrow> return (u_password_hash u) | Some p \<Rightarrow> bcrypt_generate L p)"

definition update_me_handler :: "library \<Rightarrow> claims option \<Rightarrow> user_update body \<Rightarrow> handler" where
  "update_me_handler L who b = with_claims internal_error who (\<lambda>c. with_body b (\<lambda>req.
    proceed (get_one users_t (\<lambda>u. u_id u = cl_id c)) failed (\<lambda>u.
    if uu_password req \<noteq> None \<and> uu_current_password req = None then answer (reply_error 400 ''currentPassword is required'')
    else if uu_password req \<noteq> None \<and> \<not> password_matches L (u_password_hash u) (the (uu_current_password req))
      then answer (reply_error 400 ''wrong current password'')
    else proceed (new_hash L req u) failed (\<lambda>h.
      proceed time_now failed (\<lambda>now.
      let u' = u\<lparr>u_full_name := get_or (u_full_name u) (uu_full_name req), u_avatar_url := get_or (u_avatar_url u) (uu_avatar_url req),
            u_password_hash := h, u_updated_at := now\<rparr>
      in respond (update users_t (\<lambda>x. u_id x = cl_id c) u') failed (\<lambda>_. Reply 200 ''success'' (UserData u')))))))"

definition get_my_trips :: "uuid \<Rightarrow> order list op" where
  "get_my_trips user =
    bind (get_one drivers_t (\<lambda>d. d_user_id d = user)) (\<lambda>d.
    query (\<lambda>s. filter (driven_by s (d_id d)) (tb_orders s)))"

definition get_my_trips_handler :: "claims option \<Rightarrow> handler" where
  "get_my_trips_handler who = with_claims internal_error who (\<lambda>c.
    if cl_role c \<noteq> ''driver'' then answer forbidden_reply
    else respond (get_my_trips (cl_id c)) failed (\<lambda>xs. Reply 200 ''success'' (OrdersData xs)))"

section \<open>The middleware (server_impl.go)\<close>

text \<open>Every way a token is refused is the same 401.\<close>

definition validate_access_token :: "library \<Rightarrow> string \<Rightarrow> claims web_op" where
  "validate_access_token L token =
    bind (on_db time_now) (\<lambda>now.
    case parse_token L token now of None \<Rightarrow> throw (External ''token'')
    | Some c \<Rightarrow>
        bind (redis_get L (access_key token)) (\<lambda>v.
        seq (fail_if (v = None) NoRows)
        (seq (fail_if (cl_token_id c = []) (External ''token''))
        (seq (fail_if (cl_id c = uuid_nil) (External ''token''))
        (bind (on_db (get_one users_t (\<lambda>u. u_id u = cl_id c))) (\<lambda>u.
         seq (fail_if (u_role u = ''disabled'' \<or> u_role u \<noteq> cl_role c) (External ''token''))
         (return c)))))))"

definition bearer :: string where
  "bearer = ''Bearer ''"

text \<open>The token of the header: \<open>None\<close> is the answer, a token of blanks counts as none.\<close>

definition bearer_token :: "string \<Rightarrow> reply + string" where
  "bearer_token header =
    (if header = [] then Inl missing_token
     else if take (length bearer) header \<noteq> bearer \<or> trim_space (drop (length bearer) header) = [] then Inl unauthorized
     else Inr (drop (length bearer) header))"

definition auth_middleware :: "library \<Rightarrow> request \<Rightarrow> (claims \<Rightarrow> string \<Rightarrow> web) \<Rightarrow> web" where
  "auth_middleware L rq h = (case bearer_token (rq_authorization rq) of Inl r \<Rightarrow> web_answer r
   | Inr token \<Rightarrow> web_proceed (validate_access_token L token) (\<lambda>_. unauthorized) (\<lambda>c. h c token))"

section \<open>The whole API\<close>

datatype api_call =
    PostLogin "login_request body" | PostRegister "register_request body" | PostRefresh | PostLogout
  | DeleteMe | GetMe | PatchMe "user_update body" | GetMyTrips
  | ListNotifications "bool option" | PatchNotificationRead uuid
  | RefreshRecommendations uuid | ListInboxDocuments inbox_params | DownloadInboxDocument uuid
  | Directory directory_call | Trade http_call

text \<open>\<open>sql\<close>, \<open>L\<close> and \<open>recommend\<close> are what lies outside the repository.\<close>

definition serve_private ::
  "sql_functions \<Rightarrow> library \<Rightarrow> dispatch_client \<Rightarrow> request \<Rightarrow> api_call \<Rightarrow> claims \<Rightarrow> string \<Rightarrow> web" where
  "serve_private sql L recommend rq call c token = (case call of
     PostLogout \<Rightarrow> auth_logout L rq (Some token)
   | DeleteMe \<Rightarrow> delete_me L rq (Some token) (Some c)
   | GetMe \<Rightarrow> of_handler (get_me_handler (Some c))
   | PatchMe b \<Rightarrow> of_handler (update_me_handler L (Some c) b)
   | GetMyTrips \<Rightarrow> of_handler (get_my_trips_handler (Some c))
   | ListNotifications unread \<Rightarrow> of_handler (list_notifications_handler (Some c) unread)
   | PatchNotificationRead i \<Rightarrow> of_handler (mark_notification_read_handler (Some c) i)
   | RefreshRecommendations i \<Rightarrow> of_handler (refresh_dispatch_recommendations_handler (\<lambda>t. parse_uuid L t \<noteq> None) recommend (Some c) i)
   | ListInboxDocuments params \<Rightarrow> of_handler (list_inbox_documents_handler (documents L) (Some c) params)
   | DownloadInboxDocument i \<Rightarrow> of_handler (download_inbox_document_handler (documents L) (Some c) i)
   | Directory d \<Rightarrow> of_handler (serve_directory L (Some c) d)
   | Trade h \<Rightarrow> of_handler (serve sql (Some c) h)
   | _ \<Rightarrow> web_answer not_found_reply)"

text \<open>Login, registration and rotation pass the middleware unchecked.\<close>

definition serve_api :: "sql_functions \<Rightarrow> library \<Rightarrow> dispatch_client \<Rightarrow> request \<Rightarrow> api_call \<Rightarrow> web" where
  "serve_api sql L recommend rq call = (case call of
     PostLogin b \<Rightarrow> auth_login L b
   | PostRegister b \<Rightarrow> auth_register L b
   | PostRefresh \<Rightarrow> auth_refresh L rq
   | _ \<Rightarrow> auth_middleware L rq (serve_private sql L recommend rq call))"

text \<open>What a run of requests, one after another, does to the database and to Redis.\<close>

fun serve_requests ::
  "sql_functions \<Rightarrow> library \<Rightarrow> dispatch_client \<Rightarrow> (request \<times> api_call) list \<Rightarrow> env \<Rightarrow> world \<Rightarrow> world" where
  "serve_requests sql L recommend [] e w = w"
| "serve_requests sql L recommend ((rq, call) # calls) e w =
     serve_requests sql L recommend calls e (snd (serve_api sql L recommend rq call e w))"

end
