(* ===== verification/Directory_Guarantees.thy ===== *)
theory Directory_Guarantees
  imports Api_Frames
begin

text \<open>
  The directory and the trade records: no change of the directory, and no deletion of an account, makes
  the records inconsistent or leaves a reference to a row that is gone; only an administrator changes
  the directory.
\<close>

section \<open>The books\<close>

definition keeps_books :: "env \<Rightarrow> db \<Rightarrow> db \<Rightarrow> bool" where
  "keeps_books e s s' \<longleftrightarrow> (sound s \<longrightarrow> sound s' \<and> (\<forall>i. moves (phase_of s i) (phase_of s' i)))"

interpretation bk: handler_frame keeps_books
  by unfold_locales (auto simp: keeps_books_def intro: moves_trans)

lemma sound_books: "framed keeps_sound m \<Longrightarrow> framed keeps_books m"
  by (simp add: framed_def keeps_books_def keeps_sound_def)

lemma quiet_books: "framed keeps_core m \<Longrightarrow> framed (keeps tb_handovers) m \<Longrightarrow> framed keeps_books m"
  by (intro sound_books sound_of_refines core_refines)

lemma untouched_books: "framed untouched m \<Longrightarrow> framed keeps_books m"
  by (intro sound_books) (simp add: framed_def untouched_sound)

lemma books_in_tx:
  assumes "framed keeps_books m"
  shows "framed keeps_books (in_tx m)"
  unfolding framed_def
proof (intro allI)
  fix e s
  obtain r s' where m: "m e (s\<lparr>locks := []\<rparr>) = (r, s')" by fastforce
  have eq: "sound (s\<lparr>locks := l\<rparr>) = sound s" "phase_of (s\<lparr>locks := l\<rparr>) i = phase_of s i" for l i
    by (simp_all add: sound_def consistent_def handovers_ok_def phase_of_def)
  have undone: "sound (rollback s s') = sound s" "phase_of (rollback s s') i = phase_of s i" for i
    by (simp_all add: rollback_def sound_def consistent_def handovers_ok_def phase_of_def)
  from framedD [OF assms m] show "keeps_books e s (snd (in_tx m e s))"
    by (cases r) (auto simp: in_tx_def m keeps_books_def eq undone)
qed

text \<open>
  Orders and history entries may lose pointers to rows that are deleted, as long as what an open
  assignment needs stays.
\<close>

lemma repointed_books:
  assumes orders: "tb_orders s' = map f (tb_orders s)" and history: "tb_history s' = map g (tb_history s)"
    and same: "tb_assignments s' = tb_assignments s" "tb_handovers s' = tb_handovers s"
    and f: "\<And>x. o_id (f x) = o_id x" "\<And>x. o_status (f x) = o_status x"
    and g: "\<And>h. h_order_id (g h) = h_order_id h" "\<And>h. h_from (g h) = h_from h" "\<And>h. h_to (g h) = h_to h"
    and fits: "\<And>x oa. coherent x oa \<Longrightarrow> oa = open_of (tb_assignments s) (o_id x) \<Longrightarrow> coherent (f x) oa"
  shows "keeps_books e s s'"
proof -
  have ids: "map o_id (tb_orders s') = map o_id (tb_orders s)" "o_id ` set (tb_orders s') = o_id ` set (tb_orders s)"
    by (simp_all add: orders f image_image comp_def)
  have found: "order_of (map f os) i = map_option f (order_of os i)" for os i
    by (induction os) (simp_all add: order_of_def f)
  have moved: "transitions (tb_history s') i = transitions (tb_history s) i" for i
    by (simp add: transitions_def history filter_map comp_def g)
  have phases: "phase_of s' i = phase_of s i" for i
    by (simp add: phase_of_def orders found same option.map_comp comp_def f)
  have "consistent s'" if "consistent s"
    using that fits unfolding consistent_def ids same moved by (auto simp: orders history f g)
  then show ?thesis by (auto simp: keeps_books_def sound_def handovers_ok_def same phases)
qed

section \<open>Deletions\<close>

lemma delete_rows_frame:
  assumes "\<And>e s. \<not> used (keys s) s \<Longrightarrow> R e s (gone (keys s) s)" and "\<And>e s. R e s s"
  shows "framed R (delete_rows keys used gone)"
  using assms by (simp add: framed_def delete_rows_def)

lemma delete_rows_run [runs]:
  assumes "delete_rows keys used gone e s = (Inr u, s')"
  obtains "\<not> used (keys s) s" and "s' = gone (keys s) s"
  using assms by (auto simp: delete_rows_def split: if_splits)

lemma unset_kept: "unset ids x = Some i \<Longrightarrow> x = Some i"
  by (auto simp: unset_def split: option.splits if_splits)

lemma unset_other [simp]: "i \<notin> set ids \<Longrightarrow> unset ids (Some i) = Some i"
  by (simp add: unset_def)

lemma drop_managers_books: "keeps_books e s (drop_managers ids s)"
  by (rule repointed_books [where f = "\<lambda>x. x\<lparr>o_manager_id := unset ids (o_manager_id x)\<rparr>" and g = "\<lambda>h. h"])
     (auto simp: drop_managers_def elim!: coherent.elims)

text \<open>The foreign key of assignments protects the driver of an order that is under way.\<close>

lemma drop_drivers_books:
  assumes "\<not> drivers_used ids s"
  shows "keeps_books e s (drop_drivers ids s)"
proof (rule repointed_books [where f = "\<lambda>x. x\<lparr>o_driver_id := unset ids (o_driver_id x)\<rparr>" and g = "\<lambda>h. h"])
  fix x oa assume c: "coherent x oa" and oa: "oa = open_of (tb_assignments s) (o_id x)"
  show "coherent (x\<lparr>o_driver_id := unset ids (o_driver_id x)\<rparr>) oa"
  proof (cases oa)
    case None
    with c show ?thesis by simp
  next
    case (Some a)
    with oa open_of_mem have "a \<in> set (tb_assignments s)" by fastforce
    with assms have "a_driver_id a \<notin> set ids" by (auto simp: drivers_used_def list_ex_iff)
    with c Some show ?thesis by auto
  qed
qed (simp_all add: drop_drivers_def)

lemma forget_users_books: "keeps_books e s (forget_users ids s)"
  by (rule repointed_books [where f = "\<lambda>x. x\<lparr>o_created_by := unset ids (o_created_by x)\<rparr>"
        and g = "\<lambda>h. h\<lparr>h_actor := unset ids (h_actor h)\<rparr>"])
     (auto simp: forget_users_def elim!: coherent.elims)

lemma drop_users_books:
  assumes "\<not> users_used ids s"
  shows "keeps_books e s (drop_users ids s)"
proof -
  have "keeps_books e s (drop_drivers (drivers_of ids s) s)"
    using assms by (intro drop_drivers_books) (simp add: users_used_def)
  then show ?thesis
    unfolding drop_users_def by (intro bk.frame_trans [OF _ bk.frame_trans [OF drop_managers_books forget_users_books]])
qed

lemma deletions_books [simp]:
  "framed keeps_books (delete_vehicle slug)" "framed keeps_books (delete_driver slug)"
  "framed keeps_books (delete_warehouse slug)" "framed keeps_books (delete_user i)"
  "framed keeps_books (delete_rows keys (\<lambda>_ _. False) drop_managers)"
proof -
  have aside: "keeps_books e s (drop_vehicles ids s)" "keeps_books e s (drop_warehouses ids s)" for e s ids
    by (rule repointed_books [where f = "\<lambda>x. x" and g = "\<lambda>h. h"];
        simp add: drop_vehicles_def drop_warehouses_def)+
  show "framed keeps_books (delete_vehicle slug)" "framed keeps_books (delete_warehouse slug)"
    unfolding delete_vehicle_def delete_warehouse_def by (rule delete_rows_frame; simp add: aside bk.frame_refl)+
  show "framed keeps_books (delete_driver slug)" "framed keeps_books (delete_user i)"
    "framed keeps_books (delete_rows keys (\<lambda>_ _. False) drop_managers)"
    unfolding delete_driver_def delete_user_def
    by (rule delete_rows_frame; simp add: drop_drivers_books drop_users_books drop_managers_books bk.frame_refl)+
qed
section \<open>References\<close>

text \<open>Every reference to a row that can be deleted points to a row that is there.\<close>

definition points_in :: "uuid option \<Rightarrow> uuid set \<Rightarrow> bool" where
  "points_in x A \<longleftrightarrow> (case x of None \<Rightarrow> True | Some i \<Rightarrow> i \<in> A)"

abbreviation user_ids :: "db \<Rightarrow> uuid set" where "user_ids s \<equiv> u_id ` set (tb_users s)"
abbreviation driver_ids :: "db \<Rightarrow> uuid set" where "driver_ids s \<equiv> d_id ` set (tb_drivers s)"
abbreviation vehicle_ids :: "db \<Rightarrow> uuid set" where "vehicle_ids s \<equiv> v_id ` set (tb_vehicles s)"
abbreviation manager_ids :: "db \<Rightarrow> uuid set" where "manager_ids s \<equiv> m_id ` set (tb_managers s)"
abbreviation warehouse_ids :: "db \<Rightarrow> uuid set" where "warehouse_ids s \<equiv> w_id ` set (tb_warehouses s)"

definition people_ok :: "db \<Rightarrow> bool" where
  "people_ok s \<longleftrightarrow>
     (\<forall>d \<in> set (tb_drivers s). d_user_id d \<in> user_ids s \<and> points_in (d_vehicle_id d) (vehicle_ids s)) \<and>
     (\<forall>x \<in> set (tb_driver_documents s). dd_driver_id x \<in> driver_ids s) \<and>
     (\<forall>x \<in> set (tb_driver_shifts s). ds_driver_id x \<in> driver_ids s) \<and>
     (\<forall>x \<in> set (tb_vehicle_documents s). vd_vehicle_id x \<in> vehicle_ids s) \<and>
     (\<forall>m \<in> set (tb_managers s). m_user_id m \<in> user_ids s \<and> points_in (m_warehouse_id m) (warehouse_ids s)) \<and>
     (\<forall>c \<in> set (tb_counterparties s). cp_owner_user_id c \<in> user_ids s) \<and>
     (\<forall>n \<in> set (tb_notifications s). n_user_id n \<in> user_ids s)"

definition orders_ok :: "db \<Rightarrow> bool" where
  "orders_ok s \<longleftrightarrow>
     (\<forall>x \<in> set (tb_orders s). points_in (o_created_by x) (user_ids s) \<and> points_in (o_driver_id x) (driver_ids s) \<and>
        points_in (o_manager_id x) (manager_ids s) \<and> points_in (o_origin_warehouse x) (warehouse_ids s) \<and>
        points_in (o_dest_warehouse x) (warehouse_ids s)) \<and>
     (\<forall>r \<in> set (tb_routes s). points_in (ro_driver_id r) (driver_ids s)) \<and>
     (\<forall>h \<in> set (tb_history s). points_in (h_actor h) (user_ids s))"

definition trips_ok :: "db \<Rightarrow> bool" where
  "trips_ok s \<longleftrightarrow>
     (\<forall>a \<in> set (tb_assignments s). a_driver_id a \<in> driver_ids s \<and> a_vehicle_id a \<in> vehicle_ids s \<and> a_created_by a \<in> user_ids s) \<and>
     (\<forall>h \<in> set (tb_handovers s). t_driver_id h \<in> driver_ids s \<and> t_vehicle_id h \<in> vehicle_ids s \<and> t_created_by h \<in> user_ids s) \<and>
     (\<forall>x \<in> set (tb_operations s). wo_warehouse_id x \<in> warehouse_ids s \<and> wo_created_by x \<in> user_ids s) \<and>
     (\<forall>x \<in> set (tb_incidents s). points_in (i_warehouse_id x) (warehouse_ids s) \<and> i_reported_by x \<in> user_ids s \<and>
        points_in (i_resolved_by x) (user_ids s)) \<and>
     (\<forall>x \<in> set (tb_receipts s). r_recorded_by x \<in> user_ids s)"

lemmas references_defs = people_ok_def orders_ok_def trips_ok_def

definition references_ok :: "db \<Rightarrow> bool" where
  "references_ok s \<longleftrightarrow> people_ok s \<and> orders_ok s \<and> trips_ok s"

definition keeps_references :: "env \<Rightarrow> db \<Rightarrow> db \<Rightarrow> bool" where
  "keeps_references e s s' \<longleftrightarrow> (references_ok s \<longrightarrow> references_ok s')"

interpretation rf: handler_frame keeps_references
  by unfold_locales (auto simp: keeps_references_def)

lemma remaining_keys: "f ` {x \<in> A. f x \<notin> B} = f ` A - B"
  by auto

lemma points_in_unset [simp]:
  "points_in x A \<Longrightarrow> points_in (unset ids x) A" "points_in x A \<Longrightarrow> points_in (unset ids x) (A - set ids)"
  by (auto simp: points_in_def unset_def split: option.splits)

lemma points_in_kept [simp]: "\<not> points_to ids x \<Longrightarrow> points_in x A \<Longrightarrow> points_in x (A - set ids)"
  by (auto simp: points_in_def points_to_def split: option.splits)

lemma drop_vehicles_references:
  assumes "\<not> vehicles_used ids s"
  shows "keeps_references e s (drop_vehicles ids s)"
proof -
  have "people_ok (drop_vehicles ids s)" if "people_ok s"
    using that by (simp add: people_ok_def drop_vehicles_def remaining_keys image_image)
  moreover have "orders_ok (drop_vehicles ids s)" if "orders_ok s"
    using that by (simp add: orders_ok_def drop_vehicles_def image_image)
  moreover have "trips_ok (drop_vehicles ids s)" if "trips_ok s"
    using that assms by (simp add: trips_ok_def drop_vehicles_def vehicles_used_def list_ex_iff remaining_keys image_image)
  ultimately show ?thesis by (simp add: keeps_references_def references_ok_def)
qed

lemma drop_warehouses_references:
  assumes "\<not> warehouses_used ids s"
  shows "keeps_references e s (drop_warehouses ids s)"
proof -
  have "people_ok (drop_warehouses ids s)" if "people_ok s"
    using that by (simp add: people_ok_def drop_warehouses_def remaining_keys)
  moreover have "orders_ok (drop_warehouses ids s)" if "orders_ok s"
    using that assms by (simp add: orders_ok_def drop_warehouses_def warehouses_used_def list_ex_iff remaining_keys image_image)
  moreover have "trips_ok (drop_warehouses ids s)" if "trips_ok s"
    using that assms by (simp add: trips_ok_def drop_warehouses_def warehouses_used_def list_ex_iff remaining_keys)
  ultimately show ?thesis by (simp add: keeps_references_def references_ok_def)
qed

lemma drop_managers_references: "keeps_references e s (drop_managers ids s)"
proof -
  have "people_ok (drop_managers ids s)" if "people_ok s"
    using that by (simp add: people_ok_def drop_managers_def)
  moreover have "orders_ok (drop_managers ids s)" if "orders_ok s"
    using that by (simp add: orders_ok_def drop_managers_def remaining_keys)
  moreover have "trips_ok (drop_managers ids s)" if "trips_ok s"
    using that by (simp add: trips_ok_def drop_managers_def)
  ultimately show ?thesis by (simp add: keeps_references_def references_ok_def)
qed

lemma drop_drivers_references:
  assumes "\<not> drivers_used ids s"
  shows "keeps_references e s (drop_drivers ids s)"
proof -
  have "people_ok (drop_drivers ids s)" if "people_ok s"
    using that by (simp add: people_ok_def drop_drivers_def remaining_keys)
  moreover have "orders_ok (drop_drivers ids s)" if "orders_ok s"
    using that by (simp add: orders_ok_def drop_drivers_def remaining_keys)
  moreover have "trips_ok (drop_drivers ids s)" if "trips_ok s"
    using that assms by (simp add: trips_ok_def drop_drivers_def drivers_used_def list_ex_iff remaining_keys)
  ultimately show ?thesis by (simp add: keeps_references_def references_ok_def)
qed
definition accounts_used :: "uuid list \<Rightarrow> db \<Rightarrow> bool" where
  "accounts_used ids s \<longleftrightarrow>
     list_ex (\<lambda>d. d_user_id d \<in> set ids) (tb_drivers s) \<or> list_ex (\<lambda>m. m_user_id m \<in> set ids) (tb_managers s) \<or>
     list_ex (\<lambda>a. a_created_by a \<in> set ids) (tb_assignments s) \<or> list_ex (\<lambda>h. t_created_by h \<in> set ids) (tb_handovers s) \<or>
     list_ex (\<lambda>x. wo_created_by x \<in> set ids) (tb_operations s) \<or>
     list_ex (\<lambda>x. i_reported_by x \<in> set ids \<or> points_to ids (i_resolved_by x)) (tb_incidents s) \<or>
     list_ex (\<lambda>c. cp_owner_user_id c \<in> set ids) (tb_counterparties s) \<or>
     list_ex (\<lambda>x. r_recorded_by x \<in> set ids) (tb_receipts s)"

lemma forget_users_references:
  assumes "\<not> accounts_used ids s"
  shows "keeps_references e s (forget_users ids s)"
proof -
  have "people_ok (forget_users ids s)" if "people_ok s"
    using that assms by (simp add: people_ok_def forget_users_def accounts_used_def list_ex_iff remaining_keys)
  moreover have "orders_ok (forget_users ids s)" if "orders_ok s"
    using that by (simp add: orders_ok_def forget_users_def remaining_keys)
  moreover have "trips_ok (forget_users ids s)" if "trips_ok s"
    using that assms by (simp add: trips_ok_def forget_users_def accounts_used_def list_ex_iff remaining_keys)
  ultimately show ?thesis by (simp add: keeps_references_def references_ok_def)
qed

lemma drop_users_references:
  assumes "\<not> users_used ids s"
  shows "keeps_references e s (drop_users ids s)"
proof -
  let ?t = "drop_drivers (drivers_of ids s) s"
  let ?u = "drop_managers (managers_of ids s) ?t"
  have "\<not> accounts_used ids ?u"
    using assms
    by (auto simp: accounts_used_def users_used_def list_ex_iff drop_managers_def drop_drivers_def drivers_of_def managers_of_def)
  moreover have "keeps_references e s ?t"
    using assms by (intro drop_drivers_references) (simp add: users_used_def)
  ultimately show ?thesis
    unfolding drop_users_def by (intro rf.frame_trans [OF _ rf.frame_trans [OF drop_managers_references forget_users_references]])
qed

text \<open>The records of trade are not touched by a deletion.\<close>

definition trade_records :: "db \<Rightarrow> assignment list \<times> trip_handover list \<times> warehouse_operation list \<times> incident list \<times> delivery_receipt list" where
  "trade_records s = (tb_assignments s, tb_handovers s, tb_operations s, tb_incidents s, tb_receipts s)"

lemma drops_keep_trade [simp]:
  "trade_records (drop_vehicles ids s) = trade_records s" "trade_records (drop_drivers ids s) = trade_records s"
  "trade_records (drop_managers ids s) = trade_records s" "trade_records (drop_warehouses ids s) = trade_records s"
  "trade_records (drop_users ids s) = trade_records s"
  by (simp_all add: trade_records_def drop_vehicles_def drop_drivers_def drop_managers_def drop_warehouses_def drop_users_def
      forget_users_def)

datatype deletion = OfVehicle string | OfDriver string | OfWarehouse string | OfAccount uuid

fun run_deletion :: "deletion \<Rightarrow> unit op" where
  "run_deletion (OfVehicle slug) = delete_vehicle slug"
| "run_deletion (OfDriver slug) = delete_driver slug"
| "run_deletion (OfWarehouse slug) = delete_warehouse slug"
| "run_deletion (OfAccount i) = delete_user i"

text \<open>What keeps a row from being deleted.\<close>

fun still_named :: "deletion \<Rightarrow> db \<Rightarrow> bool" where
  "still_named (OfVehicle slug) s \<longleftrightarrow> (\<exists>v \<in> set (tb_vehicles s). v_slug v = slug \<and>
     (v_id v \<in> a_vehicle_id ` set (tb_assignments s) \<or> v_id v \<in> t_vehicle_id ` set (tb_handovers s)))"
| "still_named (OfDriver slug) s \<longleftrightarrow> (\<exists>d \<in> set (tb_drivers s). d_slug d = slug \<and>
     (d_id d \<in> a_driver_id ` set (tb_assignments s) \<or> d_id d \<in> t_driver_id ` set (tb_handovers s)))"
| "still_named (OfWarehouse slug) s \<longleftrightarrow> (\<exists>w \<in> set (tb_warehouses s). w_slug w = slug \<and>
     (Some (w_id w) \<in> o_origin_warehouse ` set (tb_orders s) \<or> Some (w_id w) \<in> o_dest_warehouse ` set (tb_orders s) \<or>
      w_id w \<in> wo_warehouse_id ` set (tb_operations s) \<or> Some (w_id w) \<in> i_warehouse_id ` set (tb_incidents s)))"
| "still_named (OfAccount i) s \<longleftrightarrow> i \<in> user_ids s \<and>
     ((\<exists>d \<in> set (tb_drivers s). d_user_id d = i \<and>
        (d_id d \<in> a_driver_id ` set (tb_assignments s) \<or> d_id d \<in> t_driver_id ` set (tb_handovers s))) \<or>
      i \<in> a_created_by ` set (tb_assignments s) \<or> i \<in> t_created_by ` set (tb_handovers s) \<or> i \<in> wo_created_by ` set (tb_operations s) \<or>
      i \<in> i_reported_by ` set (tb_incidents s) \<or> Some i \<in> i_resolved_by ` set (tb_incidents s) \<or>
      i \<in> cp_owner_user_id ` set (tb_counterparties s) \<or> i \<in> r_recorded_by ` set (tb_receipts s))"

lemma points_to_iff: "points_to ids x \<longleftrightarrow> (\<exists>i \<in> set ids. x = Some i)"
  by (auto simp: points_to_def split: option.splits)

lemma same_account: "u_id ` {u \<in> A. u_id u = i} = (if i \<in> u_id ` A then {i} else {})"
  by auto

lemmas delete_defs = delete_rows_def delete_vehicle_def delete_driver_def delete_warehouse_def delete_user_def

lemma meets: "(\<exists>a \<in> A. f a \<in> g ` {v \<in> V. P v}) \<longleftrightarrow> (\<exists>v \<in> V. P v \<and> g v \<in> f ` A)"
  by (auto simp: image_iff) metis+

lemma meets_points: "(\<exists>x \<in> A. points_to (map g (filter P vs)) (h x)) \<longleftrightarrow> (\<exists>v \<in> set vs. P v \<and> Some (g v) \<in> h ` A)"
  by (auto simp: points_to_iff image_iff) metis+

lemma fleet_named:
  "vehicles_used (map v_id (filter (\<lambda>v. v_slug v = slug) (tb_vehicles s))) s = still_named (OfVehicle slug) s"
  "drivers_used (map d_id (filter (\<lambda>d. P d) (tb_drivers s))) s \<longleftrightarrow> (\<exists>d \<in> set (tb_drivers s). P d \<and>
     (d_id d \<in> a_driver_id ` set (tb_assignments s) \<or> d_id d \<in> t_driver_id ` set (tb_handovers s)))"
  by (simp_all add: vehicles_used_def drivers_used_def list_ex_iff meets; blast)+

lemma warehouse_named:
  "warehouses_used (map w_id (filter (\<lambda>w. w_slug w = slug) (tb_warehouses s))) s = still_named (OfWarehouse slug) s"
  unfolding warehouses_used_def list_ex_iff bex_disj_distrib meets_points by (simp add: meets) blast

lemma in_image: "(\<exists>a \<in> A. f a = i) \<longleftrightarrow> i \<in> f ` A"
  by auto

lemma account_named: "users_used (map u_id (filter (\<lambda>u. u_id u = i) (tb_users s))) s = still_named (OfAccount i) s"
proof -
  let ?ids = "map u_id (filter (\<lambda>u. u_id u = i) (tb_users s))"
  have ids: "set ?ids = (if i \<in> user_ids s then {i} else {})" using same_account [of "set (tb_users s)" i] by simp
  show ?thesis
  proof (cases "i \<in> user_ids s")
    case True
    with ids have only: "j \<in> set ?ids \<longleftrightarrow> j = i" for j by (simp only: if_True singleton_iff)
    then have points: "points_to ?ids x \<longleftrightarrow> x = Some i" for x by (auto simp only: points_to_iff)
    show ?thesis
      unfolding users_used_def drivers_of_def only points fleet_named list_ex_iff bex_disj_distrib in_image still_named.simps
      using True by blast
  next
    case False
    with ids have none: "j \<in> set ?ids \<longleftrightarrow> False" for j by (simp only: if_False empty_iff)
    then have points: "points_to ?ids x \<longleftrightarrow> False" for x by (auto simp only: points_to_iff)
    show ?thesis
      unfolding users_used_def drivers_of_def none points fleet_named list_ex_iff still_named.simps using False by simp
  qed
qed

lemma deletion_refused: "error_of (run_deletion d) e s = (if still_named d s then Some (Pg ForeignKeyViolation) else None)"
  by (cases d) (simp_all only: run_deletion.simps error_of_def delete_defs fleet_named warehouse_named account_named still_named.simps split: if_split, simp_all)

text \<open>C10: Deleting a vehicle, a driver, a warehouse or an account leaves no reference to a row that is gone, and never
  touches assignments, handovers, warehouse operations, incidents or receipts.  It is refused, and then
  changes nothing at all, exactly when a trade record (for a warehouse also an order, for an account also a
  counterparty) still names what would be deleted.\<close>

theorem deletion_keeps_references:
  assumes "references_ok s"
  shows "references_ok (after (run_deletion d) e s) \<and> trade_records (after (run_deletion d) e s) = trade_records s \<and>
    (if still_named d s then error_of (run_deletion d) e s = Some (Pg ForeignKeyViolation) \<and> after (run_deletion d) e s = s
     else error_of (run_deletion d) e s = None)"
proof -
  have "keeps_references e s (after (run_deletion d) e s)"
    by (cases d) (auto simp: after_def delete_defs
        drop_vehicles_references drop_drivers_references drop_warehouses_references drop_users_references rf.frame_refl)
  moreover have "trade_records (after (run_deletion d) e s) = trade_records s"
    by (cases d) (simp_all add: after_def delete_defs)
  moreover have "error_of (run_deletion d) e s \<noteq> None \<longrightarrow> after (run_deletion d) e s = s"
    by (cases d) (simp_all add: error_of_def after_def delete_defs)
  ultimately show ?thesis using assms by (simp add: keeps_references_def deletion_refused)
qed

lemma deletion_keeps_references_witness:
  "references_ok (after (run_deletion (OfAccount 3)) sample_env offered_db) \<and>
   error_of (run_deletion (OfAccount 3)) sample_env offered_db = None \<and>
   error_of (run_deletion (OfDriver ''d1'')) sample_env offered_db = Some (Pg ForeignKeyViolation)"
proof -
  have ok: "references_ok offered_db" by code_simp
  moreover have "\<not> still_named (OfAccount 3) offered_db" and "still_named (OfDriver ''d1'') offered_db" by code_simp+
  ultimately show ?thesis
    using deletion_keeps_references [OF ok, of "OfAccount 3" sample_env]
      deletion_keeps_references [OF ok, of "OfDriver ''d1''" sample_env] by (simp only: if_True if_False simp_thms)
qed

section \<open>Who may change the directory\<close>

interpretation un: handler_frame untouched ..

lemma reads_list [simp]: "handled untouched (list_handler t p f)"
  unfolding list_handler_def by (intro un.handled_rules) simp

definition only_own_driver :: "uuid \<Rightarrow> db \<Rightarrow> db \<Rightarrow> bool" where
  "only_own_driver user s s' \<longleftrightarrow> (\<exists>t e. untouched e s t \<and> s' = t\<lparr>tb_drivers := tb_drivers s'\<rparr>) \<and>
     filter (\<lambda>d. d_user_id d \<noteq> user) (tb_drivers s') = filter (\<lambda>d. d_user_id d \<noteq> user) (tb_drivers s)"

lemma my_status_run:
  assumes "update_my_driver_status user status e s = (Inr u, s')"
  shows "s' = s \<or> (\<exists>d. d_user_id d = user \<and>
    s' = tb_drivers_update (overwrite (\<lambda>x. d_user_id x = user) (stored drivers_t e (d\<lparr>d_status := status\<rparr>))) s)"
  using assms unfolding update_my_driver_status_def by (elim runs) (auto dest!: find_Some_mem)

lemma own_driver_only: "only_own_driver user s (after (update_my_driver_status user status) e s)"
proof -
  obtain r s' where run: "update_my_driver_status user status e s = (r, s')" by fastforce
  have keeps: "only_own_driver user s s"
    using unt.frame_refl by (auto simp: only_own_driver_def intro!: exI [of _ s])
  have "s' = s" if "r = Inl er" for er
    using run that by (auto simp: update_my_driver_status_def bind_def seq_def get_one_def query_def fail_if_def
        throw_def return_def update_def split: option.splits if_splits)
  moreover have "only_own_driver user s s'" if "r = Inr u" for u
    using my_status_run [OF run [unfolded that]]
  proof (elim disjE exE conjE)
    fix d
    let ?row = "stored drivers_t e (d\<lparr>d_status := status\<rparr>)"
    assume d: "d_user_id d = user" and s': "s' = tb_drivers_update (overwrite (\<lambda>x. d_user_id x = user) ?row) s"
    have "d_user_id ?row = user" using d by (simp add: drivers_t_def)
    then have "filter (\<lambda>x. d_user_id x \<noteq> user) (overwrite (\<lambda>x. d_user_id x = user) ?row ds) =
        filter (\<lambda>x. d_user_id x \<noteq> user) ds" for ds
      by (induction ds) (simp_all add: overwrite_def)
    then show ?thesis
      using unt.frame_refl unfolding s' only_own_driver_def by (auto intro!: exI [of _ s])
  qed (simp add: keeps)
  ultimately show ?thesis using keeps by (cases r) (auto simp: after_def run)
qed

fun own_status :: "directory_call \<Rightarrow> bool" where
  "own_status (PatchMyStatus b) = True"
| "own_status _ = False"

text \<open>Only an administrator changes the directory.  For anybody else, every request on vehicles, drivers, managers
  or warehouses leaves every table as it is; the one exception is a driver's own status, which changes no
  other table and no row of another user.\<close>

theorem only_admins_change_directory:
  assumes "cl_role c \<noteq> ''admin''"
  shows "if own_status call then only_own_driver (cl_id c) s (snd (serve_directory L (Some c) call e s))
    else untouched e s (snd (serve_directory L (Some c) call e s))"
proof (cases call)
  case (PatchMyStatus b)
  have "only_own_driver (cl_id c) s s"
    using unt.frame_refl by (auto simp: only_own_driver_def intro!: exI [of _ s])
  with PatchMyStatus show ?thesis
    by (cases b) (simp_all add: update_my_driver_status_handler_def with_claims_def with_body_def own_driver_only)
qed (use assms unt.frame_refl in \<open>simp_all add: list_vehicles_handler_def list_drivers_handler_def list_managers_handler_def
    list_warehouses_handler_def get_vehicle_handler_def get_driver_handler_def get_manager_handler_def get_warehouse_handler_def
    create_vehicle_handler_def update_vehicle_handler_def delete_vehicle_handler_def list_vehicle_documents_handler_def
    create_vehicle_document_handler_def update_vehicle_document_handler_def create_driver_handler_def update_driver_handler_def
    delete_driver_handler_def create_manager_handler_def delete_manager_handler_def create_warehouse_handler_def
    update_warehouse_handler_def delete_warehouse_handler_def admin_only_def with_claims_def list_handler_def
    list_vehicle_documents_def untouched_after unt.framed_bind\<close>)

lemma only_admins_change_directory_witness:
  "untouched sample_env offered_db
     (snd (serve_directory sample_library (Some (sample_claims 3 ''manager'')) (DeleteVehicle ''v2'') sample_env offered_db))"
  using only_admins_change_directory [of "sample_claims 3 ''manager''" "DeleteVehicle ''v2''" offered_db sample_library sample_env]
  by (simp add: sample_claims_def)

end
