(* ===== verification/Api_Guarantees.thy ===== *)
theory Api_Guarantees
  imports Directory_Guarantees
begin

text \<open>
  The API as a whole: whatever requests arrive, with whatever tokens, the trade records stay consistent
  and every order only moves along its lifecycle.
\<close>

section \<open>Consistency under any requests\<close>

lemma directory_statements [simp]:
  "framed keeps_books (create users_t u)" "framed keeps_books (update users_t p u)"
  "framed keeps_books (create drivers_t d)" "framed keeps_books (update drivers_t q d)"
  "framed keeps_books (create vehicles_t v)" "framed keeps_books (update vehicles_t q2 v)"
  "framed keeps_books (create warehouses_t w)" "framed keeps_books (update warehouses_t q3 w)"
  "framed keeps_books (create managers_t m)" "framed keeps_books (create driver_documents_t x)"
  "framed keeps_books (create vehicle_documents_t y)" "framed keeps_books (update vehicle_documents_t q4 y)"
  "framed keeps_books (update notifications_t q5 z)"
  by (intro quiet_books core_statements keep_frames; simp)+

lemma directory_reads [simp]:
  "framed keeps_books (get_one t p)" "framed keeps_books (get_one_locked t p)" "framed keeps_books (get_all t p)"
  "framed keeps_books (query f)" "framed keeps_books time_now" "framed keeps_books uuid_new"
  by (rule untouched_books, simp)+

lemma bcrypt_books [simp]: "framed keeps_books (bcrypt_generate L h)"
  by (simp add: framed_def bcrypt_generate_def bk.frame_refl split: option.split)

lemma list_handler_books: "handled keeps_books (list_handler t p f)"
  unfolding list_handler_def by (intro bk.handled_rules) simp

lemma directory_books: "handled keeps_books (serve_directory L who call)"
  by (cases call)
     (auto simp: list_vehicles_handler_def list_drivers_handler_def list_managers_handler_def list_warehouses_handler_def
        get_vehicle_handler_def get_driver_handler_def get_manager_handler_def get_warehouse_handler_def
        create_vehicle_handler_def update_vehicle_handler_def delete_vehicle_handler_def list_vehicle_documents_handler_def
        create_vehicle_document_handler_def update_vehicle_document_handler_def create_driver_handler_def update_driver_handler_def
        delete_driver_handler_def create_manager_handler_def delete_manager_handler_def create_warehouse_handler_def
        update_warehouse_handler_def delete_warehouse_handler_def list_vehicle_documents_def create_vehicle_document_tx_def
        update_vehicle_document_tx_def create_driver_def create_driver_tx_def update_my_driver_status_handler_def
        update_my_driver_status_def update_driver_def create_manager_def create_manager_tx_def delete_manager_tx_def Let_def
        intro!: bk.handled_rules bk.framed_rules books_in_tx list_handler_books split: body.splits option.splits)
lemma account_books:
  "handled keeps_books (get_me_handler who)" "handled keeps_books (update_me_handler L who b)"
  "handled keeps_books (get_my_trips_handler who)" "handled keeps_books (list_notifications_handler who unread)"
  "handled keeps_books (mark_notification_read_handler who i)"
  unfolding get_me_handler_def update_me_handler_def get_my_trips_handler_def get_my_trips_def list_notifications_handler_def
    mark_notification_read_handler_def list_notifications_def mark_notification_read_def new_hash_def Let_def
  by (intro bk.handled_rules bk.framed_rules; simp)+

lemma inbox_books:
  "handled keeps_books (list_inbox_documents_handler client who params)"
  "handled keeps_books (download_inbox_document_handler client who i)"
  unfolding list_inbox_documents_handler_def download_inbox_document_handler_def
  by (intro bk.handled_with_claims; auto intro: bk.handled_answer split: option.split sum.split list.split stream_end.split)+

lemma trade_books: "handled keeps_books (serve sql who call)"
  using serve_sound by (auto simp: handled_def keeps_books_def keeps_sound_def)

lemma aside_books [simp]: "keeps_books e s (s\<lparr>tb_inbox := x\<rparr>)" "keeps_books e s (s\<lparr>tb_recommendations := y\<rparr>)"
  by (simp_all add: keeps_books_def sound_def consistent_def handovers_ok_def phase_of_def)

lemma store_books [simp]: "framed keeps_books (store_dispatch_recommended ok m)"
proof -
  have "framed keeps_books (receive_once i)" for i by (simp add: framed_def receive_once_def bk.frame_refl)
  moreover have "framed keeps_books (exec (\<lambda>s. s\<lparr>tb_recommendations := f s\<rparr>))" for f by (simp add: framed_def exec_def)
  ultimately show ?thesis
    unfolding store_dispatch_recommended_def store_recommendation_tx_def
    by (intro bk.framed_rules books_in_tx) simp_all
qed

lemma refresh_with_books: "handled keeps_books (refresh_with ok recommend c i q)"
proof -
  have get: "handled keeps_books (get_dispatch_recommendations_handler (Some c) i)"
    unfolding get_dispatch_recommendations_handler_def by (intro bk.handled_rules untouched_books) simp
  have "keeps_books e s (snd (case store_dispatch_recommended ok (Some ev) e s of (Inl x, s') \<Rightarrow> (f x, s')
      | (Inr y, s') \<Rightarrow> get_dispatch_recommendations_handler (Some c) i e s'))" for e s ev f
  proof -
    obtain r t where run: "store_dispatch_recommended ok (Some ev) e s = (r, t)" by fastforce
    then have "keeps_books e s t" by (rule framedD [OF store_books])
    moreover have "keeps_books e t (snd (get_dispatch_recommendations_handler (Some c) i e t))"
      using get by (simp add: handled_def)
    ultimately show ?thesis by (cases r) (auto simp: run intro: bk.frame_trans)
  qed
  then show ?thesis
    by (auto simp: refresh_with_def handled_def answer_def bk.frame_refl split: option.split sum.split)
qed

lemma refresh_books: "handled keeps_books (refresh_dispatch_recommendations_handler ok recommend who i)"
proof -
  have "refresh_dispatch_recommendations_handler ok recommend who i = with_claims unauthorized who (\<lambda>c.
      proceed (build_order_dispatch_request i (cl_id c) (cl_role c)) write_order_service_error (refresh_with ok recommend c i))"
    by (simp add: refresh_dispatch_recommendations_handler_def proceed_def)
  moreover have "framed keeps_books (build_order_dispatch_request i user role)" for user role
    unfolding build_order_dispatch_request_def build_dispatch_request_def
    by (intro bk.framed_rules) (simp_all add: untouched_books split: option.split)
  ultimately show ?thesis by (simp only:) (intro bk.handled_rules refresh_with_books)
qed

lemma delete_me_books: "web_handled (on_world keeps_books) (delete_me L rq token who)"
proof (cases who)
  case None
  then show ?thesis by (simp add: delete_me_def bk.world.web_answer)
next
  case (Some c)
  have tokens: "web_handled (on_world untouched) (forget_tokens L rq token)"
    unfolding forget_tokens_def by (intro un.world.web_rules un.framed_redis) simp_all
  have locks: "keeps_books e (s\<lparr>locks := l\<rparr>) t \<longleftrightarrow> keeps_books e s t" "keeps_books e s (rollback s t)" for e s l t
    by (simp_all add: keeps_books_def sound_def consistent_def handovers_ok_def phase_of_def rollback_def)
  show ?thesis
    unfolding web_handled_def on_world_def
  proof (intro allI)
    fix e and w :: world
    obtain r s' where run: "delete_user (cl_id c) e ((wd_db w)\<lparr>locks := []\<rparr>) = (r, s')" by fastforce
    then have "keeps_books e ((wd_db w)\<lparr>locks := []\<rparr>) s'" by (rule framedD [rotated]) simp
    then have deleted: "keeps_books e (wd_db w) s'" by (simp add: locks)
    obtain a k w' where out: "forget_tokens L rq token e (w\<lparr>wd_db := s'\<rparr>) = ((a, k), w')" by (metis prod.exhaust)
    from tokens [unfolded web_handled_def on_world_def, rule_format, of e "w\<lparr>wd_db := s'\<rparr>"]
    have "keeps_books e s' (wd_db w')" using untouched_sound [of e s' "wd_db w'"] by (simp add: out keeps_books_def keeps_sound_def)
    with deleted show "keeps_books e (wd_db w) (wd_db (snd (delete_me L rq token who e w)))"
      by (cases r) (auto simp: delete_me_def Some run out locks intro: bk.frame_trans)
  qed
qed

lemma auth_books:
  "web_handled (on_world keeps_books) (auth_login L b)" "web_handled (on_world keeps_books) (auth_register L b')"
  "web_handled (on_world keeps_books) (auth_refresh L rq)" "web_handled (on_world keeps_books) (auth_logout L rq token)"
  unfolding auth_login_def auth_register_def auth_refresh_def auth_logout_def Let_def
  by (intro bk.world.web_rules bk.framed_redis bk.framed_on_db bk.web_issue_tokens; simp)+

lemma validate_books: "framed (on_world keeps_books) (validate_access_token L token)"
proof -
  show ?thesis
    unfolding validate_access_token_def by (intro bk.world.framed_rules bk.framed_redis bk.framed_on_db) simp_all
qed

lemma serve_api_books: "web_handled (on_world keeps_books) (serve_api sql L recommend rq call)"
proof -
  have inner: "web_handled (on_world keeps_books) (serve_private sql L recommend rq call c token)" for c token
    unfolding serve_private_def
    by (cases call) (auto intro!: bk.web_of_handler account_books trade_books directory_books refresh_books inbox_books auth_books delete_me_books
        bk.world.web_answer)
  have checked: "web_handled (on_world keeps_books) (auth_middleware L rq (serve_private sql L recommend rq call))"
    by (rule bk.world.web_middleware [OF validate_books inner])
  show ?thesis
    unfolding serve_api_def by (cases call) (use checked in \<open>simp_all add: auth_books\<close>)
qed

lemma serve_requests_books: "keeps_books e (wd_db w) (wd_db (serve_requests sql L recommend calls e w))"
  using bk.world.web_requests [OF serve_api_books] by (simp add: on_world_def)

text \<open>C9: The whole API keeps the books.  Whatever requests arrive in whatever order - logins, registrations, forged or
  expired tokens, changes of the directory, deleted accounts, commands on orders and trips - a consistent
  database stays consistent and every order only moves along its lifecycle.\<close>

theorem api_keeps_consistent:
  assumes "sound (wd_db w)"
  shows "sound (wd_db (serve_requests sql L recommend calls e w)) \<and>
    moves (phase_of (wd_db w) i) (phase_of (wd_db (serve_requests sql L recommend calls e w)) i)"
  using serve_requests_books assms unfolding keeps_books_def by blast

definition sample_request :: "string \<Rightarrow> request" where
  "sample_request token = \<lparr>rq_authorization = (if token = [] then [] else ''Bearer '' @ token), rq_cookie = Some ''00''\<rparr>"

definition driver_login :: "login_request body" where
  "driver_login = Decoded \<lparr>lg_email = ''driver'', lg_password = ''p''\<rparr>"

lemma api_keeps_consistent_witness:
  "sound (wd_db (serve_requests sample_sql sample_library None
     [(sample_request [], PostLogin driver_login), (sample_request ''signed'', Trade (PostAccept 50)),
      (sample_request ''forged'', Directory (DeleteDriver ''d1'')), (sample_request ''signed'', DeleteMe)]
     sample_env (sample_world offered_db)))"
  by (rule conjunct1 [OF api_keeps_consistent]) code_simp

end
