(* ===== verification/Session_Guarantees.thy ===== *)
theory Session_Guarantees
  imports Api_Guarantees
begin

text \<open>
  What a session is worth: which access tokens open the API, that a refresh token works once, and that
  dismissing a manager ends his sessions at once.
\<close>

section \<open>The check of an access token\<close>

text \<open>What the middleware demands of a token: a valid signature, an entry in Redis that has not expired, and an account
  that is enabled and still has the role of the token.\<close>

definition token_good :: "library \<Rightarrow> env \<Rightarrow> world \<Rightarrow> string \<Rightarrow> claims \<Rightarrow> bool" where
  "token_good L e w token c \<longleftrightarrow>
     parse_token L token (clock e (ticks (wd_db w))) = Some c \<and> \<not> redis_fails L (access_key token) \<and>
     live_value (clock e (Suc (ticks (wd_db w)))) (wd_redis w (access_key token)) \<noteq> None \<and>
     cl_token_id c \<noteq> [] \<and> cl_id c \<noteq> uuid_nil \<and>
     (\<exists>u. find (\<lambda>u. u_id u = cl_id c) (tb_users (wd_db w)) = Some u \<and> u_role u = cl_role c \<and> u_role u \<noteq> ''disabled'')"

lemmas token_steps = validate_access_token_def redis_get_def redis_command_def on_db_def time_now_def bind_def seq_def fail_if_def
  throw_def return_def get_one_def

lemma validate_result:
  "fst (validate_access_token L token e w) = Inr c \<longleftrightarrow> token_good L e w token c"
  by (auto simp: token_steps token_good_def split: option.splits prod.splits)

lemma validate_redis: "wd_redis (snd (validate_access_token L token e w)) = wd_redis w"
  by (auto simp: token_steps split: option.splits prod.splits)



section \<open>A refresh token works once\<close>

text \<open>The key of the refresh token \<open>t\<close> is gone, and the random source has been read at least \<open>n\<close> times.\<close>

definition spent :: "string \<Rightarrow> nat \<Rightarrow> world \<Rightarrow> bool" where
  "spent t n w \<longleftrightarrow> wd_redis w (refresh_key t) = None \<and> n \<le> wd_draws w"

text \<open>The random source gives \<open>t\<close> no more once it was read \<open>n\<close> times.\<close>

definition never_again :: "library \<Rightarrow> string \<Rightarrow> nat \<Rightarrow> bool" where
  "never_again L t n \<longleftrightarrow> (\<forall>k bytes. n \<le> k \<longrightarrow> random_bytes L k = Some bytes \<longrightarrow> hex_encode bytes \<noteq> t)"

definition stays_spent :: "string \<Rightarrow> nat \<Rightarrow> env \<Rightarrow> world \<Rightarrow> world \<Rightarrow> bool" where
  "stays_spent t n e w w' \<longleftrightarrow> (spent t n w \<longrightarrow> spent t n w')"

interpretation sp: web_frame "stays_spent t n" for t n
  by unfold_locales (auto simp: stays_spent_def)

lemma keys_differ [simp]: "refresh_key t \<noteq> access_key a" "access_key a \<noteq> refresh_key t"
  by (simp_all add: refresh_key_def access_key_def)

lemma refresh_key_eq [simp]: "refresh_key t = refresh_key r \<longleftrightarrow> t = r"
  by (simp add: refresh_key_def)

lemma on_db_spent: "framed (stays_spent t n) (on_db m)"
  by (simp add: framed_def stays_spent_def spent_def on_db_def split: prod.split)

lemma of_handler_spent: "web_handled (stays_spent t n) (of_handler h)"
  by (simp add: web_handled_def stays_spent_def spent_def of_handler_def split: prod.split)

lemma redis_spent:
  "framed (stays_spent t n) (redis_command L key)" "framed (stays_spent t n) (redis_get L key)"
  "framed (stays_spent t n) (redis_del L key)"
  "key \<noteq> refresh_key t \<Longrightarrow> framed (stays_spent t n) (redis_set L key v ttl)"
  by (auto simp: framed_def stays_spent_def spent_def redis_command_def redis_get_def redis_del_def redis_set_def on_db_def
      time_now_def seq_def bind_def fail_if_def throw_def return_def)

lemma generate_jwt_spent: "framed (stays_spent t n) (generate_jwt L u ttl)"
  unfolding generate_jwt_def by (intro sp.framed_rules on_db_spent)

text \<open>The new refresh token is another one.\<close>

lemma issue_tokens_spent:
  assumes "never_again L t n"
  shows "web_handled (stays_spent t n) (issue_tokens L u)"
proof -
  have rest: "web_handled (stays_spent t n)
     (web_proceed (redis_set L (access_key access) ''valid'' ttl) failed (\<lambda>_.
      web_proceed (redis_set L (refresh_key r) v ttl') failed (\<lambda>_ e w. (x, w))))" if "r \<noteq> t" for access r v x ttl ttl'
    using that by (intro sp.web_rules redis_spent) simp_all
  have drawn: "web_handled (stays_spent t n) (web_proceed (generate_refresh_token L) failed k)"
    if "\<And>r. r \<noteq> t \<Longrightarrow> web_handled (stays_spent t n) (k r)" for k
    unfolding web_handled_def
  proof (intro allI)
    fix e and w :: world
    let ?w = "w\<lparr>wd_draws := Suc (wd_draws w)\<rparr>"
    have step: "stays_spent t n e w ?w" by (simp add: stays_spent_def spent_def)
    show "stays_spent t n e w (snd (web_proceed (generate_refresh_token L) failed k e w))"
    proof (cases "n \<le> wd_draws w")
      case True
      with assms have "random_bytes L (wd_draws w) = Some bytes \<Longrightarrow> hex_encode bytes \<noteq> t" for bytes
        by (simp add: never_again_def)
      with that have "random_bytes L (wd_draws w) = Some bytes \<Longrightarrow> stays_spent t n e ?w (snd (k (hex_encode bytes) e ?w))" for bytes
        by (simp add: web_handled_def)
      with step show ?thesis
        by (auto simp: web_proceed_def generate_refresh_token_def Let_def intro: sp.frame_trans split: option.split)
    qed (simp add: stays_spent_def spent_def)
  qed
  show ?thesis unfolding issue_tokens_def by (intro sp.web_proceed generate_jwt_spent drawn rest)
qed

lemma serve_api_spent:
  assumes "never_again L t n"
  shows "web_handled (stays_spent t n) (serve_api sql L recommend rq call)"
proof -
  note tokens = issue_tokens_spent [OF assms]
  have auth: "web_handled (stays_spent t n) (auth_login L b)" "web_handled (stays_spent t n) (auth_register L b')"
    "web_handled (stays_spent t n) (auth_refresh L rq)" "web_handled (stays_spent t n) (auth_logout L rq token)" for b b' token
    unfolding auth_login_def auth_register_def auth_refresh_def auth_logout_def Let_def
    by (intro sp.web_rules redis_spent on_db_spent tokens)+
  have forget: "web_handled (stays_spent t n) (forget_tokens L rq token)" for token
    unfolding forget_tokens_def by (intro sp.web_rules redis_spent)
  have delete: "web_handled (stays_spent t n) (delete_me L rq token who)" for token who
  proof (cases who)
    case (Some c)
    have tokens_gone: "spent t n w'" if "forget_tokens L rq token e (w\<lparr>wd_db := s\<rparr>) = (a, w')" "spent t n w"
      for e and w :: world and s a w'
      using that forget [of token, unfolded web_handled_def stays_spent_def, rule_format, of "w\<lparr>wd_db := s\<rparr>" e]
      by (simp add: spent_def)
    have same: "spent t n (w\<lparr>wd_db := s\<rparr>) \<longleftrightarrow> spent t n w" for w :: world and s by (simp add: spent_def)
    then show ?thesis
      unfolding web_handled_def stays_spent_def
      by (auto simp: Some delete_me_def same dest: tokens_gone split: prod.split sum.split)
  qed (simp add: delete_me_def sp.web_answer)
  have inner: "web_handled (stays_spent t n) (serve_private sql L recommend rq call c token)" for c token
    unfolding serve_private_def by (cases call) (simp_all add: of_handler_spent auth delete sp.web_answer)
  have "framed (stays_spent t n) (validate_access_token L token)" for token
    unfolding validate_access_token_def by (intro sp.framed_rules redis_spent on_db_spent)
  with inner have checked: "web_handled (stays_spent t n) (auth_middleware L rq (serve_private sql L recommend rq call))"
    by (intro sp.web_middleware)
  show ?thesis
    unfolding serve_api_def by (cases call) (use checked in \<open>simp_all add: auth\<close>)
qed

lemma web_ok:
  assumes "fst (web_proceed m fail k e w) = (r, c)" and "\<And>er. r \<noteq> fail er" and "r \<noteq> Aborted"
  obtains x w' where "m e w = (Inr x, w')" and "web_proceed m fail k e w = k x e w'"
proof -
  obtain v w' where run: "m e w = (v, w')" by fastforce
  show ?thesis
  proof (cases v)
    case (Inl er)
    with assms run show ?thesis by (auto simp: web_proceed_def split: if_splits)
  next
    case (Inr x)
    with run that show ?thesis by (simp add: web_proceed_def)
  qed
qed

lemma redis_get_draws: "redis_get L key e w = (Inr v, w') \<Longrightarrow> wd_draws w' = wd_draws w"
  by (auto simp: redis_get_def redis_command_def on_db_def time_now_def seq_def bind_def fail_if_def throw_def return_def split: if_splits)

lemma on_db_draws: "on_db m e w = (Inr v, w') \<Longrightarrow> wd_draws w' = wd_draws w"
  by (auto simp: on_db_def split: prod.splits)

text \<open>A handler that answers \<open>r\<close> has spent the refresh token \<open>t\<close>.\<close>

definition spends :: "library \<Rightarrow> string \<Rightarrow> nat \<Rightarrow> reply \<times> cookie \<Rightarrow> web \<Rightarrow> bool" where
  "spends L t n r h \<longleftrightarrow> (\<forall>e w. wd_draws w = n \<longrightarrow> fst (h e w) = r \<longrightarrow>
     \<not> redis_fails L (refresh_key t) \<and> spent t n (snd (h e w)))"

lemma spends_answer: "fst r \<noteq> x \<Longrightarrow> spends L t n r (web_answer x)"
  by (auto simp: spends_def web_answer_def)

lemma spends_proceed:
  assumes keeps: "\<And>e w v w'. m e w = (Inr v, w') \<Longrightarrow> wd_draws w' = wd_draws w"
    and "\<And>er. fst r \<noteq> fail er" and "fst r \<noteq> Aborted" and rest: "\<And>v. spends L t n r (k v)"
  shows "spends L t n r (web_proceed m fail k)"
  unfolding spends_def
proof (intro allI impI)
  fix e and w :: world
  assume n: "wd_draws w = n" and "fst (web_proceed m fail k e w) = r"
  moreover obtain a c where "r = (a, c)" by (cases r)
  ultimately have out: "fst (web_proceed m fail k e w) = (a, c)" and "\<And>er. a \<noteq> fail er" "a \<noteq> Aborted"
    using assms(2,3) by simp_all
  then obtain v w' where run: "m e w = (Inr v, w')" "web_proceed m fail k e w = k v e w'" by (rule web_ok)
  from keeps [OF run(1)] n rest [of v] run(2) out \<open>r = (a, c)\<close>
  show "\<not> redis_fails L (refresh_key t) \<and> spent t n (snd (web_proceed m fail k e w))"
    by (simp add: spends_def)
qed

lemma spends_del:
  assumes "\<And>er. fst r \<noteq> fail er" and "fst r \<noteq> Aborted" and "\<And>v. web_handled (stays_spent t n) (k v)"
  shows "spends L t n r (web_proceed (redis_del L (refresh_key t)) fail k)"
  unfolding spends_def
proof (intro allI impI)
  fix e and w :: world
  assume n: "wd_draws w = n" and "fst (web_proceed (redis_del L (refresh_key t)) fail k e w) = r"
  with assms(1) [of "External ''redis''"] have "\<not> redis_fails L (refresh_key t)"
    by (auto simp: web_proceed_def redis_del_def redis_command_def seq_def bind_def fail_if_def throw_def)
  moreover from this n have "web_proceed (redis_del L (refresh_key t)) fail k e w = k () e (w\<lparr>wd_redis := (wd_redis w)(refresh_key t := None)\<rparr>)"
    by (simp add: web_proceed_def redis_del_def redis_command_def seq_def bind_def fail_if_def return_def)
  moreover have "spent t n (w\<lparr>wd_redis := (wd_redis w)(refresh_key t := None)\<rparr>)" using n by (simp add: spent_def)
  ultimately show "\<not> redis_fails L (refresh_key t) \<and> spent t n (snd (web_proceed (redis_del L (refresh_key t)) fail k e w))"
    using assms(3) [of "()"] by (simp add: web_handled_def stays_spent_def)
qed

lemma refused [simp]:
  "failed er \<noteq> Reply 200 k d" "reply_error 401 m \<noteq> Reply 200 k d" "Reply 200 k d \<noteq> failed er" "Reply 200 k d \<noteq> reply_error 401 m"
  by (simp_all add: failed_def internal_error_def reply_error_def)

lemmas spends_get = spends_proceed [where m = "redis_get L key" for L key, OF redis_get_draws]
lemmas spends_read = spends_proceed [where m = "on_db m" for m, OF on_db_draws]

lemma refresh_spends:
  assumes "never_again L t n" and "rq_cookie rq = Some t"
  shows "spends L t n (Reply 200 m d, c) (auth_refresh L rq)"
  using assms(2) unfolding auth_refresh_def with_cookie_def
  by (auto intro!: spends_get spends_read spends_answer spends_del
      issue_tokens_spent [OF assms(1)] split: option.split)

lemma logout_spends:
  assumes "rq_cookie rq = Some t"
  shows "spends L t n (Reply 200 m d, c) (auth_logout L rq token)"
  using assms unfolding auth_logout_def with_cookie_def
  by (auto intro!: spends_answer spends_del sp.web_rules redis_spent split: option.split)

text \<open>C12: A refresh token works once.  After a rotation that succeeded, or a logout, with the refresh token \<open>t\<close>, whatever requests
  follow, every later rotation that presents \<open>t\<close> is refused with 401, provided that the random
  source does not produce \<open>t\<close> again and requests run one after another.\<close>

theorem refresh_token_once:
  assumes "never_again L t (wd_draws w)"
    and "rq_cookie rq = Some t"
    and "fst (auth_refresh L rq e w) = (Reply 200 m d, c) \<and> w' = snd (auth_refresh L rq e w) \<or>
      fst (auth_logout L rq token e w) = (Reply 200 m d, c) \<and> w' = snd (auth_logout L rq token e w)"
    and "rq_cookie again = Some t"
  shows "fst (auth_refresh L again e (serve_requests sql L recommend calls e w')) = (unauthorized, KeepCookie)"
proof -
  from assms(3) refresh_spends [OF assms(1,2)] logout_spends [OF assms(2)]
  have "\<not> redis_fails L (refresh_key t)" and "spent t (wd_draws w) w'" by (auto simp: spends_def)
  moreover from this(2) sp.web_requests [OF serve_api_spent [OF assms(1)]]
  have "spent t (wd_draws w) (serve_requests sql L recommend calls e w')" by (simp add: stays_spent_def)
  ultimately show ?thesis
    using assms(4)
    by (simp add: auth_refresh_def with_cookie_def web_answer_def web_proceed_def redis_get_def redis_command_def on_db_def time_now_def
        seq_def bind_def fail_if_def return_def live_value_def spent_def)
qed

definition rotating_world :: world where
  "rotating_world = (sample_world offered_db)\<lparr>wd_redis := (\<lambda>k. None)(refresh_key ''old'' := Some (uuid_text 4, None))\<rparr>"

lemma sample_draws: "never_again sample_library ''old'' n"
  by (simp add: never_again_def sample_library_def hex_encode_def)

lemma sample_claims:
  "u_id u = 4 \<Longrightarrow> u_email u = ''driver'' \<Longrightarrow> u_role u = ''driver'' \<Longrightarrow> token_claims sample_library u now = sample_token_claims"
  by (simp add: token_claims_def sample_token_claims_def sample_library_def)

lemma sample_issues:
  assumes "u_id u = 4" "u_email u = ''driver''" "u_role u = ''driver''"
  shows "fst (issue_tokens sample_library u e w) = (Reply 200 ''auth'' (SessionData ''signed'' 86400 u), SetCookie (hex_encode [wd_draws w]))"
proof -
  have lib: "jwt_key sample_library \<noteq> []" "sign_token sample_library sample_token_claims i x = Some ''signed''"
    "random_bytes sample_library n = Some [n]" "\<not> redis_fails sample_library k" for i x n k
    by (simp_all add: sample_library_def)
  show ?thesis
    by (simp add: issue_tokens_def web_proceed_def generate_jwt_def sample_claims [OF assms] generate_refresh_token_def Let_def lib
        redis_set_def redis_command_def on_db_def time_now_def seq_def bind_def fail_if_def return_def)
qed
lemma sample_rotation:
  "fst (auth_refresh sample_library ((sample_request [])\<lparr>rq_cookie := Some ''old''\<rparr>) sample_env rotating_world) =
     (Reply 200 ''auth'' (SessionData ''signed'' 86400 (sample_user 4 ''driver'' ''driver'')), SetCookie (hex_encode [0]))"
proof -
  let ?u = "sample_user 4 ''driver'' ''driver''"
  have u: "find (\<lambda>u. u_id u = 4) (tb_users offered_db) = Some ?u" by code_simp
  have sample: "u_id ?u = 4" "u_email ?u = ''driver''" "u_role ?u = ''driver''" by code_simp+
  have lib: "parse_uuid sample_library (uuid_text 4) = Some 4" "\<not> redis_fails sample_library k" for k
    by (simp_all add: sample_library_def)
  show ?thesis
    by (simp add: auth_refresh_def with_cookie_def web_proceed_def redis_get_def redis_del_def redis_command_def on_db_def time_now_def lib u get_one_def
       seq_def bind_def fail_if_def return_def live_value_def rotating_world_def sample_world_def sample sample_issues [OF sample] uuid_nil_def)
qed

lemma refresh_token_once_witness:
  "fst (auth_refresh sample_library ((sample_request [])\<lparr>rq_cookie := Some ''old''\<rparr>) sample_env
     (serve_requests sample_sql sample_library None [(sample_request [], PostLogin driver_login)] sample_env
       (snd (auth_refresh sample_library ((sample_request [])\<lparr>rq_cookie := Some ''old''\<rparr>) sample_env rotating_world)))) =
   (unauthorized, KeepCookie)"
proof -
  let ?rq = "(sample_request [])\<lparr>rq_cookie := Some ''old''\<rparr>"
  have cookie: "rq_cookie ?rq = Some ''old''" by simp
  show ?thesis
    by (rule refresh_token_once [OF sample_draws cookie disjI1 [OF conjI [OF sample_rotation refl]] cookie])
qed

section \<open>Login\<close>

lemma issue_tokens_ok:
  fixes w w' :: world
  defines "n \<equiv> ticks (wd_db w)"
  assumes "issue_tokens L u e w = ((Reply 200 ''auth'' (SessionData token life u'), c), w')"
  shows "u' = u \<and> wd_db w' = (wd_db w)\<lparr>ticks := Suc (Suc (Suc (Suc (Suc n))))\<rparr> \<and> \<not> redis_fails L (access_key token) \<and>
    sign_token L (token_claims L u (clock e n)) (clock e (Suc (Suc n))) (clock e (Suc n) + access_ttl L) = Some token \<and>
    wd_redis w' (access_key token) = Some (''valid'', if 0 < access_ttl L then Some (clock e (Suc (Suc (Suc n))) + access_ttl L) else None)"
proof -
  let ?n = "ticks (wd_db w)"
  let ?jwt = "sign_token L (token_claims L u (clock e ?n)) (clock e (Suc (Suc ?n))) (clock e (Suc ?n) + access_ttl L)"
  have jwt: "generate_jwt L u (access_ttl L) e w = (case ?jwt of
      None \<Rightarrow> (Inl (External ''jwt''), w\<lparr>wd_db := (wd_db w)\<lparr>ticks := Suc (Suc (Suc ?n))\<rparr>\<rparr>)
    | Some t \<Rightarrow> (Inr t, w\<lparr>wd_db := (wd_db w)\<lparr>ticks := Suc (Suc (Suc ?n))\<rparr>\<rparr>))" if "jwt_key L \<noteq> []"
    using that by (simp add: generate_jwt_def on_db_def time_now_def seq_def bind_def fail_if_def throw_def return_def split: option.split)
  have key: "jwt_key L \<noteq> []"
    using assms by (auto simp: issue_tokens_def web_proceed_def generate_jwt_def seq_def bind_def fail_if_def throw_def return_def)
  obtain t where t: "?jwt = Some t"
    using assms by (cases ?jwt) (simp_all add: issue_tokens_def web_proceed_def jwt [OF key])
  obtain bytes where bytes: "random_bytes L (wd_draws w) = Some bytes"
    using assms by (cases "random_bytes L (wd_draws w)")
      (simp_all add: issue_tokens_def web_proceed_def jwt [OF key] t generate_refresh_token_def Let_def)
  have redis: "\<not> redis_fails L (access_key t)" "\<not> redis_fails L (refresh_key (hex_encode bytes))"
    using assms by (auto simp: issue_tokens_def web_proceed_def jwt [OF key] t generate_refresh_token_def bytes Let_def
        redis_set_def redis_command_def on_db_def time_now_def seq_def bind_def fail_if_def throw_def return_def split: if_splits)
  have "wd_redis w' = (wd_redis w)(access_key t := Some (''valid'', if 0 < access_ttl L then Some (clock e (Suc (Suc (Suc ?n))) + access_ttl L) else None),
      refresh_key (hex_encode bytes) := Some (uuid_text (u_id u), if 0 < refresh_ttl L then Some (clock e (Suc (Suc (Suc (Suc ?n)))) + refresh_ttl L) else None))
    \<and> wd_db w' = (wd_db w)\<lparr>ticks := Suc (Suc (Suc (Suc (Suc ?n))))\<rparr> \<and> u' = u \<and> token = t"
    using assms(2)
    by (simp add: issue_tokens_def web_proceed_def jwt [OF key] t generate_refresh_token_def bytes Let_def redis
        redis_set_def redis_command_def on_db_def time_now_def seq_def bind_def fail_if_def return_def)
      (elim conjE, hypsubst, simp)
  with redis t show ?thesis by (simp add: n_def)
qed

lemma find_overwrite:
  "p r \<Longrightarrow> list_ex p xs \<Longrightarrow> find p (overwrite p r xs) = Some r"
  by (induction xs) (auto simp: overwrite_def)

lemma auth_login_ok:
  fixes w :: world
  assumes "auth_login L (Decoded req) e w = ((Reply 200 ''auth'' (SessionData token life u), c), w')"
  obtains u0 w1 where "find (\<lambda>u. u_email u = lg_email req) (tb_users (wd_db w)) = Some u0" and "u_role u0 \<noteq> ''disabled''"
    and "u = u0\<lparr>u_last_login_at := Some (clock e (ticks (wd_db w))), u_updated_at := clock e (ticks (wd_db w))\<rparr>"
    and "ticks (wd_db w1) = Suc (ticks (wd_db w))"
    and "tb_users (wd_db w1) = overwrite (\<lambda>x. u_id x = u_id u) (stored users_t e u) (tb_users (wd_db w))"
    and "issue_tokens L u e w1 = ((Reply 200 ''auth'' (SessionData token life u), c), w')"
proof -
  let ?now = "clock e (ticks (wd_db w))"
  obtain u0 where u0: "find (\<lambda>u. u_email u = lg_email req) (tb_users (wd_db w)) = Some u0"
    using assms by (cases "find (\<lambda>u. u_email u = lg_email req) (tb_users (wd_db w))")
      (simp_all add: auth_login_def web_body_def web_proceed_def on_db_def get_one_def reply_error_def)
  let ?u = "u0\<lparr>u_last_login_at := Some ?now, u_updated_at := ?now\<rparr>"
  let ?s = "(wd_db w)\<lparr>ticks := Suc (ticks (wd_db w))\<rparr>"
  have ok: "u_role u0 \<noteq> ''disabled''" "password_matches L (u_password_hash u0) (lg_password req)"
    using assms u0 by (auto simp: auth_login_def web_body_def web_proceed_def on_db_def get_one_def reply_error_def web_answer_def split: if_splits)
  obtain v s' where run: "update users_t (\<lambda>x. u_id x = u_id u0) ?u e ?s = (v, s')" by fastforce
  have out: "auth_login L (Decoded req) e w = (case v of Inl er \<Rightarrow> ((if er = GoPanic then Aborted else failed er, KeepCookie), w\<lparr>wd_db := s'\<rparr>)
     | Inr _ \<Rightarrow> issue_tokens L ?u e (w\<lparr>wd_db := s'\<rparr>))"
    using u0 ok run by (simp add: auth_login_def web_body_def web_proceed_def on_db_def get_one_def time_now_def Let_def split: sum.split)
  then have v: "v = Inr ()" using assms by (cases v) (auto simp: failed_def internal_error_def reply_error_def split: if_splits)
  have "u0 \<in> set (tb_users (wd_db w))" using u0 by (auto simp: find_Some_iff)
  with run v have s': "s' = tb_users_update (overwrite (\<lambda>x. u_id x = u_id u0) (stored users_t e ?u)) ?s"
    by (auto simp: update_def list_ex_iff split: option.splits if_splits)
  from assms out v have tokens: "issue_tokens L ?u e (w\<lparr>wd_db := s'\<rparr>) = ((Reply 200 ''auth'' (SessionData token life u), c), w')" by simp
  then have "u = ?u" using issue_tokens_ok by blast
  with tokens s' ok u0 that [of u0 "w\<lparr>wd_db := s'\<rparr>"] show ?thesis by simp
qed

lemma login_ticks:
  assumes "auth_login L (Decoded req) e w = ((Reply 200 ''auth'' (SessionData token life u), c), w')"
  shows "ticks (wd_db w') = ticks (wd_db w) + 6"
  by (rule auth_login_ok [OF assms]) (use issue_tokens_ok in fastforce)


definition logged_in_driver :: user where
  "logged_in_driver = (sample_user 4 ''driver'' ''driver'')\<lparr>u_last_login_at := Some (clock sample_env 0), u_updated_at := clock sample_env 0\<rparr>"

lemma sample_login:
  "auth_login sample_library driver_login sample_env (sample_world offered_db) =
     ((Reply 200 ''auth'' (SessionData ''signed'' 86400 logged_in_driver), SetCookie (hex_encode [0])),
      snd (auth_login sample_library driver_login sample_env (sample_world offered_db)))"
proof -
  have u: "find (\<lambda>u. u_email u = ''driver'') (tb_users offered_db) = Some (sample_user 4 ''driver'' ''driver'')" "ticks offered_db = 0" by code_simp+
  have update: "fst (update users_t (\<lambda>x. u_id x = u_id (sample_user 4 ''driver'' ''driver'')) logged_in_driver sample_env (offered_db\<lparr>ticks := Suc 0\<rparr>)) = Inr ()"
    by code_simp
  then obtain s' where ran: "update users_t (\<lambda>x. u_id x = u_id (sample_user 4 ''driver'' ''driver'')) logged_in_driver sample_env (offered_db\<lparr>ticks := Suc 0\<rparr>) = (Inr (), s')"
    by (metis prod.collapse)
  have sample: "u_role (sample_user 4 ''driver'' ''driver'') \<noteq> ''disabled''" "u_id logged_in_driver = 4" "u_email logged_in_driver = ''driver''"
    "u_role logged_in_driver = ''driver''" by code_simp+
  have lib: "password_matches sample_library h ''p''" for h by (simp add: sample_library_def)
  have "fst (auth_login sample_library driver_login sample_env (sample_world offered_db)) =
      (Reply 200 ''auth'' (SessionData ''signed'' 86400 logged_in_driver), SetCookie (hex_encode [0]))"
    using ran
    by (simp add: auth_login_def driver_login_def web_body_def web_proceed_def on_db_def get_one_def time_now_def u lib sample(1) Let_def
        sample_world_def logged_in_driver_def [symmetric] sample_issues [OF sample(2,3,4)])
  then show ?thesis by (metis prod.collapse)
qed


section \<open>Dismissing a manager\<close>

definition locked_out :: "uuid \<Rightarrow> db \<Rightarrow> bool" where
  "locked_out i s \<longleftrightarrow> (\<forall>u \<in> set (tb_users s). u_id u = i \<longrightarrow> u_role u = ''disabled'')"

lemma read_error_refuses: "read_error finds er \<noteq> Reply 200 k d"
  by (cases "(finds, er)" rule: read_error.cases) (auto simp: reply_error_def internal_error_def forbidden_reply_def not_found_reply_def)

lemma delete_manager_locks_out:
  assumes "delete_manager_handler who slug e s = (Reply 200 k d, s')"
    and "find (\<lambda>m. m_slug m = slug) (tb_managers s) = Some m"
  shows "locked_out (m_user_id m) s'"
proof -
  let ?s = "s\<lparr>locks := []\<rparr>"
  have "in_tx (delete_manager_tx slug) e s = (Inr (Inr ()), s')"
    using assms(1) read_error_refuses
    by (auto simp: delete_manager_handler_def admin_only_def with_claims_def answer_def respond_def reply_error_def forbidden_reply_def
        split: option.splits if_splits prod.splits sum.splits)
  then have ran: "delete_manager_tx slug e ?s = (Inr (Inr ()), s')"
    by (auto simp: in_tx_def split: prod.splits sum.splits)
  obtain u where u: "find (\<lambda>u. u_id u = m_user_id m) (tb_users s) = Some u"
    using ran assms(2) by (cases "find (\<lambda>u. u_id u = m_user_id m) (tb_users s)")
      (simp_all add: delete_manager_tx_def bind_def get_one_def get_one_locked_def)
  then have "u_id u = m_user_id m" by (auto simp: find_Some_iff)
  with ran assms(2) u show ?thesis
    by (auto simp: delete_manager_tx_def bind_def get_one_def get_one_locked_def return_def time_now_def seq_def delete_rows_def
        drop_managers_def update_def list_ex_iff locked_out_def set_overwrite users_t_def
        split: option.splits if_splits sum.splits prod.splits)
qed

lemma issue_tokens_user:
  "issue_tokens L u e w = ((Reply 200 ''auth'' (SessionData token life u'), c), w') \<Longrightarrow> u' = u"
  using issue_tokens_ok by blast

lemma auth_refresh_ok:
  assumes "auth_refresh L rq e w = ((Reply 200 ''auth'' (SessionData token life u), c), w')"
  shows "u \<in> set (tb_users (wd_db w)) \<and> u_role u \<noteq> ''disabled''"
  using assms
  by (auto simp: auth_refresh_def with_cookie_def web_answer_def web_proceed_def redis_get_def redis_del_def redis_command_def on_db_def time_now_def
      get_one_def seq_def bind_def fail_if_def throw_def return_def find_Some_iff
      split: option.splits if_splits sum.splits prod.splits dest!: issue_tokens_user)

text \<open>C14: Dismissing a manager ends his sessions at once: after DELETE /managers/{slug} has succeeded no access token with his
  user id passes the middleware, and neither login nor rotation issues a new one, although Redis still
  knows his tokens.\<close>

theorem dismissed_manager_locked_out:
  fixes w :: world
  assumes "delete_manager_handler who slug e (wd_db w) = (Reply 200 k d, s')"
    and "find (\<lambda>m. m_slug m = slug) (tb_managers (wd_db w)) = Some m"
    and "w' = w\<lparr>wd_db := s'\<rparr>"
  shows "(token_good L e w' token c \<longrightarrow> cl_id c \<noteq> m_user_id m) \<and>
    (fst (auth_login L (Decoded req) e w') = (Reply 200 ''auth'' (SessionData access life u), sent) \<longrightarrow> u_id u \<noteq> m_user_id m) \<and>
    (fst (auth_refresh L rq e w') = (Reply 200 ''auth'' (SessionData access' life' v), sent') \<longrightarrow> u_id v \<noteq> m_user_id m)"
proof (intro conjI impI)
  have out: "locked_out (m_user_id m) (wd_db w')" using delete_manager_locks_out [OF assms(1,2)] assms(3) by simp
  then have enabled: "u_id x \<noteq> m_user_id m" if "x \<in> set (tb_users (wd_db w'))" "u_role x \<noteq> ''disabled''" for x
    using that by (auto simp: locked_out_def)
  show "cl_id c \<noteq> m_user_id m" if "token_good L e w' token c"
    using that enabled by (auto simp: token_good_def find_Some_iff)
  show "u_id u \<noteq> m_user_id m" if "fst (auth_login L (Decoded req) e w') = (Reply 200 ''auth'' (SessionData access life u), sent)"
  proof -
    have "auth_login L (Decoded req) e w' = ((Reply 200 ''auth'' (SessionData access life u), sent), snd (auth_login L (Decoded req) e w'))"
      using that by (metis prod.collapse)
    then show ?thesis by (rule auth_login_ok) (use enabled in \<open>auto simp: find_Some_iff\<close>)
  qed
  show "u_id v \<noteq> m_user_id m" if "fst (auth_refresh L rq e w') = (Reply 200 ''auth'' (SessionData access' life' v), sent')"
  proof -
    have "auth_refresh L rq e w' = ((Reply 200 ''auth'' (SessionData access' life' v), sent'), snd (auth_refresh L rq e w'))"
      using that by (metis prod.collapse)
    then show ?thesis using auth_refresh_ok enabled by blast
  qed
qed

definition sample_admin :: claims where
  "sample_admin = \<lparr>cl_id = 2, cl_email = ''admin'', cl_role = ''admin'', cl_token_id = ''2''\<rparr>"

definition manager_claims :: claims where
  "manager_claims = \<lparr>cl_id = 3, cl_email = ''manager'', cl_role = ''manager'', cl_token_id = ''1''\<rparr>"

definition manager_library :: library where
  "manager_library = sample_library\<lparr>parse_token := (\<lambda>t now. if t = ''m'' then Some manager_claims else None)\<rparr>"

definition manager_world :: world where
  "manager_world = (sample_world offered_db)\<lparr>wd_redis := (\<lambda>k. None)(access_key ''m'' := Some (''valid'', None))\<rparr>"

lemma dismissed_manager_locked_out_witness:
  "token_good manager_library sample_env manager_world ''m'' manager_claims \<and>
   \<not> token_good manager_library sample_env
       (manager_world\<lparr>wd_db := snd (delete_manager_handler (Some sample_admin) ''m'' sample_env (wd_db manager_world))\<rparr>) ''m'' manager_claims"
proof
  have "find (\<lambda>u. u_id u = 3) (tb_users offered_db) = Some (sample_user 3 ''manager'' ''manager'')" by code_simp
  then show "token_good manager_library sample_env manager_world ''m'' manager_claims"
    by (simp add: token_good_def manager_library_def manager_claims_def manager_world_def sample_world_def sample_library_def live_value_def uuid_nil_def sample_user_def)
  have "fst (delete_manager_handler (Some sample_admin) ''m'' sample_env (wd_db manager_world)) = Reply 200 ''success'' (Message ''Deleted'')"
    by code_simp
  then have deleted: "delete_manager_handler (Some sample_admin) ''m'' sample_env (wd_db manager_world) =
      (Reply 200 ''success'' (Message ''Deleted''), snd (delete_manager_handler (Some sample_admin) ''m'' sample_env (wd_db manager_world)))"
    by (metis prod.collapse)
  have found: "find (\<lambda>m. m_slug m = ''m'') (tb_managers (wd_db manager_world)) = Some \<lparr>m_id = 11, m_user_id = 3, m_warehouse_id = Some 10, m_slug = ''m''\<rparr>"
    by code_simp
  show "\<not> token_good manager_library sample_env
       (manager_world\<lparr>wd_db := snd (delete_manager_handler (Some sample_admin) ''m'' sample_env (wd_db manager_world))\<rparr>) ''m'' manager_claims"
    using dismissed_manager_locked_out [OF deleted found refl, THEN conjunct1, of manager_library "''m''" manager_claims]
    by (simp add: manager_claims_def)
qed

end
