(* ===== verification/Configuration.thy ===== *)
theory Configuration
  imports Sessions
begin

text \<open>
  The configuration (internal/config/config.go) after its sources are merged: defaults, the parsing of
  durations, the check, the two addresses built from it and the mask for the log.  Reading the file and
  the environment belongs to koanf; \<^verbatim>\<open>time.ParseDuration\<close> is an argument.  The log level is the number
  of \<^verbatim>\<open>slog.Level\<close>, whose zero is Info.
\<close>

record config =
  cf_log_level :: int
  cf_db_host :: string
  cf_db_port :: int
  cf_db_user :: string
  cf_db_password :: string
  cf_db_name :: string
  cf_db_sslmode :: string
  cf_db_url :: string
  cf_server_host :: string
  cf_server_port :: int
  cf_read_timeout :: string
  cf_write_timeout :: string
  cf_idle_timeout :: string
  cf_read_timeout_dur :: time
  cf_write_timeout_dur :: time
  cf_idle_timeout_dur :: time
  cf_server_url :: string
  cf_redis_addr :: string
  cf_redis_password :: string
  cf_redis_db :: int
  cf_refresh_ttl :: string
  cf_access_ttl :: string
  cf_refresh_dur :: time
  cf_access_dur :: time
  cf_nats_addr :: string
  cf_routing_baseurl :: string
  cf_documents_addr :: string
  cf_dispatch_addr :: string
  cf_jwt_key :: string
  cf_jwt_issuer :: string
  cf_jwt_audience :: string
  cf_pricing :: pricing

text \<open>The load fails, a duration does not parse (its name), or a required value is missing (its name).\<close>

datatype config_error = LoadFailed | BadDuration string | Missing string

section \<open>Defaults\<close>

definition default_text :: "string \<Rightarrow> string \<Rightarrow> string" where
  "default_text d x = (if x = [] then d else x)"

definition default_int :: "int \<Rightarrow> int \<Rightarrow> int" where
  "default_int d x = (if x = 0 then d else x)"

definition default_float :: "int \<Rightarrow> f64 \<Rightarrow> f64" where
  "default_float d x = (if x = Fin 0 then Fin (of_int d) else x)"

text \<open>\<^verbatim>\<open>slog.LevelInfo\<close> is 0, so the first default changes nothing.\<close>

definition set_defaults :: "config \<Rightarrow> config" where
  "set_defaults c = c\<lparr>cf_log_level := default_int 0 (cf_log_level c), cf_db_host := default_text ''localhost'' (cf_db_host c),
     cf_db_port := default_int 5432 (cf_db_port c), cf_db_sslmode := default_text ''disable'' (cf_db_sslmode c),
     cf_server_host := default_text ''0.0.0.0'' (cf_server_host c), cf_server_port := default_int 3001 (cf_server_port c),
     cf_redis_addr := default_text ''localhost:6379'' (cf_redis_addr c), cf_nats_addr := default_text ''nats://localhost:4222'' (cf_nats_addr c),
     cf_documents_addr := default_text ''localhost:50051'' (cf_documents_addr c),
     cf_dispatch_addr := default_text ''localhost:50052'' (cf_dispatch_addr c),
     cf_pricing := \<lparr>base_fee = default_float 500 (base_fee (cf_pricing c)), per_km = default_float 25 (per_km (cf_pricing c)),
       per_kg = default_float 3 (per_kg (cf_pricing c)), per_m3 = default_float 150 (per_m3 (cf_pricing c))\<rparr>\<rparr>"

section \<open>Durations and required values\<close>

definition parse_named :: "(string \<Rightarrow> time option) \<Rightarrow> string \<Rightarrow> string \<Rightarrow> (time \<Rightarrow> config_error + config) \<Rightarrow> config_error + config" where
  "parse_named parse name s k = (case parse s of None \<Rightarrow> Inl (BadDuration name) | Some d \<Rightarrow> k d)"

definition parse_durations :: "(string \<Rightarrow> time option) \<Rightarrow> config \<Rightarrow> config_error + config" where
  "parse_durations parse c =
    parse_named parse ''readTimeout'' (cf_read_timeout c) (\<lambda>r.
    parse_named parse ''writeTimeout'' (cf_write_timeout c) (\<lambda>w.
    parse_named parse ''idleTimeout'' (cf_idle_timeout c) (\<lambda>i.
    parse_named parse ''refreshTokenTTL'' (cf_refresh_ttl c) (\<lambda>rt.
    parse_named parse ''accessTokenTTL'' (cf_access_ttl c) (\<lambda>access.
    Inr (c\<lparr>cf_read_timeout_dur := r, cf_write_timeout_dur := w, cf_idle_timeout_dur := i, cf_refresh_dur := rt, cf_access_dur := access\<rparr>))))))"

definition validate_config :: "config \<Rightarrow> config_error + unit" where
  "validate_config c =
    (if cf_db_host c = [] then Inl (Missing ''database.host'')
     else if cf_db_user c = [] then Inl (Missing ''database.user'')
     else if cf_db_password c = [] then Inl (Missing ''database.password'')
     else if cf_db_name c = [] then Inl (Missing ''database.name'')
     else if cf_jwt_key c = [] then Inl (Missing ''jwt.key'')
     else Inr ())"

definition make_postgres_url :: "config \<Rightarrow> string" where
  "make_postgres_url c = ''postgres://'' @ cf_db_user c @ '':'' @ cf_db_password c @ ''@'' @ cf_db_host c @ '':'' @
     decimal (cf_db_port c) @ ''/'' @ cf_db_name c @ ''?sslmode='' @ cf_db_sslmode c"

text \<open>\<open>raw\<close>: what koanf makes of the file and of the environment, if it can.\<close>

definition new_config :: "(string \<Rightarrow> time option) \<Rightarrow> config option \<Rightarrow> config_error + config" where
  "new_config parse raw = (case raw of None \<Rightarrow> Inl LoadFailed
   | Some r \<Rightarrow> (case parse_durations parse (set_defaults r) of Inl er \<Rightarrow> Inl er
     | Inr c \<Rightarrow> (case validate_config c of Inl er \<Rightarrow> Inl er
       | Inr _ \<Rightarrow> (let c' = c\<lparr>cf_server_url := cf_server_host c @ '':'' @ decimal (cf_server_port c)\<rparr>
                 in Inr (c'\<lparr>cf_db_url := make_postgres_url c'\<rparr>)))))"

definition mask_secret :: "string \<Rightarrow> string" where
  "mask_secret s =
    (if s = [] then ''<empty>''
     else if length s \<le> 4 then ''****''
     else take 2 s @ replicate (length s - 4) (CHR ''*'') @ drop (length s - 2) s)"

section \<open>What the server takes from it\<close>

text \<open>\<^verbatim>\<open>NewServer\<close> hands the key and the lifetimes to the session handlers and the prices to the services.\<close>

definition configured_library :: "config \<Rightarrow> library \<Rightarrow> library" where
  "configured_library c L = L\<lparr>jwt_key := cf_jwt_key c, access_ttl := cf_access_dur c, refresh_ttl := cf_refresh_dur c\<rparr>"

definition configured_env :: "config \<Rightarrow> env \<Rightarrow> env" where
  "configured_env c e = e\<lparr>pricing_conf := cf_pricing c\<rparr>"

end
