(* ===== verification/Read_Guarantees.thy ===== *)
theory Read_Guarantees
  imports Configuration Api_Frames
begin

text \<open>
  What the answers to readers disclose: the labels beside an order, the page of the document inbox, and
  what the configuration of a running server guarantees.
\<close>

section \<open>Labels of an order\<close>

text \<open>What has to do with an order: users, vehicles, warehouses.\<close>

definition drives :: "db \<Rightarrow> order \<Rightarrow> uuid \<Rightarrow> bool" where
  "drives s ord j \<longleftrightarrow> o_driver_id ord = Some j \<or>
     (\<exists>a \<in> set (tb_assignments s). a_order_id a = o_id ord \<and> a_driver_id a = j) \<or>
     (\<exists>h \<in> set (tb_handovers s). t_order_id h = o_id ord \<and> t_driver_id h = j)"

definition takes_part :: "sql_functions \<Rightarrow> db \<Rightarrow> order \<Rightarrow> uuid \<Rightarrow> bool" where
  "takes_part sql s ord j \<longleftrightarrow> o_created_by ord = Some j \<or>
     (\<exists>d \<in> set (tb_drivers s). d_user_id d = j \<and> drives s ord (d_id d)) \<or>
     (\<exists>a \<in> set (tb_assignments s). a_order_id a = o_id ord \<and> a_created_by a = j) \<or>
     (\<exists>h \<in> set (tb_handovers s). t_order_id h = o_id ord \<and> t_created_by h = j) \<or>
     (\<exists>x \<in> set (tb_operations s). wo_order_id x = o_id ord \<and> wo_created_by x = j) \<or>
     (\<exists>x \<in> set (tb_incidents s). i_order_id x = o_id ord \<and> (i_reported_by x = j \<or> i_resolved_by x = Some j)) \<or>
     (\<exists>r \<in> set (tb_receipts s). r_order_id r = o_id ord \<and> r_recorded_by r = j) \<or>
     (\<exists>ids. recorder_of sql ord = Inr ids \<and> j \<in> set ids)"

definition carries :: "db \<Rightarrow> order \<Rightarrow> uuid \<Rightarrow> bool" where
  "carries s ord j \<longleftrightarrow> (\<exists>a \<in> set (tb_assignments s). a_order_id a = o_id ord \<and> a_vehicle_id a = j) \<or>
     (\<exists>h \<in> set (tb_handovers s). t_order_id h = o_id ord \<and> t_vehicle_id h = j)"

definition stores :: "db \<Rightarrow> order \<Rightarrow> uuid \<Rightarrow> bool" where
  "stores s ord j \<longleftrightarrow> order_touches_warehouse ord j \<or>
     (\<exists>x \<in> set (tb_operations s). wo_order_id x = o_id ord \<and> wo_warehouse_id x = j) \<or>
     (\<exists>x \<in> set (tb_incidents s). i_order_id x = o_id ord \<and> i_warehouse_id x = Some j)"

lemma label_map_of: "map_of (label_map xs) i = Some l \<Longrightarrow> (i, l) \<in> set xs"
proof -
  have "map_of (fold (\<lambda>(i, l). AList.update i l) xs m) i = Some l \<Longrightarrow> (i, l) \<in> set xs \<or> map_of m i = Some l" for m
  proof (induction xs arbitrary: m)
    case (Cons x xs)
    obtain k v where x: "x = (k, v)" by (cases x)
    from Cons.prems have "map_of (fold (\<lambda>(i, l). AList.update i l) xs (AList.update k v m)) i = Some l" by (simp add: x)
    from Cons.IH [OF this] show ?case by (auto simp: x update_conv' split: if_splits)
  qed simp
  from this [of "[]"] show "map_of (label_map xs) i = Some l \<Longrightarrow> (i, l) \<in> set xs" by (simp add: label_map_def)
qed

lemma mem_map_filter: "y \<in> set (List.map_filter f xs) \<longleftrightarrow> (\<exists>x \<in> set xs. f x = Some y)"
  by (force simp: List.map_filter_def)

lemmas reference_rows = order_rows_def assignment_rows_def handover_rows_def operation_rows_def incident_rows_def driver_rows_def
  vehicle_rows_def user_rows_def warehouse_rows_def

text \<open>An order has one row.\<close>

lemma one_order_row:
  assumes "distinct (map o_id (tb_orders s))" and "find (\<lambda>x. o_id x = i) (tb_orders s) = Some ord"
  shows "order_rows s i = [ord]"
proof -
  have "filter (\<lambda>x. o_id x = i) xs = [ord]" if "distinct (map o_id xs)" "find (\<lambda>x. o_id x = i) xs = Some ord" for xs
    using that by (induction xs) (auto split: if_splits simp: filter_empty_conv image_iff)
  with assms show ?thesis by (simp add: order_rows_def)
qed

lemma get_order_references_run:
  assumes "get_order_references sql i user role e s = (Inr refs, s')" and "distinct (map o_id (tb_orders s))"
  obtains ord recorded where "fst (get_order i user role e s) = Inr ord" and "o_id ord = i" and "order_rows s i = [ord]"
    and "recorder_of sql ord = Inr recorded" and "refs = order_references_of s i recorded"
proof -
  obtain v s1 where get: "get_order i user role e s = (v, s1)" by fastforce
  then have s1: "s1 = s\<lparr>ticks := ticks s1, issued := issued s1, locks := locks s1\<rparr>"
    using framedD [OF untouched_get_order] by (simp add: untouched_def)
  from assms(1) get obtain ord where v: "v = Inr ord" by (cases v) (auto simp: get_order_references_def bind_def)
  have found: "find (\<lambda>x. o_id x = i) (tb_orders s) = Some ord"
    using get_order_result [of i user role e s] get v by (auto split: if_splits option.splits)
  then have "o_id ord = i" by (auto simp: find_Some_iff)
  have row: "order_rows s i = [ord]" by (rule one_order_row [OF assms(2) found])
  have same: "order_rows s1 i = order_rows s i" "order_references_of s1 i = order_references_of s i"
    by (subst s1, simp add: reference_rows order_references_of_def fun_eq_iff)+
  from assms(1) get v same row obtain recorded where "recorder_of sql ord = Inr recorded" "refs = order_references_of s i recorded"
    by (auto simp: get_order_references_def bind_def query_def throw_def split: sum.splits)
  with that get v \<open>o_id ord = i\<close> row show ?thesis by simp
qed



section \<open>The page of the inbox\<close>


section \<open>The configuration of a running server\<close>

lemma default_float_set: "0 < d \<Longrightarrow> default_float d x \<noteq> Fin 0"
  by (auto simp: default_float_def)

text \<open>A configuration that loads gives the server a key to sign with, prices that are set, and the lifetimes its texts
  say; it can still be a lifetime of zero or less, with which Redis keeps a token for ever.\<close>

lemma configuration_usable:
  assumes "new_config parse raw = Inr c"
  shows "cf_jwt_key c \<noteq> [] \<and> cf_db_password c \<noteq> [] \<and> cf_db_host c \<noteq> [] \<and>
    base_fee (cf_pricing c) \<noteq> Fin 0 \<and> per_km (cf_pricing c) \<noteq> Fin 0 \<and> per_kg (cf_pricing c) \<noteq> Fin 0 \<and> per_m3 (cf_pricing c) \<noteq> Fin 0 \<and>
    parse (cf_access_ttl c) = Some (cf_access_dur c) \<and> parse (cf_refresh_ttl c) = Some (cf_refresh_dur c) \<and>
    cf_db_url c = make_postgres_url c"
proof -
  from assms obtain r c1 where parsed: "parse_durations parse (set_defaults r) = Inr c1" and valid: "validate_config c1 = Inr ()"
    and c: "c = c1\<lparr>cf_server_url := cf_server_host c1 @ '':'' @ decimal (cf_server_port c1), cf_db_url := make_postgres_url c1\<rparr>"
    by (auto simp: new_config_def Let_def make_postgres_url_def split: option.splits sum.splits)
  from parsed have "cf_pricing c1 = cf_pricing (set_defaults r)" "parse (cf_access_ttl c1) = Some (cf_access_dur c1)"
    "parse (cf_refresh_ttl c1) = Some (cf_refresh_dur c1)"
    by (auto simp: parse_durations_def parse_named_def split: option.splits)
  moreover from valid have "cf_jwt_key c1 \<noteq> []" "cf_db_password c1 \<noteq> []" "cf_db_host c1 \<noteq> []"
    by (auto simp: validate_config_def split: if_splits)
  ultimately show ?thesis by (simp add: c set_defaults_def default_float_set make_postgres_url_def)
qed

text \<open>The mask shows at most the first two and the last two bytes of a secret, and its length.\<close>

lemma mask_secret_hides:
  "s \<noteq> [] \<Longrightarrow> t \<noteq> [] \<Longrightarrow> length s = length t \<Longrightarrow> take 2 s = take 2 t \<Longrightarrow> drop (length s - 2) s = drop (length t - 2) t \<Longrightarrow>
   mask_secret s = mask_secret t"
  by (simp add: mask_secret_def)

lemma mask_secret_length: "length (mask_secret s) = (if s = [] then 7 else max 4 (length s))"
  by (auto simp: mask_secret_def)

text \<open>A server that started can sign tokens: with the key of a configuration that loaded, making an access token fails only
  when the signer does, so that issuing tokens never answers with an empty page for want of a key.\<close>

theorem configured_server_signs:
  assumes "new_config parse raw = Inr c"
  shows "fst (generate_jwt (configured_library c L) u lifetime e w) =
    (case sign_token L (token_claims L u (clock e (ticks (wd_db w)))) (clock e (Suc (Suc (ticks (wd_db w)))))
        (clock e (Suc (ticks (wd_db w))) + lifetime) of
       None \<Rightarrow> Inl (External ''jwt'') | Some t \<Rightarrow> Inr t)"
proof -
  have "cf_jwt_key c \<noteq> []" using configuration_usable [OF assms] by simp
  then show ?thesis
    by (simp add: generate_jwt_def configured_library_def token_claims_def on_db_def time_now_def seq_def bind_def fail_if_def throw_def
        return_def split: option.split)
qed

definition sample_settings :: config where
  "sample_settings = \<lparr>cf_log_level = 0, cf_db_host = [], cf_db_port = 0, cf_db_user = ''u'', cf_db_password = ''pw'', cf_db_name = ''d'',
     cf_db_sslmode = [], cf_db_url = [], cf_server_host = [], cf_server_port = 0, cf_read_timeout = ''1h'', cf_write_timeout = ''1h'',
     cf_idle_timeout = ''1h'', cf_read_timeout_dur = 0, cf_write_timeout_dur = 0, cf_idle_timeout_dur = 0, cf_server_url = [],
     cf_redis_addr = [], cf_redis_password = [], cf_redis_db = 0, cf_refresh_ttl = ''1h'', cf_access_ttl = ''1h'', cf_refresh_dur = 0,
     cf_access_dur = 0, cf_nats_addr = [], cf_routing_baseurl = [], cf_documents_addr = [], cf_dispatch_addr = [], cf_jwt_key = ''k'',
     cf_jwt_issuer = [], cf_jwt_audience = [], cf_pricing = \<lparr>base_fee = Fin 0, per_km = Fin 0, per_kg = Fin 0, per_m3 = Fin 0\<rparr>\<rparr>"

definition sample_duration :: "string \<Rightarrow> time option" where
  "sample_duration t = (if t = ''1h'' then Some (hours 1) else None)"

lemma configured_server_signs_witness:
  "\<exists>c. new_config sample_duration (Some sample_settings) = Inr c \<and> per_km (cf_pricing c) = Fin 25 \<and>
     fst (generate_jwt (configured_library c sample_library) (sample_user 4 ''driver'' ''driver'') (hours 1) sample_env (sample_world offered_db)) =
       Inr ''signed''"
proof -
  let ?c = "projr (new_config sample_duration (Some sample_settings))"
  have "\<not> isl (new_config sample_duration (Some sample_settings)) \<and> per_km (cf_pricing ?c) = Fin 25"
    by (simp add: new_config_def sample_settings_def set_defaults_def parse_durations_def parse_named_def sample_duration_def validate_config_def
        default_text_def default_float_def Let_def)
  then have c: "new_config sample_duration (Some sample_settings) = Inr ?c" "per_km (cf_pricing ?c) = Fin 25" by simp_all
  have claims: "token_claims sample_library (sample_user 4 ''driver'' ''driver'') now = sample_token_claims" for now
    by (simp add: token_claims_def sample_token_claims_def sample_library_def sample_user_def)
  have "fst (generate_jwt (configured_library ?c sample_library) (sample_user 4 ''driver'' ''driver'') (hours 1) sample_env (sample_world offered_db)) =
      Inr ''signed''"
    unfolding configured_server_signs [OF c(1)] claims by (simp add: sample_library_def)
  with c show ?thesis by blast
qed


end
