(* ===== verification/Spec2Isabelle.thy ===== *)
theory Spec2Isabelle
  imports System Transport Receipts Handovers Trip_Guarantees Failures Depot_Guarantees Delivery_Guarantees Party_Guarantees
    Expiry_Guarantees Message_Guarantees Refresh_Guarantees Http_Guarantees Tracking_Guarantees Directory_Guarantees
    Api_Guarantees Session_Guarantees Read_Guarantees
begin

text \<open>
  Verification development for logiflow, a Go backend for road freight orders.

  The program.  A client creates an order and submits it; a manager offers it to a driver with a vehicle
  for a time window; the driver accepts, starts, arrives and completes the trip, possibly handing the cargo
  over to another driver on the road; warehouses receive, load, unload and return the cargo; incidents
  block a trip until they are resolved; a receipt records what was delivered.  HTTP handlers
  (src/internal/handler) authenticate the caller, decode the request and call the order service
  (src/internal/services), which runs SQL in transactions through src/pkg/storage.go.  Every command that
  others must hear of leaves a message in an outbox table in the same transaction; a worker
  (src/internal/events) relays it to a stream and receives the answers of the dispatch and document
  services.  Background loops close expired offers and offer freed resources again.  Redis holds the
  sessions.

  Conventions.  The database is a record of tables, a table the list of its rows (Database).  A service
  method is a function from the environment and the database to an error or a value and the new
  database; \<open>in_tx\<close> restores the tables when the transaction fails.  The environment gives the readings
  of the clock and of the uuid source, the prices, the route planner, the rounding of NUMERIC columns and
  the rows that others hold locked; nothing is assumed about it unless a theorem says so.  Errors are
  values (\<open>err\<close>): a business error, a missing row, a PostgreSQL code, a lock that was not free, a failure
  outside the program, or a Go panic.  Every operation runs as if alone: what another transaction can
  do shows only as rows it holds locked.  A float64 is a rational or a special value and every operation
  rounds; strings are their UTF-8 bytes; Redis is a map from keys to values with an expiry.

  Ground.
  \<^item> Prelude: the monad, its symbolic execution and frame rules (locale \<open>preorder_frame\<close>), lists as tables.
  \<^item> Go_Text, Float64: strings and floating-point numbers as Go has them.
  \<^item> Models, Requests: rows, statuses with their transition tables, events (internal/models,
    events/contracts.go); request bodies and parameters (internal/api/gen.go).
  \<^item> Database, Schema: storage.go and the tables of migrations/ with their constraints; every table
    meets the contract \<open>table_field\<close>.
  \<^item> Sample: the depot on which the properties are exercised.

  The order service (internal/services).
  \<^item> Recording: notifications, history, dispatch and document messages (dispatch.go,
    operational_documents.go, transport_document_fields.go).
  \<^item> Access, Overview, References: reading orders, reports, the dashboard and the names beside an order
    (order.go, order_references.go).
  \<^item> Eligibility, Assignments: the checks of driver and vehicle, and the commands of a trip
    (assignment.go, assignment_expiry.go).
  \<^item> Orders, Transport, Counterparties: creating and editing orders, the parties of a transport.
  \<^item> Incidents, Warehouse_Flow, Receipts, Handovers: incidents.go, warehouse_flow.go,
    delivery_receipts.go, handover.go.
  \<^item> Messaging: dispatch_refresh.go, the outbox relay and the inbox (events/worker.go, events/dispatch.go).

  The server (internal/handler, internal/config).
  \<^item> Http: the handlers of the service, their statuses and payloads.
  \<^item> Inbox: document.go.  Tracking: hub.go, route.go, notification.go.
  \<^item> Directory: vehicle.go, driver.go, manager.go, warehouse.go, with the deletions of storage.go and the
    foreign keys they follow.
  \<^item> Sessions: user.go, the middleware of server_impl.go, and the table of all requests.
  \<^item> Configuration: config.go.

  What is proved.
  \<^item> Lifecycle states the life of an order as a step relation on phases and what a consistent database
    is; Commands, Offers, Offering, Frames show that each command refines it, and System that any sequence of
    commands keeps the database consistent, so that finished orders stay finished, an order on the
    road is never cancelled, the audit trail replays to the status, and no driver or vehicle is booked
    twice (Constraints).
  \<^item> Trip_Guarantees, Depot_Guarantees, Delivery_Guarantees, Party_Guarantees: for single operations,
    when they succeed and exactly what they write.
  \<^item> Failures: a failed command changes no table, and which errors a command can end with; none panics.
  \<^item> Expiry_Guarantees, Refresh_Guarantees, Message_Guarantees, Tracking_Guarantees: the loops end, skip
    nothing, lose no message and are harmless when a message comes twice.
  \<^item> Http_Guarantees: each request is at most one command, and its answer tells the outcome.
  \<^item> Api_Frames (locales \<open>handler_frame\<close>, \<open>web_frame\<close>), Directory_Guarantees, Api_Guarantees: whatever requests
    arrive, the records stay consistent and references point to rows that exist.
  \<^item> Session_Guarantees: exactly which tokens open the API, a refresh token works once, a login reads
    back its own account, a dismissed manager is locked out.
  \<^item> Read_Guarantees: labels of participants only, a bounded page of the inbox, a server that can sign.

  Bounds and fuel.  The background loops of Go run for ever; here \<open>run_assignment_expiry n\<close>,
  \<open>run_dispatch_refresh n\<close>, \<open>run_relay n\<close> and \<open>run_tracker n\<close> are \<open>n\<close> ticks of them.  The theorems give the
  number of ticks that is enough: for the sweep a bound in the number of pending offers and the page size of
  100, for the refresh in the waiting orders and its page, for the relay in the unsent messages, for the
  tracker in the remaining points of the route.  Everything else is a total function without fuel.

  Parameters.  Packages and services outside the repository are arguments: bcrypt, JWT signing, random
  bytes, slugs, uuid parsing, geocoding and Redis failures (\<open>library\<close>), the document service, the dispatch
  client, the stream, aggregates and time zones of PostgreSQL (\<open>sql_functions\<close>), \<^verbatim>\<open>net/mail\<close> and
  \<^verbatim>\<open>time.ParseDuration\<close>.

  Not modelled.  The router, parameter binding and embedded specification of gen.go and the gRPC stubs
  (generated); JSON encoding (a handler is given what the decoder makes of a body); start-up and shutdown, CORS,
  metrics, request identifiers and logging (server_impl.go, metrics.go, cmd): no state of the program;
  database and Redis connections; the HTTP clients of Nominatim and OSRM (pkg/geocode, pkg/routing),
  which are calls of services; the demo seed (demo_seed.go), a list of fixtures written once.  Interleavings
  inside one operation are not modelled, so that a race between reading and deleting a refresh token, which
  the code does in two commands, is outside the theorems; nor are connection losses at COMMIT.
\<close>

end
